(* ===== verification/Csi_Prelude.thy ===== *)
theory Csi_Prelude
  imports
    Main
    "HOL-Library.Word"
    "HOL-Library.Sublist"
    "HOL-Library.AList"
    "HOL-Library.Multiset"
begin

text \<open>
  Prelude of the development: the error type of the Go code, the result type of a fallible
  call, Go maps in iteration order, and the generic lemmas the component theories share.

  A Go \<open>error\<close> is a value of \<open>gerror\<close>.  The constructors follow how the repository makes its
  errors: \<open>StdErr\<close> is an error made by a standard-library or operating-system call,
  \<open>Errorf\<close> an \<^verbatim>\<open>fmt.Errorf\<close> without a cause (the words of the message that tell
  the sites apart, then the formatted arguments in their order), \<open>Wrapf\<close> an
  \<^verbatim>\<open>fmt.Errorf\<close> whose last verb is \<^verbatim>\<open>%w\<close> (or prints the cause), the two service errors are the
  decoded error bodies of the Kodo and KodoFS services, and \<open>Panic\<close> is a run-time panic,
  which no caller in the repository recovers from.
\<close>

datatype gerror =
    StdErr string
  | Errorf string "string list"
  | Wrapf string "string list" gerror
  | KodoErrorResponseBody string
  | KodoFSErrorResponseBody int string string
  | Panic string

type_synonym 'a result = "gerror + 'a"

text \<open>
  A Go \<^verbatim>\<open>map[string]string\<close> is the list of its entries in the order in which one
  \<^verbatim>\<open>range\<close> loop visits them.  Go leaves that order open, so statements about a loop
  quantify over every ordering of the same entries.
\<close>

type_synonym gomap = "(string \<times> string) list"

definition gomap_wf :: "gomap \<Rightarrow> bool" where
  "gomap_wf m \<longleftrightarrow> distinct (map fst m)"

definition same_gomap :: "gomap \<Rightarrow> gomap \<Rightarrow> bool" where
  "same_gomap m m' \<longleftrightarrow> mset m = mset m'"

named_theorems go_string_defs "definitions of the string operations"
named_theorems trim_facts "strings that trimming white space leaves alone"

section \<open>Maps in iteration order\<close>

lemma same_gomap_refl [simp, intro]: "same_gomap m m"
  by (simp add: same_gomap_def)

lemma same_gomap_sym: "same_gomap m m' \<Longrightarrow> same_gomap m' m"
  by (simp add: same_gomap_def)

lemma same_gomap_trans [trans]: "same_gomap a b \<Longrightarrow> same_gomap b c \<Longrightarrow> same_gomap a c"
  by (simp add: same_gomap_def)

lemma same_gomap_set: "same_gomap m m' \<Longrightarrow> set m = set m'"
  unfolding same_gomap_def by (rule mset_eq_setD)

lemma same_gomap_wf: "same_gomap m m' \<Longrightarrow> gomap_wf m \<longleftrightarrow> gomap_wf m'"
  unfolding same_gomap_def gomap_wf_def
  by (metis mset_eq_imp_distinct_iff mset_map)

lemma same_gomap_map_of:
  assumes "same_gomap m m'" "gomap_wf m"
  shows "map_of m = map_of m'"
  using assms same_gomap_set [OF assms(1)] same_gomap_wf [OF assms(1)]
  by (metis gomap_wf_def map_of_inject_set)

section \<open>Results\<close>

lemma result_cases [case_names Err Ok]:
  fixes r :: "'a result"
  obtains (Err) e where "r = Inl e" | (Ok) x where "r = Inr x"
  by (cases r) auto

definition is_ok :: "'a result \<Rightarrow> bool" where
  "is_ok r = (case r of Inl _ \<Rightarrow> False | Inr _ \<Rightarrow> True)"

definition ok_value :: "'a result \<Rightarrow> 'a option" where
  "ok_value r = (case r of Inl _ \<Rightarrow> None | Inr x \<Rightarrow> Some x)"

lemma is_ok_simps [simp]: "\<not> is_ok (Inl e)" "is_ok (Inr x)"
  by (simp_all add: is_ok_def)

lemma ok_value_simps [simp]: "ok_value (Inl e) = None" "ok_value (Inr x) = Some x"
  by (simp_all add: ok_value_def)

lemma ok_value_Some_iff [simp]: "ok_value r = Some x \<longleftrightarrow> r = Inr x"
  by (cases r) auto

lemma ok_value_eqI: "(\<And>x. r = Inr x \<longleftrightarrow> r' = Inr x) \<Longrightarrow> ok_value r = ok_value r'"
  by (cases r; cases r') auto

text \<open>A panic goes through every caller; only errors are wrapped.\<close>

definition rewrap :: "(gerror \<Rightarrow> gerror) \<Rightarrow> gerror \<Rightarrow> gerror" where
  "rewrap w e = (case e of Panic m \<Rightarrow> Panic m | _ \<Rightarrow> w e)"

lemma rewrap_Panic [simp]: "rewrap w (Panic m) = Panic m"
  by (simp add: rewrap_def)

lemma is_ok_iff: "is_ok r \<longleftrightarrow> (\<exists>x. r = Inr x)"
  by (cases r) auto

end
