(* ===== verification/Go_Strings.thy ===== *)
theory Go_Strings
  imports Csi_Prelude
begin

text \<open>
  What the repository uses of Go's package \<^verbatim>\<open>strings\<close>.  A Go string is a sequence of
  bytes, so \<open>string\<close> (a list of 8-bit characters) represents it exactly; runes appear as
  their UTF-8 encodings.

  \<open>TrimSpace\<close> removes every white-space rune of \<^verbatim>\<open>unicode.IsSpace\<close>.  \<open>ToLower\<close> maps
  the ASCII capitals, and the two other runes whose lower case is an ASCII letter
  (U+0130 to \<open>i\<close>, the Kelvin sign U+212A to \<open>k\<close>); all other runes are mapped by Go to runes
  outside ASCII and are kept here, which no comparison with an ASCII constant can tell
  apart, and comparison with ASCII constants is all the repository does with the result.
\<close>

section \<open>Definitions\<close>

definition newline :: string where
  "newline = [CHR 0x0A]"

definition HasPrefix :: "string \<Rightarrow> string \<Rightarrow> bool" where
  [go_string_defs]: "HasPrefix s p = (take (length p) s = p)"

definition HasSuffix :: "string \<Rightarrow> string \<Rightarrow> bool" where
  [go_string_defs]: "HasSuffix s p = (length p \<le> length s \<and> drop (length s - length p) s = p)"

definition TrimPrefix :: "string \<Rightarrow> string \<Rightarrow> string" where
  [go_string_defs]: "TrimPrefix s p = (if HasPrefix s p then drop (length p) s else s)"

fun Contains :: "string \<Rightarrow> string \<Rightarrow> bool" where
  "Contains [] p = (p = [])"
| "Contains (c # s) p = (HasPrefix (c # s) p \<or> Contains s p)"

text \<open>\<^verbatim>\<open>strings.ReplaceAll(s, old, "")\<close> for a one-byte \<open>old\<close>.\<close>

definition RemoveAll :: "char \<Rightarrow> string \<Rightarrow> string" where
  [go_string_defs]: "RemoveAll c s = filter (\<lambda>x. x \<noteq> c) s"

definition spaceRunes :: "string list" where
  "spaceRunes =
     [[CHR 0x09], [CHR 0x0A], [CHR 0x0B], [CHR 0x0C], [CHR 0x0D], [CHR 0x20],
      [CHR 0xC2, CHR 0x85], [CHR 0xC2, CHR 0xA0], [CHR 0xE1, CHR 0x9A, CHR 0x80],
      [CHR 0xE2, CHR 0x80, CHR 0x80], [CHR 0xE2, CHR 0x80, CHR 0x81],
      [CHR 0xE2, CHR 0x80, CHR 0x82], [CHR 0xE2, CHR 0x80, CHR 0x83],
      [CHR 0xE2, CHR 0x80, CHR 0x84], [CHR 0xE2, CHR 0x80, CHR 0x85],
      [CHR 0xE2, CHR 0x80, CHR 0x86], [CHR 0xE2, CHR 0x80, CHR 0x87],
      [CHR 0xE2, CHR 0x80, CHR 0x88], [CHR 0xE2, CHR 0x80, CHR 0x89],
      [CHR 0xE2, CHR 0x80, CHR 0x8A], [CHR 0xE2, CHR 0x80, CHR 0xA8],
      [CHR 0xE2, CHR 0x80, CHR 0xA9], [CHR 0xE2, CHR 0x80, CHR 0xAF],
      [CHR 0xE2, CHR 0x81, CHR 0x9F], [CHR 0xE3, CHR 0x80, CHR 0x80]]"

function trimRunes :: "string list \<Rightarrow> string \<Rightarrow> string" where
  "trimRunes rs s =
     (case find (\<lambda>r. r \<noteq> [] \<and> HasPrefix s r) rs of
        None \<Rightarrow> s
      | Some r \<Rightarrow> trimRunes rs (drop (length r) s))"
  by pat_completeness auto
termination
proof (relation "measure (\<lambda>(rs, s). length s)")
  fix rs s r
  assume "find (\<lambda>r. r \<noteq> [] \<and> HasPrefix s r) rs = Some r"
  then have "r \<noteq> []" "take (length r) s = r"
    by (auto simp: find_Some_iff HasPrefix_def)
  then show "((rs, drop (length r) s), rs, s) \<in> measure (\<lambda>(rs, s). length s)"
    by (cases s) (auto simp: length_greater_0_conv [symmetric] simp del: length_greater_0_conv)
qed simp

declare trimRunes.simps [simp del]

definition TrimLeftSpace :: "string \<Rightarrow> string" where
  "TrimLeftSpace s = trimRunes spaceRunes s"

definition TrimRightSpace :: "string \<Rightarrow> string" where
  "TrimRightSpace s = rev (trimRunes (map rev spaceRunes) (rev s))"

definition TrimSpace :: "string \<Rightarrow> string" where
  "TrimSpace s = TrimRightSpace (TrimLeftSpace s)"

definition lowerByte :: "char \<Rightarrow> char" where
  "lowerByte c = (let n = of_char c :: nat in if 65 \<le> n \<and> n \<le> 90 then char_of (n + 32) else c)"

fun ToLower :: "string \<Rightarrow> string" where
  "ToLower [] = []"
| "ToLower (a # s) =
     (if a = CHR 0xC4 \<and> take 1 s = [CHR 0xB0] then CHR ''i'' # ToLower (drop 1 s)
      else if a = CHR 0xE2 \<and> take 2 s = [CHR 0x84, CHR 0xAA] then CHR ''k'' # ToLower (drop 2 s)
      else lowerByte a # ToLower s)"

text \<open>The repository's own \<^verbatim>\<open>toLower\<close>: trim, then lower-case.\<close>

definition toLower :: "string \<Rightarrow> string" where
  "toLower s = ToLower (TrimSpace s)"

section \<open>Trimming\<close>

lemma trimRunes_stop: "\<forall>r \<in> set rs. r = [] \<or> \<not> HasPrefix s r \<Longrightarrow> trimRunes rs s = s"
proof -
  assume "\<forall>r \<in> set rs. r = [] \<or> \<not> HasPrefix s r"
  then have "find (\<lambda>r. r \<noteq> [] \<and> HasPrefix s r) rs = None"
    by (auto simp: find_None_iff)
  then show ?thesis by (simp add: trimRunes.simps [of rs s])
qed

lemma trimRunes_stuck: "r \<in> set rs \<Longrightarrow> r \<noteq> [] \<Longrightarrow> \<not> HasPrefix (trimRunes rs s) r"
proof (induction rs s rule: trimRunes.induct)
  case (1 rs s)
  show ?case
  proof (cases "find (\<lambda>r. r \<noteq> [] \<and> HasPrefix s r) rs")
    case None
    with "1.prems" show ?thesis
      by (simp add: trimRunes.simps [of rs s]) (metis (mono_tags, lifting) find_None_iff)
  next
    case (Some q)
    with 1 show ?thesis by (simp add: trimRunes.simps [of rs s])
  qed
qed

lemma trimRunes_suffix: "suffix (trimRunes rs s) s"
proof (induction rs s rule: trimRunes.induct)
  case (1 rs s)
  show ?case
  proof (cases "find (\<lambda>r. r \<noteq> [] \<and> HasPrefix s r) rs")
    case None
    then show ?thesis by (simp add: trimRunes.simps [of rs s])
  next
    case (Some q)
    with 1 show ?thesis
      by (simp add: trimRunes.simps [of rs s]) (metis suffix_drop suffix_order.trans)
  qed
qed

lemma HasPrefix_iff_prefix: "HasPrefix s p \<longleftrightarrow> prefix p s"
  unfolding HasPrefix_def prefix_def by (metis append_eq_conv_conj append_take_drop_id)

lemma HasPrefix_append [simp]: "HasPrefix (p @ s) p"
  by (simp add: HasPrefix_def)

lemma HasPrefix_Nil [simp]: "HasPrefix s []"
  by (simp add: HasPrefix_def)

lemma HasSuffix_iff_suffix: "HasSuffix s p \<longleftrightarrow> suffix p s"
  unfolding HasSuffix_def suffix_def
  by (metis append_take_drop_id append_eq_conv_conj diff_diff_cancel length_append
      le_add2 add_diff_cancel_right')

lemma TrimLeftSpace_suffix: "suffix (TrimLeftSpace s) s"
  by (simp add: TrimLeftSpace_def trimRunes_suffix)

lemma TrimRightSpace_prefix: "prefix (TrimRightSpace s) s"
  using trimRunes_suffix [of "map rev spaceRunes" "rev s"]
  by (simp add: TrimRightSpace_def suffix_to_prefix)

lemma TrimLeftSpace_id:
  "\<forall>r \<in> set spaceRunes. \<not> prefix r s \<Longrightarrow> TrimLeftSpace s = s"
  unfolding TrimLeftSpace_def by (rule trimRunes_stop) (simp add: HasPrefix_iff_prefix)

lemma TrimRightSpace_id:
  assumes "\<forall>r \<in> set spaceRunes. \<not> suffix r s"
  shows "TrimRightSpace s = s"
proof -
  have "trimRunes (map rev spaceRunes) (rev s) = rev s"
    by (rule trimRunes_stop) (use assms in \<open>auto simp: HasPrefix_iff_prefix suffix_to_prefix\<close>)
  then show ?thesis by (simp add: TrimRightSpace_def)
qed

lemma spaceRunes_nonempty: "r \<in> set spaceRunes \<Longrightarrow> r \<noteq> []"
  by (auto simp: spaceRunes_def)

text \<open>The first and the last bytes of the white-space runes.\<close>

definition spaceFirst :: "char list" where
  "spaceFirst = [CHR 0x09, CHR 0x0A, CHR 0x0B, CHR 0x0C, CHR 0x0D, CHR 0x20,
     CHR 0xC2, CHR 0xE1, CHR 0xE2, CHR 0xE3]"

definition spaceLast :: "char list" where
  "spaceLast = [CHR 0x09, CHR 0x0A, CHR 0x0B, CHR 0x0C, CHR 0x0D, CHR 0x20,
     CHR 0x80, CHR 0x81, CHR 0x82, CHR 0x83, CHR 0x84, CHR 0x85, CHR 0x86, CHR 0x87,
     CHR 0x88, CHR 0x89, CHR 0x8A, CHR 0x9F, CHR 0xA0, CHR 0xA8, CHR 0xA9, CHR 0xAF]"

lemma spaceRunes_hd: "r \<in> set spaceRunes \<Longrightarrow> hd r \<in> set spaceFirst"
  by (auto simp: spaceRunes_def spaceFirst_def)

lemma spaceRunes_last: "r \<in> set spaceRunes \<Longrightarrow> last r \<in> set spaceLast"
  by (auto simp: spaceRunes_def spaceLast_def)

lemma TrimSpace_id [trim_facts]:
  assumes "s \<noteq> [] \<Longrightarrow> hd s \<notin> set spaceFirst" "s \<noteq> [] \<Longrightarrow> last s \<notin> set spaceLast"
  shows "TrimSpace s = s"
proof -
  have "\<not> prefix r s" if "r \<in> set spaceRunes" for r
  proof
    assume "prefix r s"
    with spaceRunes_nonempty [OF that] have "hd s = hd r" "s \<noteq> []"
      by (auto simp: prefix_def)
    with assms(1) spaceRunes_hd [OF that] show False by simp
  qed
  moreover have "\<not> suffix r s" if "r \<in> set spaceRunes" for r
    using that assms(2) spaceRunes_last [OF that] spaceRunes_nonempty [OF that]
    by (auto simp: suffix_def)
  ultimately show ?thesis
    by (simp add: TrimSpace_def TrimLeftSpace_id TrimRightSpace_id)
qed

lemma TrimSpace_Nil [simp]: "TrimSpace [] = []"
  by (rule TrimSpace_id) simp_all

lemma TrimLeftSpace_stuck: "r \<in> set spaceRunes \<Longrightarrow> \<not> prefix r (TrimLeftSpace s)"
  using trimRunes_stuck spaceRunes_nonempty
  by (fastforce simp: TrimLeftSpace_def HasPrefix_iff_prefix)

lemma TrimRightSpace_stuck:
  assumes "r \<in> set spaceRunes"
  shows "\<not> suffix r (TrimRightSpace s)"
proof -
  have "\<not> HasPrefix (trimRunes (map rev spaceRunes) (rev s)) (rev r)"
    by (rule trimRunes_stuck) (use assms spaceRunes_nonempty in auto)
  then show ?thesis
    by (simp add: TrimRightSpace_def HasPrefix_iff_prefix suffix_to_prefix)
qed

lemma TrimSpace_stuck:
  assumes "r \<in> set spaceRunes"
  shows "\<not> prefix r (TrimSpace s)" "\<not> suffix r (TrimSpace s)"
proof -
  have "prefix (TrimSpace s) (TrimLeftSpace s)"
    by (simp add: TrimSpace_def TrimRightSpace_prefix)
  then show "\<not> prefix r (TrimSpace s)"
    using TrimLeftSpace_stuck [OF assms] prefix_order.trans by blast
  show "\<not> suffix r (TrimSpace s)"
    unfolding TrimSpace_def by (rule TrimRightSpace_stuck [OF assms])
qed

lemma TrimSpace_idem [simp]: "TrimSpace (TrimSpace s) = TrimSpace s"
  unfolding TrimSpace_def [of "TrimSpace s"]
  by (simp add: TrimLeftSpace_id TrimRightSpace_id TrimSpace_stuck)

lemma TrimSpace_sublist: "sublist (TrimSpace s) s"
  by (metis TrimSpace_def TrimLeftSpace_suffix TrimRightSpace_prefix prefix_imp_sublist
      sublist_order.order_trans suffix_imp_sublist)

section \<open>Substrings\<close>

lemma Contains_iff_sublist: "Contains s p \<longleftrightarrow> sublist p s"
  by (induction s) (auto simp: HasPrefix_iff_prefix sublist_Cons_right)

end
