(* ===== verification/Go_Strconv.thy ===== *)
theory Go_Strconv
  imports Go_Strings
begin

text \<open>
  What the repository uses of Go's package \<^verbatim>\<open>strconv\<close>: \<^verbatim>\<open>FormatUint\<close> and \<^verbatim>\<open>ParseUint\<close> in
  base 10 at 64 bits, with the range check of the standard library, and \<^verbatim>\<open>FormatBool\<close>.
  The main fact is the round trip \<open>ParseUint (FormatUint w) = Inr w\<close> for every 64-bit word.
\<close>

section \<open>Digits\<close>

definition digitChar :: "nat \<Rightarrow> char" where
  "digitChar d = char_of (48 + d)"

definition isDigit :: "char \<Rightarrow> bool" where
  "isDigit c = (48 \<le> (of_char c :: nat) \<and> (of_char c :: nat) \<le> 57)"

definition digitVal :: "char \<Rightarrow> nat" where
  "digitVal c = of_char c - 48"

lemma of_char_digitChar: "d < 10 \<Longrightarrow> (of_char (digitChar d) :: nat) = 48 + d"
  by (simp add: digitChar_def)

lemma isDigit_digitChar [simp]: "d < 10 \<Longrightarrow> isDigit (digitChar d)"
  by (simp add: isDigit_def of_char_digitChar)

lemma digitVal_digitChar [simp]: "d < 10 \<Longrightarrow> digitVal (digitChar d) = d"
  by (simp add: digitVal_def of_char_digitChar)

lemma isDigit_not_space: "isDigit c \<Longrightarrow> c \<notin> set spaceFirst \<and> c \<notin> set spaceLast"
  by (auto simp: isDigit_def spaceFirst_def spaceLast_def)

section \<open>Decimal numerals\<close>

fun decimal :: "nat \<Rightarrow> string" where
  "decimal n = (if n < 10 then [digitChar n] else decimal (n div 10) @ [digitChar (n mod 10)])"

declare decimal.simps [simp del]

definition FormatUint :: "64 word \<Rightarrow> string" where
  "FormatUint w = decimal (unat w)"

definition FormatBool :: "bool \<Rightarrow> string" where
  "FormatBool b = (if b then ''true'' else ''false'')"

definition maxUint64 :: nat where
  "maxUint64 = 2 ^ 64 - 1"

fun parseUintLoop :: "nat \<Rightarrow> string \<Rightarrow> nat result" where
  "parseUintLoop n [] = Inr n"
| "parseUintLoop n (c # s) =
     (if \<not> isDigit c then Inl (StdErr ''invalid syntax'')
      else if n \<ge> maxUint64 div 10 + 1 then Inl (StdErr ''value out of range'')
      else let n1 = n * 10 + digitVal c
           in if n1 > maxUint64 then Inl (StdErr ''value out of range'') else parseUintLoop n1 s)"

definition ParseUint :: "string \<Rightarrow> 64 word result" where
  "ParseUint s =
     (if s = [] then Inl (StdErr ''invalid syntax'')
      else case parseUintLoop 0 s of Inl e \<Rightarrow> Inl e | Inr n \<Rightarrow> Inr (word_of_nat n))"

lemma decimal_nonempty [simp]: "decimal n \<noteq> []"
  by (subst decimal.simps) simp

lemma decimal_digits: "c \<in> set (decimal n) \<Longrightarrow> isDigit c"
proof (induction n rule: decimal.induct)
  case (1 n)
  then show ?case by (subst (asm) decimal.simps) (auto split: if_splits)
qed

lemma decimal_hd_last: "isDigit (hd (decimal n))" "isDigit (last (decimal n))"
  by (rule decimal_digits [OF hd_in_set [OF decimal_nonempty]],
      rule decimal_digits [OF last_in_set [OF decimal_nonempty]])

lemma TrimSpace_decimal [simp]: "TrimSpace (decimal n) = decimal n"
  by (rule TrimSpace_id) (use decimal_hd_last isDigit_not_space in blast)+

lemma parseUintLoop_append:
  "parseUintLoop n (s @ t) =
     (case parseUintLoop n s of Inl e \<Rightarrow> Inl e | Inr m \<Rightarrow> parseUintLoop m t)"
  by (induction n s rule: parseUintLoop.induct) (simp_all add: Let_def)

lemma parseUintLoop_decimal: "n \<le> maxUint64 \<Longrightarrow> parseUintLoop 0 (decimal n) = Inr n"
proof (induction n rule: decimal.induct)
  case (1 n)
  show ?case
  proof (cases "n < 10")
    case True
    then show ?thesis by (subst decimal.simps) (simp add: maxUint64_def)
  next
    case False
    with 1 have "parseUintLoop 0 (decimal (n div 10)) = Inr (n div 10)" by simp
    moreover have "\<not> n div 10 \<ge> maxUint64 div 10 + 1"
      using "1.prems" by (simp add: div_le_mono not_le less_Suc_eq_le)
    ultimately show ?thesis
      using False "1.prems" by (subst decimal.simps) (simp add: parseUintLoop_append)
  qed
qed

lemma ParseUint_decimal: "n \<le> maxUint64 \<Longrightarrow> ParseUint (decimal n) = Inr (word_of_nat n)"
  by (simp add: ParseUint_def parseUintLoop_decimal)

lemma unat_le_maxUint64 [simp]: "unat (w :: 64 word) \<le> maxUint64"
  using unsigned_less [of w, where ?'a = nat] by (simp add: maxUint64_def)

lemma ParseUint_FormatUint: "ParseUint (FormatUint w) = Inr w"
  by (simp add: FormatUint_def ParseUint_decimal)

lemma parseUintLoop_bound: "n \<le> maxUint64 \<Longrightarrow> parseUintLoop n s = Inr m \<Longrightarrow> m \<le> maxUint64"
  by (induction n s rule: parseUintLoop.induct) (auto simp: Let_def split: if_splits)

lemma decimal_inj: "decimal m = decimal n \<Longrightarrow> m \<le> maxUint64 \<Longrightarrow> n \<le> maxUint64 \<Longrightarrow> m = n"
  by (metis Inr_inject parseUintLoop_decimal)

end
