(* ===== verification/Protocol.thy ===== *)
theory Protocol
  imports Go_Strconv
begin

text \<open>
  Package \<^verbatim>\<open>protocol\<close>: the commands the plugin and the connector exchange, and how a mount
  command becomes a process to run.  Two commands share field names in the source
  (\<^verbatim>\<open>InitKodoMountCmd\<close>, \<^verbatim>\<open>InitKodoFSMountCmd\<close>, \<^verbatim>\<open>KodoUmountCmd\<close>); the fields of the last two carry the
  prefixes \<open>Fs\<close> and \<open>Um\<close> here.

  The random suffix of a systemd unit name comes from \<^verbatim>\<open>math/rand\<close>: the parameter \<open>draws\<close>
  gives the raw draws, of which \<^verbatim>\<open>Intn\<close> keeps the remainder.
\<close>

section \<open>Constants (protocol/const.go)\<close>

definition Version :: string where "Version = ''v2''"
definition InitKodoMountCmdName :: string where "InitKodoMountCmdName = ''init_kodo_mount''"
definition InitKodoFsMountCmdName :: string where "InitKodoFsMountCmdName = ''init_kodofs_mount''"
definition KodoUmountCmdName :: string where "KodoUmountCmdName = ''umount_kodo''"
definition RequestDataCmdName :: string where "RequestDataCmdName = ''request_data''"
definition ResponseDataCmdName :: string where "ResponseDataCmdName = ''response_data''"
definition TerminateCmdName :: string where "TerminateCmdName = ''terminate''"
definition KodoFSCmd :: string where "KodoFSCmd = ''/usr/local/bin/kodofs''"
definition RcloneCmd :: string where "RcloneCmd = ''/usr/local/bin/rclone''"

lemmas cmd_names = InitKodoMountCmdName_def InitKodoFsMountCmdName_def KodoUmountCmdName_def
  RequestDataCmdName_def ResponseDataCmdName_def TerminateCmdName_def

datatype contextKey =
  ContextKeyConfigFilePath | ContextKeyUserAgent | ContextKeyLogFilePath | ContextKeyCacheDirPath

type_synonym goctx = "contextKey \<rightharpoonup> string"

section \<open>Commands (protocol/kodo\_cmd.go, kodofs\_cmd.go, protocol.go)\<close>

record InitKodoMountCmd =
  VolumeId :: string
  MountPath :: string
  SubDir :: string
  AccessKey :: string
  SecretKey :: string
  BucketId :: string
  S3Region :: string
  S3Endpoint :: string
  S3ForcePathStyle :: bool
  StorageClass :: string
  VfsCacheMode :: string
  DirCacheDuration :: string
  BufferSize :: "64 word option"
  VfsCacheMaxAge :: string
  VfsCachePollInterval :: string
  VfsWriteBack :: string
  VfsCacheMaxSize :: "64 word option"
  VfsReadAhead :: "64 word option"
  VfsFastFingerPrint :: bool
  VfsReadChunkSize :: "64 word option"
  VfsReadChunkSizeLimit :: "64 word option"
  NoCheckSum :: bool
  NoModTime :: bool
  NoSeek :: bool
  ReadOnly :: bool
  VfsReadWait :: string
  VfsWriteWait :: string
  Transfers :: "64 word option"
  VfsDiskSpaceTotalSize :: "64 word option"
  UploadCutoff :: "64 word option"
  UploadChunkSize :: "64 word option"
  UploadConcurrency :: "64 word option"
  WriteBackCache :: bool
  DebugHttp :: bool
  DebugFuse :: bool
  MayRunOnSystemd :: bool

record InitKodoFSMountCmd =
  FsVolumeId :: string
  FsGatewayID :: string
  FsMountPath :: string
  FsSubDir :: string
  FsMayRunOnSystemd :: bool

record KodoUmountCmd =
  UmVolumeId :: string
  UmMountPath :: string

datatype cmd =
    CInitKodoMount InitKodoMountCmd
  | CInitKodoFSMount InitKodoFSMountCmd
  | CKodoUmount KodoUmountCmd
  | RequestDataCmd string
  | ResponseDataCmd bool string
  | TerminateCmd int

section \<open>Helpers (protocol/utils.go)\<close>

record exec_cmd =
  ExecName :: string
  ExecArgs :: "string list"

definition execOnSystemd :: "string \<Rightarrow> string \<Rightarrow> string list \<Rightarrow> exec_cmd" where
  "execOnSystemd unit cmd args =
     \<lparr>ExecName = ''systemd-run'',
      ExecArgs = [''--no-ask-password'', ''--unit='' @ unit, ''--pipe'',
        ''--service-type=forking'', ''--collect'', cmd] @ args\<rparr>"

definition formatUint :: "64 word \<Rightarrow> string" where
  "formatUint i = FormatUint i"

definition formatByteSize :: "64 word \<Rightarrow> string" where
  "formatByteSize i = formatUint i @ ''b''"

definition normalizeDirKey :: "string \<Rightarrow> string" where
  "normalizeDirKey key =
     (let key' = TrimPrefix key ''/''
      in if \<not> HasSuffix key' ''/'' then key' @ ''/'' else key')"

definition randomChoices :: "(nat \<Rightarrow> nat) \<Rightarrow> string \<Rightarrow> nat \<Rightarrow> string" where
  "randomChoices draws choices n =
     map (\<lambda>i. choices ! (draws i mod length choices)) [0..<n]"

definition randomNameChoices :: string where
  "randomNameChoices = ''abcdefghijklmnopqrstuvwxyz0123456789''"

definition randomName :: "(nat \<Rightarrow> nat) \<Rightarrow> nat \<Rightarrow> string" where
  "randomName draws n = randomChoices draws randomNameChoices n"

section \<open>ExecCommand\<close>

definition opt_size :: "string \<Rightarrow> 64 word option \<Rightarrow> string list" where
  "opt_size flag v = (case v of None \<Rightarrow> [] | Some n \<Rightarrow> [flag, formatByteSize n])"

definition opt_text :: "string \<Rightarrow> string \<Rightarrow> string list" where
  "opt_text flag v = (if v \<noteq> [] then [flag, v] else [])"

definition opt_bool :: "string \<Rightarrow> bool \<Rightarrow> string list" where
  "opt_bool flag b = (if b then [flag] else [])"

definition kodo_cmdFlags :: "string \<Rightarrow> string \<Rightarrow> string \<Rightarrow> InitKodoMountCmd \<Rightarrow> string list" where
  "kodo_cmdFlags configPath userAgent logFile c =
     [''--auto-confirm'', ''--config'', configPath,
      ''--user-agent'', userAgent @ ''/'' @ VolumeId c, ''--log-file'', logFile] @
     opt_size ''--buffer-size'' (BufferSize c) @
     (case Transfers c of None \<Rightarrow> [] | Some n \<Rightarrow> [''--transfers'', formatUint n]) @
     (if DebugHttp c then [''--verbose'', ''--dump'', ''headers''] else [])"

definition kodo_mountFlags :: "string \<Rightarrow> InitKodoMountCmd \<Rightarrow> string list" where
  "kodo_mountFlags cacheDir c =
     [''--daemon'', ''--cache-dir'', cacheDir] @
     opt_text ''--dir-cache-time'' (DirCacheDuration c) @
     opt_text ''--vfs-cache-mode'' (VfsCacheMode c) @
     opt_text ''--vfs-cache-max-age'' (VfsCacheMaxAge c) @
     opt_size ''--vfs-cache-max-size'' (VfsCacheMaxSize c) @
     opt_text ''--vfs-cache-poll-interval'' (VfsCachePollInterval c) @
     opt_size ''--vfs-read-ahead'' (VfsReadAhead c) @
     opt_bool ''--vfs-fast-fingerprint'' (VfsFastFingerPrint c) @
     opt_text ''--vfs-write-back'' (VfsWriteBack c) @
     opt_size ''--vfs-read-chunk-size'' (VfsReadChunkSize c) @
     opt_size ''--vfs-read-chunk-size-limit'' (VfsReadChunkSizeLimit c) @
     opt_bool ''--no-checksum'' (NoCheckSum c) @
     opt_bool ''--no-modtime'' (NoModTime c) @
     opt_bool ''--no-seek'' (NoSeek c) @
     opt_bool ''--read-only'' (ReadOnly c) @
     opt_text ''--vfs-read-wait'' (VfsReadWait c) @
     opt_text ''--vfs-write-wait'' (VfsWriteWait c) @
     opt_size ''--vfs-disk-space-total-size'' (VfsDiskSpaceTotalSize c) @
     opt_bool ''--write-back-cache'' (WriteBackCache c) @
     opt_bool ''--debug-fuse'' (DebugFuse c)"

definition kodo_remote :: "InitKodoMountCmd \<Rightarrow> string" where
  "kodo_remote c = VolumeId c @ '':'' @ BucketId c @ ''/'' @ normalizeDirKey (SubDir c)"

definition kodo_args :: "string \<Rightarrow> string \<Rightarrow> string \<Rightarrow> string \<Rightarrow> InitKodoMountCmd \<Rightarrow> string list" where
  "kodo_args configPath userAgent logFile cacheDir c =
     kodo_cmdFlags configPath userAgent logFile c @ [''mount''] @ kodo_mountFlags cacheDir c @
     [kodo_remote c, MountPath c]"

text \<open>\<^verbatim>\<open>ctx.Value(key).(string)\<close> panics when the key is not set.\<close>

definition ctxString :: "goctx \<Rightarrow> contextKey \<Rightarrow> string result" where
  "ctxString ctx k =
     (case ctx k of None \<Rightarrow> Inl (Panic ''interface conversion'') | Some s \<Rightarrow> Inr s)"

definition Kodo_ExecCommand :: "(nat \<Rightarrow> nat) \<Rightarrow> goctx \<Rightarrow> InitKodoMountCmd \<Rightarrow> exec_cmd result" where
  "Kodo_ExecCommand draws ctx c =
     (case ctxString ctx ContextKeyConfigFilePath of Inl e \<Rightarrow> Inl e | Inr configPath \<Rightarrow>
      case ctxString ctx ContextKeyUserAgent of Inl e \<Rightarrow> Inl e | Inr userAgent \<Rightarrow>
      case ctxString ctx ContextKeyLogFilePath of Inl e \<Rightarrow> Inl e | Inr logFile \<Rightarrow>
      case ctxString ctx ContextKeyCacheDirPath of Inl e \<Rightarrow> Inl e | Inr cacheDir \<Rightarrow>
        (let args = kodo_args configPath userAgent logFile cacheDir c in
         if MayRunOnSystemd c then
           Inr (execOnSystemd (''run-kodo-rclone-'' @ VolumeId c @ ''-'' @ randomName draws 8 @ ''.service'')
             RcloneCmd args)
         else Inr \<lparr>ExecName = RcloneCmd, ExecArgs = args\<rparr>))"

definition KodoFS_ExecCommand :: "(nat \<Rightarrow> nat) \<Rightarrow> InitKodoFSMountCmd \<Rightarrow> exec_cmd" where
  "KodoFS_ExecCommand draws c =
     (let args = [''mount'', FsGatewayID c, FsMountPath c, ''-s'', FsSubDir c, ''--force_reinit''] in
      if FsMayRunOnSystemd c then
        execOnSystemd (''run-kodofs-'' @ FsVolumeId c @ ''-'' @ randomName draws 8 @ ''.service'')
          KodoFSCmd args
      else \<lparr>ExecName = KodoFSCmd, ExecArgs = args\<rparr>)"

end
