(* ===== verification/Protocol_Facts.thy ===== *)
theory Protocol_Facts
  imports Protocol
begin

text \<open>
  Properties of the process that a mount command becomes: which context it needs, how the
  arguments are laid out with and without systemd, and how the sub-directory is normalised.
\<close>

section \<open>Directories\<close>

text \<open>
  The normalised directory ends with a slash, is the key without one leading slash and with a
  trailing slash added where it had none, and normalising twice changes nothing unless the key
  starts with two slashes or is nothing but slashes.
\<close>

theorem normalizeDirKey_spec:
  "HasSuffix (normalizeDirKey key) ''/''
   \<and> (\<exists>rest. normalizeDirKey key = TrimPrefix key ''/'' @ rest \<and> rest \<in> {[], ''/''})
   \<and> (\<not> HasPrefix (TrimPrefix key ''/'') ''/'' \<and> TrimPrefix key ''/'' \<noteq> [] \<longrightarrow>
        \<not> HasPrefix (normalizeDirKey key) ''/''
        \<and> normalizeDirKey (normalizeDirKey key) = normalizeDirKey key)"
proof -
  let ?k = "TrimPrefix key ''/''"
  have suff: "HasSuffix (normalizeDirKey key) ''/''"
    by (auto simp: normalizeDirKey_def HasSuffix_iff_suffix Let_def)
  have shape: "normalizeDirKey key = ?k @ (if HasSuffix ?k ''/'' then [] else ''/'')"
    by (simp add: normalizeDirKey_def Let_def)
  have "\<not> HasPrefix (normalizeDirKey key) ''/'' \<and> normalizeDirKey (normalizeDirKey key) = normalizeDirKey key"
    if h: "\<not> HasPrefix ?k ''/''" "?k \<noteq> []"
  proof -
    from h have "\<not> HasPrefix (normalizeDirKey key) ''/''"
      by (cases ?k) (auto simp: shape HasPrefix_def)
    then show ?thesis
      using suff by (simp add: normalizeDirKey_def [of "normalizeDirKey key"] TrimPrefix_def Let_def)
  qed
  with suff shape show ?thesis by auto
qed

theorem normalizeDirKey_spec_witness:
  "normalizeDirKey (normalizeDirKey ''/a/b'') = normalizeDirKey ''/a/b''"
  using normalizeDirKey_spec [of "''/a/b''"] by (simp add: TrimPrefix_def HasPrefix_def)

text \<open>
  the result may still start with a slash: the empty sub-directory, which a volume without one
  has, becomes a slash, and of two leading slashes one stays.
\<close>

theorem normalizeDirKey_leading_slash:
  "normalizeDirKey [] = ''/'' \<and> normalizeDirKey ''/'' = ''/'' \<and> normalizeDirKey ''//a'' = ''/a/''"
  by (simp add: normalizeDirKey_def TrimPrefix_def HasPrefix_def HasSuffix_def Let_def)

section \<open>The rclone process\<close>

definition rclone_context :: "goctx \<Rightarrow> bool" where
  "rclone_context ctx \<longleftrightarrow>
     list_all (\<lambda>k. ctx k \<noteq> None)
       [ContextKeyConfigFilePath, ContextKeyUserAgent, ContextKeyLogFilePath, ContextKeyCacheDirPath]"

lemma Kodo_ExecCommand_args:
  assumes "ctx ContextKeyConfigFilePath = Some cp" "ctx ContextKeyUserAgent = Some ua"
    "ctx ContextKeyLogFilePath = Some lf" "ctx ContextKeyCacheDirPath = Some cd"
  shows "Kodo_ExecCommand draws ctx c = Inr
    (if MayRunOnSystemd c then
       execOnSystemd (''run-kodo-rclone-'' @ VolumeId c @ ''-'' @ randomName draws 8 @ ''.service'')
         RcloneCmd (kodo_args cp ua lf cd c)
     else \<lparr>ExecName = RcloneCmd, ExecArgs = kodo_args cp ua lf cd c\<rparr>)"
  using assms by (simp add: Kodo_ExecCommand_def ctxString_def Let_def)

text \<open>
  A Kodo mount command becomes a process exactly when the four paths and the user agent are in
  the context, and panics otherwise; the process then runs rclone, directly or through systemd-run
  with the same arguments after its own, and its last two arguments are the remote directory and
  the mount path.
\<close>

theorem Kodo_ExecCommand_process:
  "(is_ok (Kodo_ExecCommand draws ctx c) \<longleftrightarrow> rclone_context ctx)
   \<and> (\<forall>e. Kodo_ExecCommand draws ctx c = Inl e \<longrightarrow> (\<exists>m. e = Panic m))
   \<and> (\<forall>p q. Kodo_ExecCommand draws ctx (c\<lparr>MayRunOnSystemd := False\<rparr>) = Inr p
          \<and> Kodo_ExecCommand draws ctx (c\<lparr>MayRunOnSystemd := True\<rparr>) = Inr q \<longrightarrow>
        ExecName p = RcloneCmd \<and> ExecName q = ''systemd-run''
        \<and> (\<exists>own. ExecArgs q = own @ [RcloneCmd] @ ExecArgs p)
        \<and> (\<exists>flags. ExecArgs p = flags @ [kodo_remote c, MountPath c]))"
proof (cases "rclone_context ctx")
  case True
  then obtain cp ua lf cd where k: "ctx ContextKeyConfigFilePath = Some cp" "ctx ContextKeyUserAgent = Some ua"
    "ctx ContextKeyLogFilePath = Some lf" "ctx ContextKeyCacheDirPath = Some cd"
    by (auto simp: rclone_context_def)
  have "kodo_args cp ua lf cd (c\<lparr>MayRunOnSystemd := b\<rparr>) = kodo_args cp ua lf cd c" for b
    by (simp add: kodo_args_def kodo_cmdFlags_def kodo_mountFlags_def kodo_remote_def)
  moreover have "\<exists>flags. kodo_args cp ua lf cd c = flags @ [kodo_remote c, MountPath c]"
    by (simp add: kodo_args_def)
  ultimately show ?thesis
    using True by (auto simp: Kodo_ExecCommand_args [OF k] execOnSystemd_def)
next
  case False
  then have "\<exists>m. Kodo_ExecCommand draws ctx c' = Inl (Panic m)" for c'
    by (auto simp: rclone_context_def Kodo_ExecCommand_def ctxString_def split: option.split)
  then show ?thesis
    using False by (metis is_ok_simps(1) Inl_Inr_False Inl_inject)
qed

theorem Kodo_ExecCommand_process_witness:
  "\<forall>c. \<not> is_ok (Kodo_ExecCommand (\<lambda>_. 0) Map.empty c)"
  using Kodo_ExecCommand_process [of "\<lambda>_. 0" Map.empty] by (simp add: rclone_context_def)

end
