(* ===== verification/Go_Time_Roundtrip.thy ===== *)
theory Go_Time_Roundtrip
  imports Go_Time
begin

text \<open>
  The round trip of durations: \<open>ParseDuration\<close> reads back what \<open>Duration_String\<close> prints, for
  every signed 64-bit count of nanoseconds.
\<close>

section \<open>Digit strings\<close>

fun dval :: "string \<Rightarrow> nat" where
  "dval [] = 0"
| "dval (c # s) = digitVal c * 10 ^ length s + dval s"

lemma dval_append: "dval (s @ t) = dval s * 10 ^ length t + dval t"
  by (induction s) (simp_all add: algebra_simps power_add)

lemma dval_decimal: "dval (decimal n) = n"
proof (induction n rule: decimal.induct)
  case (1 n)
  then show ?case by (subst decimal.simps) (auto simp: dval_append)
qed

lemma digitVal_le: "isDigit c \<Longrightarrow> digitVal c \<le> 9"
  unfolding isDigit_def digitVal_def by arith

lemma dval_less: "\<forall>c \<in> set s. isDigit c \<Longrightarrow> dval s < 10 ^ length s"
proof (induction s)
  case (Cons c s)
  then have "dval s < 10 ^ length s" "digitVal c * 10 ^ length s \<le> 9 * 10 ^ length s"
    by (auto simp: digitVal_le)
  then show ?case unfolding dval.simps list.size power_Suc add_0_right add_Suc_right by linarith
qed simp

lemma leadingInt_digits:
  assumes "\<forall>c \<in> set ds. isDigit c" "x * 10 ^ length ds + dval ds \<le> 2 ^ 63"
    "rest = [] \<or> \<not> isDigit (hd rest)"
  shows "leadingInt x (ds @ rest) = Some (x * 10 ^ length ds + dval ds, rest)"
  using assms
proof (induction ds arbitrary: x)
  case Nil
  then show ?case by (cases rest) auto
next
  case (Cons c ds)
  let ?y = "x * 10 + digitVal c"
  have eq: "?y * 10 ^ length ds + dval ds = x * 10 ^ length (c # ds) + dval (c # ds)"
    by (simp add: algebra_simps)
  have "?y \<le> ?y * 10 ^ length ds + dval ds" by (simp add: trans_le_add1)
  also have "\<dots> \<le> 2 ^ 63" unfolding eq by (rule Cons.prems)
  finally have y: "?y \<le> 2 ^ 63" .
  then have "x \<le> 2 ^ 63 div 10" by (simp add: less_eq_div_iff_mult_less_eq)
  then show ?case using Cons.IH [of ?y] Cons.prems eq y by (simp add: Let_def not_less)
qed

section \<open>Exactness of the floating-point step on printed fractions\<close>

lemma bitlen_0 [simp]: "bitlen 0 = 0"
  by (simp add: bitlen.simps)

lemma bitlen_pos: "0 < n \<Longrightarrow> bitlen n = Suc (bitlen (n div 2))"
  by (subst bitlen.simps) simp

lemma bitlen_le: "n < 2 ^ k \<Longrightarrow> bitlen n \<le> k"
proof (induction k arbitrary: n)
  case (Suc k)
  then have "n div 2 < 2 ^ k" by (simp add: less_mult_imp_div_less mult.commute)
  with Suc.IH show ?case by (cases "n = 0") (simp_all add: bitlen_pos)
qed simp

lemma bitlen_shift: "0 < n \<Longrightarrow> bitlen (n * 2 ^ k) = bitlen n + k"
proof (induction k)
  case (Suc k)
  have "bitlen (n * 2 ^ Suc k) = Suc (bitlen (n * 2 ^ Suc k div 2))"
    by (rule bitlen_pos) (use Suc.prems in simp)
  also have "n * 2 ^ Suc k div 2 = n * 2 ^ k" by simp
  finally show ?case using Suc by simp
qed simp

lemma roundHalfEven_exact: "0 < b \<Longrightarrow> roundHalfEven (a * b) b = a"
  by (simp add: roundHalfEven_def Let_def)

lemma round53_small: "n < 2 ^ 53 \<Longrightarrow> round53 n = n"
  using bitlen_le [of n 53] by (simp add: round53_def Let_def)

lemma round53_shift:
  assumes "n < 2 ^ 53"
  shows "round53 (n * 2 ^ k) = n * 2 ^ k"
proof (cases "n = 0 \<or> bitlen (n * 2 ^ k) \<le> 53")
  case True
  then show ?thesis by (auto simp: round53_def Let_def)
next
  case False
  define j where "j = bitlen (n * 2 ^ k) - 53"
  have "bitlen (n * 2 ^ k) = bitlen n + k" using False by (simp add: bitlen_shift)
  moreover have "bitlen n \<le> 53" using assms by (rule bitlen_le)
  ultimately have "j \<le> k" by (simp add: j_def)
  then have eq: "n * 2 ^ k = (n * 2 ^ (k - j)) * 2 ^ j"
    by (simp add: power_add [symmetric])
  have "round53 (n * 2 ^ k) = roundHalfEven (n * 2 ^ k) (2 ^ j) * 2 ^ j"
    using False by (simp add: round53_def Let_def j_def)
  also have "\<dots> = n * 2 ^ k"
    using roundHalfEven_exact [of "2 ^ j" "n * 2 ^ (k - j)"] by (simp only: eq) simp
  finally show ?thesis .
qed

lemma floatDiv_exact:
  assumes "0 < b"
  shows "\<exists>e. floatDiv (q * b) b = (q * 2 ^ e, e)"
proof -
  have "roundHalfEven (q * b * 2 ^ e) b = q * 2 ^ e" for e
    using roundHalfEven_exact [OF assms, of "q * 2 ^ e"] by (simp add: ac_simps)
  then show ?thesis by (simp add: floatDiv_def Let_def)
qed

lemma fracNanos_exact:
  assumes "p \<in> {0, 3, 6, 9}" "k \<le> p" "f < 10 ^ k"
  shows "fracNanos f (10 ^ p) (10 ^ k) = f * 10 ^ (p - k)"
proof -
  have p: "10 ^ (p - k) * 10 ^ k = (10 :: nat) ^ p"
    using assms(2) by (simp add: power_add [symmetric])
  from floatDiv_exact [of "10 ^ k" "10 ^ (p - k)"]
  obtain e where e: "floatDiv (10 ^ p) (10 ^ k) = (10 ^ (p - k) * 2 ^ e, e)"
    by (auto simp: p)
  have "f * 10 ^ (p - k) < 10 ^ k * 10 ^ (p - k)" using assms(3) by simp
  also have "\<dots> = 10 ^ p" using p by (simp add: mult.commute)
  also have "\<dots> \<le> (10 :: nat) ^ 9" using assms(1) by auto
  finally have b: "f * 10 ^ (p - k) < 2 ^ 53" by simp
  moreover have "f * 1 \<le> f * 10 ^ (p - k)" by (rule mult_le_mono2) simp
  ultimately have "round53 f = f" by (intro round53_small) linarith
  with e round53_shift [OF b, of e] show ?thesis
    by (simp add: fracNanos_def mult.assoc [symmetric])
qed

lemma leadingFraction_digits:
  assumes "\<forall>c \<in> set ds. isDigit c" "rest = [] \<or> \<not> isDigit (hd rest)"
    "length ds + k \<le> 9" "x < 10 ^ k"
  shows "leadingFraction False x (10 ^ k) (ds @ rest) =
    (x * 10 ^ length ds + dval ds, 10 ^ (k + length ds), rest)"
  using assms
proof (induction ds arbitrary: x k)
  case Nil
  then show ?case by (cases rest) auto
next
  case (Cons c ds)
  let ?y = "x * 10 + digitVal c"
  from Cons.prems have k: "k \<le> 8" and c: "digitVal c \<le> 9" by (auto intro: digitVal_le)
  have y: "?y < 10 ^ Suc k" using Cons.prems(4) c by simp
  have "(10 :: nat) ^ Suc k \<le> 10 ^ 9" by (rule power_increasing) (use k in auto)
  with y have b: "?y < 10 ^ 9" "(10 :: nat) ^ k * 10 < 2 ^ 53" by simp_all
  have r: "round53 (10 ^ k * 10) = 10 ^ Suc k" using b(2) by (simp add: round53_small)
  have c': "isDigit c" "\<not> (2 ^ 63 - 1) div 10 < x" "\<not> 2 ^ 63 < ?y"
    using Cons.prems(1) b(1) by auto
  have "leadingFraction False x (10 ^ k) ((c # ds) @ rest) =
      leadingFraction False ?y (10 ^ Suc k) (ds @ rest)"
    using c' by (simp only: append_Cons leadingFraction.simps Let_def r) simp
  also have "\<dots> = (?y * 10 ^ length ds + dval ds, 10 ^ (Suc k + length ds), rest)"
    by (rule Cons.IH) (use Cons.prems y in auto)
  finally show ?case by (simp add: algebra_simps)
qed

section \<open>Parsing what was printed\<close>

lemma fmtFrac_spec:
  assumes "fmtFrac n v ds = (fr, v')" "\<forall>c \<in> set ds. isDigit c"
    "length ds \<le> i" "dval ds * 10 ^ (i - length ds) = r" "ds = [] \<or> 0 < dval ds"
  shows "v' = v div 10 ^ n \<and>
    (\<exists>es. fr = (if es = [] then [] else CHR ''.'' # es) \<and> (\<forall>c \<in> set es. isDigit c) \<and>
       (es = [] \<or> 0 < dval es) \<and> length es \<le> i + n \<and>
       dval es * 10 ^ (i + n - length es) = (v mod 10 ^ n) * 10 ^ i + r)"
  using assms
proof (induction n arbitrary: v ds i r)
  case 0
  then show ?case by (intro conjI exI [of _ ds]) auto
next
  case (Suc n)
  define es where "es = (if ds \<noteq> [] \<or> v mod 10 \<noteq> 0 then digitChar (v mod 10) # ds else [])"
  have es: "\<forall>c \<in> set es. isDigit c" "length es \<le> Suc i" "es = [] \<or> 0 < dval es"
    using Suc.prems by (auto simp: es_def)
  have val: "dval es * 10 ^ (Suc i - length es) = (v mod 10) * 10 ^ i + r"
  proof (cases "ds = []")
    case True
    with Suc.prems show ?thesis by (auto simp: es_def)
  next
    case False
    have "10 ^ length ds * 10 ^ (i - length ds) = (10 :: nat) ^ i"
      using Suc.prems(3) by (simp add: power_add [symmetric])
    with False Suc.prems(4) show ?thesis by (simp add: es_def algebra_simps)
  qed
  have step: "fmtFrac n (v div 10) es = (fr, v')"
    using Suc.prems(1) by (simp add: es_def Let_def)
  have split: "v mod 10 ^ Suc n = 10 * (v div 10 mod 10 ^ n) + v mod 10"
    by (simp add: mod_mult2_eq)
  have v': "v' = v div 10 div 10 ^ n" and
    ex: "\<exists>es'. fr = (if es' = [] then [] else CHR ''.'' # es') \<and> (\<forall>c \<in> set es'. isDigit c) \<and>
       (es' = [] \<or> 0 < dval es') \<and> length es' \<le> Suc i + n \<and>
       dval es' * 10 ^ (Suc i + n - length es') =
         (v div 10 mod 10 ^ n) * 10 ^ Suc i + ((v mod 10) * 10 ^ i + r)"
    using Suc.IH [OF step es(1,2) val es(3)] by auto
  have total: "(v div 10 mod 10 ^ n) * 10 ^ Suc i + ((v mod 10) * 10 ^ i + r) =
      (v mod 10 ^ Suc n) * 10 ^ i + r"
    unfolding split by (simp add: algebra_simps)
  have "v' = v div 10 ^ Suc n" by (simp add: v' div_mult2_eq)
  with ex show ?case unfolding total add_Suc add_Suc_right by blast
qed

lemma unitChar_tail:
  assumes "\<forall>c \<in> set u. unitChar c" "rest = [] \<or> isDigit (hd rest)"
  shows "takeWhile unitChar (u @ rest) = u" "dropWhile unitChar (u @ rest) = rest"
  using assms by (cases rest; simp add: takeWhile_append2 dropWhile_append2 unitChar_def)+

lemma unitMap_facts:
  assumes "(u, unit) \<in> set unitMap"
  shows "map_of unitMap u = Some unit" "u \<noteq> []" "\<forall>c \<in> set u. unitChar c" "0 < unit"
  using assms by (auto simp: unitMap_def unitChar_def isDigit_def)

lemma parseComponent_int:
  assumes "(u, unit) \<in> set unitMap" "n * unit \<le> 2 ^ 63" "rest = [] \<or> isDigit (hd rest)"
  shows "parseComponent (decimal n @ u @ rest) = Inr (n * unit, rest)"
proof -
  note u = unitMap_facts [OF assms(1)]
  have "n * 1 \<le> n * unit" using u(4) by (intro mult_le_mono2) simp
  with assms(2) have "n \<le> 2 ^ 63" by linarith
  have h: "isDigit (hd (decimal n))" by (rule decimal_hd_last)
  have uh: "unitChar (hd u)" using u(2,3) by (cases u) auto
  have "leadingInt 0 (decimal n @ u @ rest) = Some (n, u @ rest)"
    using leadingInt_digits [of "decimal n" 0 "u @ rest"] decimal_digits [of _ n] u uh \<open>n \<le> 2 ^ 63\<close>
    by (simp add: dval_decimal unitChar_def)
  moreover have "parseFraction (u @ rest) = (0, 1, u @ rest, False)"
    using u(2) uh by (simp add: parseFraction_def unitChar_def)
  moreover have "n \<le> 2 ^ 63 div unit" using assms(2) u(4)
    by (simp add: less_eq_div_iff_mult_less_eq)
  ultimately show ?thesis
    using u h unitChar_tail [OF u(3) assms(3)]
    by (simp add: parseComponent_def unitChar_def not_less Let_def)
qed

lemma parseComponent_frac:
  assumes u: "(u, 10 ^ p) \<in> set unitMap" and p: "p \<in> {0, 3, 6, 9}"
    and bound: "n * 10 ^ p + f * 10 ^ (p - length es) \<le> 2 ^ 63"
    and es: "es \<noteq> []" "\<forall>c \<in> set es. isDigit c" "length es \<le> p" "dval es = f" "0 < f"
  shows "parseComponent (decimal n @ (CHR ''.'' # es) @ u) =
    Inr (n * 10 ^ p + f * 10 ^ (p - length es), [])"
proof -
  note uf = unitMap_facts [OF u]
  have uh: "unitChar (hd u)" using uf(2,3) by (cases u) auto
  have "n * 1 \<le> n * 10 ^ p" by (intro mult_le_mono2) simp
  with bound have n: "n \<le> 2 ^ 63" "n * 10 ^ p \<le> 2 ^ 63" by linarith+
  have h: "isDigit (hd (decimal n))" by (rule decimal_hd_last)
  have "leadingInt 0 (decimal n @ (CHR ''.'' # es) @ u) = Some (n, (CHR ''.'' # es) @ u)"
    using leadingInt_digits [of "decimal n" 0 "(CHR ''.'' # es) @ u"] decimal_digits [of _ n] n
    by (simp add: dval_decimal isDigit_def)
  moreover have "length es \<le> 9" using p es(3) by auto
  then have "leadingFraction False 0 1 (es @ u) = (f, 10 ^ length es, u)"
    using leadingFraction_digits [of es u 0 0] es uf uh by (simp add: unitChar_def)
  then have "parseFraction ((CHR ''.'' # es) @ u) = (f, 10 ^ length es, u, True)"
    using es(1) by (simp add: parseFraction_def)
  moreover have "fracNanos f (10 ^ p) (10 ^ length es) = f * 10 ^ (p - length es)"
    using dval_less [OF es(2)] es p by (intro fracNanos_exact) auto
  moreover have "n \<le> 2 ^ 63 div 10 ^ p" using n(2)
    by (simp add: less_eq_div_iff_mult_less_eq)
  moreover have tw: "takeWhile unitChar u = u" "dropWhile unitChar u = []"
    using unitChar_tail [OF uf(3), of "[]"] by simp_all
  ultimately show ?thesis
    using uf h es(5) bound
    by (simp add: parseComponent_def tw unitChar_def [of "hd (decimal n)"] not_less Let_def)
qed

text \<open>A number printed with its fraction parses back, as the last component of a duration.\<close>

lemma parseComponent_fmtFrac:
  assumes "fmtFrac p v [] = (fr, n)" "(u, 10 ^ p) \<in> set unitMap" "p \<in> {0, 3, 6, 9}"
    "m * 10 ^ p + v mod 10 ^ p \<le> 2 ^ 63"
  shows "parseComponent (decimal m @ fr @ u) = Inr (m * 10 ^ p + v mod 10 ^ p, [])"
proof -
  from fmtFrac_spec [OF assms(1), of 0 0] obtain es where
    es: "fr = (if es = [] then [] else CHR ''.'' # es)" "\<forall>c \<in> set es. isDigit c"
      "length es \<le> p" "dval es * 10 ^ (p - length es) = v mod 10 ^ p" "es = [] \<or> 0 < dval es"
    by auto
  show ?thesis
  proof (cases "es = []")
    case True
    with es assms(4) show ?thesis using parseComponent_int [OF assms(2), of m "[]"] by simp
  next
    case False
    with es assms(4) show ?thesis
      using parseComponent_frac [OF assms(2,3), of m "dval es" es] by simp
  qed
qed

lemma fmtFracUnit_parse:
  assumes "(u, 10 ^ p) \<in> set unitMap" "p \<in> {0, 3, 6, 9}" "v \<le> 2 ^ 63"
  shows "parseDurationLoop 0 (fmtFracUnit v p u) = Inr v"
proof -
  obtain fr n where fr: "fmtFrac p v [] = (fr, n)" by fastforce
  have n: "n = v div 10 ^ p" using fmtFrac_spec [OF fr, of 0 0] by auto
  have "parseComponent (decimal n @ fr @ u) = Inr (v, [])"
    using parseComponent_fmtFrac [OF fr assms(1,2), of n] assms(3)
    unfolding n div_mult_mod_eq by simp
  then show ?thesis
    using assms(3) by (simp add: fmtFracUnit_def fr parseDurationLoop.simps)
qed

lemma parseDurationLoop_step:
  assumes "(u, unit) \<in> set unitMap" "d + n * unit \<le> 2 ^ 63" "t \<noteq> []" "isDigit (hd t)"
  shows "parseDurationLoop d (decimal n @ u @ t) = parseDurationLoop (d + n * unit) t"
  using parseComponent_int [OF assms(1), of n t] assms
  by (simp add: parseDurationLoop.simps [of d "decimal n @ u @ t"] Let_def)

lemma units: "(''h'', 3600 * 10 ^ 9) \<in> set unitMap" "(''m'', 60 * 10 ^ 9) \<in> set unitMap"
    "(''s'', 10 ^ 9) \<in> set unitMap" "(''ms'', 10 ^ 6) \<in> set unitMap"
    "([CHR 0xC2, CHR 0xB5, CHR ''s''], 10 ^ 3) \<in> set unitMap" "(''ns'', 10 ^ 0) \<in> set unitMap"
  by (simp_all add: unitMap_def)

text \<open>The hours, minutes and seconds of a printed duration add up to it.\<close>

lemma hms_parse:
  assumes u: "u \<le> 2 ^ 63" and fr: "fmtFrac 9 u [] = (fr, secs)"
  defines "s \<equiv> decimal (secs mod 60) @ fr @ ''s''" and "mins \<equiv> secs div 60"
  shows "parseDurationLoop (mins div 60 * (3600 * 10 ^ 9) + mins mod 60 * (60 * 10 ^ 9)) s = Inr u"
    "isDigit (hd s)" "s \<noteq> []"
    "mins div 60 * (3600 * 10 ^ 9) + mins mod 60 * (60 * 10 ^ 9) \<le> 2 ^ 63"
proof -
  define d where "d = mins div 60 * (3600 * 10 ^ 9) + mins mod 60 * (60 * 10 ^ 9)"
  have secs: "secs = u div 10 ^ 9" using fmtFrac_spec [OF fr, of 0 0] by simp
  have mins: "secs = mins * 60 + secs mod 60" "mins = mins div 60 * 60 + mins mod 60"
    by (simp_all add: mins_def)
  have "a * (3600 * 10 ^ 9) + b * (60 * 10 ^ 9) = (a * 60 + b) * (60 * 10 ^ 9)" for a b :: nat
    by (simp add: algebra_simps)
  from this [of "mins div 60" "mins mod 60"] have "d = mins * (60 * 10 ^ 9)"
    unfolding d_def mins(2) [symmetric] .
  then have d: "d + secs mod 60 * 10 ^ 9 = secs * 10 ^ 9"
    using mins(1) by (simp add: algebra_simps)
  have sum: "secs * 10 ^ 9 + u mod 10 ^ 9 = u" unfolding secs by (rule div_mult_mod_eq)
  have "parseComponent s = Inr (secs mod 60 * 10 ^ 9 + u mod 10 ^ 9, [])"
    unfolding s_def using parseComponent_fmtFrac [OF fr units(3), of "secs mod 60"] d sum u by simp
  moreover show "isDigit (hd s)" "s \<noteq> []" using decimal_hd_last(1) by (simp_all add: s_def)
  moreover have "d + (secs mod 60 * 10 ^ 9 + u mod 10 ^ 9) = u" using d sum by simp
  ultimately show "parseDurationLoop (mins div 60 * (3600 * 10 ^ 9) + mins mod 60 * (60 * 10 ^ 9)) s
      = Inr u"
    using u unfolding d_def [symmetric] by (simp add: parseDurationLoop.simps Let_def)
  show "mins div 60 * (3600 * 10 ^ 9) + mins mod 60 * (60 * 10 ^ 9) \<le> 2 ^ 63"
    using d sum u unfolding d_def [symmetric] by linarith
qed

lemma parseDurationLoop_body:
  assumes "u \<le> 2 ^ 63"
  shows "parseDurationLoop 0 (durationBody u) = Inr u"
proof (cases "u < 10 ^ 9")
  case True
  have "parseDurationLoop 0 ''0s'' = Inr 0"
    by (simp add: parseDurationLoop.simps parseComponent_def parseFraction_def unitChar_def
        isDigit_def digitVal_def unitMap_def Let_def)
  with True show ?thesis
    using fmtFracUnit_parse [OF units(6), of u] fmtFracUnit_parse [OF units(5), of u]
      fmtFracUnit_parse [OF units(4), of u] assms
    by (simp add: durationBody_def)
next
  case False
  obtain fr secs where fr: "fmtFrac 9 u [] = (fr, secs)" by fastforce
  define s mins where "s = decimal (secs mod 60) @ fr @ ''s''" and "mins = secs div 60"
  note hms = hms_parse [OF assms fr, folded s_def mins_def]
  have m: "parseDurationLoop (mins div 60 * (3600 * 10 ^ 9)) (decimal (mins mod 60) @ ''m'' @ s) = Inr u"
    using parseDurationLoop_step [OF units(2) _ hms(3,2)] hms(1,4) by simp
  have h: "parseDurationLoop 0 (decimal (mins div 60) @ ''h'' @ decimal (mins mod 60) @ ''m'' @ s) = Inr u"
    using parseDurationLoop_step [OF units(1), of 0 "mins div 60"
        "decimal (mins mod 60) @ ''m'' @ s"] decimal_hd_last(1) m hms(4) by simp
  have "durationBody u = (if mins > 0 then
      (if mins div 60 > 0 then decimal (mins div 60) @ ''h'' @ decimal (mins mod 60) @ ''m'' @ s
       else decimal (mins mod 60) @ ''m'' @ s) else s)"
    using False by (simp add: durationBody_def fr Let_def s_def mins_def)
  with h m hms(1) show ?thesis by auto
qed

lemma durationBody_shape:
  "durationBody u \<noteq> []" "isDigit (hd (durationBody u))" "last (durationBody u) = CHR ''s''"
proof -
  have "isDigit CHR ''0''" by (simp add: isDigit_def)
  then show "durationBody u \<noteq> []" "isDigit (hd (durationBody u))"
    "last (durationBody u) = CHR ''s''"
    by (auto simp: durationBody_def fmtFracUnit_def Let_def decimal_hd_last(1) split: prod.splits)
qed

lemma ParseDuration_String:
  assumes "int64_range d"
  shows "ParseDuration (Duration_String d) = Inr d"
proof -
  define u where "u = nat \<bar>d\<bar>"
  have u: "u \<le> 2 ^ 63" "int u = \<bar>d\<bar>" using assms by (auto simp: int64_range_def u_def)
  note shape = durationBody_shape [of u]
  have "hd (durationBody u) \<noteq> CHR ''-''" "hd (durationBody u) \<noteq> CHR ''+''"
    "durationBody u \<noteq> ''0''"
    using shape by (auto simp: isDigit_def)
  with shape(1) parseDurationLoop_body [OF u(1)] u assms show ?thesis
    by (auto simp: ParseDuration_def Duration_String_def u_def [symmetric] Let_def int64_range_def)
qed

lemma TrimSpace_Duration_String [simp]: "TrimSpace (Duration_String d) = Duration_String d"
proof (rule TrimSpace_id)
  show "hd (Duration_String d) \<notin> set spaceFirst"
    using durationBody_shape(2) isDigit_not_space
    by (auto simp: Duration_String_def Let_def spaceFirst_def)
  show "last (Duration_String d) \<notin> set spaceLast"
    using durationBody_shape(1,3) by (auto simp: Duration_String_def Let_def spaceLast_def)
qed

end
