(* ===== verification/Go_Url.thy ===== *)
theory Go_Url
  imports Go_Strings Go_Strconv
begin

text \<open>
  What the repository uses of Go's package \<^verbatim>\<open>net/url\<close>: \<^verbatim>\<open>url.Parse\<close>, \<^verbatim>\<open>URL.String\<close> and the
  field \<^verbatim>\<open>Scheme\<close>, following the standard library of the Go release the Dockerfile builds with (1.21).
  A parsed URL that prints and parses back to itself is \<open>url_stable\<close>; the last section shows
  that for the URLs the service endpoints are written as (lower-case scheme, host of letters,
  digits, dots and dashes, an optional plain path).
\<close>

section \<open>The URL record\<close>

record userinfo =
  username :: string
  password :: "string option"

record url =
  Scheme :: string
  Opaque :: string
  User :: "userinfo option"
  Host :: string
  Path :: string
  RawPath :: string
  OmitHost :: bool
  ForceQuery :: bool
  RawQuery :: string
  Fragment :: string
  RawFragment :: string

definition empty_url :: url where
  "empty_url = \<lparr>Scheme = [], Opaque = [], User = None, Host = [], Path = [], RawPath = [],
     OmitHost = False, ForceQuery = False, RawQuery = [], Fragment = [], RawFragment = []\<rparr>"

section \<open>Escaping\<close>

datatype encoding =
  encodePath | encodeHost | encodeZone | encodeUserPassword | encodeQueryComponent | encodeFragment

definition isAlpha :: "char \<Rightarrow> bool" where
  "isAlpha c = (let n = of_char c :: nat in 97 \<le> n \<and> n \<le> 122 \<or> 65 \<le> n \<and> n \<le> 90)"

definition isAlnum :: "char \<Rightarrow> bool" where
  "isAlnum c = (isAlpha c \<or> isDigit c)"

definition shouldEscape :: "char \<Rightarrow> encoding \<Rightarrow> bool" where
  "shouldEscape c mode =
     (if isAlnum c then False
      else if (mode = encodeHost \<or> mode = encodeZone) \<and>
        c \<in> set (''!$&()*+,;=:[]<>'' @ [CHR 0x22, CHR 0x27]) then False
      else if c \<in> set ''-_.~'' then False
      else if c \<in> set ''$&+,/:;=?@'' then
        (case mode of
           encodePath \<Rightarrow> c = CHR ''?''
         | encodeUserPassword \<Rightarrow> c \<in> set ''@/?:''
         | encodeQueryComponent \<Rightarrow> True
         | encodeFragment \<Rightarrow> False
         | _ \<Rightarrow> True)
      else if mode = encodeFragment \<and> c \<in> set ''!()*'' then False
      else True)"

definition hexDigit :: "nat \<Rightarrow> char" where
  "hexDigit n = (if n < 10 then char_of (48 + n) else char_of (55 + n))"

definition ishex :: "char \<Rightarrow> bool" where
  "ishex c = (let n = of_char c :: nat in
     48 \<le> n \<and> n \<le> 57 \<or> 97 \<le> n \<and> n \<le> 102 \<or> 65 \<le> n \<and> n \<le> 70)"

definition unhex :: "char \<Rightarrow> nat" where
  "unhex c = (let n = of_char c :: nat in
     if n \<le> 57 then n - 48 else if n \<le> 70 then n - 55 else n - 87)"

fun escape :: "string \<Rightarrow> encoding \<Rightarrow> string" where
  "escape [] mode = []"
| "escape (c # s) mode =
     (if \<not> shouldEscape c mode then c # escape s mode
      else if c = CHR '' '' \<and> mode = encodeQueryComponent then CHR ''+'' # escape s mode
      else CHR ''%'' # hexDigit (of_char c div 16) # hexDigit (of_char c mod 16) # escape s mode)"

definition escapeError :: gerror where
  "escapeError = StdErr ''invalid URL escape''"

definition hostError :: gerror where
  "hostError = StdErr ''invalid character in host name''"

fun unescape :: "string \<Rightarrow> encoding \<Rightarrow> string result" where
  "unescape [] mode = Inr []"
| "unescape (c # s) mode =
     (if c = CHR ''%'' then
        (case s of
           a # b # t \<Rightarrow>
             let v = unhex a * 16 + unhex b in
             if \<not> ishex a \<or> \<not> ishex b then Inl escapeError
             else if mode = encodeHost \<and> unhex a < 8 \<and> [a, b] \<noteq> ''25'' then Inl escapeError
             else if mode = encodeZone \<and> [a, b] \<noteq> ''25'' \<and> v \<noteq> 32 \<and>
               shouldEscape (char_of v) encodeHost then Inl escapeError
             else (case unescape t mode of Inl e \<Rightarrow> Inl e | Inr r \<Rightarrow> Inr (char_of v # r))
         | _ \<Rightarrow> Inl escapeError)
      else if (mode = encodeHost \<or> mode = encodeZone) \<and> (of_char c :: nat) < 128 \<and>
        shouldEscape c mode then Inl hostError
      else (case unescape s mode of
          Inl e \<Rightarrow> Inl e
        | Inr r \<Rightarrow> Inr ((if c = CHR ''+'' \<and> mode = encodeQueryComponent then CHR '' '' else c) # r)))"

definition validEncoded :: "string \<Rightarrow> encoding \<Rightarrow> bool" where
  "validEncoded s mode =
     list_all (\<lambda>c. c \<in> set (''!$&()*+,;=:@[]%'' @ [CHR 0x27]) \<or> \<not> shouldEscape c mode) s"

section \<open>Parsing\<close>

text \<open>\<^verbatim>\<open>strings.Cut\<close> at a byte: what precedes its first occurrence, and what follows it.\<close>

definition cut :: "char \<Rightarrow> string \<Rightarrow> string \<times> string" where
  "cut c s = (takeWhile (\<lambda>x. x \<noteq> c) s, drop 1 (dropWhile (\<lambda>x. x \<noteq> c) s))"

text \<open>The text before and after the last occurrence of a byte.\<close>

definition cutLast :: "char \<Rightarrow> string \<Rightarrow> (string \<times> string) option" where
  "cutLast c s =
     (if c \<in> set s
      then Some (rev (drop 1 (dropWhile (\<lambda>x. x \<noteq> c) (rev s))), rev (takeWhile (\<lambda>x. x \<noteq> c) (rev s)))
      else None)"

text \<open>\<^verbatim>\<open>strings.Index\<close> of a substring, as the text before it.\<close>

fun cutAt :: "string \<Rightarrow> string \<Rightarrow> (string \<times> string) option" where
  "cutAt p [] = (if p = [] then Some ([], []) else None)"
| "cutAt p (c # s) =
     (if HasPrefix (c # s) p then Some ([], c # s)
      else map_option (\<lambda>(a, b). (c # a, b)) (cutAt p s))"

fun getSchemeLoop :: "string \<Rightarrow> string \<Rightarrow> string \<Rightarrow> (string \<times> string) result" where
  "getSchemeLoop raw pre [] = Inr ([], raw)"
| "getSchemeLoop raw pre (c # s) =
     (if isAlpha c then getSchemeLoop raw (pre @ [c]) s
      else if isDigit c \<or> c \<in> set ''+-.'' then
        (if pre = [] then Inr ([], raw) else getSchemeLoop raw (pre @ [c]) s)
      else if c = CHR '':'' then
        (if pre = [] then Inl (StdErr ''missing protocol scheme'') else Inr (pre, s))
      else Inr ([], raw))"

definition getScheme :: "string \<Rightarrow> (string \<times> string) result" where
  "getScheme raw = getSchemeLoop raw [] raw"

definition validOptionalPort :: "string \<Rightarrow> bool" where
  "validOptionalPort port = (port = [] \<or> hd port = CHR '':'' \<and> list_all isDigit (tl port))"

definition validUserinfo :: "string \<Rightarrow> bool" where
  "validUserinfo s =
     list_all (\<lambda>c. isAlnum c \<or> c \<in> set (''-._:~!$&()*+,;=%@'' @ [CHR 0x27])) s"

definition portError :: gerror where
  "portError = StdErr ''invalid port after host''"

definition parseHost :: "string \<Rightarrow> string result" where
  "parseHost host =
     (if HasPrefix host ''['' then
        (case cutLast (CHR '']'') host of
           None \<Rightarrow> Inl (StdErr ''missing ] in host'')
         | Some (inner, colonPort) \<Rightarrow>
             if \<not> validOptionalPort colonPort then Inl portError
             else (case cutAt ''%25'' inner of
                 None \<Rightarrow> unescape host encodeHost
               | Some (a, b) \<Rightarrow>
                   (case unescape a encodeHost of
                      Inl e \<Rightarrow> Inl e
                    | Inr host1 \<Rightarrow>
                      (case unescape b encodeZone of
                         Inl e \<Rightarrow> Inl e
                       | Inr host2 \<Rightarrow>
                         (case unescape (CHR '']'' # colonPort) encodeHost of
                            Inl e \<Rightarrow> Inl e
                          | Inr host3 \<Rightarrow> Inr (host1 @ host2 @ host3))))))
      else (case cutLast (CHR '':'') host of
          None \<Rightarrow> unescape host encodeHost
        | Some (_, port) \<Rightarrow>
            if \<not> validOptionalPort (CHR '':'' # port) then Inl portError
            else unescape host encodeHost))"

definition parseAuthority :: "string \<Rightarrow> (userinfo option \<times> string) result" where
  "parseAuthority authority =
     (case cutLast (CHR ''@'') authority of
        None \<Rightarrow> (case parseHost authority of Inl e \<Rightarrow> Inl e | Inr h \<Rightarrow> Inr (None, h))
      | Some (ui, hostpart) \<Rightarrow>
          (case parseHost hostpart of
             Inl e \<Rightarrow> Inl e
           | Inr h \<Rightarrow>
             if \<not> validUserinfo ui then Inl (StdErr ''net/url: invalid userinfo'')
             else if CHR '':'' \<notin> set ui then
               (case unescape ui encodeUserPassword of
                  Inl e \<Rightarrow> Inl e
                | Inr u \<Rightarrow> Inr (Some \<lparr>username = u, password = None\<rparr>, h))
             else (case unescape (fst (cut (CHR '':'') ui)) encodeUserPassword of
                 Inl e \<Rightarrow> Inl e
               | Inr u \<Rightarrow>
                 (case unescape (snd (cut (CHR '':'') ui)) encodeUserPassword of
                    Inl e \<Rightarrow> Inl e
                  | Inr p \<Rightarrow> Inr (Some \<lparr>username = u, password = Some p\<rparr>, h)))))"

definition setPath :: "url \<Rightarrow> string \<Rightarrow> url result" where
  "setPath u p =
     (case unescape p encodePath of
        Inl e \<Rightarrow> Inl e
      | Inr path \<Rightarrow>
          Inr (u\<lparr>Path := path, RawPath := (if p = escape path encodePath then [] else p)\<rparr>))"

definition setFragment :: "url \<Rightarrow> string \<Rightarrow> url result" where
  "setFragment u f =
     (case unescape f encodeFragment of
        Inl e \<Rightarrow> Inl e
      | Inr frag \<Rightarrow>
          Inr (u\<lparr>Fragment := frag, RawFragment := (if f = escape frag encodeFragment then [] else f)\<rparr>))"

definition containsCTLByte :: "string \<Rightarrow> bool" where
  "containsCTLByte s = list_ex (\<lambda>c. (of_char c :: nat) < 32 \<or> c = CHR 0x7F) s"

text \<open>The part of \<^verbatim>\<open>parse\<close> after the query was split off; \<open>u\<close> carries scheme and query.\<close>

definition parseRest :: "url \<Rightarrow> string \<Rightarrow> url result" where
  "parseRest u rest =
     (if \<not> HasPrefix rest ''/'' \<and> Scheme u \<noteq> [] then Inr (u\<lparr>Opaque := rest\<rparr>)
      else if \<not> HasPrefix rest ''/'' \<and> CHR '':'' \<in> set (fst (cut (CHR ''/'') rest)) then
        Inl (StdErr ''first path segment in URL cannot contain colon'')
      else if (Scheme u \<noteq> [] \<or> \<not> HasPrefix rest ''///'') \<and> HasPrefix rest ''//'' then
        (let authority = takeWhile (\<lambda>c. c \<noteq> CHR ''/'') (drop 2 rest);
             path = dropWhile (\<lambda>c. c \<noteq> CHR ''/'') (drop 2 rest)
         in case parseAuthority authority of
              Inl e \<Rightarrow> Inl e
            | Inr (user, host) \<Rightarrow> setPath (u\<lparr>User := user, Host := host\<rparr>) path)
      else if Scheme u \<noteq> [] \<and> HasPrefix rest ''/'' then setPath (u\<lparr>OmitHost := True\<rparr>) rest
      else setPath u rest)"

definition parseNoFragment :: "string \<Rightarrow> url result" where
  "parseNoFragment raw =
     (if containsCTLByte raw then Inl (StdErr ''net/url: invalid control character in URL'')
      else if raw = ''*'' then Inr (empty_url\<lparr>Path := ''*''\<rparr>)
      else case getScheme raw of
        Inl e \<Rightarrow> Inl e
      | Inr (scheme, rest) \<Rightarrow>
          if HasSuffix rest ''?'' \<and> count_list rest (CHR ''?'') = 1 then
            parseRest (empty_url\<lparr>Scheme := ToLower scheme, ForceQuery := True\<rparr>) (butlast rest)
          else
            parseRest (empty_url\<lparr>Scheme := ToLower scheme, RawQuery := snd (cut (CHR ''?'') rest)\<rparr>)
              (fst (cut (CHR ''?'') rest)))"

definition url_Parse :: "string \<Rightarrow> url result" where
  "url_Parse raw =
     (let (u, frag) = cut (CHR ''#'') raw in
      case parseNoFragment u of
        Inl e \<Rightarrow> Inl (Wrapf ''parse'' [u] e)
      | Inr v \<Rightarrow>
          if frag = [] then Inr v
          else (case setFragment v frag of Inl e \<Rightarrow> Inl (Wrapf ''parse'' [raw] e) | Inr w \<Rightarrow> Inr w))"

section \<open>Printing\<close>

definition EscapedPath :: "url \<Rightarrow> string" where
  "EscapedPath u =
     (if RawPath u \<noteq> [] \<and> validEncoded (RawPath u) encodePath \<and>
        unescape (RawPath u) encodePath = Inr (Path u) then RawPath u
      else if Path u = ''*'' then ''*''
      else escape (Path u) encodePath)"

definition EscapedFragment :: "url \<Rightarrow> string" where
  "EscapedFragment u =
     (if RawFragment u \<noteq> [] \<and> validEncoded (RawFragment u) encodeFragment \<and>
        unescape (RawFragment u) encodeFragment = Inr (Fragment u) then RawFragment u
      else escape (Fragment u) encodeFragment)"

definition userinfo_String :: "userinfo \<Rightarrow> string" where
  "userinfo_String ui =
     escape (username ui) encodeUserPassword @
     (case password ui of None \<Rightarrow> [] | Some p \<Rightarrow> CHR '':'' # escape p encodeUserPassword)"

definition url_authority :: "url \<Rightarrow> string" where
  "url_authority u =
     (if (Scheme u \<noteq> [] \<or> Host u \<noteq> [] \<or> User u \<noteq> None) \<and>
         \<not> (OmitHost u \<and> Host u = [] \<and> User u = None) then
        (if Host u \<noteq> [] \<or> Path u \<noteq> [] \<or> User u \<noteq> None then ''//'' else []) @
        (case User u of None \<Rightarrow> [] | Some ui \<Rightarrow> userinfo_String ui @ ''@'') @
        escape (Host u) encodeHost
      else [])"

definition url_String :: "url \<Rightarrow> string" where
  "url_String u =
     (let scheme = (if Scheme u \<noteq> [] then Scheme u @ '':'' else []);
          path = EscapedPath u;
          auth = url_authority u;
          slash = (if path \<noteq> [] \<and> hd path \<noteq> CHR ''/'' \<and> Host u \<noteq> [] then ''/'' else []);
          dot = (if scheme @ auth @ slash = [] \<and> CHR '':'' \<in> set (fst (cut (CHR ''/'') path))
                 then ''./'' else [])
      in (if Opaque u \<noteq> [] then scheme @ Opaque u else scheme @ auth @ slash @ dot @ path) @
         (if ForceQuery u \<or> RawQuery u \<noteq> [] then CHR ''?'' # RawQuery u else []) @
         (if Fragment u \<noteq> [] then CHR ''#'' # EscapedFragment u else []))"

text \<open>\<^verbatim>\<open>plugin/kodofs_parameters.go\<close>: \<^verbatim>\<open>parseUrl\<close>\<close>

definition parseUrl :: "string \<Rightarrow> url result" where
  "parseUrl s = url_Parse (TrimSpace s)"

definition url_stable :: "url \<Rightarrow> bool" where
  "url_stable u \<longleftrightarrow> parseUrl (url_String u) = Inr u"

section \<open>Endpoint URLs\<close>

definition plainHostChar :: "char \<Rightarrow> bool" where
  "plainHostChar c = (isAlnum c \<or> c = CHR ''.'' \<or> c = CHR ''-'')"

definition plainPathChar :: "char \<Rightarrow> bool" where
  "plainPathChar c = (isAlnum c \<or> c \<in> set ''-_.~/'')"

definition endpoint_url :: "string \<Rightarrow> string \<Rightarrow> string \<Rightarrow> url" where
  "endpoint_url sch host path = empty_url\<lparr>Scheme := sch, Host := host, Path := path\<rparr>"

definition plain_endpoint :: "string \<Rightarrow> string \<Rightarrow> string \<Rightarrow> bool" where
  "plain_endpoint sch host path \<longleftrightarrow>
     sch \<noteq> [] \<and> list_all (\<lambda>c. 97 \<le> (of_char c :: nat) \<and> (of_char c :: nat) \<le> 122) sch \<and>
     host \<noteq> [] \<and> list_all plainHostChar host \<and>
     (path = [] \<or> hd path = CHR ''/'') \<and> list_all plainPathChar path"

lemma isAlpha_codes: "isAlpha c \<longleftrightarrow>
    97 \<le> (of_char c :: nat) \<and> (of_char c :: nat) \<le> 122 \<or> 65 \<le> (of_char c :: nat) \<and> (of_char c :: nat) \<le> 90"
  by (simp add: isAlpha_def Let_def)

lemma isAlnum_not_special:
  "isAlnum c \<Longrightarrow> c \<notin> set (''%?#:/@[] *+'' @ [CHR 0x7F]) \<and> 32 < (of_char c :: nat) \<and> (of_char c :: nat) < 127"
  by (auto simp: isAlnum_def isAlpha_codes isDigit_def)

lemma plainHostChar_facts:
  assumes "plainHostChar c"
  shows "\<not> shouldEscape c encodeHost" "c \<notin> set (''%?#:/@[] '' @ [CHR 0x7F])"
    "32 < (of_char c :: nat)" "(of_char c :: nat) < 127"
proof -
  have "\<not> shouldEscape c encodeHost \<and> c \<notin> set (''%?#:/@[] '' @ [CHR 0x7F]) \<and>
      32 < (of_char c :: nat) \<and> (of_char c :: nat) < 127"
  proof (cases "isAlnum c")
    case True
    with isAlnum_not_special [of c] show ?thesis by (simp add: shouldEscape_def)
  next
    case False
    with assms have "c = CHR ''.'' \<or> c = CHR ''-''" by (simp add: plainHostChar_def)
    then show ?thesis by (rule disjE) (simp_all add: shouldEscape_def)
  qed
  then show "\<not> shouldEscape c encodeHost" "c \<notin> set (''%?#:/@[] '' @ [CHR 0x7F])"
    "32 < (of_char c :: nat)" "(of_char c :: nat) < 127" by blast+
qed

lemma plainPathChar_facts:
  assumes "plainPathChar c"
  shows "\<not> shouldEscape c encodePath" "c \<notin> set (''%?# '' @ [CHR 0x7F])"
    "32 < (of_char c :: nat)" "(of_char c :: nat) < 127"
proof -
  have "\<not> shouldEscape c encodePath \<and> c \<notin> set (''%?# '' @ [CHR 0x7F]) \<and>
      32 < (of_char c :: nat) \<and> (of_char c :: nat) < 127"
  proof (cases "isAlnum c")
    case True
    with isAlnum_not_special [of c] show ?thesis by (simp add: shouldEscape_def)
  next
    case False
    with assms have "c \<in> {CHR ''-'', CHR ''_'', CHR ''.'', CHR ''~'', CHR ''/''}"
      by (simp add: plainPathChar_def)
    then show ?thesis by (elim insertE emptyE) (simp_all add: shouldEscape_def isAlnum_def isAlpha_codes isDigit_def)
  qed
  then show "\<not> shouldEscape c encodePath" "c \<notin> set (''%?# '' @ [CHR 0x7F])"
    "32 < (of_char c :: nat)" "(of_char c :: nat) < 127" by blast+
qed

lemma escape_id: "list_all (\<lambda>c. \<not> shouldEscape c mode) s \<Longrightarrow> escape s mode = s"
  by (induction s) auto

lemma unescape_id:
  "list_all (\<lambda>c. \<not> shouldEscape c mode \<and> c \<noteq> CHR ''%'') s \<Longrightarrow> mode \<noteq> encodeQueryComponent \<Longrightarrow>
     unescape s mode = Inr s"
  by (induction s) auto

lemma getSchemeLoop_alpha:
  "list_all isAlpha s \<Longrightarrow> pre @ s \<noteq> [] \<Longrightarrow>
     getSchemeLoop raw pre (s @ CHR '':'' # r) = Inr (pre @ s, r)"
proof (induction s arbitrary: pre)
  case Nil
  then show ?case by (simp add: isAlpha_codes isDigit_def)
next
  case (Cons c s)
  then show ?case by simp
qed

lemma ToLower_id:
  "list_all (\<lambda>c. 97 \<le> (of_char c :: nat) \<and> (of_char c :: nat) \<le> 122) s \<Longrightarrow> ToLower s = s"
  by (induction s) (auto simp: lowerByte_def Let_def)

lemma takeWhile_all: "list_all P s \<Longrightarrow> takeWhile P s = s"
  by (simp add: list_all_iff takeWhile_eq_all_conv)

lemma endpoint_String:
  assumes "plain_endpoint sch host path"
  shows "url_String (endpoint_url sch host path) = sch @ ''://'' @ host @ path"
proof -
  have "escape host encodeHost = host" "escape path encodePath = path"
    using assms
    by (auto simp: plain_endpoint_def list_all_iff plainHostChar_facts plainPathChar_facts
        intro!: escape_id)
  then show ?thesis
    using assms
    by (auto simp: url_String_def endpoint_url_def empty_url_def url_authority_def
        EscapedPath_def plain_endpoint_def Let_def)
qed

lemma endpoint_chars:
  assumes "plain_endpoint sch host path" "c \<in> set (sch @ ''://'' @ host @ path)"
  shows "c \<noteq> CHR ''#'' \<and> c \<noteq> CHR ''?'' \<and> c \<noteq> CHR 0x7F \<and> 32 < (of_char c :: nat) \<and> (of_char c :: nat) < 128"
proof -
  consider "c \<in> set sch" | "c \<in> set ''://''" | "c \<in> set host" | "c \<in> set path"
    using assms(2) by auto
  then show ?thesis
  proof cases
    case 1
    with assms(1) have "97 \<le> (of_char c :: nat) \<and> (of_char c :: nat) \<le> 122"
      by (auto simp: plain_endpoint_def list_all_iff)
    then show ?thesis by auto
  next
    case 2
    then show ?thesis by auto
  next
    case 3
    with assms(1) have "plainHostChar c" by (auto simp: plain_endpoint_def list_all_iff)
    with plainHostChar_facts [of c] show ?thesis by auto
  next
    case 4
    with assms(1) have "plainPathChar c" by (auto simp: plain_endpoint_def list_all_iff)
    with plainPathChar_facts [of c] show ?thesis by auto
  qed
qed

lemma endpoint_rest:
  assumes "plain_endpoint sch host path"
  shows "parseRest (empty_url\<lparr>Scheme := sch, RawQuery := []\<rparr>) (''//'' @ host @ path) =
    Inr (endpoint_url sch host path)"
proof -
  from assms have h: "host \<noteq> []" "\<And>c. c \<in> set host \<Longrightarrow> plainHostChar c"
    and p: "path = [] \<or> hd path = CHR ''/''" "\<And>c. c \<in> set path \<Longrightarrow> plainPathChar c"
    and s: "sch \<noteq> []"
    by (auto simp: plain_endpoint_def list_all_iff)
  have hc: "\<And>c. c \<in> set host \<Longrightarrow> c \<noteq> CHR ''/''" "CHR ''@'' \<notin> set host" "CHR '':'' \<notin> set host"
    "CHR ''['' \<notin> set host"
    using plainHostChar_facts(2) h(2) by fastforce+
  have "takeWhile (\<lambda>c. c \<noteq> CHR ''/'') (host @ path) = host"
    "dropWhile (\<lambda>c. c \<noteq> CHR ''/'') (host @ path) = path"
    using hc(1) p(1) by (cases path; simp add: takeWhile_append2 dropWhile_append2)+
  moreover have "unescape host encodeHost = Inr host" "unescape path encodePath = Inr path"
    "escape path encodePath = path"
    using h(2) p(2) plainHostChar_facts plainPathChar_facts
    by (auto simp: list_all_iff intro!: unescape_id escape_id)
  moreover have "\<not> HasPrefix host ''[''" using h(1) hc(4) by (cases host) (auto simp: HasPrefix_def)
  ultimately show ?thesis
    using s hc h(1)
    by (simp add: parseRest_def HasPrefix_def parseAuthority_def parseHost_def cutLast_def
        setPath_def endpoint_url_def empty_url_def)
qed

lemma endpoint_Parse:
  assumes "plain_endpoint sch host path"
  shows "url_Parse (sch @ ''://'' @ host @ path) = Inr (endpoint_url sch host path)"
proof -
  let ?raw = "sch @ ''://'' @ host @ path"
  note ch = endpoint_chars [OF assms]
  have whole: "takeWhile (\<lambda>x. x \<noteq> CHR ''#'') ?raw = ?raw" "dropWhile (\<lambda>x. x \<noteq> CHR ''#'') ?raw = []"
    using ch by (simp_all only: takeWhile_eq_all_conv dropWhile_eq_Nil_conv) blast+
  have q: "CHR ''?'' \<notin> set (''//'' @ host @ path)" using ch [of "CHR ''?''"] by auto
  have query: "cut (CHR ''?'') (''//'' @ host @ path) = (''//'' @ host @ path, [])"
  proof -
    have "\<forall>x \<in> set (''//'' @ host @ path). x \<noteq> CHR ''?''" using q by blast
    then have "takeWhile (\<lambda>x. x \<noteq> CHR ''?'') (''//'' @ host @ path) = ''//'' @ host @ path"
      "dropWhile (\<lambda>x. x \<noteq> CHR ''?'') (''//'' @ host @ path) = []"
      by (simp_all only: takeWhile_eq_all_conv dropWhile_eq_Nil_conv)
    then show ?thesis by (simp only: cut_def drop_Nil)
  qed
  have "\<not> HasSuffix (''//'' @ host @ path) ''?''"
    using q set_mono_suffix [of "''?''" "''//'' @ host @ path"]
    by (auto simp: HasSuffix_iff_suffix simp del: set_append)
  moreover have "getScheme ?raw = Inr (sch, ''//'' @ host @ path)"
    using getSchemeLoop_alpha [of sch "[]"] assms
    by (fastforce simp: getScheme_def plain_endpoint_def list_all_iff isAlpha_codes)
  moreover have "\<not> containsCTLByte ?raw"
    using ch unfolding containsCTLByte_def list_ex_iff by fastforce
  moreover have "?raw \<noteq> ''*''" by (cases sch) auto
  moreover have "ToLower sch = sch" using assms by (simp add: plain_endpoint_def ToLower_id)
  ultimately have "parseNoFragment ?raw = Inr (endpoint_url sch host path)"
    by (simp only: parseNoFragment_def query sum.case prod.case if_False simp_thms
        endpoint_rest [OF assms] fst_conv snd_conv)
  then show ?thesis
    unfolding url_Parse_def cut_def whole by simp
qed

lemma endpoint_trim:
  assumes "plain_endpoint sch host path"
  shows "TrimSpace (sch @ ''://'' @ host @ path) = sch @ ''://'' @ host @ path"
proof (rule TrimSpace_id)
  let ?raw = "sch @ ''://'' @ host @ path"
  have "?raw \<noteq> []" by simp
  then have "c \<in> set ?raw" if "c \<in> {hd ?raw, last ?raw}" for c
    using that hd_in_set [of ?raw] last_in_set [of ?raw] by blast
  then have "32 < (of_char c :: nat) \<and> (of_char c :: nat) < 128" if "c \<in> {hd ?raw, last ?raw}" for c
    using that endpoint_chars [OF assms] by blast
  then show "hd ?raw \<notin> set spaceFirst" "last ?raw \<notin> set spaceLast"
    by (fastforce simp: spaceFirst_def spaceLast_def)+
qed

lemma endpoint_stable: "plain_endpoint sch host path \<Longrightarrow> url_stable (endpoint_url sch host path)"
  by (simp add: url_stable_def parseUrl_def endpoint_String endpoint_trim endpoint_Parse
      del: append.simps)

end
