(* ===== verification/Kodo_Parameters.thy ===== *)
theory Kodo_Parameters
  imports Go_Time_Roundtrip Go_Url
begin

text \<open>
  \<^verbatim>\<open>plugin/kodo_parameters.go\<close>, the storage-class part: the recognised keys, the values they
  take, \<^verbatim>\<open>parseKodoStorageClassParameter\<close>.  The keys of both drivers form one datatype, with
  the constructor names of the source's constants; \<open>field_name\<close> gives the text of a constant
  and \<open>field_of\<close> is what a \<^verbatim>\<open>switch\<close> on the lower-cased key selects.

  The loop over the parameters is compared with a declarative reading (\<open>sc_spec\<close>): every
  component of the result depends only on the entry of its own key.  It follows that the
  order in which Go iterates over the map does not matter when no two keys differ by case only.
\<close>

section \<open>Keys\<close>

datatype field =
    FIELD_BUCKET_ID | FIELD_BUCKET_NAME | FIELD_SUB_DIR | FIELD_S3_REGION | FIELD_S3_ENDPOINT
  | FIELD_S3_FORCE_PATH_STYLE | FIELD_UC_ENDPOINT | FIELD_STORAGE_CLASS | FIELD_VFS_CACHE_MODE
  | FIELD_DIR_CACHE_DURATION | FIELD_BUFFER_SIZE | FIELD_VFS_CACHE_MAX_AGE
  | FIELD_VFS_CACHE_POLL_INTERVAL | FIELD_VFS_WRITE_BACK | FIELD_VFS_CACHE_MAX_SIZE
  | FIELD_VFS_READ_AHEAD | FIELD_VFS_FAST_FINGER_PRINT | FIELD_VFS_READ_CHUNK_SIZE
  | FIELD_VFS_READ_CHUNK_SIZE_LIMIT | FIELD_NO_CHECKSUM | FIELD_NO_MOD_TIME | FIELD_NO_SEEK
  | FIELD_READ_ONLY | FIELD_VFS_READ_WAIT | FIELD_VFS_WRITE_WAIT | FIELD_TRANSFERS
  | FIELD_VFS_DISK_SPACE_TOTAL_SIZE | FIELD_WRITE_BACK_CACHE | FIELD_UPLOAD_CUTOFF
  | FIELD_UPLOAD_CHUNK_SIZE | FIELD_UPLOAD_CONCURRENCY | FIELD_DEBUG_HTTP | FIELD_DEBUG_FUSE
  | FIELD_ORIGINAL_ACCESS_KEY | FIELD_ORIGINAL_SECRET_KEY
  | FIELD_GATEWAY_ID | FIELD_ACCESS_POINT_ID | FIELD_ACCESS_TOKEN | FIELD_MOUNT_SERVER_ADDRESS
  | FIELD_ACCESS_KEY | FIELD_SECRET_KEY | FIELD_MASTER_SERVER_ADDRESS | FIELD_REGION
  | FIELD_FS_TYPE | FIELD_BLOCK_SIZE

primrec field_name :: "field \<Rightarrow> string" where
  "field_name FIELD_BUCKET_ID = ''bucketid''"
| "field_name FIELD_BUCKET_NAME = ''bucketname''"
| "field_name FIELD_SUB_DIR = ''subdir''"
| "field_name FIELD_S3_REGION = ''s3region''"
| "field_name FIELD_S3_ENDPOINT = ''s3endpoint''"
| "field_name FIELD_S3_FORCE_PATH_STYLE = ''s3forcepathstyle''"
| "field_name FIELD_UC_ENDPOINT = ''ucendpoint''"
| "field_name FIELD_STORAGE_CLASS = ''storageclass''"
| "field_name FIELD_VFS_CACHE_MODE = ''vfscachemode''"
| "field_name FIELD_DIR_CACHE_DURATION = ''dircacheduration''"
| "field_name FIELD_BUFFER_SIZE = ''buffersize''"
| "field_name FIELD_VFS_CACHE_MAX_AGE = ''vfscachemaxage''"
| "field_name FIELD_VFS_CACHE_POLL_INTERVAL = ''vfscachepollinterval''"
| "field_name FIELD_VFS_WRITE_BACK = ''vfswriteback''"
| "field_name FIELD_VFS_CACHE_MAX_SIZE = ''vfscachemaxsize''"
| "field_name FIELD_VFS_READ_AHEAD = ''vfsreadahead''"
| "field_name FIELD_VFS_FAST_FINGER_PRINT = ''vfsfastfingerprint''"
| "field_name FIELD_VFS_READ_CHUNK_SIZE = ''vfsreadchunksize''"
| "field_name FIELD_VFS_READ_CHUNK_SIZE_LIMIT = ''vfsreadchunksizelimit''"
| "field_name FIELD_NO_CHECKSUM = ''nochecksum''"
| "field_name FIELD_NO_MOD_TIME = ''nomodtime''"
| "field_name FIELD_NO_SEEK = ''noseek''"
| "field_name FIELD_READ_ONLY = ''readonly''"
| "field_name FIELD_VFS_READ_WAIT = ''vfsreadwait''"
| "field_name FIELD_VFS_WRITE_WAIT = ''vfswritewait''"
| "field_name FIELD_TRANSFERS = ''transfers''"
| "field_name FIELD_VFS_DISK_SPACE_TOTAL_SIZE = ''vfsdiskspacetotalsize''"
| "field_name FIELD_WRITE_BACK_CACHE = ''writebackcache''"
| "field_name FIELD_UPLOAD_CUTOFF = ''uploadcutoff''"
| "field_name FIELD_UPLOAD_CHUNK_SIZE = ''uploadchunksize''"
| "field_name FIELD_UPLOAD_CONCURRENCY = ''uploadconcurrency''"
| "field_name FIELD_DEBUG_HTTP = ''debughttp''"
| "field_name FIELD_DEBUG_FUSE = ''debugfuse''"
| "field_name FIELD_ORIGINAL_ACCESS_KEY = ''originalaccesskey''"
| "field_name FIELD_ORIGINAL_SECRET_KEY = ''originalsecretkey''"
| "field_name FIELD_GATEWAY_ID = ''gatewayid''"
| "field_name FIELD_ACCESS_POINT_ID = ''accesspointid''"
| "field_name FIELD_ACCESS_TOKEN = ''accesstoken''"
| "field_name FIELD_MOUNT_SERVER_ADDRESS = ''mntsvraddr''"
| "field_name FIELD_ACCESS_KEY = ''accesskey''"
| "field_name FIELD_SECRET_KEY = ''secretkey''"
| "field_name FIELD_MASTER_SERVER_ADDRESS = ''mastersvraddr''"
| "field_name FIELD_REGION = ''region''"
| "field_name FIELD_FS_TYPE = ''fstype''"
| "field_name FIELD_BLOCK_SIZE = ''blocksize''"

definition all_fields :: "field list" where
  "all_fields =
     [FIELD_BUCKET_ID, FIELD_BUCKET_NAME, FIELD_SUB_DIR, FIELD_S3_REGION, FIELD_S3_ENDPOINT,
      FIELD_S3_FORCE_PATH_STYLE, FIELD_UC_ENDPOINT, FIELD_STORAGE_CLASS, FIELD_VFS_CACHE_MODE,
      FIELD_DIR_CACHE_DURATION, FIELD_BUFFER_SIZE, FIELD_VFS_CACHE_MAX_AGE,
      FIELD_VFS_CACHE_POLL_INTERVAL, FIELD_VFS_WRITE_BACK, FIELD_VFS_CACHE_MAX_SIZE,
      FIELD_VFS_READ_AHEAD, FIELD_VFS_FAST_FINGER_PRINT, FIELD_VFS_READ_CHUNK_SIZE,
      FIELD_VFS_READ_CHUNK_SIZE_LIMIT, FIELD_NO_CHECKSUM, FIELD_NO_MOD_TIME, FIELD_NO_SEEK,
      FIELD_READ_ONLY, FIELD_VFS_READ_WAIT, FIELD_VFS_WRITE_WAIT, FIELD_TRANSFERS,
      FIELD_VFS_DISK_SPACE_TOTAL_SIZE, FIELD_WRITE_BACK_CACHE, FIELD_UPLOAD_CUTOFF,
      FIELD_UPLOAD_CHUNK_SIZE, FIELD_UPLOAD_CONCURRENCY, FIELD_DEBUG_HTTP, FIELD_DEBUG_FUSE,
      FIELD_ORIGINAL_ACCESS_KEY, FIELD_ORIGINAL_SECRET_KEY,
      FIELD_GATEWAY_ID, FIELD_ACCESS_POINT_ID, FIELD_ACCESS_TOKEN, FIELD_MOUNT_SERVER_ADDRESS,
      FIELD_ACCESS_KEY, FIELD_SECRET_KEY, FIELD_MASTER_SERVER_ADDRESS, FIELD_REGION,
      FIELD_FS_TYPE, FIELD_BLOCK_SIZE]"

definition field_of :: "string \<Rightarrow> field option" where
  "field_of k = find (\<lambda>f. field_name f = k) all_fields"

lemma all_fields_complete: "f \<in> set all_fields"
  by (cases f) (simp_all add: all_fields_def)

lemma field_of_name [simp]: "field_of (field_name f) = Some f"
  by (cases f; simp add: field_of_def all_fields_def)

lemma field_of_Some: "field_of k = Some f \<longleftrightarrow> k = field_name f"
proof
  assume "field_of k = Some f"
  then show "k = field_name f" by (auto simp: field_of_def find_Some_iff)
qed simp

lemma field_name_inject [simp]: "field_name f = field_name g \<longleftrightarrow> f = g"
  by (metis field_of_name option.inject)

lemma ToLower_field_name [simp]: "ToLower (field_name f) = field_name f"
  by (cases f; simp add: lowerByte_def Let_def)

section \<open>Values\<close>

definition parseBool :: "string \<Rightarrow> bool option" where
  "parseBool s =
     (let t = toLower s in
      if t \<in> {''yes'', ''true'', ''y'', ''on''} then Some True
      else if t \<in> {''no'', ''false'', ''n'', ''off''} then Some False
      else None)"

definition parseDuration :: "string \<Rightarrow> Duration result" where
  "parseDuration s = ParseDuration (TrimSpace s)"

definition parseUint :: "string \<Rightarrow> 64 word result" where
  "parseUint s = ParseUint (TrimSpace s)"

definition plugin_formatUint :: "64 word \<Rightarrow> string" where
  "plugin_formatUint i = FormatUint i"

definition formatBool :: "bool \<Rightarrow> string" where
  "formatBool b = FormatBool b"

definition VFS_CACHE_MODE_OFF :: string where "VFS_CACHE_MODE_OFF = ''off''"
definition VFS_CACHE_MODE_MINIMAL :: string where "VFS_CACHE_MODE_MINIMAL = ''minimal''"
definition VFS_CACHE_MODE_WRITES :: string where "VFS_CACHE_MODE_WRITES = ''writes''"
definition VFS_CACHE_MODE_FULL :: string where "VFS_CACHE_MODE_FULL = ''full''"

lemmas cache_modes = VFS_CACHE_MODE_OFF_def VFS_CACHE_MODE_MINIMAL_def
  VFS_CACHE_MODE_WRITES_def VFS_CACHE_MODE_FULL_def

text \<open>The inner \<^verbatim>\<open>switch\<close> on the value of \<^verbatim>\<open>vfscachemode\<close>; \<open>None\<close> is its default branch.\<close>

definition parseCacheMode :: "string \<Rightarrow> string option" where
  "parseCacheMode s =
     (let t = toLower s in
      if t = ''off'' \<or> t = [] then Some VFS_CACHE_MODE_OFF
      else if t = ''min'' \<or> t = ''minimal'' then Some VFS_CACHE_MODE_MINIMAL
      else if t = ''writes'' then Some VFS_CACHE_MODE_WRITES
      else if t = ''full'' then Some VFS_CACHE_MODE_FULL
      else None)"

lemma parseUint_format: "parseUint (plugin_formatUint w) = Inr w"
  unfolding parseUint_def plugin_formatUint_def
  by (simp add: FormatUint_def ParseUint_decimal)

lemma parseDuration_String: "int64_range d \<Longrightarrow> parseDuration (Duration_String d) = Inr d"
  by (simp add: parseDuration_def ParseDuration_String)

lemma trim_format_bool: "TrimSpace (formatBool b) = formatBool b"
  by (rule TrimSpace_id) (auto simp: formatBool_def FormatBool_def spaceFirst_def spaceLast_def)

lemma parseBool_format: "parseBool (formatBool b) = Some b"
  unfolding parseBool_def toLower_def trim_format_bool
  by (simp add: formatBool_def FormatBool_def lowerByte_def Let_def)

lemma cache_modes_nonempty:
  "VFS_CACHE_MODE_OFF \<noteq> []" "VFS_CACHE_MODE_MINIMAL \<noteq> []" "VFS_CACHE_MODE_WRITES \<noteq> []" "VFS_CACHE_MODE_FULL \<noteq> []"
  by (simp_all add: cache_modes)

lemma parseCacheMode_modes [simp]:
  "parseCacheMode [] = Some VFS_CACHE_MODE_OFF"
  "parseCacheMode VFS_CACHE_MODE_OFF = Some VFS_CACHE_MODE_OFF"
  "parseCacheMode VFS_CACHE_MODE_MINIMAL = Some VFS_CACHE_MODE_MINIMAL"
  "parseCacheMode VFS_CACHE_MODE_WRITES = Some VFS_CACHE_MODE_WRITES"
  "parseCacheMode VFS_CACHE_MODE_FULL = Some VFS_CACHE_MODE_FULL"
  by code_simp+

lemma parseCacheMode_idem:
  assumes "parseCacheMode s = Some m"
  shows "parseCacheMode m = Some m"
proof -
  have "m \<in> {VFS_CACHE_MODE_OFF, VFS_CACHE_MODE_MINIMAL, VFS_CACHE_MODE_WRITES, VFS_CACHE_MODE_FULL}"
    using assms by (simp add: parseCacheMode_def Let_def split: if_splits)
  then show ?thesis by auto
qed

end
