(* ===== verification/Param_Loop.thy ===== *)
theory Param_Loop
  imports Kodo_Parameters
begin

text \<open>
  The parameter parsers of both drivers share one loop: \<^verbatim>\<open>for key, value := range ctx\<close> with a
  \<^verbatim>\<open>switch\<close> on the lower-cased key, stopping at the first value that does not parse.
  \<open>range_switch\<close> is that loop for any \<^verbatim>\<open>switch\<close> body; its last argument lists the entries in
  iteration order.

  The locale \<open>param_switch\<close> states what the bodies have in common: whether a value is accepted
  depends on its key and the value alone, and a body writes what the declarative reading
  \<open>spec\<close> says.  In it the loop is shown to compute \<open>spec\<close> of the entries, whatever their order.
\<close>

fun range_switch :: "(field \<Rightarrow> string \<Rightarrow> 'p \<Rightarrow> 'p result) \<Rightarrow> 'p \<Rightarrow> gomap \<Rightarrow> 'p result" where
  "range_switch step p [] = Inr p"
| "range_switch step p ((key, value) # m) =
     (case field_of (ToLower key) of
        None \<Rightarrow> range_switch step p m
      | Some f \<Rightarrow> (case step f value p of Inl e \<Rightarrow> Inl e | Inr p' \<Rightarrow> range_switch step p' m))"

section \<open>Entries as the switch sees them\<close>

definition add_entry :: "(field \<rightharpoonup> string) \<Rightarrow> string \<times> string \<Rightarrow> (field \<rightharpoonup> string)" where
  "add_entry m kv = (case field_of (ToLower (fst kv)) of None \<Rightarrow> m | Some f \<Rightarrow> m(f \<mapsto> snd kv))"

definition fields_of :: "gomap \<Rightarrow> (field \<rightharpoonup> string)" where
  "fields_of m = foldl add_entry Map.empty m"

definition no_case_clash :: "gomap \<Rightarrow> bool" where
  "no_case_clash m \<longleftrightarrow> distinct (map (\<lambda>kv. ToLower (fst kv)) m)"

definition entries_ok :: "(field \<Rightarrow> string \<Rightarrow> bool) \<Rightarrow> gomap \<Rightarrow> bool" where
  "entries_ok ok m \<longleftrightarrow>
     list_all (\<lambda>(k, v). case field_of (ToLower k) of None \<Rightarrow> True | Some f \<Rightarrow> ok f v) m"

lemma entries_ok_simps [simp]:
  "entries_ok ok []"
  "entries_ok ok ((k, v) # m) \<longleftrightarrow>
     (case field_of (ToLower k) of None \<Rightarrow> True | Some f \<Rightarrow> ok f v) \<and> entries_ok ok m"
  by (simp_all add: entries_ok_def)

lemma entries_ok_same: "same_gomap m m' \<Longrightarrow> entries_ok ok m \<longleftrightarrow> entries_ok ok m'"
  by (simp add: entries_ok_def list_all_iff same_gomap_set)

lemma foldl_add_entry:
  "no_case_clash m \<Longrightarrow>
     foldl add_entry m0 m f =
       (case map_of (map (\<lambda>kv. (ToLower (fst kv), snd kv)) m) (field_name f) of
          None \<Rightarrow> m0 f | Some v \<Rightarrow> Some v)"
proof (induction m arbitrary: m0)
  case (Cons kv m)
  then have "ToLower (fst kv) \<notin> set (map (\<lambda>kv. ToLower (fst kv)) m)" "no_case_clash m"
    by (auto simp: no_case_clash_def)
  moreover from this have "map_of (map (\<lambda>kv. (ToLower (fst kv), snd kv)) m) (ToLower (fst kv)) = None"
    by (auto simp: map_of_eq_None_iff image_image)
  moreover have "add_entry m0 kv f = (if ToLower (fst kv) = field_name f then Some (snd kv) else m0 f)"
    by (cases "field_of (ToLower (fst kv))") (auto simp: add_entry_def field_of_Some)
  ultimately show ?case
    using Cons.IH [of "add_entry m0 kv"] by (auto split: option.splits)
qed simp

lemma fields_of_lookup:
  "no_case_clash m \<Longrightarrow>
     fields_of m f = map_of (map (\<lambda>kv. (ToLower (fst kv), snd kv)) m) (field_name f)"
  by (simp add: fields_of_def foldl_add_entry split: option.split)

lemma no_case_clash_same: "same_gomap m m' \<Longrightarrow> no_case_clash m \<longleftrightarrow> no_case_clash m'"
  unfolding no_case_clash_def same_gomap_def by (metis mset_eq_imp_distinct_iff mset_map)

lemma fields_of_same:
  assumes "same_gomap m m'" "no_case_clash m"
  shows "fields_of m = fields_of m'"
proof
  fix f
  let ?low = "map (\<lambda>kv. (ToLower (fst kv), snd kv))"
  have "same_gomap (?low m) (?low m')" using assms(1) by (simp add: same_gomap_def)
  moreover have "gomap_wf (?low m)"
    using assms(2) by (simp add: gomap_wf_def no_case_clash_def comp_def)
  ultimately have "map_of (?low m) = map_of (?low m')" by (rule same_gomap_map_of)
  with assms no_case_clash_same [OF assms(1)] show "fields_of m f = fields_of m' f"
    by (simp add: fields_of_lookup)
qed

lemma fields_of_Nil [simp]: "fields_of [] = Map.empty"
  by (simp add: fields_of_def)

lemma fields_of_entry:
  assumes "no_case_clash m" "(k, v) \<in> set m" "ToLower k = field_name f"
  shows "fields_of m f = Some v"
proof -
  have "distinct (map fst (map (\<lambda>kv. (ToLower (fst kv), snd kv)) m))"
    using assms(1) by (simp add: no_case_clash_def comp_def)
  moreover have "(field_name f, v) \<in> set (map (\<lambda>kv. (ToLower (fst kv), snd kv)) m)"
    using assms(2,3) by force
  ultimately show ?thesis using assms(1) by (simp add: fields_of_lookup)
qed

lemma fields_of_None:
  assumes "no_case_clash m" "\<forall>(k, v) \<in> set m. ToLower k \<noteq> field_name f"
  shows "fields_of m f = None"
  using assms by (auto simp: fields_of_lookup map_of_eq_None_iff)

lemma foldl_add_entry_ok:
  "foldl add_entry m0 m f = Some v \<Longrightarrow> entries_ok ok m \<Longrightarrow> (\<And>g w. m0 g = Some w \<Longrightarrow> ok g w) \<Longrightarrow> ok f v"
proof (induction m arbitrary: m0)
  case (Cons kv m)
  obtain k w where kv: "kv = (k, w)" by fastforce
  from Cons.prems(2,3) kv have "add_entry m0 kv g = Some x \<Longrightarrow> ok g x" for g x
    by (auto simp: add_entry_def split: option.splits if_splits)
  with Cons kv show ?case by simp
qed simp

lemma entries_ok_fields: "entries_ok ok m \<Longrightarrow> fields_of m f = Some v \<Longrightarrow> ok f v"
  unfolding fields_of_def using foldl_add_entry_ok [of Map.empty m f v ok] by simp

section \<open>The contract of a switch body\<close>

locale param_switch =
  fixes step :: "field \<Rightarrow> string \<Rightarrow> 'p \<Rightarrow> 'p result"
    and ok :: "field \<Rightarrow> string \<Rightarrow> bool"
    and spec :: "(field \<rightharpoonup> string) \<Rightarrow> 'p"
  assumes step_ok: "is_ok (step f v p) \<longleftrightarrow> ok f v"
    and step_spec: "ok f v \<Longrightarrow> step f v (spec m) = Inr (spec (m(f \<mapsto> v)))"
begin

lemma loop_from:
  "entries_ok ok m \<Longrightarrow> range_switch step (spec m0) m = Inr (spec (foldl add_entry m0 m))"
proof (induction m arbitrary: m0)
  case (Cons kv m)
  then show ?case
    by (cases kv) (auto simp: step_spec add_entry_def split: option.splits)
qed simp

lemma loop_error: "\<not> entries_ok ok m \<Longrightarrow> \<not> is_ok (range_switch step p m)"
proof (induction m arbitrary: p)
  case (Cons kv m)
  obtain k v where kv: "kv = (k, v)" by fastforce
  show ?case
  proof (cases "field_of (ToLower k)")
    case None
    with Cons kv show ?thesis by simp
  next
    case (Some f)
    show ?thesis
    proof (cases "step f v p")
      case (Inl e)
      with Some kv show ?thesis by simp
    next
      case (Inr p')
      then have "ok f v" using step_ok [of f v p] by simp
      with Cons Some kv Inr show ?thesis by simp
    qed
  qed
qed simp

text \<open>The loop accepts a map exactly when each value is acceptable, and then computes \<open>spec\<close>.\<close>

lemma loop_iff:
  "range_switch step (spec Map.empty) m = Inr p \<longleftrightarrow> entries_ok ok m \<and> p = spec (fields_of m)"
  using loop_from [of m Map.empty] loop_error [of m "spec Map.empty"]
  by (cases "entries_ok ok m") (auto simp: fields_of_def)

text \<open>Its outcome does not depend on the iteration order.\<close>

lemma loop_order:
  assumes "same_gomap m m'" "no_case_clash m"
  shows "ok_value (range_switch step (spec Map.empty) m) =
    ok_value (range_switch step (spec Map.empty) m')"
proof -
  have "range_switch step (spec Map.empty) m = Inr p \<longleftrightarrow>
      range_switch step (spec Map.empty) m' = Inr p" for p
    by (simp add: loop_iff entries_ok_same [OF assms(1)] fields_of_same [OF assms])
  then show ?thesis
    by (metis ok_value_Some_iff option.exhaust)
qed

end

end
