(* ===== verification/Kodo_Storage_Class.thy ===== *)
theory Kodo_Storage_Class
  imports Param_Loop
begin

text \<open>
  \<^verbatim>\<open>parseKodoStorageClassParameter\<close> of \<^verbatim>\<open>plugin/kodo_parameters.go\<close>.  The \<^verbatim>\<open>range\<close> loop over the
  parameters is \<open>sc_loop\<close>, whose first argument list is the map in iteration order; the
  secrets are only looked up by key.
\<close>

section \<open>The parameter record\<close>

record kodoStorageClassParameter =
  accessKey :: string
  secretKey :: string
  region :: string
  ucEndpoint :: "url option"
  storageClass :: string
  subDir :: string
  s3ForcePathStyle :: "bool option"
  dirCacheDuration :: "Duration option"
  bufferSize :: "64 word option"
  vfsCacheMode :: string
  vfsCacheMaxAge :: "Duration option"
  vfsCachePollInterval :: "Duration option"
  vfsWriteBack :: "Duration option"
  vfsCacheMaxSize :: "64 word option"
  vfsReadAhead :: "64 word option"
  vfsFastFingerprint :: bool
  vfsReadChunkSize :: "64 word option"
  vfsReadChunkSizeLimit :: "64 word option"
  noCheckSum :: bool
  noModTime :: bool
  noSeek :: bool
  readOnly :: bool
  vfsReadWait :: "Duration option"
  vfsWriteWait :: "Duration option"
  transfers :: "64 word option"
  vfsDiskSpaceTotalSize :: "64 word option"
  uploadCutoff :: "64 word option"
  uploadChunkSize :: "64 word option"
  uploadConcurrency :: "64 word option"
  writeBackCache :: bool
  debugHttp :: bool
  debugFuse :: bool

type_synonym scp = kodoStorageClassParameter

definition scp_zero :: scp where
  "scp_zero = \<lparr>accessKey = [], secretKey = [], region = [], ucEndpoint = None, storageClass = [],
     subDir = [], s3ForcePathStyle = None, dirCacheDuration = None, bufferSize = None,
     vfsCacheMode = [], vfsCacheMaxAge = None, vfsCachePollInterval = None, vfsWriteBack = None,
     vfsCacheMaxSize = None, vfsReadAhead = None, vfsFastFingerprint = False,
     vfsReadChunkSize = None, vfsReadChunkSizeLimit = None, noCheckSum = False,
     noModTime = False, noSeek = False, readOnly = False, vfsReadWait = None,
     vfsWriteWait = None, transfers = None, vfsDiskSpaceTotalSize = None, uploadCutoff = None,
     uploadChunkSize = None, uploadConcurrency = None, writeBackCache = False,
     debugHttp = False, debugFuse = False\<rparr>"

section \<open>The loop\<close>

definition set_uint ::
    "string \<Rightarrow> field \<Rightarrow> string \<Rightarrow> ((64 word option \<Rightarrow> 64 word option) \<Rightarrow> scp \<Rightarrow> scp) \<Rightarrow> scp \<Rightarrow> scp result" where
  "set_uint fn f v upd p =
     (case parseUint v of
        Inl e \<Rightarrow> Inl (Wrapf ''failed to parse'' [fn, field_name f] e)
      | Inr n \<Rightarrow> Inr (upd (\<lambda>_. Some n) p))"

definition set_duration ::
    "string \<Rightarrow> field \<Rightarrow> string \<Rightarrow> ((Duration option \<Rightarrow> Duration option) \<Rightarrow> scp \<Rightarrow> scp) \<Rightarrow> scp \<Rightarrow> scp result" where
  "set_duration fn f v upd p =
     (case parseDuration v of
        Inl e \<Rightarrow> Inl (Wrapf ''failed to parse'' [fn, field_name f] e)
      | Inr d \<Rightarrow> Inr (upd (\<lambda>_. Some d) p))"

definition set_bool ::
    "string \<Rightarrow> field \<Rightarrow> string \<Rightarrow> ((bool \<Rightarrow> bool) \<Rightarrow> scp \<Rightarrow> scp) \<Rightarrow> scp \<Rightarrow> scp result" where
  "set_bool fn f v upd p =
     (case parseBool v of
        None \<Rightarrow> Inl (Errorf ''unrecognized'' [fn, field_name f, v])
      | Some b \<Rightarrow> Inr (upd (\<lambda>_. b) p))"

definition set_pathStyle :: "string \<Rightarrow> string \<Rightarrow> scp \<Rightarrow> scp result" where
  "set_pathStyle fn v p =
     (case parseBool v of
        None \<Rightarrow> Inl (Errorf ''unrecognized'' [fn, field_name FIELD_S3_FORCE_PATH_STYLE, v])
      | Some b \<Rightarrow> Inr (p\<lparr>s3ForcePathStyle := Some b\<rparr>))"

definition set_ucEndpoint :: "string \<Rightarrow> string \<Rightarrow> scp \<Rightarrow> scp result" where
  "set_ucEndpoint fn v p =
     (case parseUrl v of
        Inl e \<Rightarrow> Inl (Wrapf ''invalid'' [fn, field_name FIELD_UC_ENDPOINT, v] e)
      | Inr u \<Rightarrow> Inr (p\<lparr>ucEndpoint := Some u\<rparr>))"

definition set_cacheMode :: "string \<Rightarrow> string \<Rightarrow> scp \<Rightarrow> scp result" where
  "set_cacheMode fn v p =
     (case parseCacheMode v of
        None \<Rightarrow> Inl (Errorf ''unrecognized'' [fn, field_name FIELD_VFS_CACHE_MODE, v])
      | Some m \<Rightarrow> Inr (p\<lparr>vfsCacheMode := m\<rparr>))"

text \<open>The body of the loop for one recognised key; keys of other parsers fall through.\<close>

definition sc_field :: "string \<Rightarrow> field \<Rightarrow> string \<Rightarrow> scp \<Rightarrow> scp result" where
  "sc_field fn f v p =
     (case f of
        FIELD_ACCESS_KEY \<Rightarrow> Inr (p\<lparr>accessKey := TrimSpace v\<rparr>)
      | FIELD_SECRET_KEY \<Rightarrow> Inr (p\<lparr>secretKey := TrimSpace v\<rparr>)
      | FIELD_UC_ENDPOINT \<Rightarrow> set_ucEndpoint fn v p
      | FIELD_REGION \<Rightarrow> Inr (p\<lparr>region := TrimSpace v\<rparr>)
      | FIELD_STORAGE_CLASS \<Rightarrow> Inr (p\<lparr>storageClass := TrimSpace v\<rparr>)
      | FIELD_SUB_DIR \<Rightarrow> Inr (p\<lparr>subDir := TrimSpace v\<rparr>)
      | FIELD_S3_FORCE_PATH_STYLE \<Rightarrow> set_pathStyle fn v p
      | FIELD_VFS_CACHE_MODE \<Rightarrow> set_cacheMode fn v p
      | FIELD_DIR_CACHE_DURATION \<Rightarrow> set_duration fn f v dirCacheDuration_update p
      | FIELD_BUFFER_SIZE \<Rightarrow> set_uint fn f v bufferSize_update p
      | FIELD_VFS_CACHE_MAX_AGE \<Rightarrow> set_duration fn f v vfsCacheMaxAge_update p
      | FIELD_VFS_CACHE_POLL_INTERVAL \<Rightarrow> set_duration fn f v vfsCachePollInterval_update p
      | FIELD_VFS_WRITE_BACK \<Rightarrow> set_duration fn f v vfsWriteBack_update p
      | FIELD_VFS_CACHE_MAX_SIZE \<Rightarrow> set_uint fn f v vfsCacheMaxSize_update p
      | FIELD_VFS_READ_AHEAD \<Rightarrow> set_uint fn f v vfsReadAhead_update p
      | FIELD_VFS_FAST_FINGER_PRINT \<Rightarrow> set_bool fn f v vfsFastFingerprint_update p
      | FIELD_VFS_READ_CHUNK_SIZE \<Rightarrow> set_uint fn f v vfsReadChunkSize_update p
      | FIELD_VFS_READ_CHUNK_SIZE_LIMIT \<Rightarrow> set_uint fn f v vfsReadChunkSizeLimit_update p
      | FIELD_NO_CHECKSUM \<Rightarrow> set_bool fn f v noCheckSum_update p
      | FIELD_NO_MOD_TIME \<Rightarrow> set_bool fn f v noModTime_update p
      | FIELD_NO_SEEK \<Rightarrow> set_bool fn f v noSeek_update p
      | FIELD_READ_ONLY \<Rightarrow> set_bool fn f v readOnly_update p
      | FIELD_VFS_READ_WAIT \<Rightarrow> set_duration fn f v vfsReadWait_update p
      | FIELD_VFS_WRITE_WAIT \<Rightarrow> set_duration fn f v vfsWriteWait_update p
      | FIELD_TRANSFERS \<Rightarrow> set_uint fn f v transfers_update p
      | FIELD_VFS_DISK_SPACE_TOTAL_SIZE \<Rightarrow> set_uint fn f v vfsDiskSpaceTotalSize_update p
      | FIELD_WRITE_BACK_CACHE \<Rightarrow> set_bool fn f v writeBackCache_update p
      | FIELD_UPLOAD_CHUNK_SIZE \<Rightarrow> set_uint fn f v uploadChunkSize_update p
      | FIELD_UPLOAD_CUTOFF \<Rightarrow> set_uint fn f v uploadCutoff_update p
      | FIELD_UPLOAD_CONCURRENCY \<Rightarrow> set_uint fn f v uploadConcurrency_update p
      | FIELD_DEBUG_HTTP \<Rightarrow> set_bool fn f v debugHttp_update p
      | FIELD_DEBUG_FUSE \<Rightarrow> set_bool fn f v debugFuse_update p
      | _ \<Rightarrow> Inr p)"

definition sc_loop :: "string \<Rightarrow> scp \<Rightarrow> gomap \<Rightarrow> scp result" where
  "sc_loop fn p ctx = range_switch (sc_field fn) p ctx"

section \<open>The secrets\<close>

definition secret :: "gomap \<Rightarrow> field \<Rightarrow> string option" where
  "secret secrets f = map_of secrets (field_name f)"

text \<open>A component that must come from the parameters or from the secrets.\<close>

definition required :: "string \<Rightarrow> gomap \<Rightarrow> field \<Rightarrow> string \<Rightarrow> string result" where
  "required fn secrets f cur =
     (if cur = [] then
        (case secret secrets f of
           Some v \<Rightarrow> Inr (TrimSpace v)
         | None \<Rightarrow> Inl (Errorf ''is empty'' [fn, field_name f]))
      else Inr cur)"

text \<open>A component with a default.\<close>

definition defaulted :: "gomap \<Rightarrow> field \<Rightarrow> string \<Rightarrow> string \<Rightarrow> string" where
  "defaulted secrets f dflt cur =
     (if cur = [] then (case secret secrets f of Some v \<Rightarrow> TrimSpace v | None \<Rightarrow> dflt) else cur)"

definition required_ucEndpoint :: "string \<Rightarrow> gomap \<Rightarrow> scp \<Rightarrow> scp result" where
  "required_ucEndpoint fn secrets p =
     (case ucEndpoint p of
        Some _ \<Rightarrow> Inr p
      | None \<Rightarrow>
          (case secret secrets FIELD_UC_ENDPOINT of
             Some v \<Rightarrow> set_ucEndpoint fn v p
           | None \<Rightarrow> Inl (Errorf ''is empty'' [fn, field_name FIELD_UC_ENDPOINT])))"

definition secret_pathStyle :: "string \<Rightarrow> gomap \<Rightarrow> scp \<Rightarrow> scp result" where
  "secret_pathStyle fn secrets p =
     (case s3ForcePathStyle p of
        Some _ \<Rightarrow> Inr p
      | None \<Rightarrow>
          (case secret secrets FIELD_S3_FORCE_PATH_STYLE of
             Some v \<Rightarrow> set_pathStyle fn v p
           | None \<Rightarrow> Inr p))"

definition sc_secrets :: "string \<Rightarrow> gomap \<Rightarrow> scp \<Rightarrow> scp result" where
  "sc_secrets fn secrets p0 =
     (case required fn secrets FIELD_ACCESS_KEY (accessKey p0) of Inl e \<Rightarrow> Inl e | Inr ak \<Rightarrow>
      case required fn secrets FIELD_SECRET_KEY (secretKey p0) of Inl e \<Rightarrow> Inl e | Inr sk \<Rightarrow>
      case required_ucEndpoint fn secrets (p0\<lparr>accessKey := ak, secretKey := sk\<rparr>) of
        Inl e \<Rightarrow> Inl e
      | Inr p1 \<Rightarrow>
          secret_pathStyle fn secrets
            (p1\<lparr>region := defaulted secrets FIELD_REGION ''z0'' (region p1),
                storageClass := defaulted secrets FIELD_STORAGE_CLASS ''STANDARD'' (storageClass p1),
                subDir := defaulted secrets FIELD_SUB_DIR [] (subDir p1)\<rparr>))"

definition parseKodoStorageClassParameter :: "string \<Rightarrow> gomap \<Rightarrow> gomap \<Rightarrow> scp result" where
  "parseKodoStorageClassParameter fn ctx secrets =
     (case sc_loop fn scp_zero ctx of Inl e \<Rightarrow> Inl e | Inr p \<Rightarrow> sc_secrets fn secrets p)"

section \<open>The declarative reading of the loop\<close>

definition val_string :: "string option \<Rightarrow> string" where
  "val_string v = (case v of None \<Rightarrow> [] | Some s \<Rightarrow> TrimSpace s)"

definition val_bool :: "string option \<Rightarrow> bool" where
  "val_bool v = (case Option.bind v parseBool of Some b \<Rightarrow> b | None \<Rightarrow> False)"

definition val_uint :: "string option \<Rightarrow> 64 word option" where
  "val_uint v = Option.bind v (\<lambda>s. ok_value (parseUint s))"

definition val_duration :: "string option \<Rightarrow> Duration option" where
  "val_duration v = Option.bind v (\<lambda>s. ok_value (parseDuration s))"

definition val_mode :: "string option \<Rightarrow> string" where
  "val_mode v = (case Option.bind v parseCacheMode of Some m \<Rightarrow> m | None \<Rightarrow> [])"

lemmas val_defs = val_string_def val_bool_def val_uint_def val_duration_def val_mode_def

definition sc_spec :: "(field \<rightharpoonup> string) \<Rightarrow> scp" where
  "sc_spec m =
     \<lparr>accessKey = val_string (m FIELD_ACCESS_KEY), secretKey = val_string (m FIELD_SECRET_KEY),
      region = val_string (m FIELD_REGION),
      ucEndpoint = Option.bind (m FIELD_UC_ENDPOINT) (\<lambda>s. ok_value (parseUrl s)),
      storageClass = val_string (m FIELD_STORAGE_CLASS), subDir = val_string (m FIELD_SUB_DIR),
      s3ForcePathStyle = Option.bind (m FIELD_S3_FORCE_PATH_STYLE) parseBool,
      dirCacheDuration = val_duration (m FIELD_DIR_CACHE_DURATION),
      bufferSize = val_uint (m FIELD_BUFFER_SIZE),
      vfsCacheMode = val_mode (m FIELD_VFS_CACHE_MODE),
      vfsCacheMaxAge = val_duration (m FIELD_VFS_CACHE_MAX_AGE),
      vfsCachePollInterval = val_duration (m FIELD_VFS_CACHE_POLL_INTERVAL),
      vfsWriteBack = val_duration (m FIELD_VFS_WRITE_BACK),
      vfsCacheMaxSize = val_uint (m FIELD_VFS_CACHE_MAX_SIZE),
      vfsReadAhead = val_uint (m FIELD_VFS_READ_AHEAD),
      vfsFastFingerprint = val_bool (m FIELD_VFS_FAST_FINGER_PRINT),
      vfsReadChunkSize = val_uint (m FIELD_VFS_READ_CHUNK_SIZE),
      vfsReadChunkSizeLimit = val_uint (m FIELD_VFS_READ_CHUNK_SIZE_LIMIT),
      noCheckSum = val_bool (m FIELD_NO_CHECKSUM), noModTime = val_bool (m FIELD_NO_MOD_TIME),
      noSeek = val_bool (m FIELD_NO_SEEK), readOnly = val_bool (m FIELD_READ_ONLY),
      vfsReadWait = val_duration (m FIELD_VFS_READ_WAIT),
      vfsWriteWait = val_duration (m FIELD_VFS_WRITE_WAIT),
      transfers = val_uint (m FIELD_TRANSFERS),
      vfsDiskSpaceTotalSize = val_uint (m FIELD_VFS_DISK_SPACE_TOTAL_SIZE),
      uploadCutoff = val_uint (m FIELD_UPLOAD_CUTOFF),
      uploadChunkSize = val_uint (m FIELD_UPLOAD_CHUNK_SIZE),
      uploadConcurrency = val_uint (m FIELD_UPLOAD_CONCURRENCY),
      writeBackCache = val_bool (m FIELD_WRITE_BACK_CACHE),
      debugHttp = val_bool (m FIELD_DEBUG_HTTP), debugFuse = val_bool (m FIELD_DEBUG_FUSE)\<rparr>"

text \<open>The values the loop accepts under each key.\<close>

definition sc_ok :: "field \<Rightarrow> string \<Rightarrow> bool" where
  "sc_ok f v =
     (if f = FIELD_UC_ENDPOINT then is_ok (parseUrl v)
      else if f = FIELD_VFS_CACHE_MODE then parseCacheMode v \<noteq> None
      else if f \<in> {FIELD_S3_FORCE_PATH_STYLE, FIELD_VFS_FAST_FINGER_PRINT, FIELD_NO_CHECKSUM,
        FIELD_NO_MOD_TIME, FIELD_NO_SEEK, FIELD_READ_ONLY, FIELD_WRITE_BACK_CACHE,
        FIELD_DEBUG_HTTP, FIELD_DEBUG_FUSE} then parseBool v \<noteq> None
      else if f \<in> {FIELD_DIR_CACHE_DURATION, FIELD_VFS_CACHE_MAX_AGE,
        FIELD_VFS_CACHE_POLL_INTERVAL, FIELD_VFS_WRITE_BACK, FIELD_VFS_READ_WAIT,
        FIELD_VFS_WRITE_WAIT} then is_ok (parseDuration v)
      else if f \<in> {FIELD_BUFFER_SIZE, FIELD_VFS_CACHE_MAX_SIZE, FIELD_VFS_READ_AHEAD,
        FIELD_VFS_READ_CHUNK_SIZE, FIELD_VFS_READ_CHUNK_SIZE_LIMIT, FIELD_TRANSFERS,
        FIELD_VFS_DISK_SPACE_TOTAL_SIZE, FIELD_UPLOAD_CHUNK_SIZE, FIELD_UPLOAD_CUTOFF,
        FIELD_UPLOAD_CONCURRENCY} then is_ok (parseUint v)
      else True)"

lemmas set_defs = set_uint_def set_duration_def set_bool_def set_pathStyle_def
  set_ucEndpoint_def set_cacheMode_def

lemma sc_field_ok: "is_ok (sc_field fn f v p) \<longleftrightarrow> sc_ok f v"
  by (cases f; simp add: sc_field_def sc_ok_def set_defs split: sum.split option.split)

lemma sc_field_spec: "sc_ok f v \<Longrightarrow> sc_field fn f v (sc_spec m) = Inr (sc_spec (m(f \<mapsto> v)))"
  by (cases f; simp add: sc_field_def sc_spec_def sc_ok_def set_defs val_defs is_ok_def
      split: sum.splits option.splits)

lemma scp_zero_spec: "scp_zero = sc_spec Map.empty"
  by (simp add: scp_zero_def sc_spec_def val_defs)

interpretation sc: param_switch "sc_field fn" sc_ok sc_spec for fn
  by unfold_locales (simp_all add: sc_field_ok sc_field_spec)

lemma sc_loop_iff:
  "sc_loop fn scp_zero ctx = Inr p \<longleftrightarrow> entries_ok sc_ok ctx \<and> p = sc_spec (fields_of ctx)"
  by (simp add: sc_loop_def scp_zero_spec sc.loop_iff)

lemma parse_sc_iff:
  "parseKodoStorageClassParameter fn ctx secrets = Inr p \<longleftrightarrow>
     entries_ok sc_ok ctx \<and> sc_secrets fn secrets (sc_spec (fields_of ctx)) = Inr p"
proof (cases "sc_loop fn scp_zero ctx")
  case (Inl e)
  then have "\<not> entries_ok sc_ok ctx" using sc_loop_iff [of fn ctx] by auto
  with Inl show ?thesis by (simp add: parseKodoStorageClassParameter_def)
next
  case (Inr q)
  then show ?thesis using sc_loop_iff [of fn ctx q] by (simp add: parseKodoStorageClassParameter_def)
qed

section \<open>What the secrets add\<close>

lemma required_iff:
  "required fn secrets f cur = Inr s \<longleftrightarrow>
     (if cur = [] then (\<exists>v. secret secrets f = Some v \<and> s = TrimSpace v) else s = cur)"
  by (auto simp: required_def split: option.split)

text \<open>A successful parse, component by component, over the result \<open>q\<close> of the loop.\<close>

lemma sc_secrets_iff:
  "sc_secrets fn secrets q = Inr p \<longleftrightarrow>
     (\<exists>ak sk uc fps.
        required fn secrets FIELD_ACCESS_KEY (accessKey q) = Inr ak \<and>
        required fn secrets FIELD_SECRET_KEY (secretKey q) = Inr sk \<and>
        (case ucEndpoint q of
           Some u \<Rightarrow> uc = u
         | None \<Rightarrow> \<exists>v. secret secrets FIELD_UC_ENDPOINT = Some v \<and> parseUrl v = Inr uc) \<and>
        (case s3ForcePathStyle q of
           Some b \<Rightarrow> fps = Some b
         | None \<Rightarrow> (case secret secrets FIELD_S3_FORCE_PATH_STYLE of
               None \<Rightarrow> fps = None
             | Some v \<Rightarrow> parseBool v \<noteq> None \<and> fps = parseBool v)) \<and>
        p = q\<lparr>accessKey := ak, secretKey := sk, ucEndpoint := Some uc,
              region := defaulted secrets FIELD_REGION ''z0'' (region q),
              storageClass := defaulted secrets FIELD_STORAGE_CLASS ''STANDARD'' (storageClass q),
              subDir := defaulted secrets FIELD_SUB_DIR [] (subDir q),
              s3ForcePathStyle := fps\<rparr>)"
  apply (cases "required fn secrets FIELD_ACCESS_KEY (accessKey q)"; simp add: sc_secrets_def)
  apply (cases "required fn secrets FIELD_SECRET_KEY (secretKey q)"; simp)
  apply (cases "ucEndpoint q"; cases "s3ForcePathStyle q";
      auto simp: required_ucEndpoint_def secret_pathStyle_def set_ucEndpoint_def set_pathStyle_def
      split: option.splits sum.splits)
  done

end
