(* ===== verification/Http_World.thy ===== *)
theory Http_World
  imports Go_Url
begin

text \<open>
  The environment of the service clients (package \<^verbatim>\<open>qiniu\<close>): JSON documents and how
  \<^verbatim>\<open>encoding/json\<close> stores them into Go values, HTTP requests and responses, the process-wide
  cache and the clock.

  JSON is handled at the level of documents; the byte syntax is not represented.  A response
  body is the list of documents it holds and whether anything malformed follows them.

  The remote services, the clock and \<^verbatim>\<open>singleflight.Group\<close> (a third-party package) are the
  fields of \<open>env\<close>, the parameter of every client operation.  \<open>net\<close> answers a request and may
  change the state of the services; \<open>time_now k\<close> is the \<open>k\<close>-th reading of the clock in
  nanoseconds; \<open>sf_Do\<close> is \<^verbatim>\<open>Group.Do\<close>; \<open>VERSION\<close> and \<open>COMMITID\<close> are set by the linker.  The field \<open>sent\<close> of the process state records the
  requests in the order in which they were sent; no operation reads it.
\<close>

section \<open>JSON documents\<close>

datatype json =
    JNull
  | JBool bool
  | JNum int
  | JReal string
  | JStr string
  | JArr "json list"
  | JObj "(string \<times> json) list"

definition jsonTypeError :: gerror where
  "jsonTypeError = StdErr ''json: cannot unmarshal''"

definition jsonSyntaxError :: gerror where
  "jsonSyntaxError = StdErr ''json: invalid document''"

text \<open>
  Decoding into a Go variable starts from its current value; \<^verbatim>\<open>null\<close> leaves a non-pointer as it
  is.  A document of the wrong shape makes \<^verbatim>\<open>Unmarshal\<close> return an error; every caller in the
  repository then drops the value.
\<close>

definition dec_string :: "json \<Rightarrow> string \<Rightarrow> string result" where
  "dec_string j old =
     (case j of JStr s \<Rightarrow> Inr s | JNull \<Rightarrow> Inr old | _ \<Rightarrow> Inl jsonTypeError)"

definition dec_bool :: "json \<Rightarrow> bool \<Rightarrow> bool result" where
  "dec_bool j old =
     (case j of JBool b \<Rightarrow> Inr b | JNull \<Rightarrow> Inr old | _ \<Rightarrow> Inl jsonTypeError)"

definition dec_int :: "nat \<Rightarrow> json \<Rightarrow> int \<Rightarrow> int result" where
  "dec_int bits j old =
     (case j of
        JNum n \<Rightarrow> if - (2 ^ (bits - 1)) \<le> n \<and> n < 2 ^ (bits - 1) then Inr n else Inl jsonTypeError
      | JNull \<Rightarrow> Inr old
      | _ \<Rightarrow> Inl jsonTypeError)"

fun dec_elems :: "(json \<Rightarrow> 'a result) \<Rightarrow> json list \<Rightarrow> 'a list result" where
  "dec_elems d [] = Inr []"
| "dec_elems d (j # js) =
     (case d j of
        Inl e \<Rightarrow> Inl e
      | Inr x \<Rightarrow> (case dec_elems d js of Inl e \<Rightarrow> Inl e | Inr xs \<Rightarrow> Inr (x # xs)))"

text \<open>A slice; the elements start from their zero value.\<close>

definition dec_slice :: "(json \<Rightarrow> 'a result) \<Rightarrow> json \<Rightarrow> 'a list result" where
  "dec_slice d j =
     (case j of JArr js \<Rightarrow> dec_elems d js | JNull \<Rightarrow> Inr [] | _ \<Rightarrow> Inl jsonTypeError)"

text \<open>A pointer; \<open>d\<close> decodes into the value it points to.\<close>

definition dec_pointer :: "(json \<Rightarrow> 'a \<Rightarrow> 'a result) \<Rightarrow> 'a \<Rightarrow> json \<Rightarrow> 'a option \<Rightarrow> 'a option result" where
  "dec_pointer d zero j old =
     (if j = JNull then Inr None
      else case d j (case old of Some x \<Rightarrow> x | None \<Rightarrow> zero) of
        Inl e \<Rightarrow> Inl e
      | Inr x \<Rightarrow> Inr (Some x))"

text \<open>
  Object keys select a field by name, ignoring case (as \<^verbatim>\<open>encoding/json\<close> does, also for the two
  runes outside ASCII that fold to \<open>k\<close> and \<open>s\<close>); later keys overwrite earlier ones, unknown keys are
  skipped.
\<close>

fun foldName :: "string \<Rightarrow> string" where
  "foldName [] = []"
| "foldName (a # s) =
     (if a = CHR 0xC5 \<and> take 1 s = [CHR 0xBF] then CHR ''s'' # foldName (drop 1 s)
      else if a = CHR 0xE2 \<and> take 2 s = [CHR 0x84, CHR 0xAA] then CHR ''k'' # foldName (drop 2 s)
      else lowerByte a # foldName s)"

fun dec_fields :: "(string \<times> (json \<Rightarrow> 'r \<Rightarrow> 'r result)) list \<Rightarrow> (string \<times> json) list \<Rightarrow> 'r \<Rightarrow> 'r result" where
  "dec_fields table [] r = Inr r"
| "dec_fields table ((key, j) # kvs) r =
     (case find (\<lambda>nd. foldName (fst nd) = foldName key) table of
        None \<Rightarrow> dec_fields table kvs r
      | Some nd \<Rightarrow> (case snd nd j r of Inl e \<Rightarrow> Inl e | Inr r' \<Rightarrow> dec_fields table kvs r'))"

definition dec_struct :: "(string \<times> (json \<Rightarrow> 'r \<Rightarrow> 'r result)) list \<Rightarrow> json \<Rightarrow> 'r \<Rightarrow> 'r result" where
  "dec_struct table j r =
     (case j of JObj kvs \<Rightarrow> dec_fields table kvs r | JNull \<Rightarrow> Inr r | _ \<Rightarrow> Inl jsonTypeError)"

text \<open>A table entry: decode into the component read by \<open>get\<close> and written by \<open>upd\<close>.\<close>

definition at_field ::
    "string \<Rightarrow> (json \<Rightarrow> 'a \<Rightarrow> 'a result) \<Rightarrow> ('r \<Rightarrow> 'a) \<Rightarrow> (('a \<Rightarrow> 'a) \<Rightarrow> 'r \<Rightarrow> 'r) \<Rightarrow>
       string \<times> (json \<Rightarrow> 'r \<Rightarrow> 'r result)" where
  "at_field name d get upd =
     (name, \<lambda>j r. case d j (get r) of Inl e \<Rightarrow> Inl e | Inr x \<Rightarrow> Inr (upd (\<lambda>_. x) r))"

section \<open>HTTP\<close>

datatype http_body = NoBody | JsonBody json | FormBody string

record http_request =
  Method :: string
  RequestUrl :: string
  ContentType :: string
  ReqBody :: http_body
  SignKeys :: "string \<times> string"
  UseQBoxAuth :: bool
  UserAgent :: string

datatype resp_body = Body "json list" bool

record http_response =
  StatusCode :: int
  RespBody :: "resp_body result"

text \<open>\<^verbatim>\<open>json.Unmarshal\<close> wants exactly one document.\<close>

definition unmarshal :: "resp_body \<Rightarrow> json result" where
  "unmarshal b =
     (case b of Body [j] True \<Rightarrow> Inr j | _ \<Rightarrow> Inl jsonSyntaxError)"

section \<open>Process state and environment\<close>

record service =
  S3RegionID :: string
  Domains :: "string list"

record kodo_region =
  KodoRegionID :: string
  Svc_S3 :: "service option"
  Svc_Rs :: "service option"
  Svc_Rsf :: "service option"
  Svc_Api :: "service option"

record kodo_bucket =
  Bucket_ID :: string
  Bucket_Name :: string
  Bucket_Region :: string

text \<open>The values stored in the cache; an empty pointer is stored like any other value.\<close>

datatype cache_value =
    CvUrl "url option"
  | CvString "string option"
  | CvRegions "kodo_region option list"
  | CvBucket "kodo_bucket option"
  | CvBuckets "kodo_bucket option list"

record 'w pstate =
  remote :: 'w
  cacheMap :: "string \<Rightarrow> (cache_value \<times> int) option"
  clock_reads :: nat
  sent :: "http_request list"

type_synonym ('w, 'a) action = "'w pstate \<Rightarrow> 'a result \<times> 'w pstate"

record 'w env =
  net :: "http_request \<Rightarrow> 'w \<Rightarrow> http_response result \<times> 'w"
  time_now :: "nat \<Rightarrow> int"
  sf_Do :: "string \<Rightarrow> ('w, cache_value) action \<Rightarrow> ('w, cache_value) action"
  VERSION :: string
  COMMITID :: string

text \<open>
  The documented behaviour of \<^verbatim>\<open>singleflight.Group.Do\<close> for a caller that has no other call of
  the same key in flight: it runs the function and returns its result.
\<close>

definition sf_sequential :: "'w env \<Rightarrow> bool" where
  "sf_sequential env \<longleftrightarrow> (\<forall>key fn s. sf_Do env key fn s = fn s)"

definition http_Do :: "'w env \<Rightarrow> http_request \<Rightarrow> ('w, http_response) action" where
  "http_Do env req s =
     (let (r, w) = net env req (remote s) in (r, s\<lparr>remote := w, sent := sent s @ [req]\<rparr>))"

definition Now :: "'w env \<Rightarrow> 'w pstate \<Rightarrow> int \<times> 'w pstate" where
  "Now env s = (time_now env (clock_reads s), s\<lparr>clock_reads := Suc (clock_reads s)\<rparr>)"

text \<open>Sequencing of fallible steps: the second runs only when the first succeeded.\<close>

definition and_then :: "('w, 'a) action \<Rightarrow> ('a \<Rightarrow> ('w, 'b) action) \<Rightarrow> ('w, 'b) action" where
  "and_then a k s = (case a s of (Inl e, s') \<Rightarrow> (Inl e, s') | (Inr x, s') \<Rightarrow> k x s')"

definition succeed :: "'a \<Rightarrow> ('w, 'a) action" where
  "succeed x s = (Inr x, s)"

definition fail :: "gerror \<Rightarrow> ('w, 'a) action" where
  "fail e s = (Inl e, s)"

definition lift_result :: "'a result \<Rightarrow> ('w, 'a) action" where
  "lift_result r s = (r, s)"

text \<open>\<^verbatim>\<open>if err != nil { return fmt.Errorf("... %w", err) }\<close>\<close>

definition wrap_error :: "(gerror \<Rightarrow> gerror) \<Rightarrow> ('w, 'a) action \<Rightarrow> ('w, 'a) action" where
  "wrap_error w a s = (case a s of (Inl e, s') \<Rightarrow> (Inl (rewrap w e), s') | (Inr x, s') \<Rightarrow> (Inr x, s'))"

lemmas action_defs = and_then_def succeed_def fail_def lift_result_def wrap_error_def

lemma and_then_Inr:
  "and_then a k s = (Inr y, s') \<longleftrightarrow> (\<exists>x s1. a s = (Inr x, s1) \<and> k x s1 = (Inr y, s'))"
  by (auto simp: and_then_def split: prod.splits sum.splits)

lemma wrap_error_Inr: "wrap_error w a s = (Inr x, s') \<longleftrightarrow> a s = (Inr x, s')"
  by (auto simp: wrap_error_def split: prod.splits sum.splits)

lemma wrap_error_snd [simp]: "snd (wrap_error w a s) = snd (a s)"
  by (auto simp: wrap_error_def split: prod.splits sum.splits)

section \<open>What an operation leaves alone\<close>

text \<open>
  \<open>sends P a\<close>: whatever the outcome, the action only appends requests satisfying \<open>P\<close> to those
  already sent.
\<close>

definition sends :: "(http_request \<Rightarrow> bool) \<Rightarrow> ('w, 'a) action \<Rightarrow> bool" where
  "sends P a \<longleftrightarrow> (\<forall>s. \<exists>rs. sent (snd (a s)) = sent s @ rs \<and> list_all P rs)"

lemma sends_mono: "sends P a \<Longrightarrow> (\<And>r. P r \<Longrightarrow> Q r) \<Longrightarrow> sends Q a"
  unfolding sends_def list_all_iff by blast

lemma sends_succeed [intro, simp]: "sends P (succeed x)"
  by (auto simp: sends_def succeed_def)

lemma sends_fail [intro, simp]: "sends P (fail e)"
  by (auto simp: sends_def fail_def)

lemma sends_lift [intro, simp]: "sends P (lift_result r)"
  by (auto simp: sends_def lift_result_def)

lemma sends_and_then:
  assumes "sends P a" "\<And>x. sends P (k x)"
  shows "sends P (and_then a k)"
  unfolding sends_def
proof
  fix s
  obtain r s1 where a: "a s = (r, s1)" by fastforce
  from assms(1) a obtain rs where rs: "sent s1 = sent s @ rs" "list_all P rs"
    unfolding sends_def by (metis snd_conv)
  show "\<exists>rs. sent (snd (and_then a k s)) = sent s @ rs \<and> list_all P rs"
  proof (cases r)
    case (Inl e)
    with a rs show ?thesis by (auto simp: and_then_def)
  next
    case (Inr x)
    from assms(2) obtain rs' where "sent (snd (k x s1)) = sent s1 @ rs'" "list_all P rs'"
      unfolding sends_def by blast
    with a rs Inr show ?thesis
      by (intro exI [of _ "rs @ rs'"]) (simp add: and_then_def)
  qed
qed

lemma sends_wrap [intro]: "sends P a \<Longrightarrow> sends P (wrap_error w a)"
  by (simp add: sends_def)

lemma sends_http_Do: "P req \<Longrightarrow> sends P (http_Do env req)"
  by (auto simp: sends_def http_Do_def split: prod.splits)

end
