(* ===== verification/Kodo_Client.thy ===== *)
theory Kodo_Client
  imports Http_World Go_Strconv
begin

text \<open>
  \<^verbatim>\<open>qiniu/kodo.go\<close>: the client of the Kodo object store, without the listing and deletion of
  objects.  Each method is an action over the process state; the method name of the source is
  the first argument of the errors it makes.  \<open>kodo_send\<close> is the request/response sequence the
  methods share: build the request, send it, read the body, and either decode it or turn the
  error body into an error.
\<close>

section \<open>The client and its requests\<close>

record KodoClient =
  kcAccessKey :: string
  kcSecretKey :: string
  kcUcUrl :: url
  kcUserAgent :: string

definition NewKodoClient :: "string \<Rightarrow> string \<Rightarrow> url \<Rightarrow> string \<Rightarrow> string \<Rightarrow> KodoClient" where
  "NewKodoClient ak sk uc version commitId =
     \<lparr>kcAccessKey = ak, kcSecretKey = sk, kcUcUrl = uc,
      kcUserAgent = ''QiniuCSIDriver/'' @ version @ ''/'' @ commitId @ ''/kodo''\<rparr>"

text \<open>
  \<^verbatim>\<open>parseKodoErrorFromResponseBody\<close>: the message of an error body; none when it is empty.
\<close>

definition parseKodoErrorFromResponseBody :: "resp_body \<Rightarrow> gerror option result" where
  "parseKodoErrorFromResponseBody b =
     (case unmarshal b of
        Inl e \<Rightarrow> Inl (Wrapf ''parseKodoErrorFromResponseBody: failed to parse'' [] e)
      | Inr j \<Rightarrow>
          (case dec_struct [at_field ''error'' dec_string id (\<lambda>f. f)] j [] of
             Inl e \<Rightarrow> Inl (Wrapf ''parseKodoErrorFromResponseBody: failed to parse'' [] e)
           | Inr msg \<Rightarrow> Inr (if msg \<noteq> [] then Some (KodoErrorResponseBody msg) else None)))"

definition statusText :: "int \<Rightarrow> string" where
  "statusText c = (if c < 0 then ''-'' else []) @ decimal (nat \<bar>c\<bar>)"

definition kodo_request ::
    "KodoClient \<Rightarrow> string \<Rightarrow> string \<Rightarrow> string \<Rightarrow> http_body \<Rightarrow> http_request" where
  "kodo_request c method requestUrl ctype body =
     \<lparr>Method = method, RequestUrl = requestUrl, ContentType = ctype, ReqBody = body,
      SignKeys = (kcAccessKey c, kcSecretKey c), UseQBoxAuth = False, UserAgent = kcUserAgent c\<rparr>"

definition kodo_response ::
    "string \<Rightarrow> (int \<Rightarrow> bool) \<Rightarrow> (resp_body \<Rightarrow> 'a result) \<Rightarrow> http_response \<Rightarrow> 'a result" where
  "kodo_response op accepted decode resp =
     (case RespBody resp of
        Inl e \<Rightarrow> Inl (Wrapf ''read response err'' [op] e)
      | Inr bs \<Rightarrow>
          if accepted (StatusCode resp) then decode bs
          else (case parseKodoErrorFromResponseBody bs of
              Inl e \<Rightarrow> Inl e
            | Inr (Some errBody) \<Rightarrow> Inl errBody
            | Inr None \<Rightarrow> Inl (Errorf ''invalid status code'' [op, statusText (StatusCode resp)])))"

definition kodo_send ::
    "'w env \<Rightarrow> string \<Rightarrow> (int \<Rightarrow> bool) \<Rightarrow> (resp_body \<Rightarrow> 'a result) \<Rightarrow> http_request \<Rightarrow> ('w, 'a) action" where
  "kodo_send env op accepted decode req =
     and_then (wrap_error (Wrapf ''create request err'' [op]) (lift_result (url_Parse (RequestUrl req))))
       (\<lambda>_. and_then (wrap_error (Wrapf ''send request err'' [op]) (http_Do env req))
         (\<lambda>resp. lift_result (kodo_response op accepted decode resp)))"

definition status_ok :: "int \<Rightarrow> bool" where
  "status_ok c = (c = 200)"

definition no_result :: "resp_body \<Rightarrow> unit result" where
  "no_result b = Inr ()"

text \<open>Decode a response body into a Go value starting from \<open>zero\<close>.\<close>

definition decode_as :: "string \<Rightarrow> (json \<Rightarrow> 'a result) \<Rightarrow> resp_body \<Rightarrow> 'a result" where
  "decode_as op d b =
     (case unmarshal b of
        Inl e \<Rightarrow> Inl (Wrapf ''parse response body err'' [op] e)
      | Inr j \<Rightarrow> (case d j of Inl e \<Rightarrow> Inl (Wrapf ''parse response body err'' [op] e) | Inr x \<Rightarrow> Inr x))"

section \<open>The cache\<close>

definition cache_probe :: "'w env \<Rightarrow> string \<Rightarrow> 'w pstate \<Rightarrow> cache_value option \<times> 'w pstate" where
  "cache_probe env key s =
     (case cacheMap s key of
        None \<Rightarrow> (None, s)
      | Some (v, deadline) \<Rightarrow>
          (case Now env s of (t, s') \<Rightarrow> (if t < deadline then Some v else None, s')))"

definition cache_fill ::
    "'w env \<Rightarrow> string \<Rightarrow> int \<Rightarrow> ('w, cache_value) action \<Rightarrow> ('w, cache_value) action" where
  "cache_fill env key ttl fn s =
     (case cache_probe env key s of
        (Some v, s1) \<Rightarrow> (Inr v, s1)
      | (None, s1) \<Rightarrow>
          (case fn s1 of
             (Inl e, s2) \<Rightarrow> (Inl e, s2)
           | (Inr v, s2) \<Rightarrow>
               (case Now env s2 of
                  (t, s3) \<Rightarrow> (Inr v, s3\<lparr>cacheMap := (cacheMap s3)(key \<mapsto> (v, t + ttl))\<rparr>))))"

definition getCacheValueByKey ::
    "'w env \<Rightarrow> string \<Rightarrow> int \<Rightarrow> ('w, cache_value) action \<Rightarrow> ('w, cache_value) action" where
  "getCacheValueByKey env key ttl fn s =
     (case cache_probe env key s of
        (Some v, s1) \<Rightarrow> (Inr v, s1)
      | (None, s1) \<Rightarrow> sf_Do env key (cache_fill env key ttl fn) s1)"

definition second_ns :: int where "second_ns = 10 ^ 9"
definition day_ns :: int where "day_ns = 24 * 3600 * 10 ^ 9"

definition cache_key :: "KodoClient \<Rightarrow> string \<Rightarrow> string" where
  "cache_key c rest =
     ''cacheKey-'' @ kcAccessKey c @ ''-'' @ kcSecretKey c @ ''-'' @ url_String (kcUcUrl c) @ ''-'' @ rest"

text \<open>The type assertions on a cached value panic on a value of another type.\<close>

definition as_url :: "cache_value \<Rightarrow> url option result" where
  "as_url v = (case v of CvUrl u \<Rightarrow> Inr u | _ \<Rightarrow> Inl (Panic ''interface conversion''))"

definition as_string :: "cache_value \<Rightarrow> string option result" where
  "as_string v = (case v of CvString u \<Rightarrow> Inr u | _ \<Rightarrow> Inl (Panic ''interface conversion''))"

definition as_regions :: "cache_value \<Rightarrow> kodo_region option list result" where
  "as_regions v = (case v of CvRegions r \<Rightarrow> Inr r | _ \<Rightarrow> Inl (Panic ''interface conversion''))"

definition as_bucket :: "cache_value \<Rightarrow> kodo_bucket option result" where
  "as_bucket v = (case v of CvBucket b \<Rightarrow> Inr b | _ \<Rightarrow> Inl (Panic ''interface conversion''))"

definition as_buckets :: "cache_value \<Rightarrow> kodo_bucket option list result" where
  "as_buckets v = (case v of CvBuckets b \<Rightarrow> Inr b | _ \<Rightarrow> Inl (Panic ''interface conversion''))"

definition cached ::
    "'w env \<Rightarrow> string \<Rightarrow> int \<Rightarrow> ('a \<Rightarrow> cache_value) \<Rightarrow> (cache_value \<Rightarrow> 'a result) \<Rightarrow>
       ('w, 'a) action \<Rightarrow> ('w, 'a) action" where
  "cached env key ttl mk prj fn =
     and_then (getCacheValueByKey env key ttl (and_then fn (\<lambda>x. succeed (mk x))))
       (\<lambda>v. lift_result (prj v))"

section \<open>Regions and endpoints\<close>

definition dec_service :: "json \<Rightarrow> service \<Rightarrow> service result" where
  "dec_service =
     dec_struct
       [at_field ''region_alias'' dec_string S3RegionID S3RegionID_update,
        at_field ''domains'' (\<lambda>j _. dec_slice (\<lambda>e. dec_string e []) j) Domains Domains_update]"

definition zero_service :: service where
  "zero_service = \<lparr>S3RegionID = [], Domains = []\<rparr>"

definition dec_region :: "json \<Rightarrow> kodo_region \<Rightarrow> kodo_region result" where
  "dec_region =
     dec_struct
       [at_field ''id'' dec_string KodoRegionID KodoRegionID_update,
        at_field ''s3'' (dec_pointer dec_service zero_service) Svc_S3 Svc_S3_update,
        at_field ''rs'' (dec_pointer dec_service zero_service) Svc_Rs Svc_Rs_update,
        at_field ''rsf'' (dec_pointer dec_service zero_service) Svc_Rsf Svc_Rsf_update,
        at_field ''api'' (dec_pointer dec_service zero_service) Svc_Api Svc_Api_update]"

definition zero_region :: kodo_region where
  "zero_region =
     \<lparr>KodoRegionID = [], Svc_S3 = None, Svc_Rs = None, Svc_Rsf = None, Svc_Api = None\<rparr>"

definition dec_regions :: "json \<Rightarrow> kodo_region option list result" where
  "dec_regions j =
     dec_struct [at_field ''regions''
         (\<lambda>j _. dec_slice (\<lambda>e. dec_pointer dec_region zero_region e None) j) id (\<lambda>f. f)] j []"

definition getRegions :: "'w env \<Rightarrow> KodoClient \<Rightarrow> ('w, kodo_region option list) action" where
  "getRegions env c =
     kodo_send env ''KodoClient.getRegions'' status_ok (decode_as ''KodoClient.getRegions'' dec_regions)
       (kodo_request c ''GET'' (url_String (kcUcUrl c) @ ''/regions'') [] NoBody)"

definition GetRegions :: "'w env \<Rightarrow> KodoClient \<Rightarrow> ('w, kodo_region option list) action" where
  "GetRegions env c =
     cached env (cache_key c ''regions'') day_ns CvRegions as_regions (getRegions env c)"

text \<open>The first region with an identifier; a null entry before it is a nil dereference.\<close>

fun find_region :: "string \<Rightarrow> kodo_region option list \<Rightarrow> kodo_region option result" where
  "find_region rid [] = Inr None"
| "find_region rid (None # rs) = Inl (Panic ''nil pointer dereference'')"
| "find_region rid (Some r # rs) = (if KodoRegionID r = rid then Inr (Some r) else find_region rid rs)"

text \<open>The first domain of a service, with the scheme of the UC address where it has none.\<close>

definition service_url :: "string \<Rightarrow> string \<Rightarrow> string \<Rightarrow> service option \<Rightarrow> url option result" where
  "service_url op scheme scope svc =
     (case svc of
        Some sv \<Rightarrow>
          (case Domains sv of
             d # _ \<Rightarrow>
               (let u = (if \<not> Contains d ''://'' then scheme @ ''://'' @ d else d)
                in case url_Parse u of
                     Inl e \<Rightarrow> Inl (Wrapf ''invalid service url'' [op, u] e)
                   | Inr ep \<Rightarrow> Inr (Some ep))
           | [] \<Rightarrow> Inl (Errorf ''service is not configured'' [op, scope]))
      | None \<Rightarrow> Inl (Errorf ''service is not configured'' [op, scope]))"

definition region_endpoint ::
    "string \<Rightarrow> (kodo_region \<Rightarrow> service option) \<Rightarrow> string \<Rightarrow> string \<Rightarrow> kodo_region option list \<Rightarrow> url option result" where
  "region_endpoint op svc scheme rid regions =
     (case find_region rid regions of
        Inl e \<Rightarrow> Inl e
      | Inr None \<Rightarrow> Inr None
      | Inr (Some r) \<Rightarrow> service_url op scheme rid (svc r))"

definition getS3Endpoint :: "'w env \<Rightarrow> KodoClient \<Rightarrow> string \<Rightarrow> ('w, url option) action" where
  "getS3Endpoint env c rid =
     and_then (GetRegions env c)
       (\<lambda>rs. lift_result (region_endpoint ''KodoClient.getS3Endpoint'' Svc_S3 (Scheme (kcUcUrl c)) rid rs))"

definition GetS3Endpoint :: "'w env \<Rightarrow> KodoClient \<Rightarrow> string \<Rightarrow> ('w, url option) action" where
  "GetS3Endpoint env c rid =
     cached env (cache_key c (''s3Endpoint-'' @ rid)) day_ns CvUrl as_url (getS3Endpoint env c rid)"

definition getRsEndpoint :: "'w env \<Rightarrow> KodoClient \<Rightarrow> string \<Rightarrow> ('w, url option) action" where
  "getRsEndpoint env c rid =
     and_then (GetRegions env c)
       (\<lambda>rs. lift_result (region_endpoint ''KodoClient.getRsEndpoint'' Svc_Rs (Scheme (kcUcUrl c)) rid rs))"

definition GetRsEndpoint :: "'w env \<Rightarrow> KodoClient \<Rightarrow> string \<Rightarrow> ('w, url option) action" where
  "GetRsEndpoint env c rid =
     cached env (cache_key c (''rsEndpoint-'' @ rid)) day_ns CvUrl as_url (getRsEndpoint env c rid)"

definition getRsfEndpoint :: "'w env \<Rightarrow> KodoClient \<Rightarrow> string \<Rightarrow> ('w, url option) action" where
  "getRsfEndpoint env c rid =
     and_then (GetRegions env c)
       (\<lambda>rs. lift_result (region_endpoint ''KodoClient.getRsfEndpoint'' Svc_Rsf (Scheme (kcUcUrl c)) rid rs))"

definition GetRsfEndpoint :: "'w env \<Rightarrow> KodoClient \<Rightarrow> string \<Rightarrow> ('w, url option) action" where
  "GetRsfEndpoint env c rid =
     cached env (cache_key c (''rsfEndpoint-'' @ rid)) day_ns CvUrl as_url (getRsfEndpoint env c rid)"

definition central_endpoint :: "string \<Rightarrow> kodo_region option list \<Rightarrow> url option result" where
  "central_endpoint scheme regions =
     (case regions of
        [] \<Rightarrow> Inr None
      | None # _ \<Rightarrow> Inl (Panic ''nil pointer dereference'')
      | Some r # _ \<Rightarrow> service_url ''KodoClient.getApiEndpoint'' scheme ''first region'' (Svc_Api r))"

definition getCentralApiEndpoint :: "'w env \<Rightarrow> KodoClient \<Rightarrow> ('w, url option) action" where
  "getCentralApiEndpoint env c =
     and_then (GetRegions env c) (\<lambda>rs. lift_result (central_endpoint (Scheme (kcUcUrl c)) rs))"

definition GetCentralApiEndpoint :: "'w env \<Rightarrow> KodoClient \<Rightarrow> ('w, url option) action" where
  "GetCentralApiEndpoint env c =
     cached env (cache_key c ''centralApiEndpoint'') day_ns CvUrl as_url (getCentralApiEndpoint env c)"

definition s3_region_of :: "string \<Rightarrow> kodo_region option list \<Rightarrow> string option result" where
  "s3_region_of rid regions =
     (case find_region rid regions of
        Inl e \<Rightarrow> Inl e
      | Inr None \<Rightarrow> Inr None
      | Inr (Some r) \<Rightarrow> Inr (map_option S3RegionID (Svc_S3 r)))"

definition fromKodoRegionIDToS3RegionID ::
    "'w env \<Rightarrow> KodoClient \<Rightarrow> string \<Rightarrow> ('w, string option) action" where
  "fromKodoRegionIDToS3RegionID env c rid =
     and_then (GetRegions env c) (\<lambda>rs. lift_result (s3_region_of rid rs))"

definition FromKodoRegionIDToS3RegionID ::
    "'w env \<Rightarrow> KodoClient \<Rightarrow> string \<Rightarrow> ('w, string option) action" where
  "FromKodoRegionIDToS3RegionID env c rid =
     cached env (cache_key c (''s3RegionId-'' @ rid)) day_ns CvString as_string
       (fromKodoRegionIDToS3RegionID env c rid)"

section \<open>Buckets\<close>

definition dec_bucket :: "json \<Rightarrow> kodo_bucket \<Rightarrow> kodo_bucket result" where
  "dec_bucket =
     dec_struct
       [at_field ''id'' dec_string Bucket_ID Bucket_ID_update,
        at_field ''tbl'' dec_string Bucket_Name Bucket_Name_update,
        at_field ''region'' dec_string Bucket_Region Bucket_Region_update]"

definition zero_bucket :: kodo_bucket where
  "zero_bucket = \<lparr>Bucket_ID = [], Bucket_Name = [], Bucket_Region = []\<rparr>"

definition getBuckets :: "'w env \<Rightarrow> KodoClient \<Rightarrow> ('w, kodo_bucket option list) action" where
  "getBuckets env c =
     kodo_send env ''KodoClient.getBuckets'' status_ok
       (decode_as ''KodoClient.getBuckets''
         (dec_slice (\<lambda>e. dec_pointer dec_bucket zero_bucket e None)))
       (kodo_request c ''GET'' (url_String (kcUcUrl c) @ ''/v2/buckets?shared=rd'') [] NoBody)"

definition GetBuckets :: "'w env \<Rightarrow> KodoClient \<Rightarrow> ('w, kodo_bucket option list) action" where
  "GetBuckets env c =
     cached env (cache_key c ''buckets'') second_ns CvBuckets as_buckets (getBuckets env c)"

fun find_bucket :: "string \<Rightarrow> kodo_bucket option list \<Rightarrow> kodo_bucket option result" where
  "find_bucket name [] = Inr None"
| "find_bucket name (None # bs) = Inl (Panic ''nil pointer dereference'')"
| "find_bucket name (Some b # bs) = (if Bucket_Name b = name then Inr (Some b) else find_bucket name bs)"

definition findBucketByName ::
    "'w env \<Rightarrow> KodoClient \<Rightarrow> string \<Rightarrow> bool \<Rightarrow> ('w, kodo_bucket option) action" where
  "findBucketByName env c name useCache =
     and_then (if useCache then GetBuckets env c else getBuckets env c)
       (\<lambda>bs. lift_result (find_bucket name bs))"

definition FindBucketByName ::
    "'w env \<Rightarrow> KodoClient \<Rightarrow> string \<Rightarrow> bool \<Rightarrow> ('w, kodo_bucket option) action" where
  "FindBucketByName env c name useCache =
     (if useCache then
        cached env (cache_key c (''bucketName-'' @ name)) day_ns CvBucket as_bucket
          (findBucketByName env c name True)
      else findBucketByName env c name False)"

definition CreateBucket :: "'w env \<Rightarrow> KodoClient \<Rightarrow> string \<Rightarrow> string \<Rightarrow> ('w, unit) action" where
  "CreateBucket env c bucketName regionID =
     kodo_send env ''KodoClient.CreateBucket'' status_ok no_result
       (kodo_request c ''POST''
         (url_String (kcUcUrl c) @ ''/mkbucketv3/'' @ bucketName @ ''/region/'' @ regionID @
          ''/private/true/nodomain/true'') [] NoBody)"

definition DeleteBucket :: "'w env \<Rightarrow> KodoClient \<Rightarrow> string \<Rightarrow> ('w, unit) action" where
  "DeleteBucket env c bucketName =
     kodo_send env ''KodoClient.DeleteBucket'' status_ok no_result
       (kodo_request c ''POST'' (url_String (kcUcUrl c) @ ''/drop/'' @ bucketName) [] NoBody)"

section \<open>IAM users and policies\<close>

text \<open>The preamble of the IAM methods: the API endpoint of the central region.\<close>

definition with_central :: "'w env \<Rightarrow> KodoClient \<Rightarrow> string \<Rightarrow> (url \<Rightarrow> ('w, 'a) action) \<Rightarrow> ('w, 'a) action" where
  "with_central env c op k =
     and_then (GetCentralApiEndpoint env c)
       (\<lambda>ep. case ep of
          None \<Rightarrow> fail (Errorf ''cannot get api endpoint of central region'' [op])
        | Some u \<Rightarrow> k u)"

definition CreateIAMUser :: "'w env \<Rightarrow> KodoClient \<Rightarrow> string \<Rightarrow> string \<Rightarrow> ('w, unit) action" where
  "CreateIAMUser env c userName pw =
     with_central env c ''KodoClient.CreateIAMUser''
       (\<lambda>api. kodo_send env ''KodoClient.CreateIAMUser'' status_ok no_result
          (kodo_request c ''POST'' (url_String api @ ''/iam/v1/users'') ''application/json''
            (JsonBody (JObj [(''alias'', JStr userName), (''password'', JStr pw)]))))"

definition dec_keyPair :: "json \<Rightarrow> string \<times> string \<Rightarrow> (string \<times> string) result" where
  "dec_keyPair =
     dec_struct
       [at_field ''access_key'' dec_string fst (\<lambda>f (a, b). (f a, b)),
        at_field ''secret_key'' dec_string snd (\<lambda>f (a, b). (a, f b))]"

definition getFirstIAMUserKeyPair :: "'w env \<Rightarrow> KodoClient \<Rightarrow> string \<Rightarrow> ('w, (string \<times> string) option) action" where
  "getFirstIAMUserKeyPair env c userName =
     with_central env c ''KodoClient.getFirstIAMUserKeyPair''
       (\<lambda>api. kodo_send env ''KodoClient.getFirstIAMUserKeyPair'' status_ok
          (\<lambda>bs. case decode_as ''KodoClient.getFirstIAMUserKeyPair''
                 (\<lambda>j. dec_struct [at_field ''data''
                    (dec_struct [at_field ''list''
                       (\<lambda>j _. dec_slice (\<lambda>e. dec_keyPair e ([], [])) j) id (\<lambda>f. f)]) id (\<lambda>f. f)] j []) bs of
               Inl e \<Rightarrow> Inl e
             | Inr (kp # _) \<Rightarrow> Inr (Some kp)
             | Inr [] \<Rightarrow> Inr None)
          (kodo_request c ''GET'' (url_String api @ ''/iam/v1/users/'' @ userName @ ''/keypairs'') [] NoBody))"

definition createIAMUserKeyPair :: "'w env \<Rightarrow> KodoClient \<Rightarrow> string \<Rightarrow> ('w, string \<times> string) action" where
  "createIAMUserKeyPair env c userName =
     with_central env c ''KodoClient.createIAMUserKeyPair''
       (\<lambda>api. kodo_send env ''KodoClient.createIAMUserKeyPair'' status_ok
          (decode_as ''KodoClient.createIAMUserKeyPair''
            (\<lambda>j. dec_struct [at_field ''data'' dec_keyPair id (\<lambda>f. f)] j ([], [])))
          (kodo_request c ''POST'' (url_String api @ ''/iam/v1/users/'' @ userName @ ''/keypairs'') [] NoBody))"

text \<open>\<^verbatim>\<open>GetIAMUserKeyPair\<close> creates a key pair also when looking for one failed.\<close>

definition GetIAMUserKeyPair :: "'w env \<Rightarrow> KodoClient \<Rightarrow> string \<Rightarrow> ('w, string \<times> string) action" where
  "GetIAMUserKeyPair env c userName s =
     (case getFirstIAMUserKeyPair env c userName s of
        (Inr (Some kp), s1) \<Rightarrow> (Inr kp, s1)
      | (Inl (Panic m), s1) \<Rightarrow> (Inl (Panic m), s1)
      | (_, s1) \<Rightarrow> createIAMUserKeyPair env c userName s1)"

definition DeleteIAMUser :: "'w env \<Rightarrow> KodoClient \<Rightarrow> string \<Rightarrow> ('w, unit) action" where
  "DeleteIAMUser env c userName =
     with_central env c ''KodoClient.DeleteIAMUser''
       (\<lambda>api. kodo_send env ''KodoClient.DeleteIAMUser'' status_ok no_result
          (kodo_request c ''DELETE'' (url_String api @ ''/iam/v1/users/'' @ userName) [] NoBody))"

definition iam_actions :: "string list" where
  "iam_actions =
     [''kodo/get'', ''kodo/upload'', ''kodo/mkfile'', ''kodo/stat'', ''kodo/chgm'', ''kodo/delete'',
      ''kodo/list'', ''kodo/listParts'', ''kodo/abortMultipartUpload'']"

definition policy_body :: "string \<Rightarrow> string \<Rightarrow> json" where
  "policy_body name bucketName =
     JObj [(''alias'', JStr name), (''edit_type'', JNum 1),
       (''statement'', JArr [JObj
          [(''action'', JArr (map JStr iam_actions)),
           (''resource'', JArr [JStr (''qrn:kodo:::bucket/'' @ bucketName)]),
           (''effect'', JStr ''Allow'')]])]"

definition CreateIAMPolicy :: "'w env \<Rightarrow> KodoClient \<Rightarrow> string \<Rightarrow> string \<Rightarrow> ('w, unit) action" where
  "CreateIAMPolicy env c name bucketName =
     with_central env c ''KodoClient.CreateIAMPolicy''
       (\<lambda>api. kodo_send env ''KodoClient.CreateIAMPolicy'' status_ok no_result
          (kodo_request c ''POST'' (url_String api @ ''/iam/v1/policies'') ''application/json''
            (JsonBody (policy_body name bucketName))))"

definition DeleteIAMPolicy :: "'w env \<Rightarrow> KodoClient \<Rightarrow> string \<Rightarrow> ('w, unit) action" where
  "DeleteIAMPolicy env c name =
     with_central env c ''KodoClient.DeleteIAMPolicy''
       (\<lambda>api. kodo_send env ''KodoClient.DeleteIAMPolicy'' status_ok no_result
          (kodo_request c ''DELETE'' (url_String api @ ''/iam/v1/policies/'' @ name) [] NoBody))"

definition GrantIAMPolicyToUser :: "'w env \<Rightarrow> KodoClient \<Rightarrow> string \<Rightarrow> string list \<Rightarrow> ('w, unit) action" where
  "GrantIAMPolicyToUser env c userName policyNames =
     with_central env c ''KodoClient.GrantIAMPolicyToUser''
       (\<lambda>api. kodo_send env ''KodoClient.GrantIAMPolicyToUser'' status_ok no_result
          (kodo_request c ''PATCH'' (url_String api @ ''/iam/v1/users/'' @ userName @ ''/policies'')
            ''application/json'' (JsonBody (JObj [(''policy_aliases'', JArr (map JStr policyNames))]))))"

definition RevokeIAMPolicyFromUser :: "'w env \<Rightarrow> KodoClient \<Rightarrow> string \<Rightarrow> string list \<Rightarrow> ('w, unit) action" where
  "RevokeIAMPolicyFromUser env c userName policyNames =
     with_central env c ''KodoClient.RevokeIAMPolicyFromUser''
       (\<lambda>api. kodo_send env ''KodoClient.RevokeIAMPolicyFromUser'' status_ok no_result
          (kodo_request c ''DELETE'' (url_String api @ ''/iam/v1/users/'' @ userName @ ''/policies'')
            ''application/json'' (JsonBody (JObj [(''policy_aliases'', JArr (map JStr policyNames))]))))"

end
