(* ===== verification/Scripted_World.thy ===== *)
theory Scripted_World
  imports Http_World "HOL-Library.Code_Target_Numeral"
begin

text \<open>
  A concrete environment for the examples: the services answer from a script, one response per
  request and a network error when the script is over; the clock ticks once per reading; and
  \<^verbatim>\<open>singleflight\<close> runs the function it is given.
\<close>

definition script_net ::
    "http_request \<Rightarrow> http_response list \<Rightarrow> http_response result \<times> http_response list" where
  "script_net req w = (case w of [] \<Rightarrow> (Inl (StdErr ''dial''), []) | r # rs \<Rightarrow> (Inr r, rs))"

definition script_env :: "http_response list env" where
  "script_env =
     \<lparr>net = script_net, time_now = int, sf_Do = (\<lambda>key fn. fn), VERSION = ''v1'', COMMITID = ''c1''\<rparr>"

definition script_state :: "http_response list \<Rightarrow> http_response list pstate" where
  "script_state w = \<lparr>remote = w, cacheMap = (\<lambda>_. None), clock_reads = 0, sent = []\<rparr>"

definition answer :: "int \<Rightarrow> json list \<Rightarrow> http_response" where
  "answer code docs = \<lparr>StatusCode = code, RespBody = Inr (Body docs True)\<rparr>"

lemma script_env_sequential [simp]: "sf_sequential script_env"
  by (simp add: sf_sequential_def script_env_def)

end
