(* ===== verification/Kodo_Client_Facts.thy ===== *)
theory Kodo_Client_Facts
  imports Kodo_Client Scripted_World
begin

text \<open>
  Properties of the Kodo client: what each operation sends, and what the cache does.
  The requests of an operation are described with \<open>sends\<close>; all statements about cached
  operations assume that \<^verbatim>\<open>singleflight\<close> runs the function it is given (\<open>sf_sequential\<close>).
\<close>

section \<open>Requests of the operations\<close>

text \<open>A request carries the client's credentials and user agent.\<close>

definition by_client :: "KodoClient \<Rightarrow> http_request \<Rightarrow> bool" where
  "by_client c r \<longleftrightarrow> SignKeys r = (kcAccessKey c, kcSecretKey c) \<and> UserAgent r = kcUserAgent c"

definition lookup_by :: "KodoClient \<Rightarrow> http_request \<Rightarrow> bool" where
  "lookup_by c r \<longleftrightarrow> by_client c r \<and> Method r = ''GET''"

lemma by_client_request [simp]: "by_client c (kodo_request c m u ct b)"
  by (simp add: by_client_def kodo_request_def)

lemma request_Method [simp]: "Method (kodo_request c m u ct b) = m"
  by (simp add: kodo_request_def)

lemma request_Url [simp]: "RequestUrl (kodo_request c m u ct b) = u"
  by (simp add: kodo_request_def)

lemma sends_kodo_send: "P req \<Longrightarrow> sends P (kodo_send env op acc d req)"
  unfolding kodo_send_def
  by (intro sends_and_then sends_wrap sends_lift sends_http_Do)

lemma Now_state [simp]: "snd (Now env s) = s\<lparr>clock_reads := Suc (clock_reads s)\<rparr>"
  "fst (Now env s) = time_now env (clock_reads s)"
  by (simp_all add: Now_def)

lemma cache_probe_state:
  "\<exists>k. snd (cache_probe env key s) = s\<lparr>clock_reads := k\<rparr>"
proof (cases "cacheMap s key")
  case None
  then show ?thesis by (intro exI [of _ "clock_reads s"]) (simp add: cache_probe_def)
next
  case (Some vd)
  then show ?thesis
    by (cases vd) (auto simp: cache_probe_def Now_def intro: exI [of _ "Suc (clock_reads s)"])
qed

lemma cache_probe_sent [simp]: "sent (snd (cache_probe env key s)) = sent s"
  using cache_probe_state [of env key s] by auto

lemma cache_fill_sends:
  assumes "sends P fn"
  shows "sends P (cache_fill env key ttl fn)"
  unfolding sends_def
proof
  fix s
  obtain h s1 where p: "cache_probe env key s = (h, s1)" by fastforce
  then have s1: "sent s1 = sent s" using cache_probe_sent [of env key s] by simp
  obtain r s2 where f: "fn s1 = (r, s2)" by fastforce
  with assms s1 obtain rs where rs: "sent s2 = sent s @ rs" "list_all P rs"
    unfolding sends_def by (metis snd_conv)
  show "\<exists>rs. sent (snd (cache_fill env key ttl fn s)) = sent s @ rs \<and> list_all P rs"
  proof (cases h)
    case None
    with p f rs show ?thesis
      by (intro exI [of _ rs]) (simp add: cache_fill_def Now_def split: sum.split)
  next
    case (Some v)
    with p s1 show ?thesis by (intro exI [of _ "[]"]) (simp add: cache_fill_def)
  qed
qed

lemma getCacheValueByKey_sends:
  assumes "sf_sequential env" "sends P fn"
  shows "sends P (getCacheValueByKey env key ttl fn)"
  unfolding sends_def
proof
  fix s
  obtain h s1 where p: "cache_probe env key s = (h, s1)" by fastforce
  then have s1: "sent s1 = sent s" using cache_probe_sent [of env key s] by simp
  moreover obtain rs where "sent (snd (cache_fill env key ttl fn s1)) = sent s1 @ rs" "list_all P rs"
    using cache_fill_sends [OF assms(2), of env key ttl] unfolding sends_def by blast
  ultimately show "\<exists>rs. sent (snd (getCacheValueByKey env key ttl fn s)) = sent s @ rs \<and> list_all P rs"
    using p assms(1) by (cases h) (auto simp: getCacheValueByKey_def sf_sequential_def)
qed

lemma cached_sends:
  "sf_sequential env \<Longrightarrow> sends P fn \<Longrightarrow> sends P (cached env key ttl mk prj fn)"
  unfolding cached_def
  by (intro sends_and_then getCacheValueByKey_sends sends_lift sends_succeed)

text \<open>The lookups only read.\<close>

lemma getRegions_sends: "sends (lookup_by c) (getRegions env c)"
  unfolding getRegions_def by (rule sends_kodo_send) (simp add: lookup_by_def)

lemma getBuckets_sends: "sends (lookup_by c) (getBuckets env c)"
  unfolding getBuckets_def by (rule sends_kodo_send) (simp add: lookup_by_def)

lemma GetRegions_sends: "sf_sequential env \<Longrightarrow> sends (lookup_by c) (GetRegions env c)"
  unfolding GetRegions_def by (intro cached_sends getRegions_sends)

lemma GetBuckets_sends: "sf_sequential env \<Longrightarrow> sends (lookup_by c) (GetBuckets env c)"
  unfolding GetBuckets_def by (intro cached_sends getBuckets_sends)

lemma GetS3Endpoint_sends: "sf_sequential env \<Longrightarrow> sends (lookup_by c) (GetS3Endpoint env c rid)"
  unfolding GetS3Endpoint_def getS3Endpoint_def
  by (intro cached_sends sends_and_then GetRegions_sends sends_lift)

lemma GetRsEndpoint_sends: "sf_sequential env \<Longrightarrow> sends (lookup_by c) (GetRsEndpoint env c rid)"
  unfolding GetRsEndpoint_def getRsEndpoint_def
  by (intro cached_sends sends_and_then GetRegions_sends sends_lift)

lemma GetRsfEndpoint_sends: "sf_sequential env \<Longrightarrow> sends (lookup_by c) (GetRsfEndpoint env c rid)"
  unfolding GetRsfEndpoint_def getRsfEndpoint_def
  by (intro cached_sends sends_and_then GetRegions_sends sends_lift)

lemma GetCentralApiEndpoint_sends:
  "sf_sequential env \<Longrightarrow> sends (lookup_by c) (GetCentralApiEndpoint env c)"
  unfolding GetCentralApiEndpoint_def getCentralApiEndpoint_def
  by (intro cached_sends sends_and_then GetRegions_sends sends_lift)

lemma FromKodoRegionIDToS3RegionID_sends:
  "sf_sequential env \<Longrightarrow> sends (lookup_by c) (FromKodoRegionIDToS3RegionID env c rid)"
  unfolding FromKodoRegionIDToS3RegionID_def fromKodoRegionIDToS3RegionID_def
  by (intro cached_sends sends_and_then GetRegions_sends sends_lift)

lemma findBucketByName_sends:
  "sf_sequential env \<Longrightarrow> sends (lookup_by c) (findBucketByName env c name useCache)"
  unfolding findBucketByName_def
  by (intro sends_and_then sends_lift) (simp add: GetBuckets_sends getBuckets_sends)

lemma FindBucketByName_sends:
  "sf_sequential env \<Longrightarrow> sends (lookup_by c) (FindBucketByName env c name useCache)"
  unfolding FindBucketByName_def
  by (simp add: cached_sends findBucketByName_sends)

lemma with_central_sends:
  assumes "sf_sequential env" "\<And>r. lookup_by c r \<Longrightarrow> P r" "\<And>u. sends P (k u)"
  shows "sends P (with_central env c op k)"
  unfolding with_central_def
  by (rule sends_and_then, rule sends_mono [OF GetCentralApiEndpoint_sends [OF assms(1)] assms(2)])
     (auto split: option.split intro: assms(3))

text \<open>Operations on IAM users and policies go to the IAM service; nothing they send names a bucket operation.\<close>

definition iam_request :: "KodoClient \<Rightarrow> http_request \<Rightarrow> bool" where
  "iam_request c r \<longleftrightarrow>
     by_client c r \<and> (\<exists>u rest. RequestUrl r = url_String u @ ''/iam/v1/'' @ rest)"

definition lookup_or_iam :: "KodoClient \<Rightarrow> http_request \<Rightarrow> bool" where
  "lookup_or_iam c r \<longleftrightarrow> lookup_by c r \<or> iam_request c r"

lemma lookup_or_iamI [intro]: "lookup_by c r \<Longrightarrow> lookup_or_iam c r"
  by (simp add: lookup_or_iam_def)

lemma lookup_or_iam_request:
  "u = url_String api @ ''/iam/v1/'' @ rest \<Longrightarrow> lookup_or_iam c (kodo_request c m u ct b)"
  unfolding lookup_or_iam_def iam_request_def by auto

lemma iam_sends:
  assumes "sf_sequential env" "\<And>api. \<exists>rest. u api = url_String api @ ''/iam/v1/'' @ rest"
  shows "sends (lookup_or_iam c)
    (with_central env c op (\<lambda>api. kodo_send env op' acc d (kodo_request c m (u api) ct b)))"
  using assms(1)
proof (rule with_central_sends)
  show "sends (lookup_or_iam c) (kodo_send env op' acc d (kodo_request c m (u api) ct b))" for api
    using assms(2) [of api] by (metis sends_kodo_send lookup_or_iam_request)
qed auto

lemma CreateIAMUser_sends: "sf_sequential env \<Longrightarrow> sends (lookup_or_iam c) (CreateIAMUser env c u pw)"
  unfolding CreateIAMUser_def by (rule iam_sends) auto

lemma getFirstIAMUserKeyPair_sends:
  "sf_sequential env \<Longrightarrow> sends (lookup_or_iam c) (getFirstIAMUserKeyPair env c u)"
  unfolding getFirstIAMUserKeyPair_def by (rule iam_sends) auto

lemma createIAMUserKeyPair_sends:
  "sf_sequential env \<Longrightarrow> sends (lookup_or_iam c) (createIAMUserKeyPair env c u)"
  unfolding createIAMUserKeyPair_def by (rule iam_sends) auto

lemma sends_catch:
  assumes "sends P a" "sends P b"
  shows "sends P (\<lambda>s. case a s of (Inr (Some x), s1) \<Rightarrow> (Inr x, s1)
      | (Inl (Panic m), s1) \<Rightarrow> (Inl (Panic m), s1) | (_, s1) \<Rightarrow> b s1)"
  unfolding sends_def
proof
  fix s
  obtain r s1 where a: "a s = (r, s1)" by fastforce
  with assms(1) obtain rs where rs: "sent s1 = sent s @ rs" "list_all P rs"
    unfolding sends_def by (metis snd_conv)
  obtain rs' where rs': "sent (snd (b s1)) = sent s1 @ rs'" "list_all P rs'"
    using assms(2) unfolding sends_def by blast
  have "\<exists>q. sent (snd (case (r, s1) of (Inr (Some x), s1) \<Rightarrow> (Inr x, s1)
      | (Inl (Panic m), s1) \<Rightarrow> (Inl (Panic m), s1) | (_, s1) \<Rightarrow> b s1)) = sent s @ q
      \<and> list_all P q"
    using rs rs' by (auto split: sum.split option.split gerror.split)
  with a show "\<exists>q. sent (snd (case a s of (Inr (Some x), s1) \<Rightarrow> (Inr x, s1)
      | (Inl (Panic m), s1) \<Rightarrow> (Inl (Panic m), s1) | (_, s1) \<Rightarrow> b s1)) = sent s @ q
      \<and> list_all P q" by simp
qed

lemma GetIAMUserKeyPair_sends:
  "sf_sequential env \<Longrightarrow> sends (lookup_or_iam c) (GetIAMUserKeyPair env c u)"
  using sends_catch [OF getFirstIAMUserKeyPair_sends createIAMUserKeyPair_sends, of env env c u u]
  unfolding GetIAMUserKeyPair_def [abs_def] by simp

lemma DeleteIAMUser_sends: "sf_sequential env \<Longrightarrow> sends (lookup_or_iam c) (DeleteIAMUser env c u)"
  unfolding DeleteIAMUser_def by (rule iam_sends) auto

lemma CreateIAMPolicy_sends:
  "sf_sequential env \<Longrightarrow> sends (lookup_or_iam c) (CreateIAMPolicy env c n b)"
  unfolding CreateIAMPolicy_def by (rule iam_sends) auto

lemma DeleteIAMPolicy_sends: "sf_sequential env \<Longrightarrow> sends (lookup_or_iam c) (DeleteIAMPolicy env c n)"
  unfolding DeleteIAMPolicy_def by (rule iam_sends) auto

lemma GrantIAMPolicyToUser_sends:
  "sf_sequential env \<Longrightarrow> sends (lookup_or_iam c) (GrantIAMPolicyToUser env c u ps)"
  unfolding GrantIAMPolicyToUser_def by (rule iam_sends) auto

lemma RevokeIAMPolicyFromUser_sends:
  "sf_sequential env \<Longrightarrow> sends (lookup_or_iam c) (RevokeIAMPolicyFromUser env c u ps)"
  unfolding RevokeIAMPolicyFromUser_def by (rule iam_sends) auto

section \<open>The cache\<close>

lemma cache_probe_hit:
  assumes "cacheMap s key = Some (v, d)" "time_now env (clock_reads s) < d"
  shows "cache_probe env key s = (Some v, s\<lparr>clock_reads := Suc (clock_reads s)\<rparr>)"
  using assms by (simp add: cache_probe_def Now_def)

lemma cached_hit:
  assumes "cacheMap s key = Some (v, d)" "time_now env (clock_reads s) < d"
  shows "cached env key ttl mk prj fn s = (prj v, s\<lparr>clock_reads := Suc (clock_reads s)\<rparr>)"
  using assms
  by (simp add: cached_def and_then_def getCacheValueByKey_def cache_probe_hit lift_result_def)

text \<open>With no entry, the function runs; its value is stored, its error is not.\<close>

lemma cached_miss:
  assumes "sf_sequential env" "cacheMap s key = None"
  shows "cached env key ttl mk prj fn s =
    (case fn s of
       (Inl e, s1) \<Rightarrow> (Inl e, s1)
     | (Inr x, s1) \<Rightarrow> (prj (mk x), s1\<lparr>clock_reads := Suc (clock_reads s1),
           cacheMap := (cacheMap s1)(key \<mapsto> (mk x, time_now env (clock_reads s1) + ttl))\<rparr>))"
  using assms
  by (auto simp: cached_def and_then_def getCacheValueByKey_def cache_fill_def cache_probe_def
      sf_sequential_def lift_result_def succeed_def Now_def split: sum.splits prod.splits)

lemma cached_miss_then_hit:
  assumes "sf_sequential env" "cacheMap s key = None" "\<And>x. prj (mk x) = Inr x"
    and "cached env key ttl mk prj fn s = (Inr x, s1)"
    and "time_now env q < time_now env (clock_reads s1 - 1) + ttl"
  shows "cached env key ttl mk prj fn' (s1\<lparr>remote := w, clock_reads := q\<rparr>) =
    (Inr x, s1\<lparr>remote := w, clock_reads := Suc q\<rparr>)"
proof -
  obtain y s0 where y: "fn s = (Inr y, s0)" "Inr x = prj (mk y)"
    "s1 = s0\<lparr>clock_reads := Suc (clock_reads s0),
       cacheMap := (cacheMap s0)(key \<mapsto> (mk y, time_now env (clock_reads s0) + ttl))\<rparr>"
    using assms(4) cached_miss [OF assms(1,2), of ttl mk prj fn] by (auto split: sum.splits prod.splits)
  with assms(3) have "y = x" by simp
  with y have "cacheMap s1 key = Some (mk x, time_now env (clock_reads s1 - 1) + ttl)" by simp
  then show ?thesis using assms(5) by (subst cached_hit) (auto simp: assms(3))
qed

text \<open>
  A bucket looked up by name through the cache is remembered with its answer, found or not
  found: for a day after the last clock reading of the first lookup the same lookup answers the
  same without sending a request, whatever the service holds by then.
\<close>

theorem FindBucketByName_remembered:
  assumes "sf_sequential env"
    and "cacheMap s (cache_key c (''bucketName-'' @ name)) = None"
    and "FindBucketByName env c name True s = (Inr b, s1)"
    and "time_now env q < time_now env (clock_reads s1 - 1) + day_ns"
  shows "FindBucketByName env c name True (s1\<lparr>remote := w, clock_reads := q\<rparr>) =
    (Inr b, s1\<lparr>remote := w, clock_reads := Suc q\<rparr>)"
  using cached_miss_then_hit [OF assms(1,2), of as_bucket CvBucket day_ns
      "findBucketByName env c name True" b s1 q] assms(3,4)
  by (simp add: FindBucketByName_def as_bucket_def)

definition demo_client :: KodoClient where
  "demo_client = NewKodoClient ''ak'' ''sk'' (endpoint_url ''http'' ''uc.example.com'' []) ''v1'' ''c1''"

definition demo_lookup :: "kodo_bucket option result \<times> http_response list pstate" where
  "demo_lookup = FindBucketByName script_env demo_client ''b'' True (script_state [answer 200 [JArr []]])"

lemma demo_lookup_result: "fst demo_lookup = Inr None"
  by code_simp

theorem FindBucketByName_remembered_witness:
  "FindBucketByName script_env demo_client ''b'' True
     ((snd demo_lookup)\<lparr>remote := [answer 200 [JArr [JObj [(''tbl'', JStr ''b'')]]]], clock_reads := 1000\<rparr>) =
   (Inr None, (snd demo_lookup)\<lparr>remote := [answer 200 [JArr [JObj [(''tbl'', JStr ''b'')]]]], clock_reads := 1001\<rparr>)"
proof -
  have run: "FindBucketByName script_env demo_client ''b'' True (script_state [answer 200 [JArr []]]) =
      (Inr None, snd demo_lookup)"
    using demo_lookup_result by (metis demo_lookup_def prod.collapse)
  have "time_now script_env 1000 < time_now script_env (clock_reads (snd demo_lookup) - 1) + day_ns"
    by (simp add: script_env_def day_ns_def)
  with FindBucketByName_remembered [OF script_env_sequential _ run, of 1000] show ?thesis
    by (simp add: script_state_def)
qed

end
