(* ===== verification/Kodo_Pv_Parameters.thy ===== *)
theory Kodo_Pv_Parameters
  imports Kodo_Storage_Class Kodo_Client_Facts
begin

text \<open>
  \<^verbatim>\<open>parseKodoPvParameter\<close> of \<^verbatim>\<open>plugin/kodo_parameters.go\<close>: the parameters of a persistent volume.
  The embedded struct is the field \<open>kodoStorageClass\<close>.  The function ranges over the volume
  context twice, so it takes the context in two iteration orders: \<open>ctx1\<close> for the storage
  class parameters, \<open>ctx2\<close> for its own.
\<close>

section \<open>The parameter record\<close>

record kodoPvParameter =
  kodoStorageClass :: scp
  bucketID :: string
  bucketName :: string
  originalAccessKey :: string
  originalSecretKey :: string
  s3Endpoint :: "url option"
  s3Region :: string

definition pv_zero :: "scp \<Rightarrow> kodoPvParameter" where
  "pv_zero q = \<lparr>kodoStorageClass = q, bucketID = [], bucketName = [], originalAccessKey = [],
     originalSecretKey = [], s3Endpoint = None, s3Region = []\<rparr>"

definition set_s3Endpoint :: "string \<Rightarrow> string \<Rightarrow> kodoPvParameter \<Rightarrow> kodoPvParameter result" where
  "set_s3Endpoint fn v p =
     (case parseUrl v of
        Inl e \<Rightarrow> Inl (Wrapf ''invalid'' [fn, field_name FIELD_S3_ENDPOINT, v] e)
      | Inr u \<Rightarrow> Inr (p\<lparr>s3Endpoint := Some u\<rparr>))"

definition pv_field :: "string \<Rightarrow> field \<Rightarrow> string \<Rightarrow> kodoPvParameter \<Rightarrow> kodoPvParameter result" where
  "pv_field fn f v p =
     (case f of
        FIELD_ORIGINAL_ACCESS_KEY \<Rightarrow> Inr (p\<lparr>originalAccessKey := TrimSpace v\<rparr>)
      | FIELD_ORIGINAL_SECRET_KEY \<Rightarrow> Inr (p\<lparr>originalSecretKey := TrimSpace v\<rparr>)
      | FIELD_BUCKET_ID \<Rightarrow> Inr (p\<lparr>bucketID := TrimSpace v\<rparr>)
      | FIELD_BUCKET_NAME \<Rightarrow> Inr (p\<lparr>bucketName := TrimSpace v\<rparr>)
      | FIELD_S3_ENDPOINT \<Rightarrow> set_s3Endpoint fn v p
      | FIELD_S3_REGION \<Rightarrow> Inr (p\<lparr>s3Region := TrimSpace v\<rparr>)
      | _ \<Rightarrow> Inr p)"

definition pv_loop :: "string \<Rightarrow> kodoPvParameter \<Rightarrow> gomap \<Rightarrow> kodoPvParameter result" where
  "pv_loop fn p ctx = range_switch (pv_field fn) p ctx"

section \<open>Secrets and lookups\<close>

definition pv_secrets :: "string \<Rightarrow> gomap \<Rightarrow> kodoPvParameter \<Rightarrow> kodoPvParameter result" where
  "pv_secrets fn secrets p =
     (case (case s3Endpoint p of
              Some _ \<Rightarrow> Inr p
            | None \<Rightarrow> (case secret secrets FIELD_S3_ENDPOINT of
                  Some v \<Rightarrow> set_s3Endpoint fn v p
                | None \<Rightarrow> Inr p)) of
        Inl e \<Rightarrow> Inl e
      | Inr q \<Rightarrow>
          Inr (q\<lparr>s3Region := defaulted secrets FIELD_S3_REGION [] (s3Region q),
                 bucketID := defaulted secrets FIELD_BUCKET_ID [] (bucketID q),
                 bucketName := defaulted secrets FIELD_BUCKET_NAME [] (bucketName q)\<rparr>))"

text \<open>
  A client for a parameter record.  \<^verbatim>\<open>ucEndpoint\<close> is a pointer, nil only if parsing never set
  it, and using a nil address is a run-time panic.  Lemma \<open>pv_parse_ucEndpoint\<close> shows that the
  address is set whenever a client is made.
\<close>

definition pv_client :: "'w env \<Rightarrow> string \<Rightarrow> string \<Rightarrow> url option \<Rightarrow> KodoClient result" where
  "pv_client env ak sk uc =
     (case uc of
        None \<Rightarrow> Inl (Panic ''nil pointer dereference'')
      | Some u \<Rightarrow> Inr (NewKodoClient ak sk u (VERSION env) (COMMITID env)))"

definition lookup_bucket ::
    "'w env \<Rightarrow> string \<Rightarrow> KodoClient \<Rightarrow> kodoPvParameter \<Rightarrow> ('w, kodoPvParameter) action" where
  "lookup_bucket env fn c p =
     (if bucketID p \<noteq> [] then succeed p
      else if bucketName p \<noteq> [] then
        and_then (wrap_error (Wrapf ''failed to find bucket by'' [fn, bucketName p])
            (FindBucketByName env c (bucketName p) True))
          (\<lambda>b. case b of
             Some bk \<Rightarrow> succeed (p\<lparr>bucketID := Bucket_ID bk,
               kodoStorageClass := (kodoStorageClass p)\<lparr>region := Bucket_Region bk\<rparr>\<rparr>)
           | None \<Rightarrow> fail (Errorf ''cannot find bucket by'' [fn, bucketName p]))
      else fail (Errorf ''both are empty''
             [fn, field_name FIELD_BUCKET_ID, field_name FIELD_BUCKET_NAME]))"

definition lookup_s3Endpoint ::
    "'w env \<Rightarrow> string \<Rightarrow> KodoClient \<Rightarrow> kodoPvParameter \<Rightarrow> ('w, kodoPvParameter) action" where
  "lookup_s3Endpoint env fn c p =
     (case s3Endpoint p of
        Some _ \<Rightarrow> succeed p
      | None \<Rightarrow>
          and_then (wrap_error (Wrapf ''failed to get s3 endpoint by kodo region'' [fn, region (kodoStorageClass p)])
              (GetS3Endpoint env c (region (kodoStorageClass p))))
            (\<lambda>ep. case ep of
               Some u \<Rightarrow> succeed (p\<lparr>s3Endpoint := Some u\<rparr>)
             | None \<Rightarrow> fail (Errorf ''cannot get s3 endpoint by kodo region'' [fn, region (kodoStorageClass p)])))"

definition lookup_s3Region ::
    "'w env \<Rightarrow> string \<Rightarrow> KodoClient \<Rightarrow> kodoPvParameter \<Rightarrow> ('w, kodoPvParameter) action" where
  "lookup_s3Region env fn c p =
     (if s3Region p \<noteq> [] then succeed p
      else
        and_then (wrap_error (Wrapf ''failed to get s3 region by kodo region'' [fn, region (kodoStorageClass p)])
            (FromKodoRegionIDToS3RegionID env c (region (kodoStorageClass p))))
          (\<lambda>r. case r of
             Some x \<Rightarrow> succeed (p\<lparr>s3Region := x\<rparr>)
           | None \<Rightarrow> fail (Errorf ''cannot get s3 region by kodo region'' [fn, region (kodoStorageClass p)])))"

definition pv_parse :: "string \<Rightarrow> gomap \<Rightarrow> gomap \<Rightarrow> gomap \<Rightarrow> kodoPvParameter result" where
  "pv_parse fn ctx1 ctx2 secrets =
     (case parseKodoStorageClassParameter fn ctx1 secrets of Inl e \<Rightarrow> Inl e | Inr q \<Rightarrow>
      case pv_loop fn (pv_zero q) ctx2 of Inl e \<Rightarrow> Inl e | Inr p \<Rightarrow>
      pv_secrets fn secrets p)"

definition parseKodoPvParameter ::
    "'w env \<Rightarrow> string \<Rightarrow> gomap \<Rightarrow> gomap \<Rightarrow> gomap \<Rightarrow> ('w, kodoPvParameter) action" where
  "parseKodoPvParameter env fn ctx1 ctx2 secrets =
     and_then (lift_result (pv_parse fn ctx1 ctx2 secrets)) (\<lambda>p.
     and_then (lift_result (pv_client env (accessKey (kodoStorageClass p))
         (secretKey (kodoStorageClass p)) (ucEndpoint (kodoStorageClass p)))) (\<lambda>c.
     and_then (lookup_bucket env fn c p) (\<lambda>p1.
     and_then (lookup_s3Endpoint env fn c p1) (\<lambda>p2.
     lookup_s3Region env fn c p2))))"

section \<open>The declarative reading of the second loop\<close>

definition pv_spec :: "scp \<Rightarrow> (field \<rightharpoonup> string) \<Rightarrow> kodoPvParameter" where
  "pv_spec q m =
     \<lparr>kodoStorageClass = q, bucketID = val_string (m FIELD_BUCKET_ID),
      bucketName = val_string (m FIELD_BUCKET_NAME),
      originalAccessKey = val_string (m FIELD_ORIGINAL_ACCESS_KEY),
      originalSecretKey = val_string (m FIELD_ORIGINAL_SECRET_KEY),
      s3Endpoint = Option.bind (m FIELD_S3_ENDPOINT) (\<lambda>s. ok_value (parseUrl s)),
      s3Region = val_string (m FIELD_S3_REGION)\<rparr>"

definition pv_ok :: "field \<Rightarrow> string \<Rightarrow> bool" where
  "pv_ok f v \<longleftrightarrow> f = FIELD_S3_ENDPOINT \<longrightarrow> is_ok (parseUrl v)"

lemma pv_field_ok: "is_ok (pv_field fn f v p) \<longleftrightarrow> pv_ok f v"
  by (cases f; simp add: pv_field_def pv_ok_def set_s3Endpoint_def split: sum.split)

lemma pv_field_spec: "pv_ok f v \<Longrightarrow> pv_field fn f v (pv_spec q m) = Inr (pv_spec q (m(f \<mapsto> v)))"
  by (cases f; simp add: pv_field_def pv_spec_def pv_ok_def set_s3Endpoint_def val_defs is_ok_def
      split: sum.splits)

lemma pv_zero_spec: "pv_zero q = pv_spec q Map.empty"
  by (simp add: pv_zero_def pv_spec_def val_defs)

interpretation pv: param_switch "pv_field fn" pv_ok "pv_spec q" for fn q
  by unfold_locales (simp_all add: pv_field_ok pv_field_spec)

lemma pv_loop_iff:
  "pv_loop fn (pv_zero q) ctx = Inr p \<longleftrightarrow> entries_ok pv_ok ctx \<and> p = pv_spec q (fields_of ctx)"
  by (simp add: pv_loop_def pv_zero_spec pv.loop_iff)

lemma pv_parse_iff:
  "pv_parse fn ctx1 ctx2 secrets = Inr p \<longleftrightarrow>
     (\<exists>q. parseKodoStorageClassParameter fn ctx1 secrets = Inr q \<and> entries_ok pv_ok ctx2 \<and>
        pv_secrets fn secrets (pv_spec q (fields_of ctx2)) = Inr p)"
proof (cases "parseKodoStorageClassParameter fn ctx1 secrets")
  case (Inl e)
  then show ?thesis by (simp add: pv_parse_def)
next
  case (Inr q)
  show ?thesis
  proof (cases "pv_loop fn (pv_zero q) ctx2")
    case (Inl e)
    with Inr pv_loop_iff [of fn q ctx2 "pv_spec q (fields_of ctx2)"]
    show ?thesis by (simp add: pv_parse_def)
  next
    case (Inr r)
    with \<open>parseKodoStorageClassParameter fn ctx1 secrets = Inr q\<close> pv_loop_iff [of fn q ctx2 r]
    show ?thesis by (simp add: pv_parse_def)
  qed
qed

text \<open>Parsing the volume context does not depend on the two iteration orders.\<close>

lemma parse_sc_order:
  assumes "same_gomap ctx ctx'" "no_case_clash ctx"
  shows "parseKodoStorageClassParameter fn ctx secrets = Inr p \<longleftrightarrow>
    parseKodoStorageClassParameter fn ctx' secrets = Inr p"
  by (simp add: parse_sc_iff entries_ok_same [OF assms(1)] fields_of_same [OF assms])

lemma pv_parse_order:
  assumes "same_gomap ctx ctx1" "same_gomap ctx ctx2" "no_case_clash ctx"
  shows "pv_parse fn ctx1 ctx2 secrets = Inr p \<longleftrightarrow> pv_parse fn ctx ctx secrets = Inr p"
  by (simp add: pv_parse_iff parse_sc_order [OF assms(1,3)] entries_ok_same [OF assms(2)]
      fields_of_same [OF assms(2,3)])

lemma pv_parse_ucEndpoint:
  assumes "pv_parse fn ctx1 ctx2 secrets = Inr p"
  shows "\<exists>u. ucEndpoint (kodoStorageClass p) = Some u"
proof -
  from assms obtain q where q: "parseKodoStorageClassParameter fn ctx1 secrets = Inr q"
    "pv_secrets fn secrets (pv_spec q (fields_of ctx2)) = Inr p"
    unfolding pv_parse_iff by blast
  from q(1) obtain u where "ucEndpoint q = Some u"
    by (auto simp: parse_sc_iff sc_secrets_iff)
  moreover from q(2) have "kodoStorageClass p = q"
    by (auto simp: pv_secrets_def pv_spec_def set_s3Endpoint_def split: option.splits sum.splits)
  ultimately show ?thesis by blast
qed

end
