(* ===== verification/Plugin_Utils.thy ===== *)
theory Plugin_Utils
  imports Go_Strings
begin

text \<open>
  Helpers of \<^verbatim>\<open>plugin/utils.go\<close> that make names: random passwords and bucket names, policy
  names.  The parameter \<open>draws\<close> gives the raw draws of the time-seeded generator, of which
  \<^verbatim>\<open>Intn\<close> keeps the remainder.
\<close>

definition plugin_randomChoices :: "(nat \<Rightarrow> nat) \<Rightarrow> string \<Rightarrow> nat \<Rightarrow> string" where
  "plugin_randomChoices draws choices n =
     map (\<lambda>i. choices ! (draws i mod length choices)) [0..<n]"

definition passwordChoices :: string where
  "passwordChoices =
     ''abcdefghijklmnopqrstuvwxyzABCDEFGHIJKLMNOPQRSTUVWXYZ0123456789~'' @ [CHR 0x60] @
     ''!@#$%^&*()-=_+[];'' @ [CHR 0x27] @ ''<,>.?/'' @ [CHR 0x5C, CHR 0x22]"

definition randomPassword :: "(nat \<Rightarrow> nat) \<Rightarrow> nat \<Rightarrow> string" where
  "randomPassword draws n = plugin_randomChoices draws passwordChoices n"

definition bucketNameChoices :: string where
  "bucketNameChoices = ''abcdefghijklmnopqrstuvwxyz0123456789''"

definition randomBucketName :: "(nat \<Rightarrow> nat) \<Rightarrow> nat \<Rightarrow> string" where
  "randomBucketName draws n = plugin_randomChoices draws bucketNameChoices n"

definition normalizePolicyName :: "string \<Rightarrow> string" where
  "normalizePolicyName s = RemoveAll (CHR ''-'') s"

lemma plugin_randomChoices_set:
  "choices \<noteq> [] \<Longrightarrow> set (plugin_randomChoices draws choices n) \<subseteq> set choices"
  by (auto simp: plugin_randomChoices_def)

lemma randomBucketName_length [simp]: "length (randomBucketName draws n) = n"
  by (simp add: randomBucketName_def plugin_randomChoices_def)

text \<open>Policy names hold no dash; names of volumes that differ in dashes only share one.\<close>

lemma normalizePolicyName_no_dash [simp]: "CHR ''-'' \<notin> set (normalizePolicyName s)"
  by (simp add: normalizePolicyName_def RemoveAll_def)

lemma normalizePolicyName_append [simp]:
  "normalizePolicyName (s @ t) = normalizePolicyName s @ normalizePolicyName t"
  by (simp add: normalizePolicyName_def RemoveAll_def)

lemma normalizePolicyName_dash: "normalizePolicyName (s @ ''-'' @ t) = normalizePolicyName (s @ t)"
  by (simp add: normalizePolicyName_def RemoveAll_def)

end
