(* ===== verification/Kodo_Create_Volume.thy ===== *)
theory Kodo_Create_Volume
  imports Kodo_Pv_Parameters Plugin_Utils
begin

text \<open>
  \<^verbatim>\<open>CreateVolume\<close> of \<^verbatim>\<open>plugin/kodo_controller_server.go\<close>.  The controller keeps the volumes it
  created in a map by name; a call holds the lock of the map throughout, so calls run one after
  the other and each is one function from (volumes, process state) to a response and the new
  pair.  The two draw sequences feed the random bucket name and the random password.

  The volume context is written as a table from keys to optional values: a key whose value is
  \<open>None\<close> is not stored.
\<close>

section \<open>Volumes and requests\<close>

record csi_volume =
  CapacityBytes :: int
  VolumeID :: string
  VolumeContext :: gomap

type_synonym volumes = "string \<rightharpoonup> csi_volume"

record create_request =
  ReqName :: string
  Parameters :: gomap
  Secrets :: gomap
  RequiredBytes :: int

type_synonym ctx_table = "(field \<times> string option) list"

definition entries_of :: "ctx_table \<Rightarrow> (field \<times> string) list" where
  "entries_of t = concat (map (\<lambda>(f, v). case v of None \<Rightarrow> [] | Some s \<Rightarrow> [(f, s)]) t)"

definition context_of :: "ctx_table \<Rightarrow> gomap" where
  "context_of t = map (\<lambda>(f, v). (field_name f, v)) (entries_of t)"

definition flag_entry :: "bool \<Rightarrow> string option" where
  "flag_entry b = (if b then Some (formatBool b) else None)"

definition kodo_context ::
    "scp \<Rightarrow> kodo_bucket \<Rightarrow> url \<Rightarrow> string \<Rightarrow> string \<Rightarrow> string \<Rightarrow> ctx_table" where
  "kodo_context p bucket ep rid originalAK originalSK =
     [(FIELD_BUCKET_ID, Some (Bucket_ID bucket)),
      (FIELD_BUCKET_NAME, Some (Bucket_Name bucket)),
      (FIELD_S3_ENDPOINT, Some (url_String ep)),
      (FIELD_S3_REGION, Some rid),
      (FIELD_SUB_DIR, Some (subDir p)),
      (FIELD_ACCESS_KEY, Some (accessKey p)),
      (FIELD_SECRET_KEY, Some (secretKey p)),
      (FIELD_ORIGINAL_ACCESS_KEY, Some originalAK),
      (FIELD_ORIGINAL_SECRET_KEY, Some originalSK),
      (FIELD_UC_ENDPOINT, map_option url_String (ucEndpoint p)),
      (FIELD_REGION, Some (region p)),
      (FIELD_STORAGE_CLASS, Some (storageClass p)),
      (FIELD_VFS_CACHE_MODE, Some (vfsCacheMode p)),
      (FIELD_S3_FORCE_PATH_STYLE, map_option formatBool (s3ForcePathStyle p)),
      (FIELD_DIR_CACHE_DURATION, map_option Duration_String (dirCacheDuration p)),
      (FIELD_BUFFER_SIZE, map_option plugin_formatUint (bufferSize p)),
      (FIELD_VFS_CACHE_MAX_AGE, map_option Duration_String (vfsCacheMaxAge p)),
      (FIELD_VFS_CACHE_POLL_INTERVAL, map_option Duration_String (vfsCachePollInterval p)),
      (FIELD_VFS_WRITE_BACK, map_option Duration_String (vfsWriteBack p)),
      (FIELD_VFS_CACHE_MAX_SIZE, map_option plugin_formatUint (vfsCacheMaxSize p)),
      (FIELD_VFS_READ_AHEAD, map_option plugin_formatUint (vfsReadAhead p)),
      (FIELD_VFS_FAST_FINGER_PRINT, flag_entry (vfsFastFingerprint p)),
      (FIELD_VFS_READ_CHUNK_SIZE, map_option plugin_formatUint (vfsReadChunkSize p)),
      (FIELD_VFS_READ_CHUNK_SIZE_LIMIT, map_option plugin_formatUint (vfsReadChunkSizeLimit p)),
      (FIELD_NO_CHECKSUM, flag_entry (noCheckSum p)),
      (FIELD_NO_MOD_TIME, flag_entry (noModTime p)),
      (FIELD_NO_SEEK, flag_entry (noSeek p)),
      (FIELD_READ_ONLY, flag_entry (readOnly p)),
      (FIELD_VFS_READ_WAIT, map_option Duration_String (vfsReadWait p)),
      (FIELD_VFS_WRITE_WAIT, map_option Duration_String (vfsWriteWait p)),
      (FIELD_TRANSFERS, map_option plugin_formatUint (transfers p)),
      (FIELD_VFS_DISK_SPACE_TOTAL_SIZE, map_option plugin_formatUint (vfsDiskSpaceTotalSize p)),
      (FIELD_WRITE_BACK_CACHE, flag_entry (writeBackCache p)),
      (FIELD_UPLOAD_CUTOFF, map_option plugin_formatUint (uploadCutoff p)),
      (FIELD_UPLOAD_CHUNK_SIZE, map_option plugin_formatUint (uploadChunkSize p)),
      (FIELD_UPLOAD_CONCURRENCY, map_option plugin_formatUint (uploadConcurrency p)),
      (FIELD_DEBUG_HTTP, flag_entry (debugHttp p)),
      (FIELD_DEBUG_FUSE, flag_entry (debugFuse p))]"

section \<open>CreateVolume\<close>

text \<open>Find the bucket or create it; the region is that of a bucket that already exists.\<close>

definition ensure_bucket ::
    "'w env \<Rightarrow> KodoClient \<Rightarrow> string \<Rightarrow> scp \<Rightarrow> ('w, kodo_bucket \<times> scp) action" where
  "ensure_bucket env c bname p =
     and_then (wrap_error (Wrapf ''find bucket'' [bname]) (FindBucketByName env c bname False))
       (\<lambda>b. case b of
          Some bucket \<Rightarrow> succeed (bucket, p\<lparr>region := Bucket_Region bucket\<rparr>)
        | None \<Rightarrow>
            and_then (wrap_error (Wrapf ''create bucket'' [bname]) (CreateBucket env c bname (region p)))
              (\<lambda>_. and_then (wrap_error (Wrapf ''find bucket'' [bname]) (FindBucketByName env c bname False))
                (\<lambda>b'. case b' of
                   Some bucket \<Rightarrow> succeed (bucket, p)
                 | None \<Rightarrow> fail (Errorf ''cannot find new bucket'' [bname]))))"

definition volume_s3Endpoint :: "'w env \<Rightarrow> KodoClient \<Rightarrow> string \<Rightarrow> ('w, url) action" where
  "volume_s3Endpoint env c reg =
     and_then (wrap_error (Wrapf ''get s3 endpoint'' [reg]) (GetS3Endpoint env c reg))
       (\<lambda>ep. case ep of Some u \<Rightarrow> succeed u | None \<Rightarrow> fail (Errorf ''cannot get s3 endpoint'' [reg]))"

definition volume_s3Region :: "'w env \<Rightarrow> KodoClient \<Rightarrow> string \<Rightarrow> ('w, string) action" where
  "volume_s3Region env c reg =
     and_then (wrap_error (Wrapf ''get s3 region id'' [reg]) (FromKodoRegionIDToS3RegionID env c reg))
       (\<lambda>r. case r of Some x \<Rightarrow> succeed x | None \<Rightarrow> fail (Errorf ''cannot get s3 region id'' [reg]))"

text \<open>An IAM user with a key pair that may only use the bucket.\<close>

definition grant_bucket ::
    "'w env \<Rightarrow> KodoClient \<Rightarrow> string \<Rightarrow> string \<Rightarrow> string \<Rightarrow> ('w, string \<times> string) action" where
  "grant_bucket env c userName pw bname =
     (let policyName = normalizePolicyName userName in
      and_then (wrap_error (Wrapf ''create IAM user'' [userName]) (CreateIAMUser env c userName pw)) (\<lambda>_.
      and_then (wrap_error (Wrapf ''create key pair for IAM user'' [userName])
          (GetIAMUserKeyPair env c userName)) (\<lambda>kp.
      and_then (wrap_error (Wrapf ''create IAM policy'' [policyName])
          (CreateIAMPolicy env c policyName bname)) (\<lambda>_.
      and_then (wrap_error (Wrapf ''grant IAM policy'' [policyName, userName])
          (GrantIAMPolicyToUser env c userName [policyName])) (\<lambda>_.
      succeed kp)))))"

definition make_volume ::
    "'w env \<Rightarrow> (nat \<Rightarrow> nat) \<Rightarrow> (nat \<Rightarrow> nat) \<Rightarrow> create_request \<Rightarrow> ('w, csi_volume) action" where
  "make_volume env bdraws pdraws req =
     and_then (lift_result (parseKodoStorageClassParameter ''CreateVolume'' (Parameters req) (Secrets req))) (\<lambda>p0.
     and_then (lift_result (pv_client env (accessKey p0) (secretKey p0) (ucEndpoint p0))) (\<lambda>c.
     and_then (ensure_bucket env c (ReqName req @ ''-'' @ randomBucketName bdraws 16) p0) (\<lambda>(bucket, p).
     and_then (volume_s3Endpoint env c (region p)) (\<lambda>ep.
     and_then (volume_s3Region env c (region p)) (\<lambda>rid.
     and_then (grant_bucket env c (ReqName req) (randomPassword pdraws 128) (Bucket_Name bucket)) (\<lambda>(ak, sk).
     succeed \<lparr>CapacityBytes = RequiredBytes req, VolumeID = ReqName req,
       VolumeContext = context_of (kodo_context (p\<lparr>accessKey := ak, secretKey := sk\<rparr>) bucket ep rid
         (accessKey p0) (secretKey p0))\<rparr>))))))"

definition CreateVolume ::
    "'w env \<Rightarrow> (nat \<Rightarrow> nat) \<Rightarrow> (nat \<Rightarrow> nat) \<Rightarrow> create_request \<Rightarrow> volumes \<times> 'w pstate \<Rightarrow>
       csi_volume result \<times> volumes \<times> 'w pstate" where
  "CreateVolume env bdraws pdraws req st =
     (case st of (vols, s) \<Rightarrow>
        (case vols (ReqName req) of
           Some volume \<Rightarrow> (Inr volume, vols, s)
         | None \<Rightarrow>
             (case make_volume env bdraws pdraws req s of
                (Inl e, s') \<Rightarrow> (Inl e, vols, s')
              | (Inr volume, s') \<Rightarrow> (Inr volume, vols(ReqName req \<mapsto> volume), s'))))"

end
