(* ===== verification/Kodo_Demo.thy ===== *)
theory Kodo_Demo
  imports Kodo_Create_Volume Scripted_World
begin

text \<open>
  A concrete run of \<^verbatim>\<open>CreateVolume\<close> against scripted services, for the examples: a new volume
  whose bucket does not exist yet, one region with an S3 and an API address, and an IAM user that
  already has a key pair.
\<close>

definition demo_regions :: json where
  "demo_regions = JObj [(''regions'', JArr [JObj [(''id'', JStr ''z0''),
     (''s3'', JObj [(''region_alias'', JStr ''cn-east-1''), (''domains'', JArr [JStr ''s3.example.com''])]),
     (''api'', JObj [(''domains'', JArr [JStr ''api.example.com''])])]])]"

definition demo_bucket :: kodo_bucket where
  "demo_bucket = \<lparr>Bucket_ID = ''b1'', Bucket_Name = ''pv-aaaaaaaaaaaaaaaa'', Bucket_Region = ''z0''\<rparr>"

definition demo_buckets :: json where
  "demo_buckets =
     JArr [JObj [(''id'', JStr ''b1''), (''tbl'', JStr ''pv-aaaaaaaaaaaaaaaa''), (''region'', JStr ''z0'')]]"

definition demo_keypairs :: json where
  "demo_keypairs = JObj [(''data'', JObj [(''list'',
     JArr [JObj [(''access_key'', JStr ''uak''), (''secret_key'', JStr ''usk'')]])])]"

definition demo_script :: "http_response list" where
  "demo_script =
     [answer 200 [JArr []], answer 200 [], answer 200 [demo_buckets], answer 200 [demo_regions],
      answer 200 [], answer 200 [demo_keypairs], answer 200 [], answer 200 []]"

definition demo_parameters :: gomap where
  "demo_parameters =
     [(''accessKey'', ''ak''), (''SecretKey'', '' sk ''), (''ucEndpoint'', ''http://uc.example.com''),
      (''vfsCacheMaxAge'', ''1h30m''), (''noSeek'', ''Yes'')]"

definition demo_request :: create_request where
  "demo_request =
     \<lparr>ReqName = ''pv'', Parameters = demo_parameters, Secrets = [], RequiredBytes = 5\<rparr>"

definition demo_run :: "csi_volume result \<times> volumes \<times> http_response list pstate" where
  "demo_run =
     CreateVolume script_env (\<lambda>_. 0) (\<lambda>_. 0) demo_request (Map.empty, script_state demo_script)"

definition demo_parameter :: scp where
  "demo_parameter = scp_zero\<lparr>accessKey := ''uak'', secretKey := ''usk'', region := ''z0'',
     storageClass := ''STANDARD'', ucEndpoint := Some (endpoint_url ''http'' ''uc.example.com'' []),
     vfsCacheMaxAge := Some 5400000000000, bufferSize := Some 42, noSeek := True\<rparr>"

definition demo_s3 :: url where
  "demo_s3 = endpoint_url ''https'' ''s3.example.com'' []"

lemma demo_run_eq:
  "CreateVolume script_env (\<lambda>_. 0) (\<lambda>_. 0) demo_request (Map.empty, script_state demo_script) =
     (fst demo_run, fst (snd demo_run), snd (snd demo_run))"
  by (simp add: demo_run_def)

lemma demo_run_ok: "is_ok (fst demo_run)"
  by code_simp

end
