(* ===== verification/Kodo_Volume_Context.thy ===== *)
theory Kodo_Volume_Context
  imports Kodo_Create_Volume Kodo_Demo
begin

text \<open>
  What a created volume's context means to the parser that reads it back at publish, stage and
  delete time.  The parser of storage class parameters returns records in which every string is
  trimmed, every duration fits its 64 bits and the cache mode is unset or one of the four known names
  (\<open>scp_wf\<close>); the context printed from such a record is parsed back to it.
\<close>

section \<open>Contexts as tables\<close>

lemma entries_of_simps [simp]:
  "entries_of [] = []"
  "entries_of ((f, v) # t) = (case v of None \<Rightarrow> [] | Some s \<Rightarrow> [(f, s)]) @ entries_of t"
  by (simp_all add: entries_of_def)

lemma entries_of_keys: "fst ` set (entries_of t) \<subseteq> fst ` set t"
proof (induction t)
  case (Cons e t)
  then show ?case by (cases e; cases "snd e") auto
qed simp

lemma entries_of_distinct: "distinct (map fst t) \<Longrightarrow> distinct (map fst (entries_of t))"
proof (induction t)
  case (Cons e t)
  then have "fst e \<notin> fst ` set (entries_of t)" using entries_of_keys [of t] by auto
  with Cons show ?case by (cases e; cases "snd e") auto
qed simp

lemma map_of_entries_of:
  "distinct (map fst t) \<Longrightarrow> map_of (entries_of t) f = Option.bind (map_of t f) (\<lambda>v. v)"
proof (induction t)
  case (Cons e t)
  obtain g v where e: "e = (g, v)" by fastforce
  with Cons.prems have "map_of t g = None"
    by (auto simp: map_of_eq_None_iff)
  with Cons e show ?case by (cases v) auto
qed simp

lemma context_no_case_clash: "distinct (map fst t) \<Longrightarrow> no_case_clash (context_of t)"
  using entries_of_distinct [of t]
  by (simp add: no_case_clash_def context_of_def comp_def case_prod_beta distinct_map inj_on_def)

lemma context_fields:
  assumes "distinct (map fst t)"
  shows "fields_of (context_of t) f = Option.bind (map_of t f) (\<lambda>v. v)"
proof -
  have low: "map (\<lambda>kv. (ToLower (fst kv), snd kv)) (context_of t) =
      map (\<lambda>(g, v). (field_name g, v)) (entries_of t)"
    by (simp add: context_of_def case_prod_beta)
  have inj: "map_of (map (\<lambda>(g, v). (field_name g, v)) es) (field_name f) = map_of es f" for es :: "(field \<times> string) list"
    by (induction es) auto
  show ?thesis
    using context_no_case_clash [OF assms]
    by (simp add: fields_of_lookup low inj map_of_entries_of [OF assms])
qed

lemma kodo_context_distinct: "distinct (map fst (kodo_context p b ep rid oak osk))"
  by (simp add: kodo_context_def)

section \<open>Printing and parsing of values\<close>

locale text_codec =
  fixes enc :: "'a \<Rightarrow> string" and dec :: "string \<Rightarrow> 'a option" and good :: "'a \<Rightarrow> bool"
  assumes dec_enc: "good x \<Longrightarrow> dec (enc x) = Some x"
begin

lemma option_roundtrip: "pred_option good v \<Longrightarrow> Option.bind (map_option enc v) dec = v"
  by (cases v) (simp_all add: dec_enc)

lemma accepted: "pred_option good v \<Longrightarrow> map_option enc v = Some s \<Longrightarrow> dec s \<noteq> None"
  using dec_enc by (cases v) auto

lemma enc_inj: "good x \<Longrightarrow> good y \<Longrightarrow> enc x = enc y \<Longrightarrow> x = y"
  using dec_enc by (metis option.inject)

end

interpretation uint_codec: text_codec plugin_formatUint "\<lambda>s. ok_value (parseUint s)" "\<lambda>_. True"
  by unfold_locales (simp add: parseUint_format)

interpretation duration_codec: text_codec Duration_String "\<lambda>s. ok_value (parseDuration s)" int64_range
  by unfold_locales (simp add: parseDuration_String)

interpretation bool_codec: text_codec formatBool parseBool "\<lambda>_. True"
  by unfold_locales (simp add: parseBool_format)

interpretation url_codec: text_codec url_String "\<lambda>s. ok_value (parseUrl s)" url_stable
  by unfold_locales (simp add: url_stable_def)

lemma pred_option_True [simp]: "pred_option (\<lambda>_. True) v"
  by (cases v) simp_all

lemma flag_roundtrip [simp]: "val_bool (flag_entry b) = b"
  by (cases b) (simp_all add: val_bool_def flag_entry_def parseBool_format)

section \<open>Parsed parameters are well-formed\<close>

definition trimmed :: "string \<Rightarrow> bool" where
  "trimmed s \<longleftrightarrow> TrimSpace s = s"

definition mode_wf :: "string \<Rightarrow> bool" where
  "mode_wf m \<longleftrightarrow> m \<in> {[], VFS_CACHE_MODE_OFF, VFS_CACHE_MODE_MINIMAL, VFS_CACHE_MODE_WRITES,
     VFS_CACHE_MODE_FULL}"

definition scp_wf :: "scp \<Rightarrow> bool" where
  "scp_wf p \<longleftrightarrow>
     list_all trimmed [accessKey p, secretKey p, region p, storageClass p, subDir p] \<and>
     mode_wf (vfsCacheMode p) \<and>
     list_all (pred_option int64_range) [dirCacheDuration p, vfsCacheMaxAge p,
       vfsCachePollInterval p, vfsWriteBack p, vfsReadWait p, vfsWriteWait p]"

lemma trimmed_val [simp]: "trimmed (TrimSpace s)" "trimmed (val_string v)" "trimmed []"
  by (simp_all add: trimmed_def val_string_def TrimSpace_idem split: option.split)

lemma parseDurationLoop_bound: "parseDurationLoop d s = Inr n \<Longrightarrow> d \<le> 2 ^ 63 \<Longrightarrow> n \<le> 2 ^ 63"
proof (induction d s rule: parseDurationLoop.induct)
  case (1 d s)
  note step = 1(2) [unfolded parseDurationLoop.simps [of d s]]
  show ?case
  proof (cases "s = []")
    case True
    with step 1(3) show ?thesis by simp
  next
    case False
    with step obtain v u where v: "parseComponent s = Inr (v, u)"
      by (auto split: sum.splits)
    with step False have "(d + v) mod 2 ^ 64 \<le> 2 ^ 63" "parseDurationLoop ((d + v) mod 2 ^ 64) u = Inr n"
      by (auto simp: Let_def not_less split: if_splits)
    then show ?thesis using 1(1) [OF False v] by auto
  qed
qed

lemma ParseDuration_range: "ParseDuration s = Inr d \<Longrightarrow> int64_range d"
  unfolding ParseDuration_def Let_def
  by (auto simp: int64_range_def split: if_splits sum.splits dest!: parseDurationLoop_bound)

lemma val_duration_range [simp]: "pred_option int64_range (val_duration v)"
  by (cases v) (auto simp: val_duration_def ok_value_def parseDuration_def dest: ParseDuration_range
      split: sum.splits)

lemma mode_wf_val [simp]: "mode_wf (val_mode v)"
  by (cases v) (auto simp: val_mode_def mode_wf_def parseCacheMode_def Let_def)

lemma sc_spec_wf: "scp_wf (sc_spec m)"
  by (simp add: scp_wf_def sc_spec_def)

lemma required_trimmed: "required fn secrets f cur = Inr s \<Longrightarrow> trimmed cur \<Longrightarrow> trimmed s"
  by (auto simp: required_iff split: if_splits)

lemma defaulted_trimmed: "trimmed cur \<Longrightarrow> trimmed d \<Longrightarrow> trimmed (defaulted secrets f d cur)"
  by (simp add: defaulted_def split: option.split)

lemma trimmed_defaults [simp]: "trimmed ''z0''" "trimmed ''STANDARD''"
  unfolding trimmed_def by (rule TrimSpace_id; simp add: spaceFirst_def spaceLast_def)+

text \<open>
  C39: whatever the parameters and secrets, a record that the storage class parser returns has
  trimmed strings, a known cache mode and durations within 64 bits, and its UC endpoint is set.
\<close>

theorem parseKodoStorageClassParameter_wf:
  assumes "parseKodoStorageClassParameter fn ctx secrets = Inr p"
  shows "scp_wf p \<and> ucEndpoint p \<noteq> None"
proof -
  from assms have "sc_secrets fn secrets (sc_spec (fields_of ctx)) = Inr p"
    by (simp add: parse_sc_iff)
  moreover have "scp_wf (sc_spec (fields_of ctx))" by (rule sc_spec_wf)
  ultimately show ?thesis
    by (auto simp: sc_secrets_iff scp_wf_def defaulted_trimmed intro: required_trimmed)
qed

theorem parseKodoStorageClassParameter_wf_witness:
  "scp_wf (the (ok_value (parseKodoStorageClassParameter ''f'' demo_parameters []))) \<and>
   ucEndpoint (the (ok_value (parseKodoStorageClassParameter ''f'' demo_parameters []))) \<noteq> None"
proof (cases "parseKodoStorageClassParameter ''f'' demo_parameters []")
  case (Inl e)
  moreover have "is_ok (parseKodoStorageClassParameter ''f'' demo_parameters [])" by code_simp
  ultimately show ?thesis by simp
next
  case (Inr p)
  with parseKodoStorageClassParameter_wf [OF Inr] show ?thesis by simp
qed

section \<open>The context of a created volume\<close>

lemma entries_ok_context:
  "entries_ok ok (context_of t) \<longleftrightarrow>
     list_all (\<lambda>(f, v). pred_option (ok f) v) t"
proof (induction t)
  case (Cons e t)
  then show ?case by (cases e; cases "snd e") (auto simp: context_of_def)
qed (simp add: context_of_def)

text \<open>The cache mode as the parser reads it back: an unset mode is stored as the empty string.\<close>

definition stored_mode :: "string \<Rightarrow> string" where
  "stored_mode m = (if m = [] then VFS_CACHE_MODE_OFF else m)"

text \<open>
  A record, bucket and service answers whose context can be read back, with the secrets given
  at reading time: values trimmed, URLs that print to their own text, required values not empty,
  and no secret that fills in a value the record leaves open.
\<close>

definition storable ::
    "gomap \<Rightarrow> scp \<Rightarrow> kodo_bucket \<Rightarrow> url \<Rightarrow> string \<Rightarrow> string \<Rightarrow> string \<Rightarrow> bool" where
  "storable secrets p b ep rid oak osk \<longleftrightarrow>
     scp_wf p \<and> (case ucEndpoint p of None \<Rightarrow> False | Some u \<Rightarrow> url_stable u) \<and> url_stable ep \<and>
     list_all trimmed [Bucket_ID b, Bucket_Name b, rid, oak, osk] \<and>
     list_all (\<lambda>x. x \<noteq> []) [accessKey p, secretKey p, region p, storageClass p, Bucket_ID b,
       Bucket_Name b, rid] \<and>
     (subDir p = [] \<longrightarrow> secret secrets FIELD_SUB_DIR = None) \<and>
     (s3ForcePathStyle p = None \<longrightarrow> secret secrets FIELD_S3_FORCE_PATH_STYLE = None)"

definition read_back ::
    "scp \<Rightarrow> kodo_bucket \<Rightarrow> url \<Rightarrow> string \<Rightarrow> string \<Rightarrow> string \<Rightarrow> kodoPvParameter" where
  "read_back p b ep rid oak osk =
     \<lparr>kodoStorageClass = p\<lparr>vfsCacheMode := stored_mode (vfsCacheMode p)\<rparr>,
      bucketID = Bucket_ID b, bucketName = Bucket_Name b, originalAccessKey = oak,
      originalSecretKey = osk, s3Endpoint = Some ep, s3Region = rid\<rparr>"

lemma mode_roundtrip: "mode_wf m \<Longrightarrow> parseCacheMode m = Some (stored_mode m)"
  by (auto simp: mode_wf_def stored_mode_def cache_modes_nonempty)

lemma val_roundtrips:
  "trimmed s \<Longrightarrow> val_string (Some s) = s"
  "val_uint (map_option plugin_formatUint n) = n"
  "pred_option int64_range d \<Longrightarrow> val_duration (map_option Duration_String d) = d"
  "mode_wf m \<Longrightarrow> val_mode (Some m) = stored_mode m"
  using uint_codec.option_roundtrip duration_codec.option_roundtrip
  by (simp_all add: val_string_def val_uint_def val_duration_def val_mode_def trimmed_def
      mode_roundtrip)

lemma kodo_context_sc:
  assumes "storable secrets p b ep rid oak osk"
  shows "sc_spec (fields_of (context_of (kodo_context p b ep rid oak osk))) =
    p\<lparr>vfsCacheMode := stored_mode (vfsCacheMode p)\<rparr>"
proof -
  have "Option.bind (map_option url_String (ucEndpoint p)) (\<lambda>s. ok_value (parseUrl s)) = ucEndpoint p"
    using assms by (auto simp: storable_def url_stable_def split: option.splits)
  with assms show ?thesis
    unfolding sc_spec_def context_fields [OF kodo_context_distinct]
    by (simp add: kodo_context_def storable_def scp_wf_def val_roundtrips
        bool_codec.option_roundtrip)
qed

lemma kodo_context_pv:
  assumes "storable secrets p b ep rid oak osk"
  shows "pv_spec q (fields_of (context_of (kodo_context p b ep rid oak osk))) =
    (read_back p b ep rid oak osk)\<lparr>kodoStorageClass := q\<rparr>"
  using assms unfolding pv_spec_def context_fields [OF kodo_context_distinct]
  by (simp add: read_back_def kodo_context_def storable_def val_roundtrips url_stable_def)

lemma printed_duration_accepted:
  "pred_option int64_range d \<Longrightarrow> pred_option (\<lambda>x. is_ok (parseDuration (Duration_String x))) d"
  by (cases d) (simp_all add: parseDuration_String)

lemma flag_entry_accepted: "pred_option P (flag_entry b) \<longleftrightarrow> b \<longrightarrow> P (formatBool True)"
  by (cases b) (simp_all add: flag_entry_def)

lemma kodo_context_accepted:
  assumes "storable secrets p b ep rid oak osk"
  shows "entries_ok sc_ok (context_of (kodo_context p b ep rid oak osk))"
    "entries_ok pv_ok (context_of (kodo_context p b ep rid oak osk))"
proof -
  obtain u where uc: "ucEndpoint p = Some u" "parseUrl (url_String u) = Inr u"
    using assms by (auto simp: storable_def url_stable_def split: option.splits)
  have mode: "\<exists>y. parseCacheMode (vfsCacheMode p) = Some y"
    using assms mode_roundtrip [of "vfsCacheMode p"] by (auto simp: storable_def scp_wf_def)
  show "entries_ok sc_ok (context_of (kodo_context p b ep rid oak osk))"
    unfolding entries_ok_context
    using assms uc mode
    by (simp add: kodo_context_def sc_ok_def storable_def scp_wf_def option.pred_map comp_def
        parseUint_format parseBool_format flag_entry_accepted printed_duration_accepted)
  show "entries_ok pv_ok (context_of (kodo_context p b ep rid oak osk))"
    unfolding entries_ok_context
    using assms
    by (simp add: kodo_context_def pv_ok_def storable_def url_stable_def option.pred_map comp_def
        flag_entry_accepted)
qed

lemma kodo_context_secrets:
  assumes "storable secrets p b ep rid oak osk"
  shows "sc_secrets fn secrets (p\<lparr>vfsCacheMode := m\<rparr>) = Inr (p\<lparr>vfsCacheMode := m\<rparr>)"
proof -
  obtain u where "ucEndpoint p = Some u" using assms by (auto simp: storable_def split: option.splits)
  moreover have "defaulted secrets FIELD_SUB_DIR [] (subDir p) = subDir p"
    using assms by (auto simp: storable_def defaulted_def)
  moreover have "secret_pathStyle fn secrets q = Inr q" if "s3ForcePathStyle q = s3ForcePathStyle p" for q
    using assms that by (cases "s3ForcePathStyle p") (auto simp: storable_def secret_pathStyle_def)
  moreover have "p\<lparr>vfsCacheMode := m, accessKey := accessKey p, secretKey := secretKey p, region := region p,
      storageClass := storageClass p, subDir := subDir p\<rparr> = p\<lparr>vfsCacheMode := m\<rparr>"
    by (cases p) simp
  ultimately show ?thesis
    using assms
    by (simp add: sc_secrets_def storable_def required_def required_ucEndpoint_def defaulted_def)
qed

lemma kodo_context_pv_secrets:
  assumes "storable secrets p b ep rid oak osk"
  shows "pv_secrets fn secrets (read_back p b ep rid oak osk) = Inr (read_back p b ep rid oak osk)"
  using assms by (auto simp: pv_secrets_def read_back_def storable_def defaulted_def)

lemma kodo_context_parse:
  assumes "storable secrets p b ep rid oak osk"
    and "same_gomap (context_of (kodo_context p b ep rid oak osk)) ctx1"
    and "same_gomap (context_of (kodo_context p b ep rid oak osk)) ctx2"
  shows "pv_parse fn ctx1 ctx2 secrets = Inr (read_back p b ep rid oak osk)"
proof -
  have "(read_back p b ep rid oak osk)
      \<lparr>kodoStorageClass := p\<lparr>vfsCacheMode := stored_mode (vfsCacheMode p)\<rparr>\<rparr> = read_back p b ep rid oak osk"
    by (simp add: read_back_def)
  with kodo_context_accepted [OF assms(1)] kodo_context_secrets [OF assms(1)]
    kodo_context_pv_secrets [OF assms(1)]
  have "pv_parse fn (context_of (kodo_context p b ep rid oak osk))
      (context_of (kodo_context p b ep rid oak osk)) secrets = Inr (read_back p b ep rid oak osk)"
    by (simp add: pv_parse_iff parse_sc_iff kodo_context_pv [OF assms(1)] kodo_context_sc [OF assms(1)])
  then show ?thesis
    using pv_parse_order [OF assms(2,3) context_no_case_clash [OF kodo_context_distinct]] by simp
qed

text \<open>A context that names the bucket, the endpoint and the region needs no lookup.\<close>

lemma parse_without_lookup:
  assumes "pv_parse fn ctx1 ctx2 secrets = Inr q"
    and "bucketID q \<noteq> []" "s3Endpoint q = Some ep" "s3Region q \<noteq> []"
  shows "parseKodoPvParameter env fn ctx1 ctx2 secrets s = (Inr q, s)"
proof -
  obtain u where "ucEndpoint (kodoStorageClass q) = Some u"
    using pv_parse_ucEndpoint [OF assms(1)] by blast
  with assms show ?thesis
    by (simp add: parseKodoPvParameter_def pv_client_def and_then_def lift_result_def
        lookup_bucket_def lookup_s3Endpoint_def lookup_s3Region_def succeed_def)
qed

lemma kodo_context_parse_all:
  assumes "storable secrets p b ep rid oak osk"
    and "same_gomap (context_of (kodo_context p b ep rid oak osk)) ctx1"
    and "same_gomap (context_of (kodo_context p b ep rid oak osk)) ctx2"
  shows "parseKodoPvParameter env fn ctx1 ctx2 secrets s = (Inr (read_back p b ep rid oak osk), s)"
  using assms(1)
  by (intro parse_without_lookup [OF kodo_context_parse [OF assms]])
     (simp_all add: read_back_def storable_def)

text \<open>
  C2: the volume context that CreateVolume stores is read back, in any iteration order, to the
  parameters it was printed from (an unset cache mode becomes \<open>off\<close>), with the bucket, endpoint,
  region and original keys of the creation, and reading it sends no request and changes no state.
\<close>

theorem kodo_context_roundtrip:
  assumes "storable secrets p b ep rid oak osk"
    and "same_gomap (context_of (kodo_context p b ep rid oak osk)) ctx1"
    and "same_gomap (context_of (kodo_context p b ep rid oak osk)) ctx2"
  shows "parseKodoPvParameter env fn ctx1 ctx2 secrets s = (Inr (read_back p b ep rid oak osk), s)"
  using assms by (rule kodo_context_parse_all)

lemma demo_trimmed:
  "trimmed ''uak''" "trimmed ''usk''" "trimmed ''b1''" "trimmed ''pv-aaaaaaaaaaaaaaaa''"
  "trimmed ''cn-east-1''" "trimmed ''ak''" "trimmed ''sk''"
  unfolding trimmed_def by (rule TrimSpace_id; simp add: spaceFirst_def spaceLast_def)+

lemma demo_endpoints: "plain_endpoint ''http'' ''uc.example.com'' []"
  "plain_endpoint ''https'' ''s3.example.com'' []"
  by code_simp+

lemma demo_storable: "storable [] demo_parameter demo_bucket demo_s3 ''cn-east-1'' ''ak'' ''sk''"
  by (simp add: storable_def scp_wf_def demo_parameter_def demo_bucket_def demo_s3_def scp_zero_def
      demo_trimmed endpoint_stable demo_endpoints mode_wf_def int64_range_def secret_def)

theorem kodo_context_roundtrip_witness:
  "let ctx = context_of (kodo_context demo_parameter demo_bucket demo_s3 ''cn-east-1'' ''ak'' ''sk'')
   in parseKodoPvParameter script_env ''f'' (rev ctx) ctx [] (script_state []) =
     (Inr (read_back demo_parameter demo_bucket demo_s3 ''cn-east-1'' ''ak'' ''sk''), script_state [])"
  using kodo_context_roundtrip [OF demo_storable, of _ _ script_env "''f''" "script_state []"]
  by (simp add: Let_def same_gomap_def)

end
