(* ===== verification/Kodo_Parameter_Facts.thy ===== *)
theory Kodo_Parameter_Facts
  imports Kodo_Volume_Context
begin

text \<open>
  Properties of the parameter parsers of the Kodo driver: exactly which inputs they accept, where
  each value comes from, and that the iteration order of Go maps decides nothing as long as no two
  keys differ by case only.
\<close>

section \<open>Acceptance\<close>

lemma required_ok: "is_ok (required fn secrets f cur) \<longleftrightarrow> cur \<noteq> [] \<or> secret secrets f \<noteq> None"
  by (auto simp: required_def split: option.split)

lemma sc_spec_sel:
  "accessKey (sc_spec m) = val_string (m FIELD_ACCESS_KEY)"
  "secretKey (sc_spec m) = val_string (m FIELD_SECRET_KEY)"
  "region (sc_spec m) = val_string (m FIELD_REGION)"
  "storageClass (sc_spec m) = val_string (m FIELD_STORAGE_CLASS)"
  "subDir (sc_spec m) = val_string (m FIELD_SUB_DIR)"
  "ucEndpoint (sc_spec m) = Option.bind (m FIELD_UC_ENDPOINT) (\<lambda>s. ok_value (parseUrl s))"
  "s3ForcePathStyle (sc_spec m) = Option.bind (m FIELD_S3_FORCE_PATH_STYLE) parseBool"
  by (simp_all add: sc_spec_def)

lemma sc_secrets_ok:
  "is_ok (sc_secrets fn secrets q) \<longleftrightarrow>
     (accessKey q \<noteq> [] \<or> secret secrets FIELD_ACCESS_KEY \<noteq> None) \<and>
     (secretKey q \<noteq> [] \<or> secret secrets FIELD_SECRET_KEY \<noteq> None) \<and>
     (ucEndpoint q \<noteq> None \<or> (\<exists>v. secret secrets FIELD_UC_ENDPOINT = Some v \<and> is_ok (parseUrl v))) \<and>
     (s3ForcePathStyle q \<noteq> None \<or>
        (\<forall>v. secret secrets FIELD_S3_FORCE_PATH_STYLE = Some v \<longrightarrow> parseBool v \<noteq> None))"
proof -
  have path: "is_ok (secret_pathStyle fn secrets p) \<longleftrightarrow> s3ForcePathStyle p \<noteq> None \<or>
      (\<forall>v. secret secrets FIELD_S3_FORCE_PATH_STYLE = Some v \<longrightarrow> parseBool v \<noteq> None)" for p
    by (auto simp: secret_pathStyle_def set_pathStyle_def split: option.splits)
  have uc: "is_ok (required_ucEndpoint fn secrets p) \<longleftrightarrow> ucEndpoint p \<noteq> None \<or>
      (\<exists>v. secret secrets FIELD_UC_ENDPOINT = Some v \<and> is_ok (parseUrl v))" for p
    by (auto simp: required_ucEndpoint_def set_ucEndpoint_def is_ok_def split: option.splits sum.splits)
  have keep: "required_ucEndpoint fn secrets p = Inr p1 \<Longrightarrow> s3ForcePathStyle p1 = s3ForcePathStyle p" for p p1
    by (auto simp: required_ucEndpoint_def set_ucEndpoint_def split: option.splits sum.splits)
  show ?thesis
  proof (cases "required fn secrets FIELD_ACCESS_KEY (accessKey q)")
    case (Inl e)
    then show ?thesis using required_ok [of fn secrets FIELD_ACCESS_KEY "accessKey q"]
      by (simp add: sc_secrets_def)
  next
    case (Inr ak)
    note ak = Inr required_ok [of fn secrets FIELD_ACCESS_KEY "accessKey q"]
    show ?thesis
    proof (cases "required fn secrets FIELD_SECRET_KEY (secretKey q)")
      case (Inl e)
      with ak show ?thesis using required_ok [of fn secrets FIELD_SECRET_KEY "secretKey q"]
        by (simp add: sc_secrets_def)
    next
      case (Inr sk)
      let ?q = "q\<lparr>accessKey := ak, secretKey := sk\<rparr>"
      note sk = Inr required_ok [of fn secrets FIELD_SECRET_KEY "secretKey q"] uc [of ?q]
      show ?thesis
      proof (cases "required_ucEndpoint fn secrets ?q")
        case (Inl e)
        with ak sk show ?thesis by (simp add: sc_secrets_def)
      next
        case (Inr p1)
        with ak sk keep [OF Inr] show ?thesis by (simp add: sc_secrets_def path)
      qed
    qed
  qed
qed

text \<open>
  C37: the storage class parser accepts an input exactly when every recognised parameter has an
  acceptable value, the two keys are in the parameters or the secrets, the UC endpoint is given
  and parses, and a path style flag in the secrets is a known word unless the parameters have one;
  every other input is an error.
\<close>

theorem parseKodoStorageClassParameter_ok:
  "is_ok (parseKodoStorageClassParameter fn ctx secrets) \<longleftrightarrow>
     entries_ok sc_ok ctx \<and>
     (let q = sc_spec (fields_of ctx) in
       (accessKey q \<noteq> [] \<or> secret secrets FIELD_ACCESS_KEY \<noteq> None) \<and>
       (secretKey q \<noteq> [] \<or> secret secrets FIELD_SECRET_KEY \<noteq> None) \<and>
       (ucEndpoint q \<noteq> None \<or> (\<exists>v. secret secrets FIELD_UC_ENDPOINT = Some v \<and> is_ok (parseUrl v))) \<and>
       (s3ForcePathStyle q \<noteq> None \<or>
          (\<forall>v. secret secrets FIELD_S3_FORCE_PATH_STYLE = Some v \<longrightarrow> parseBool v \<noteq> None)))"
  unfolding is_ok_iff [of "parseKodoStorageClassParameter fn ctx secrets"] parse_sc_iff Let_def
  using sc_secrets_ok [of fn secrets "sc_spec (fields_of ctx)"] by (simp add: is_ok_iff)

theorem parseKodoStorageClassParameter_ok_witness:
  "\<not> is_ok (parseKodoStorageClassParameter ''f'' (tl demo_parameters) [])"
  unfolding parseKodoStorageClassParameter_ok [of "''f''" "tl demo_parameters" "[]"]
  by (simp add: demo_parameters_def fields_of_def add_entry_def field_of_def all_fields_def
      lowerByte_def Let_def sc_spec_sel val_string_def secret_def)

lemma parseKodoStorageClassParameter_ok_demo:
  "is_ok (parseKodoStorageClassParameter ''f'' demo_parameters [])"
  by code_simp

section \<open>Precedence\<close>

text \<open>
  A parsed value comes from the parameters if it is there, else from the secrets, else it is
  the default: region z0 and storage class STANDARD, no sub-directory and no path style.
\<close>

theorem parseKodoStorageClassParameter_precedence:
  assumes "parseKodoStorageClassParameter fn ctx secrets = Inr p"
  shows "region p = (if val_string (fields_of ctx FIELD_REGION) \<noteq> []
      then val_string (fields_of ctx FIELD_REGION)
      else case secret secrets FIELD_REGION of Some v \<Rightarrow> TrimSpace v | None \<Rightarrow> ''z0'')
    \<and> storageClass p = (if val_string (fields_of ctx FIELD_STORAGE_CLASS) \<noteq> []
      then val_string (fields_of ctx FIELD_STORAGE_CLASS)
      else case secret secrets FIELD_STORAGE_CLASS of Some v \<Rightarrow> TrimSpace v | None \<Rightarrow> ''STANDARD'')
    \<and> subDir p = (if val_string (fields_of ctx FIELD_SUB_DIR) \<noteq> []
      then val_string (fields_of ctx FIELD_SUB_DIR)
      else case secret secrets FIELD_SUB_DIR of Some v \<Rightarrow> TrimSpace v | None \<Rightarrow> [])
    \<and> s3ForcePathStyle p = (case fields_of ctx FIELD_S3_FORCE_PATH_STYLE of
        Some v \<Rightarrow> parseBool v
      | None \<Rightarrow> Option.bind (secret secrets FIELD_S3_FORCE_PATH_STYLE) parseBool)
    \<and> (\<forall>u. fields_of ctx FIELD_UC_ENDPOINT = Some u \<longrightarrow> ucEndpoint p = ok_value (parseUrl u))"
proof -
  let ?q = "sc_spec (fields_of ctx)"
  from assms have ok: "entries_ok sc_ok ctx" and sec: "sc_secrets fn secrets ?q = Inr p"
    by (simp_all add: parse_sc_iff)
  from sec have d: "region p = defaulted secrets FIELD_REGION ''z0'' (region ?q)"
    "storageClass p = defaulted secrets FIELD_STORAGE_CLASS ''STANDARD'' (storageClass ?q)"
    "subDir p = defaulted secrets FIELD_SUB_DIR [] (subDir ?q)"
    by (auto simp: sc_secrets_iff)
  have acc: "sc_ok f v" if "fields_of ctx f = Some v" for f v
    using entries_ok_fields [OF ok that] .
  from sec obtain fps where "s3ForcePathStyle p = fps"
    "case s3ForcePathStyle ?q of Some b \<Rightarrow> fps = Some b
     | None \<Rightarrow> (case secret secrets FIELD_S3_FORCE_PATH_STYLE of
         None \<Rightarrow> fps = None | Some v \<Rightarrow> parseBool v \<noteq> None \<and> fps = parseBool v)"
    unfolding sc_secrets_iff by (elim exE conjE) (rule that [rotated], assumption, simp)
  then have ps: "s3ForcePathStyle p = (case s3ForcePathStyle ?q of Some b \<Rightarrow> Some b
      | None \<Rightarrow> Option.bind (secret secrets FIELD_S3_FORCE_PATH_STYLE) parseBool)"
    by (cases "s3ForcePathStyle ?q"; cases "secret secrets FIELD_S3_FORCE_PATH_STYLE") simp_all
  have uc: "ucEndpoint p = ok_value (parseUrl u)" if "fields_of ctx FIELD_UC_ENDPOINT = Some u" for u
  proof -
    from acc [OF that] obtain w where w: "parseUrl u = Inr w" by (auto simp: sc_ok_def is_ok_iff)
    with that have "ucEndpoint ?q = Some w" by (simp add: sc_spec_sel)
    with sec w show ?thesis by (auto simp: sc_secrets_iff)
  qed
  have "s3ForcePathStyle p = (case fields_of ctx FIELD_S3_FORCE_PATH_STYLE of
        Some v \<Rightarrow> parseBool v
      | None \<Rightarrow> Option.bind (secret secrets FIELD_S3_FORCE_PATH_STYLE) parseBool)"
    unfolding ps sc_spec_sel using acc [of FIELD_S3_FORCE_PATH_STYLE]
    by (cases "fields_of ctx FIELD_S3_FORCE_PATH_STYLE") (auto simp: sc_ok_def)
  with d uc show ?thesis by (simp add: defaulted_def sc_spec_sel)
qed

theorem parseKodoStorageClassParameter_precedence_witness:
  "region (the (ok_value (parseKodoStorageClassParameter ''f'' demo_parameters []))) = ''z0''"
proof -
  obtain p where p: "parseKodoStorageClassParameter ''f'' demo_parameters [] = Inr p"
    using parseKodoStorageClassParameter_ok_demo by (auto simp: is_ok_iff)
  have "fields_of demo_parameters FIELD_REGION = None"
    by (simp add: demo_parameters_def fields_of_def add_entry_def field_of_def all_fields_def
        lowerByte_def Let_def)
  with parseKodoStorageClassParameter_precedence [OF p] p show ?thesis
    by (simp add: val_string_def secret_def)
qed

section \<open>Iteration order\<close>

text \<open>
  C38: reading the parameters of a volume does not depend on the orders in which Go iterates over
  the volume context, when no two keys differ by case only: the two loops may visit it in any
  orders with the same success, the same result, the same requests and the same final state.
\<close>

theorem parseKodoPvParameter_order:
  assumes "same_gomap ctx ctx1" "same_gomap ctx ctx2" "no_case_clash ctx"
  shows "ok_value (fst (parseKodoPvParameter env fn ctx1 ctx2 secrets s)) =
      ok_value (fst (parseKodoPvParameter env fn ctx ctx secrets s))
    \<and> snd (parseKodoPvParameter env fn ctx1 ctx2 secrets s) =
      snd (parseKodoPvParameter env fn ctx ctx secrets s)"
proof (cases "pv_parse fn ctx ctx secrets")
  case (Inl e)
  with pv_parse_order [OF assms, of fn secrets] obtain e' where "pv_parse fn ctx1 ctx2 secrets = Inl e'"
    by (cases "pv_parse fn ctx1 ctx2 secrets") auto
  with Inl show ?thesis by (simp add: parseKodoPvParameter_def and_then_def lift_result_def)
next
  case (Inr p)
  with pv_parse_order [OF assms, of fn secrets p] show ?thesis
    by (simp add: parseKodoPvParameter_def)
qed

theorem parseKodoPvParameter_order_witness:
  "snd (parseKodoPvParameter script_env ''f'' (rev demo_parameters) demo_parameters [] (script_state [])) =
   snd (parseKodoPvParameter script_env ''f'' demo_parameters demo_parameters [] (script_state []))"
  using parseKodoPvParameter_order [of demo_parameters "rev demo_parameters" demo_parameters
      script_env "''f''" "[]" "script_state []"]
  by (simp add: same_gomap_def no_case_clash_def demo_parameters_def lowerByte_def Let_def)

text \<open>
  The condition on the keys is needed: one map with two keys that differ by case only is read
  to different regions in its two iteration orders.
\<close>

theorem parse_depends_on_order:
  "\<exists>ctx ctx'. same_gomap ctx ctx' \<and> gomap_wf ctx \<and>
     map_option region (ok_value (parseKodoStorageClassParameter ''f'' ctx [])) = Some ''a'' \<and>
     map_option region (ok_value (parseKodoStorageClassParameter ''f'' ctx' [])) = Some ''b''"
proof -
  let ?ctx = "[(''Region'', ''b''), (''region'', ''a'')] @ demo_parameters"
  let ?ctx' = "[(''region'', ''a''), (''Region'', ''b'')] @ demo_parameters"
  have "same_gomap ?ctx ?ctx'" "gomap_wf ?ctx"
    by (simp_all add: same_gomap_def gomap_wf_def demo_parameters_def)
  moreover have "map_option region (ok_value (parseKodoStorageClassParameter ''f'' ?ctx [])) = Some ''a''"
    by code_simp
  moreover have "map_option region (ok_value (parseKodoStorageClassParameter ''f'' ?ctx' [])) = Some ''b''"
    by code_simp
  ultimately show ?thesis by blast
qed

end
