(* ===== verification/Kodo_Clean_Objects.thy ===== *)
theory Kodo_Clean_Objects
  imports Kodo_Client_Facts
begin

text \<open>
  \<^verbatim>\<open>CleanObjects\<close>, \<^verbatim>\<open>listObjects\<close> and \<^verbatim>\<open>deleteObjects\<close> of \<^verbatim>\<open>qiniu/kodo.go\<close>: a pipeline of goroutines that
  lists a bucket page by page and deletes what it lists in batches of a hundred.

  The pipeline is a state machine.  Its processes are the decoder of a page, the lister, the
  forwarder (the goroutine of \<^verbatim>\<open>CleanObjects\<close>), the batcher, ten workers and the calling
  goroutine; its channels are bounded queues, closed when the process that closes them is done.
  An event is one step of one process, or the cancellation of the context, after which every
  request fails; where a \<^verbatim>\<open>select\<close>
  may take either of two ready cases there is one event for each.  \<open>clean_step\<close> is \<open>None\<close> when the
  process is blocked or finished.  A schedule is a list of events; a blocked event is skipped.

  Starting a goroutine and the \<^verbatim>\<open>wg.Add(1)\<close> on the following line are one step.  The fields
  \<open>listed\<close> and \<open>acked\<close> record the names the lister put into its channel and the names in batches
  the service acknowledged; no process reads them.
\<close>

section \<open>Requests\<close>

text \<open>
  Every request of the pipeline carries the context (\<^verbatim>\<open>request.WithContext(ctx)\<close>): when that is
  cancelled, the HTTP client returns its error and no service sees the request.
\<close>

definition ctxErr :: gerror where
  "ctxErr = StdErr ''context canceled''"

definition with_ctx :: "bool \<Rightarrow> 'w env \<Rightarrow> 'w env" where
  "with_ctx cancel env = (if cancel then env\<lparr>net := \<lambda>req w. (Inl ctxErr, w)\<rparr> else env)"

type_synonym listed_object = "string \<times> string"

definition dec_listed :: "json \<Rightarrow> listed_object \<Rightarrow> listed_object result" where
  "dec_listed =
     dec_struct
       [at_field ''marker'' dec_string fst (\<lambda>f (a, b). (f a, b)),
        at_field ''item'' (dec_struct [at_field ''key'' dec_string id (\<lambda>f. f)]) snd (\<lambda>f (a, b). (a, f b))]"

definition list_request :: "KodoClient \<Rightarrow> url \<Rightarrow> string \<Rightarrow> string \<Rightarrow> http_request" where
  "list_request c rsf bname marker =
     kodo_request c ''POST''
       (url_String rsf @ ''/v2/list?bucket='' @ escape bname encodeQueryComponent @
        (if marker \<noteq> [] then ''&marker='' @ escape marker encodeQueryComponent else [])) [] NoBody"

text \<open>
  The answer to a list request: the documents of the page, or an error.  A body that cannot be
  read or decoded any further ends the page with a warning only.
\<close>

definition list_response :: "http_response \<Rightarrow> json list result" where
  "list_response resp =
     (if StatusCode resp = 200 then
        Inr (case RespBody resp of Inl e \<Rightarrow> [] | Inr (Body docs ok) \<Rightarrow> docs)
      else kodo_response ''KodoClient.listObjects'' (\<lambda>_. False) (\<lambda>_. Inr []) resp)"

definition sendListObjectsRequest ::
    "'w env \<Rightarrow> KodoClient \<Rightarrow> url \<Rightarrow> string \<Rightarrow> string \<Rightarrow> ('w, json list) action" where
  "sendListObjectsRequest env c rsf bname marker =
     (let op = ''KodoClient.listObjects''; req = list_request c rsf bname marker in
      and_then (wrap_error (Wrapf ''create request err'' [op]) (lift_result (url_Parse (RequestUrl req))))
       (\<lambda>_. and_then (wrap_error (Wrapf ''send request err'' [op]) (http_Do env req))
         (\<lambda>resp. lift_result (list_response resp))))"

definition base64Alphabet :: string where
  "base64Alphabet = ''ABCDEFGHIJKLMNOPQRSTUVWXYZabcdefghijklmnopqrstuvwxyz0123456789-_''"

fun base64URL :: "string \<Rightarrow> string" where
  "base64URL [] = []"
| "base64URL [a] =
     (let x = of_char a :: nat in
      [base64Alphabet ! (x div 4), base64Alphabet ! (x mod 4 * 16), CHR ''='', CHR ''=''])"
| "base64URL [a, b] =
     (let x = of_char a :: nat; y = of_char b :: nat in
      [base64Alphabet ! (x div 4), base64Alphabet ! (x mod 4 * 16 + y div 16),
       base64Alphabet ! (y mod 16 * 4), CHR ''=''])"
| "base64URL (a # b # c # r) =
     (let x = of_char a :: nat; y = of_char b :: nat; z = of_char c :: nat in
      [base64Alphabet ! (x div 4), base64Alphabet ! (x mod 4 * 16 + y div 16),
       base64Alphabet ! (y mod 16 * 4 + z div 64), base64Alphabet ! (z mod 64)] @ base64URL r)"

definition encodeEntry :: "string \<Rightarrow> string \<Rightarrow> string" where
  "encodeEntry bucket objectName = base64URL (bucket @ '':'' @ objectName)"

definition delete_form :: "string \<Rightarrow> string list \<Rightarrow> string" where
  "delete_form bname names =
     concat (map (\<lambda>(i, n). (if i = 0 then [] else ''&'') @ ''op='' @
       escape (''/delete/'' @ encodeEntry bname n) encodeQueryComponent) (zip [0..<length names] names))"

definition delete_request :: "KodoClient \<Rightarrow> url \<Rightarrow> string \<Rightarrow> string list \<Rightarrow> http_request" where
  "delete_request c rs bname names =
     kodo_request c ''POST'' (url_String rs @ ''/batch'') [] (FormBody (delete_form bname names))"

definition batch_accepted :: "int \<Rightarrow> bool" where
  "batch_accepted code \<longleftrightarrow> code = 200 \<or> code = 298"

definition sendDeleteObjectsRequest ::
    "'w env \<Rightarrow> KodoClient \<Rightarrow> url \<Rightarrow> string \<Rightarrow> string list \<Rightarrow> ('w, unit) action" where
  "sendDeleteObjectsRequest env c rs bname names =
     kodo_send env ''KodoClient.deleteObjects'' batch_accepted no_result (delete_request c rs bname names)"

section \<open>The pipeline\<close>

definition WORKER_COUNT :: nat where "WORKER_COUNT = 10"
definition MAX_BATCH_SIZE :: nat where "MAX_BATCH_SIZE = 100"

datatype lister = LRequest | LRange | LSend string | LError gerror | LDone
datatype forwarder = FRange | FSend string | FDone
datatype batcher = BRecv "string list" | BSend "string list" | BLast "string list" | BDone
datatype worker = WIdle | WBusy "string list" | WDone
datatype main = MFind | MEndpoint kodo_bucket | MWait | MJoin | MReturn "unit result"

record 'w clean =
  proc :: "'w pstate"
  cancelled :: bool
  lister :: lister
  lastMarker :: string
  decoding :: "(json list \<times> listed_object) option"
  pageQ :: "listed_object list"
  namesQ :: "string result list"
  forwarder :: forwarder
  objectsQ :: "string list"
  errorChan :: "gerror option"
  batcher :: batcher
  batchQ :: "string list list"
  workers :: "worker list"
  errorsQ :: "gerror list"
  rsUrl :: url
  main :: main
  listed :: "string list"
  acked :: "string list"

record clean_config =
  cfgClient :: KodoClient
  cfgRsf :: url
  cfgBucket :: string

datatype event =
    Cancel
  | DecodeNext | DecodeStop
  | ListerStep | ListerCancel
  | ForwarderStep
  | BatcherStep | BatcherCancel
  | WorkerStep nat | WorkerCancel nat
  | MainStep

subsection \<open>Listing\<close>

text \<open>The decoder keeps one variable for all documents of a page, so absent keys keep their values.\<close>

definition decoder_step :: "'w clean \<Rightarrow> 'w clean option" where
  "decoder_step st =
     (case decoding st of
        None \<Rightarrow> None
      | Some ([], cur) \<Rightarrow> Some (st\<lparr>decoding := None\<rparr>)
      | Some (j # js, cur) \<Rightarrow>
          (case dec_listed j cur of
             Inl e \<Rightarrow> Some (st\<lparr>decoding := None\<rparr>)
           | Inr x \<Rightarrow>
               if length (pageQ st) < 1024
               then Some (st\<lparr>decoding := Some (js, x), pageQ := pageQ st @ [x]\<rparr>)
               else None))"

definition decoder_cancel :: "'w clean \<Rightarrow> 'w clean option" where
  "decoder_cancel st =
     (if cancelled st \<and> decoding st \<noteq> None then Some (st\<lparr>decoding := None\<rparr>) else None)"

definition lister_step :: "'w env \<Rightarrow> clean_config \<Rightarrow> 'w clean \<Rightarrow> 'w clean option" where
  "lister_step env cfg st =
     (case lister st of
        LRequest \<Rightarrow>
          (case sendListObjectsRequest (with_ctx (cancelled st) env) (cfgClient cfg) (cfgRsf cfg) (cfgBucket cfg)
                   (lastMarker st) (proc st) of
             (Inl e, s) \<Rightarrow> Some (st\<lparr>proc := s, lister := LError e\<rparr>)
           | (Inr docs, s) \<Rightarrow>
               Some (st\<lparr>proc := s, lister := LRange, decoding := Some (docs, ([], [])), pageQ := []\<rparr>))
      | LRange \<Rightarrow>
          (case pageQ st of
             (marker, name) # q \<Rightarrow> Some (st\<lparr>lastMarker := marker, lister := LSend name, pageQ := q\<rparr>)
           | [] \<Rightarrow>
               if decoding st \<noteq> None then None
               else Some (st\<lparr>lister := (if lastMarker st = [] then LDone else LRequest)\<rparr>))
      | LSend name \<Rightarrow>
          if length (namesQ st) < 1024
          then Some (st\<lparr>namesQ := namesQ st @ [Inr name], lister := LRange, listed := listed st @ [name]\<rparr>)
          else None
      | LError e \<Rightarrow>
          if length (namesQ st) < 1024 then Some (st\<lparr>namesQ := namesQ st @ [Inl e], lister := LDone\<rparr>)
          else None
      | LDone \<Rightarrow> None)"

definition lister_cancel :: "'w clean \<Rightarrow> 'w clean option" where
  "lister_cancel st =
     (case lister st of
        LSend name \<Rightarrow> if cancelled st then Some (st\<lparr>lister := LError ctxErr\<rparr>) else None
      | _ \<Rightarrow> None)"

subsection \<open>Forwarding\<close>

definition forwarder_step :: "'w clean \<Rightarrow> 'w clean option" where
  "forwarder_step st =
     (case forwarder st of
        FRange \<Rightarrow>
          (case namesQ st of
             Inl e # q \<Rightarrow> Some (st\<lparr>namesQ := q, errorChan := Some e, forwarder := FDone\<rparr>)
           | Inr name # q \<Rightarrow> Some (st\<lparr>namesQ := q, forwarder := FSend name\<rparr>)
           | [] \<Rightarrow> if lister st = LDone then Some (st\<lparr>forwarder := FDone\<rparr>) else None)
      | FSend name \<Rightarrow>
          if length (objectsQ st) < 10
          then Some (st\<lparr>objectsQ := objectsQ st @ [name], forwarder := FRange\<rparr>)
          else None
      | FDone \<Rightarrow> None)"

subsection \<open>Deleting\<close>

text \<open>The batcher and the workers exist once the calling goroutine has started them.\<close>

definition started :: "'w clean \<Rightarrow> bool" where
  "started st \<longleftrightarrow> (case main st of MFind \<Rightarrow> False | MEndpoint b \<Rightarrow> False | _ \<Rightarrow> True)"

definition batcher_step :: "'w clean \<Rightarrow> 'w clean option" where
  "batcher_step st =
     (if \<not> started st then None
      else case batcher st of
        BRecv names \<Rightarrow>
          (case objectsQ st of
             name # q \<Rightarrow>
               (let names' = names @ [name] in
                Some (st\<lparr>objectsQ := q,
                  batcher := (if length names' \<ge> MAX_BATCH_SIZE then BSend names' else BRecv names')\<rparr>))
           | [] \<Rightarrow>
               if forwarder st = FDone
               then Some (st\<lparr>batcher := (if names \<noteq> [] then BLast names else BDone)\<rparr>)
               else None)
      | BSend names \<Rightarrow>
          if length (batchQ st) < WORKER_COUNT
          then Some (st\<lparr>batchQ := batchQ st @ [names], batcher := BRecv []\<rparr>)
          else None
      | BLast names \<Rightarrow>
          if length (batchQ st) < WORKER_COUNT
          then Some (st\<lparr>batchQ := batchQ st @ [names], batcher := BDone\<rparr>)
          else None
      | BDone \<Rightarrow> None)"

definition batcher_cancel :: "'w clean \<Rightarrow> 'w clean option" where
  "batcher_cancel st =
     (case batcher st of
        BRecv names \<Rightarrow>
          if started st \<and> cancelled st
          then Some (st\<lparr>errorsQ := errorsQ st @ [ctxErr], batcher := BDone\<rparr>)
          else None
      | _ \<Rightarrow> None)"

definition worker_step :: "'w env \<Rightarrow> clean_config \<Rightarrow> nat \<Rightarrow> 'w clean \<Rightarrow> 'w clean option" where
  "worker_step env cfg i st =
     (if i \<ge> length (workers st) then None
      else case workers st ! i of
        WIdle \<Rightarrow>
          (case batchQ st of
             b # q \<Rightarrow> Some (st\<lparr>batchQ := q, workers := (workers st)[i := WBusy b]\<rparr>)
           | [] \<Rightarrow>
               if batcher st = BDone then Some (st\<lparr>workers := (workers st)[i := WDone]\<rparr>) else None)
      | WBusy b \<Rightarrow>
          (case sendDeleteObjectsRequest (with_ctx (cancelled st) env) (cfgClient cfg) (rsUrl st) (cfgBucket cfg) b
                   (proc st) of
             (Inl e, s) \<Rightarrow>
               Some (st\<lparr>proc := s, errorsQ := errorsQ st @ [e], workers := (workers st)[i := WDone]\<rparr>)
           | (Inr u, s) \<Rightarrow>
               Some (st\<lparr>proc := s, acked := acked st @ b, workers := (workers st)[i := WIdle]\<rparr>))
      | WDone \<Rightarrow> None)"

definition worker_cancel :: "nat \<Rightarrow> 'w clean \<Rightarrow> 'w clean option" where
  "worker_cancel i st =
     (if i < length (workers st) \<and> workers st ! i = WIdle \<and> cancelled st
      then Some (st\<lparr>errorsQ := errorsQ st @ [ctxErr], workers := (workers st)[i := WDone]\<rparr>)
      else None)"

subsection \<open>The calling goroutine\<close>

text \<open>
  \<^verbatim>\<open>deleteObjects\<close> looks up the bucket and the address, starts ten workers and the batcher and waits
  for them; \<^verbatim>\<open>CleanObjects\<close> then waits for the forwarder and returns its error, if any.
\<close>

definition main_step :: "'w env \<Rightarrow> clean_config \<Rightarrow> 'w clean \<Rightarrow> 'w clean option" where
  "main_step env cfg st =
     (case main st of
        MFind \<Rightarrow>
          (case FindBucketByName (with_ctx (cancelled st) env) (cfgClient cfg) (cfgBucket cfg) True (proc st) of
             (Inl e, s) \<Rightarrow> Some (st\<lparr>proc := s, main := MReturn (Inl e)\<rparr>)
           | (Inr None, s) \<Rightarrow>
               Some (st\<lparr>proc := s, main := MReturn
                 (Inl (Errorf ''KodoClient.deleteObjects: cannot find bucket'' [cfgBucket cfg]))\<rparr>)
           | (Inr (Some b), s) \<Rightarrow> Some (st\<lparr>proc := s, main := MEndpoint b\<rparr>))
      | MEndpoint b \<Rightarrow>
          (case GetRsEndpoint (with_ctx (cancelled st) env) (cfgClient cfg) (Bucket_Region b) (proc st) of
             (Inl e, s) \<Rightarrow> Some (st\<lparr>proc := s, main := MReturn (Inl e)\<rparr>)
           | (Inr None, s) \<Rightarrow>
               Some (st\<lparr>proc := s, main := MReturn
                 (Inl (Errorf ''KodoClient.deleteObjects: cannot get rs endpoint'' [cfgBucket cfg]))\<rparr>)
           | (Inr (Some u), s) \<Rightarrow>
               Some (st\<lparr>proc := s, rsUrl := u, main := MWait, batcher := BRecv [],
                 workers := replicate WORKER_COUNT WIdle\<rparr>))
      | MWait \<Rightarrow>
          if batcher st = BDone \<and> list_all (\<lambda>w. w = WDone) (workers st)
          then Some (case errorsQ st of
                 e # q \<Rightarrow> st\<lparr>errorsQ := q, main := MReturn (Inl e)\<rparr>
               | [] \<Rightarrow> st\<lparr>main := MJoin\<rparr>)
          else None
      | MJoin \<Rightarrow>
          if forwarder st = FDone
          then Some (st\<lparr>main := MReturn (case errorChan st of Some e \<Rightarrow> Inl e | None \<Rightarrow> Inr ())\<rparr>)
          else None
      | MReturn r \<Rightarrow> None)"

definition clean_step :: "'w env \<Rightarrow> clean_config \<Rightarrow> event \<Rightarrow> 'w clean \<Rightarrow> 'w clean option" where
  "clean_step env cfg ev st =
     (case ev of
        Cancel \<Rightarrow> Some (st\<lparr>cancelled := True\<rparr>)
      | DecodeNext \<Rightarrow> decoder_step st
      | DecodeStop \<Rightarrow> decoder_cancel st
      | ListerStep \<Rightarrow> lister_step env cfg st
      | ListerCancel \<Rightarrow> lister_cancel st
      | ForwarderStep \<Rightarrow> forwarder_step st
      | BatcherStep \<Rightarrow> batcher_step st
      | BatcherCancel \<Rightarrow> batcher_cancel st
      | WorkerStep i \<Rightarrow> worker_step env cfg i st
      | WorkerCancel i \<Rightarrow> worker_cancel i st
      | MainStep \<Rightarrow> main_step env cfg st)"

fun clean_run :: "'w env \<Rightarrow> clean_config \<Rightarrow> event list \<Rightarrow> 'w clean \<Rightarrow> 'w clean" where
  "clean_run env cfg [] st = st"
| "clean_run env cfg (ev # evs) st =
     (case main st of
        MReturn r \<Rightarrow> st
      | _ \<Rightarrow> (case clean_step env cfg ev st of
            None \<Rightarrow> clean_run env cfg evs st
          | Some st' \<Rightarrow> clean_run env cfg evs st'))"

definition clean_init :: "'w pstate \<Rightarrow> 'w clean" where
  "clean_init s =
     \<lparr>proc = s, cancelled = False, lister = LRequest, lastMarker = [], decoding = None, pageQ = [],
      namesQ = [], forwarder = FRange, objectsQ = [], errorChan = None, batcher = BRecv [],
      batchQ = [], workers = [], errorsQ = [], rsUrl = empty_url, main = MFind,
      listed = [], acked = []\<rparr>"

text \<open>The part of \<^verbatim>\<open>listObjects\<close> before its goroutine: the bucket and its list address.\<close>

definition listObjects_setup :: "'w env \<Rightarrow> KodoClient \<Rightarrow> string \<Rightarrow> ('w, url) action" where
  "listObjects_setup env c bname =
     and_then (FindBucketByName env c bname True) (\<lambda>b.
       case b of
         None \<Rightarrow> fail (Errorf ''KodoClient.listObjects: cannot find bucket'' [bname])
       | Some bk \<Rightarrow>
           and_then (GetRsfEndpoint env c (Bucket_Region bk)) (\<lambda>ep.
             case ep of
               None \<Rightarrow> fail (Errorf ''KodoClient.listObjects: cannot get rsf endpoint'' [bname])
             | Some u \<Rightarrow> succeed u))"

text \<open>\<open>None\<close> when the call has not returned at the end of the schedule.\<close>

definition CleanObjects ::
    "'w env \<Rightarrow> KodoClient \<Rightarrow> string \<Rightarrow> event list \<Rightarrow> 'w pstate \<Rightarrow> (unit result \<times> 'w pstate) option" where
  "CleanObjects env c bname evs s =
     (case listObjects_setup env c bname s of
        (Inl e, s1) \<Rightarrow> Some (Inl e, s1)
      | (Inr rsf, s1) \<Rightarrow>
          (let st = clean_run env \<lparr>cfgClient = c, cfgRsf = rsf, cfgBucket = bname\<rparr> evs (clean_init s1)
           in case main st of MReturn r \<Rightarrow> Some (r, proc st) | _ \<Rightarrow> None))"

end
