(* ===== verification/Kodo_Clean_Facts.thy ===== *)
theory Kodo_Clean_Facts
  imports Kodo_Clean_Objects Scripted_World
begin

text \<open>
  Invariants of the deletion pipeline.  They are proved for every step of every process and
  therefore hold at the end of every schedule; a successful return then means that each name the
  lister produced is in a batch the service acknowledged, and a pipeline in which no process can
  step is one whose workers have all failed.
\<close>

section \<open>Where the names are\<close>

definition queue_names :: "string result list \<Rightarrow> string list" where
  "queue_names q = concat (map (\<lambda>r. case r of Inl e \<Rightarrow> [] | Inr n \<Rightarrow> [n]) q)"

primrec forwarder_names :: "forwarder \<Rightarrow> string list" where
  "forwarder_names FRange = []"
| "forwarder_names (FSend n) = [n]"
| "forwarder_names FDone = []"

primrec batcher_names :: "batcher \<Rightarrow> string list" where
  "batcher_names (BRecv ns) = ns"
| "batcher_names (BSend ns) = ns"
| "batcher_names (BLast ns) = ns"
| "batcher_names BDone = []"

primrec worker_names :: "worker \<Rightarrow> string list" where
  "worker_names WIdle = []"
| "worker_names (WBusy ns) = ns"
| "worker_names WDone = []"

definition workers_names :: "worker list \<Rightarrow> string multiset" where
  "workers_names ws = (\<Sum>w \<in># mset ws. mset (worker_names w))"

definition in_flight :: "'w clean \<Rightarrow> string multiset" where
  "in_flight st =
     mset (queue_names (namesQ st)) + mset (forwarder_names (forwarder st)) + mset (objectsQ st) +
     mset (batcher_names (batcher st)) + mset (concat (batchQ st)) +
     workers_names (workers st)"

text \<open>No deletion has failed and the call has not returned an error.\<close>

definition no_failure :: "'w clean \<Rightarrow> bool" where
  "no_failure st \<longleftrightarrow> errorsQ st = [] \<and> (\<forall>e. main st \<noteq> MReturn (Inl e))"

lemma queue_names_simps [simp]:
  "queue_names [] = []"
  "queue_names (Inl e # q) = queue_names q"
  "queue_names (Inr n # q) = n # queue_names q"
  "queue_names (q @ q') = queue_names q @ queue_names q'"
  by (simp_all add: queue_names_def)

lemma workers_update:
  assumes "i < length ws"
  shows "workers_names (ws[i := w']) + mset (worker_names (ws ! i)) =
    workers_names ws + mset (worker_names w')"
proof -
  have "mset ws = add_mset (ws ! i) (mset ws - {#ws ! i#})" using assms by simp
  then have "workers_names ws =
      mset (worker_names (ws ! i)) + (\<Sum>w \<in># mset ws - {#ws ! i#}. mset (worker_names w))"
    unfolding workers_names_def by (metis image_mset_add_mset sum_mset.insert)
  with assms show ?thesis by (simp add: workers_names_def mset_update)
qed

lemma workers_empty [simp]: "set ws \<subseteq> {WDone} \<Longrightarrow> workers_names ws = {#}"
  "workers_names (replicate n WIdle) = {#}"
  unfolding workers_names_def by (induction ws) (auto simp: sum_mset_constant)

text \<open>The accounting of names.\<close>

definition accounted :: "'w clean \<Rightarrow> bool" where
  "accounted st \<longleftrightarrow> (no_failure st \<longrightarrow> mset (listed st) = in_flight st + mset (acked st))"

text \<open>What the states of the processes say about each other.\<close>

definition not_started_ok :: "'w clean \<Rightarrow> bool" where
  "not_started_ok st \<longleftrightarrow>
     (\<not> started st \<longrightarrow> workers st = [] \<and> batchQ st = [] \<and> batcher st = BRecv [])"

definition worker_count_ok :: "'w clean \<Rightarrow> bool" where
  "worker_count_ok st \<longleftrightarrow>
     (main st = MWait \<or> main st = MJoin \<longrightarrow> length (workers st) = WORKER_COUNT)"

definition lister_ok :: "'w clean \<Rightarrow> bool" where
  "lister_ok st \<longleftrightarrow>
     (lister st = LDone \<and> errorChan st = None \<and> (\<forall>e. Inl e \<notin> set (namesQ st)) \<longrightarrow>
        lastMarker st = [])"

definition forwarder_ok :: "'w clean \<Rightarrow> bool" where
  "forwarder_ok st \<longleftrightarrow>
     (forwarder st = FDone \<and> errorChan st = None \<longrightarrow> namesQ st = [] \<and> lister st = LDone)"

definition batcher_ok :: "'w clean \<Rightarrow> bool" where
  "batcher_ok st \<longleftrightarrow>
     (no_failure st \<and> (batcher st = BDone \<or> (\<exists>ns. batcher st = BLast ns)) \<longrightarrow>
        forwarder st = FDone \<and> objectsQ st = [])"

definition workers_ok :: "'w clean \<Rightarrow> bool" where
  "workers_ok st \<longleftrightarrow>
     (no_failure st \<and> WDone \<in> set (workers st) \<longrightarrow> batcher st = BDone \<and> batchQ st = [])"

definition joined_ok :: "'w clean \<Rightarrow> bool" where
  "joined_ok st \<longleftrightarrow>
     (main st = MJoin \<or> main st = MReturn (Inr ()) \<longrightarrow>
        errorsQ st = [] \<and> batcher st = BDone \<and> workers st \<noteq> [] \<and> set (workers st) \<subseteq> {WDone})"

definition returned_ok :: "'w clean \<Rightarrow> bool" where
  "returned_ok st \<longleftrightarrow> (main st = MReturn (Inr ()) \<longrightarrow> forwarder st = FDone \<and> errorChan st = None)"

section \<open>The pipeline as a transition relation\<close>

text \<open>
  The same steps with the answers of the services left open: one rule per branch of the step
  functions.  Every step of the pipeline is a transition (\<open>clean_step_trans\<close>).
\<close>

inductive clean_trans :: "'w clean \<Rightarrow> 'w clean \<Rightarrow> bool" where
  cancel: "clean_trans st (st\<lparr>cancelled := True\<rparr>)"
| decode_end: "decoding st \<noteq> None \<Longrightarrow> clean_trans st (st\<lparr>decoding := None\<rparr>)"
| decode_push: "decoding st \<noteq> None \<Longrightarrow> length (pageQ st) < 1024 \<Longrightarrow>
    clean_trans st (st\<lparr>decoding := Some d, pageQ := pageQ st @ [x]\<rparr>)"
| list_refused: "lister st = LRequest \<Longrightarrow> clean_trans st (st\<lparr>proc := s, lister := LError e\<rparr>)"
| list_page: "lister st = LRequest \<Longrightarrow>
    clean_trans st (st\<lparr>proc := s, lister := LRange, decoding := Some d, pageQ := []\<rparr>)"
| list_take: "lister st = LRange \<Longrightarrow> pageQ st = (m, n) # q \<Longrightarrow>
    clean_trans st (st\<lparr>lastMarker := m, lister := LSend n, pageQ := q\<rparr>)"
| list_next: "lister st = LRange \<Longrightarrow> pageQ st = [] \<Longrightarrow> decoding st = None \<Longrightarrow> lastMarker st \<noteq> [] \<Longrightarrow>
    clean_trans st (st\<lparr>lister := LRequest\<rparr>)"
| list_done: "lister st = LRange \<Longrightarrow> pageQ st = [] \<Longrightarrow> decoding st = None \<Longrightarrow> lastMarker st = [] \<Longrightarrow>
    clean_trans st (st\<lparr>lister := LDone\<rparr>)"
| list_send: "lister st = LSend n \<Longrightarrow> length (namesQ st) < 1024 \<Longrightarrow>
    clean_trans st (st\<lparr>namesQ := namesQ st @ [Inr n], lister := LRange, listed := listed st @ [n]\<rparr>)"
| list_error: "lister st = LError e \<Longrightarrow> length (namesQ st) < 1024 \<Longrightarrow>
    clean_trans st (st\<lparr>namesQ := namesQ st @ [Inl e], lister := LDone\<rparr>)"
| list_cancel: "lister st = LSend n \<Longrightarrow> clean_trans st (st\<lparr>lister := LError ctxErr\<rparr>)"
| forward_error: "forwarder st = FRange \<Longrightarrow> namesQ st = Inl e # q \<Longrightarrow>
    clean_trans st (st\<lparr>namesQ := q, errorChan := Some e, forwarder := FDone\<rparr>)"
| forward_take: "forwarder st = FRange \<Longrightarrow> namesQ st = Inr n # q \<Longrightarrow>
    clean_trans st (st\<lparr>namesQ := q, forwarder := FSend n\<rparr>)"
| forward_done: "forwarder st = FRange \<Longrightarrow> namesQ st = [] \<Longrightarrow> lister st = LDone \<Longrightarrow>
    clean_trans st (st\<lparr>forwarder := FDone\<rparr>)"
| forward_send: "forwarder st = FSend n \<Longrightarrow> length (objectsQ st) < 10 \<Longrightarrow>
    clean_trans st (st\<lparr>objectsQ := objectsQ st @ [n], forwarder := FRange\<rparr>)"
| batch_take: "started st \<Longrightarrow> batcher st = BRecv ns \<Longrightarrow> objectsQ st = n # q \<Longrightarrow>
    length (ns @ [n]) < MAX_BATCH_SIZE \<Longrightarrow>
    clean_trans st (st\<lparr>objectsQ := q, batcher := BRecv (ns @ [n])\<rparr>)"
| batch_full: "started st \<Longrightarrow> batcher st = BRecv ns \<Longrightarrow> objectsQ st = n # q \<Longrightarrow>
    length (ns @ [n]) \<ge> MAX_BATCH_SIZE \<Longrightarrow>
    clean_trans st (st\<lparr>objectsQ := q, batcher := BSend (ns @ [n])\<rparr>)"
| batch_rest: "started st \<Longrightarrow> batcher st = BRecv ns \<Longrightarrow> objectsQ st = [] \<Longrightarrow> forwarder st = FDone \<Longrightarrow>
    ns \<noteq> [] \<Longrightarrow> clean_trans st (st\<lparr>batcher := BLast ns\<rparr>)"
| batch_done: "started st \<Longrightarrow> batcher st = BRecv [] \<Longrightarrow> objectsQ st = [] \<Longrightarrow> forwarder st = FDone \<Longrightarrow>
    clean_trans st (st\<lparr>batcher := BDone\<rparr>)"
| batch_send: "started st \<Longrightarrow> batcher st = BSend ns \<Longrightarrow> length (batchQ st) < WORKER_COUNT \<Longrightarrow>
    clean_trans st (st\<lparr>batchQ := batchQ st @ [ns], batcher := BRecv []\<rparr>)"
| batch_last: "started st \<Longrightarrow> batcher st = BLast ns \<Longrightarrow> length (batchQ st) < WORKER_COUNT \<Longrightarrow>
    clean_trans st (st\<lparr>batchQ := batchQ st @ [ns], batcher := BDone\<rparr>)"
| batch_cancel: "started st \<Longrightarrow> batcher st = BRecv ns \<Longrightarrow>
    clean_trans st (st\<lparr>errorsQ := errorsQ st @ [e], batcher := BDone\<rparr>)"
| worker_take: "i < length (workers st) \<Longrightarrow> workers st ! i = WIdle \<Longrightarrow> batchQ st = b # q \<Longrightarrow>
    clean_trans st (st\<lparr>batchQ := q, workers := (workers st)[i := WBusy b]\<rparr>)"
| worker_done: "i < length (workers st) \<Longrightarrow> workers st ! i = WIdle \<Longrightarrow> batchQ st = [] \<Longrightarrow>
    batcher st = BDone \<Longrightarrow> clean_trans st (st\<lparr>workers := (workers st)[i := WDone]\<rparr>)"
| worker_ack: "i < length (workers st) \<Longrightarrow> workers st ! i = WBusy b \<Longrightarrow>
    clean_trans st (st\<lparr>proc := s, acked := acked st @ b, workers := (workers st)[i := WIdle]\<rparr>)"
| worker_fail: "i < length (workers st) \<Longrightarrow> workers st ! i = WBusy b \<Longrightarrow>
    clean_trans st (st\<lparr>proc := s, errorsQ := errorsQ st @ [e], workers := (workers st)[i := WDone]\<rparr>)"
| worker_cancelled: "i < length (workers st) \<Longrightarrow> workers st ! i = WIdle \<Longrightarrow>
    clean_trans st (st\<lparr>errorsQ := errorsQ st @ [e], workers := (workers st)[i := WDone]\<rparr>)"
| main_error: "\<not> started st \<Longrightarrow> clean_trans st (st\<lparr>proc := s, main := MReturn (Inl e)\<rparr>)"
| main_found: "main st = MFind \<Longrightarrow> clean_trans st (st\<lparr>proc := s, main := MEndpoint bk\<rparr>)"
| main_start: "\<not> started st \<Longrightarrow>
    clean_trans st (st\<lparr>proc := s, rsUrl := u, main := MWait, batcher := BRecv [],
      workers := replicate WORKER_COUNT WIdle\<rparr>)"
| main_failed: "main st = MWait \<Longrightarrow> batcher st = BDone \<Longrightarrow> set (workers st) \<subseteq> {WDone} \<Longrightarrow>
    errorsQ st = e # q \<Longrightarrow> clean_trans st (st\<lparr>errorsQ := q, main := MReturn (Inl e)\<rparr>)"
| main_waited: "main st = MWait \<Longrightarrow> batcher st = BDone \<Longrightarrow> set (workers st) \<subseteq> {WDone} \<Longrightarrow>
    errorsQ st = [] \<Longrightarrow> clean_trans st (st\<lparr>main := MJoin\<rparr>)"
| main_joined: "main st = MJoin \<Longrightarrow> forwarder st = FDone \<Longrightarrow> errorChan st = None \<Longrightarrow>
    clean_trans st (st\<lparr>main := MReturn (Inr ())\<rparr>)"
| main_listed: "main st = MJoin \<Longrightarrow> forwarder st = FDone \<Longrightarrow> errorChan st = Some e \<Longrightarrow>
    clean_trans st (st\<lparr>main := MReturn (Inl e)\<rparr>)"

lemma decoder_trans: "decoder_step st = Some st' \<Longrightarrow> clean_trans st st'"
  by (auto simp: decoder_step_def intro: clean_trans.intros
      split: option.splits list.splits prod.splits sum.splits if_splits)

lemma lister_trans: "lister_step env cfg st = Some st' \<Longrightarrow> clean_trans st st'"
  by (cases "decoding st"; auto simp: lister_step_def intro: clean_trans.intros
      split: lister.splits list.splits prod.splits sum.splits if_splits)

lemma forwarder_trans: "forwarder_step st = Some st' \<Longrightarrow> clean_trans st st'"
  by (auto simp: forwarder_step_def intro: clean_trans.intros
      split: forwarder.splits list.splits sum.splits if_splits)

lemma batcher_trans: "batcher_step st = Some st' \<Longrightarrow> clean_trans st st'"
  by (auto simp: batcher_step_def Let_def not_le intro: clean_trans.intros
      split: batcher.splits list.splits if_splits)

lemma worker_trans: "worker_step env cfg i st = Some st' \<Longrightarrow> clean_trans st st'"
  by (auto simp: worker_step_def not_le intro: clean_trans.intros
      split: worker.splits list.splits prod.splits sum.splits if_splits)

lemma main_trans: "main_step env cfg st = Some st' \<Longrightarrow> clean_trans st st'"
  by (auto simp: main_step_def started_def list_all_iff subset_iff intro: clean_trans.intros
      split: main.splits list.splits prod.splits sum.splits option.splits if_splits)

lemma cancel_trans:
  "decoder_cancel st = Some st' \<Longrightarrow> clean_trans st st'"
  "lister_cancel st = Some st' \<Longrightarrow> clean_trans st st'"
  "batcher_cancel st = Some st' \<Longrightarrow> clean_trans st st'"
  "worker_cancel i st = Some st' \<Longrightarrow> clean_trans st st'"
  unfolding decoder_cancel_def lister_cancel_def batcher_cancel_def worker_cancel_def
  by (auto intro: clean_trans.intros split: lister.splits batcher.splits if_splits)

lemma clean_step_trans: "clean_step env cfg ev st = Some st' \<Longrightarrow> clean_trans st st'"
  by (cases ev) (auto simp: clean_step_def intro: clean_trans.cancel decoder_trans lister_trans
      forwarder_trans batcher_trans worker_trans main_trans cancel_trans)

text \<open>What holds at the start and is kept by every transition holds after every schedule.\<close>

lemma clean_run_invariant:
  assumes "P st" "\<And>st st'. P st \<Longrightarrow> clean_trans st st' \<Longrightarrow> P st'"
  shows "P (clean_run env cfg evs st)"
  using assms(1)
proof (induction evs arbitrary: st)
  case (Cons ev evs)
  have "P st'" if "clean_step env cfg ev st = Some st'" for st'
    using assms(2) Cons.prems clean_step_trans [OF that] by blast
  with Cons show ?case by (auto split: main.split option.split)
qed simp

section \<open>The invariants\<close>

lemma all_done_nth: "set ws \<subseteq> {WDone} \<Longrightarrow> \<forall>i < length ws. ws ! i = WDone"
  by (auto dest!: nth_mem)

lemma not_started_trans: "clean_trans st st' \<Longrightarrow> not_started_ok st \<Longrightarrow> not_started_ok st'"
  by (induction rule: clean_trans.induct) (auto simp: not_started_ok_def started_def split: main.splits)

lemma lister_ok_trans: "clean_trans st st' \<Longrightarrow> lister_ok st \<Longrightarrow> lister_ok st'"
  by (induction rule: clean_trans.induct) (auto simp: lister_ok_def)

lemma forwarder_ok_trans: "clean_trans st st' \<Longrightarrow> forwarder_ok st \<Longrightarrow> forwarder_ok st'"
  by (induction rule: clean_trans.induct) (auto simp: forwarder_ok_def)

lemma worker_count_trans: "clean_trans st st' \<Longrightarrow> worker_count_ok st \<Longrightarrow> worker_count_ok st'"
  by (induction rule: clean_trans.induct) (auto simp: worker_count_ok_def)

lemma batcher_ok_trans: "clean_trans st st' \<Longrightarrow> batcher_ok st \<Longrightarrow> batcher_ok st'"
  by (induction rule: clean_trans.induct) (auto simp: batcher_ok_def no_failure_def started_def)

lemma workers_ok_trans: "clean_trans st st' \<Longrightarrow> workers_ok st \<Longrightarrow> workers_ok st'"
  by (induction rule: clean_trans.induct)
     (auto simp: workers_ok_def no_failure_def started_def WORKER_COUNT_def dest!: set_update_subset_insert [THEN subsetD])

lemma joined_ok_trans: "clean_trans st st' \<Longrightarrow> joined_ok st \<Longrightarrow> worker_count_ok st \<Longrightarrow> joined_ok st'"
  by (induction rule: clean_trans.induct)
     (auto simp: joined_ok_def worker_count_ok_def WORKER_COUNT_def started_def dest: all_done_nth)

lemma returned_ok_trans: "clean_trans st st' \<Longrightarrow> returned_ok st \<Longrightarrow> returned_ok st'"
  by (induction rule: clean_trans.induct) (auto simp: returned_ok_def started_def)

lemma accounted_trans:
  "clean_trans st st' \<Longrightarrow> accounted st \<Longrightarrow> not_started_ok st \<Longrightarrow> accounted st'"
proof (induction rule: clean_trans.induct)
  case (worker_take i st b q)
  with workers_update [OF worker_take(1), of "WBusy b"] show ?case
    by (auto simp: accounted_def no_failure_def in_flight_def)
next
  case (worker_done i st)
  with workers_update [OF worker_done(1), of WDone] show ?case
    by (auto simp: accounted_def no_failure_def in_flight_def)
next
  case (worker_ack i st b s)
  with workers_update [OF worker_ack(1), of WIdle] show ?case
    by (auto simp: accounted_def no_failure_def in_flight_def ac_simps)
qed (auto simp: accounted_def no_failure_def in_flight_def not_started_ok_def started_def)

text \<open>Bounds: batches are neither empty nor too long, and no channel holds more than its capacity.\<close>

definition batches_ok :: "'w clean \<Rightarrow> bool" where
  "batches_ok st \<longleftrightarrow>
     (\<forall>b \<in> set (batchQ st) \<union> {b. WBusy b \<in> set (workers st)}. b \<noteq> [] \<and> length b \<le> MAX_BATCH_SIZE) \<and>
     (case batcher st of
        BRecv ns \<Rightarrow> length ns < MAX_BATCH_SIZE
      | BSend ns \<Rightarrow> length ns = MAX_BATCH_SIZE
      | BLast ns \<Rightarrow> ns \<noteq> [] \<and> length ns < MAX_BATCH_SIZE
      | BDone \<Rightarrow> True)"

definition done_count :: "'w clean \<Rightarrow> nat" where
  "done_count st = count_list (workers st) WDone + (if batcher st = BDone then 1 else 0)"

definition capacities_ok :: "'w clean \<Rightarrow> bool" where
  "capacities_ok st \<longleftrightarrow>
     length (pageQ st) \<le> 1024 \<and> length (namesQ st) \<le> 1024 \<and> length (objectsQ st) \<le> 10 \<and>
     length (batchQ st) \<le> WORKER_COUNT \<and> length (workers st) \<le> WORKER_COUNT"

definition errors_ok :: "'w clean \<Rightarrow> bool" where
  "errors_ok st \<longleftrightarrow> length (errorsQ st) \<le> done_count st"

lemma batches_trans: "clean_trans st st' \<Longrightarrow> batches_ok st \<Longrightarrow> batches_ok st'"
proof (induction rule: clean_trans.induct)
  case (worker_take i st b q)
  have "WBusy c \<in> set ((workers st)[i := WBusy b]) \<Longrightarrow> c = b \<or> WBusy c \<in> set (workers st)" for c
    using set_update_subset_insert [of "workers st" i "WBusy b"] by auto
  with worker_take show ?case by (auto simp: batches_ok_def)
next
  case (worker_done i st)
  have "WBusy c \<in> set ((workers st)[i := WDone]) \<Longrightarrow> WBusy c \<in> set (workers st)" for c
    using set_update_subset_insert [of "workers st" i WDone] by auto
  with worker_done show ?case by (auto simp: batches_ok_def)
next
  case (worker_ack i st b s)
  have "WBusy c \<in> set ((workers st)[i := WIdle]) \<Longrightarrow> WBusy c \<in> set (workers st)" for c
    using set_update_subset_insert [of "workers st" i WIdle] by auto
  with worker_ack show ?case by (auto simp: batches_ok_def)
next
  case (worker_fail i st b s e)
  have "WBusy c \<in> set ((workers st)[i := WDone]) \<Longrightarrow> WBusy c \<in> set (workers st)" for c
    using set_update_subset_insert [of "workers st" i WDone] by auto
  with worker_fail show ?case by (auto simp: batches_ok_def)
next
  case (worker_cancelled i st e)
  have "WBusy c \<in> set ((workers st)[i := WDone]) \<Longrightarrow> WBusy c \<in> set (workers st)" for c
    using set_update_subset_insert [of "workers st" i WDone] by auto
  with worker_cancelled show ?case by (auto simp: batches_ok_def)
qed (auto simp: batches_ok_def MAX_BATCH_SIZE_def)

lemma capacities_trans: "clean_trans st st' \<Longrightarrow> capacities_ok st \<Longrightarrow> capacities_ok st'"
  by (induction rule: clean_trans.induct) (auto simp: capacities_ok_def)

lemma count_list_update:
  "i < length ws \<Longrightarrow> ws ! i \<noteq> w \<Longrightarrow> count_list (ws[i := w]) w = Suc (count_list ws w)"
  by (induction ws arbitrary: i) (auto split: nat.split simp: nth_Cons')

lemma count_list_update_other:
  "i < length ws \<Longrightarrow> ws ! i \<noteq> w \<Longrightarrow> w' \<noteq> w \<Longrightarrow> count_list (ws[i := w']) w = count_list ws w"
  by (induction ws arbitrary: i) (auto split: nat.split simp: nth_Cons')

lemma errors_trans: "clean_trans st st' \<Longrightarrow> errors_ok st \<Longrightarrow> not_started_ok st \<Longrightarrow> errors_ok st'"
  by (induction rule: clean_trans.induct)
     (auto simp: errors_ok_def done_count_def count_list_update count_list_update_other
       not_started_ok_def)

section \<open>Every schedule\<close>

definition clean_inv :: "'w clean \<Rightarrow> bool" where
  "clean_inv st \<longleftrightarrow>
     not_started_ok st \<and> worker_count_ok st \<and> lister_ok st \<and> forwarder_ok st \<and> batcher_ok st \<and>
     workers_ok st \<and> joined_ok st \<and> returned_ok st \<and> accounted st \<and> batches_ok st \<and>
     capacities_ok st \<and> errors_ok st"

lemma clean_inv_init: "clean_inv (clean_init s)"
  by (simp add: clean_inv_def clean_init_def not_started_ok_def worker_count_ok_def lister_ok_def
      forwarder_ok_def batcher_ok_def workers_ok_def joined_ok_def returned_ok_def accounted_def
      in_flight_def workers_names_def batches_ok_def MAX_BATCH_SIZE_def capacities_ok_def errors_ok_def)

lemma clean_inv_trans:
  assumes "clean_inv st" "clean_trans st st'"
  shows "clean_inv st'"
proof -
  note inv = assms(1) [unfolded clean_inv_def] and tr = assms(2)
  from inv show ?thesis
    unfolding clean_inv_def
    by (auto intro: not_started_trans [OF tr] worker_count_trans [OF tr] lister_ok_trans [OF tr]
        forwarder_ok_trans [OF tr] batcher_ok_trans [OF tr] workers_ok_trans [OF tr]
        joined_ok_trans [OF tr] returned_ok_trans [OF tr] accounted_trans [OF tr]
        batches_trans [OF tr] capacities_trans [OF tr] errors_trans [OF tr])
qed

lemma clean_inv_run: "clean_inv (clean_run env cfg evs (clean_init s))"
  using clean_run_invariant [of clean_inv, OF clean_inv_init] clean_inv_trans by blast

text \<open>After a successful return nothing is in flight and the listing is complete.\<close>

lemma clean_inv_success:
  assumes "clean_inv st" "main st = MReturn (Inr ())"
  shows "mset (acked st) = mset (listed st) \<and> lister st = LDone \<and> lastMarker st = []"
proof -
  note inv = assms(1) [unfolded clean_inv_def]
  from inv assms have f: "forwarder st = FDone" "errorChan st = None"
    and b: "errorsQ st = []" "batcher st = BDone" "workers st \<noteq> []" "set (workers st) \<subseteq> {WDone}"
    by (auto simp: returned_ok_def joined_ok_def)
  then have nf: "no_failure st" and w: "WDone \<in> set (workers st)"
    using assms by (auto simp: no_failure_def neq_Nil_conv)
  from inv f have l: "namesQ st = []" "lister st = LDone" by (auto simp: forwarder_ok_def)
  moreover from inv l f have "lastMarker st = []" by (auto simp: lister_ok_def)
  moreover from inv nf b w have "objectsQ st = []" "batchQ st = []"
    by (auto simp: batcher_ok_def workers_ok_def)
  moreover from inv nf have "mset (listed st) = in_flight st + mset (acked st)"
    by (auto simp: accounted_def)
  ultimately show ?thesis using f b by (simp add: in_flight_def)
qed

text \<open>
  C1: when the deletion of a bucket's objects returns without an error, under whatever schedule
  and whatever the services answered, the lister came to the last page without an error and the
  names it produced are, with their multiplicities, the names in batches the service acknowledged.
\<close>

theorem clean_success_complete:
  assumes "main (clean_run env cfg evs (clean_init s)) = MReturn (Inr ())"
  shows "let st = clean_run env cfg evs (clean_init s)
    in mset (acked st) = mset (listed st) \<and> lister st = LDone \<and> lastMarker st = []"
  using clean_inv_success [OF clean_inv_run assms] by (simp add: Let_def)

text \<open>A page of two objects, deleted in one batch.\<close>

definition demo_clean_script :: "http_response list" where
  "demo_clean_script =
     [answer 200 [JArr [JObj [(''id'', JStr ''b1''), (''tbl'', JStr ''bk''), (''region'', JStr ''z0'')]]],
      answer 200 [JObj [(''regions'', JArr [JObj [(''id'', JStr ''z0''),
        (''rs'', JObj [(''domains'', JArr [JStr ''rs.example.com''])])]])]],
      answer 200 [JObj [(''marker'', JStr ''m''), (''item'', JObj [(''key'', JStr ''x'')])],
                  JObj [(''marker'', JStr []), (''item'', JObj [(''key'', JStr ''y'')])]],
      answer 298 []]"

definition demo_clean_config :: clean_config where
  "demo_clean_config =
     \<lparr>cfgClient = NewKodoClient ''ak'' ''sk'' (endpoint_url ''http'' ''uc.example.com'' []) ''v1'' ''c1'',
      cfgRsf = endpoint_url ''http'' ''rsf.example.com'' [], cfgBucket = ''bk''\<rparr>"

definition demo_schedule :: "event list" where
  "demo_schedule =
     [MainStep, MainStep, ListerStep, DecodeNext, DecodeNext, DecodeNext, ListerStep, ListerStep,
      ForwarderStep, ForwarderStep, BatcherStep, ListerStep, ListerStep, ForwarderStep, ForwarderStep,
      BatcherStep, ListerStep, ForwarderStep, BatcherStep, BatcherStep] @
     [WorkerStep 3, WorkerStep 3] @ map WorkerStep [0..<10] @ [MainStep, MainStep]"

definition demo_clean :: "http_response list clean" where
  "demo_clean =
     clean_run script_env demo_clean_config demo_schedule (clean_init (script_state demo_clean_script))"

definition clean_outcome :: "'w clean \<Rightarrow> main \<times> string list" where
  "clean_outcome st = (main st, listed st)"

lemma demo_clean_outcome: "clean_outcome demo_clean = (MReturn (Inr ()), [''x'', ''y''])"
  by code_simp

lemma demo_clean_main: "main demo_clean = MReturn (Inr ())"
  and demo_clean_listed: "listed demo_clean = [''x'', ''y'']"
  using demo_clean_outcome by (simp_all add: clean_outcome_def)

theorem clean_success_complete_witness:
  "main demo_clean = MReturn (Inr ()) \<and> mset (acked demo_clean) = {#''x'', ''y''#}"
  using clean_success_complete [OF demo_clean_main [unfolded demo_clean_def], folded demo_clean_def]
    demo_clean_main demo_clean_listed by (simp add: Let_def)

text \<open>
  C13: under every schedule, each batch that waits or is being sent has between one and a hundred
  names, no channel holds more than its capacity, and there is always room for an error in the
  channel of errors, so reporting one never blocks.
\<close>

theorem clean_bounds:
  "let st = clean_run env cfg evs (clean_init s)
   in (\<forall>b. b \<in> set (batchQ st) \<or> WBusy b \<in> set (workers st) \<longrightarrow> 1 \<le> length b \<and> length b \<le> 100)
    \<and> length (pageQ st) \<le> 1024 \<and> length (namesQ st) \<le> 1024 \<and> length (objectsQ st) \<le> 10
    \<and> length (batchQ st) \<le> 10 \<and> length (workers st) \<le> 10
    \<and> length (errorsQ st) \<le> 11
    \<and> (batcher st \<noteq> BDone \<or> (\<exists>i < length (workers st). workers st ! i \<noteq> WDone) \<longrightarrow>
         length (errorsQ st) < 11)"
proof -
  let ?st = "clean_run env cfg evs (clean_init s)"
  note inv = clean_inv_run [of env cfg evs s, unfolded clean_inv_def]
  have cap: "length (workers ?st) \<le> 10" using inv by (simp add: capacities_ok_def WORKER_COUNT_def)
  have cnt: "count_list (workers ?st) WDone \<le> length (workers ?st)" by (rule count_le_length)
  have "count_list ws WDone < length ws" if "i < length ws" "ws ! i \<noteq> WDone" for i and ws :: "worker list"
    using that count_list_update [OF that] count_le_length [of "ws[i := WDone]" WDone] by simp
  with inv cap cnt have "length (errorsQ ?st) \<le> 11"
    "batcher ?st \<noteq> BDone \<or> (\<exists>i < length (workers ?st). workers ?st ! i \<noteq> WDone) \<longrightarrow> length (errorsQ ?st) < 11"
    by (fastforce simp: errors_ok_def done_count_def split: if_splits)+
  moreover have "1 \<le> length b \<and> length b \<le> 100" if "b \<in> set (batchQ ?st) \<or> WBusy b \<in> set (workers ?st)" for b
  proof -
    from inv have "batches_ok ?st" by blast
    with that have "b \<noteq> [] \<and> length b \<le> 100" by (auto simp: batches_ok_def MAX_BATCH_SIZE_def)
    then show ?thesis by (simp add: Suc_le_eq)
  qed
  ultimately show ?thesis
    using inv by (simp add: Let_def capacities_ok_def WORKER_COUNT_def)
qed

section \<open>When the pipeline stops\<close>

lemma quiet_lister:
  assumes "decoder_step st = None" "lister_step env cfg st = None" "namesQ st = []"
  shows "lister st = LDone"
proof (cases "lister st")
  case LRange
  with assms(2) have "pageQ st = []" "decoding st \<noteq> None"
    by (auto simp: lister_step_def split: list.splits if_splits)
  with assms(1) show ?thesis
    by (auto simp: decoder_step_def split: list.splits sum.splits)
qed (use assms(2,3) in \<open>auto simp: lister_step_def split: prod.splits sum.splits\<close>)

lemma quiet_forwarder:
  assumes "decoder_step st = None" "lister_step env cfg st = None" "forwarder_step st = None"
    and "objectsQ st = []"
  shows "forwarder st = FDone"
  using assms(3,4) quiet_lister [OF assms(1,2)]
  by (auto simp: forwarder_step_def split: forwarder.splits list.splits sum.splits if_splits)

lemma quiet_batcher:
  assumes "decoder_step st = None" "lister_step env cfg st = None" "forwarder_step st = None"
    and "batcher_step st = None" "started st"
  shows "batcher st = BDone \<or>
    (\<exists>ns. batcher st = BSend ns \<or> batcher st = BLast ns) \<and> length (batchQ st) \<ge> WORKER_COUNT"
  using assms(4,5) quiet_forwarder [OF assms(1-3)]
  by (auto simp: batcher_step_def Let_def not_less split: batcher.splits list.splits if_splits)

lemma quiet_worker:
  assumes "worker_step env cfg i st = None" "i < length (workers st)"
  shows "workers st ! i = WDone \<or> batchQ st = [] \<and> batcher st \<noteq> BDone"
  using assms
  by (auto simp: worker_step_def split: worker.splits list.splits if_splits prod.splits sum.splits)

text \<open>Ten failed workers, a full channel of batches and one more batch to send.\<close>

definition clogged :: "'w clean \<Rightarrow> bool" where
  "clogged st \<longleftrightarrow>
     main st = MWait \<and> set (workers st) \<subseteq> {WDone} \<and> length (batchQ st) \<ge> WORKER_COUNT \<and>
     (\<exists>ns. batcher st = BSend ns \<or> batcher st = BLast ns)"

lemma quiet_clogged:
  assumes "clean_inv st" "\<nexists>r. main st = MReturn r"
    and q: "decoder_step st = None" "lister_step env cfg st = None" "forwarder_step st = None"
      "batcher_step st = None" "main_step env cfg st = None" "\<forall>i. worker_step env cfg i st = None"
  shows "clogged st \<and> errorsQ st \<noteq> []"
proof -
  note inv = assms(1) [unfolded clean_inv_def]
  from q(5) assms(2) have m: "main st = MWait \<or> main st = MJoin"
    by (auto simp: main_step_def split: main.splits prod.splits sum.splits option.splits)
  then have "started st" by (auto simp: started_def)
  note b = quiet_batcher [OF q(1-4) this]
  have w: "workers st ! i = WDone \<or> batchQ st = [] \<and> batcher st \<noteq> BDone" if "i < length (workers st)" for i
    using quiet_worker [OF spec [OF q(6), of i] that] .
  have "batcher st = BDone \<or> batchQ st \<noteq> []" using b by (auto simp: WORKER_COUNT_def)
  then have wd: "set (workers st) \<subseteq> {WDone}" using w by (fastforce simp: in_set_conv_nth)
  have nj: "main st \<noteq> MJoin"
  proof
    assume j: "main st = MJoin"
    with inv have "forwarder st = FDone" by (auto simp: joined_ok_def batcher_ok_def no_failure_def)
    with q(5) j show False by (simp add: main_step_def)
  qed
  with m q(5) wd have nb: "batcher st \<noteq> BDone"
    by (auto simp: main_step_def list_all_iff subset_iff split: if_splits)
  have "length (workers st) = WORKER_COUNT" using inv m by (auto simp: worker_count_ok_def)
  with wd have "WDone \<in> set (workers st)" by (cases "workers st") (auto simp: WORKER_COUNT_def)
  with inv nb m nj have "errorsQ st \<noteq> []" by (auto simp: workers_ok_def no_failure_def)
  with b nb m nj wd show ?thesis by (auto simp: clogged_def)
qed

lemma clean_inv_progress:
  assumes "clean_inv st"
  shows "(\<exists>r. main st = MReturn r)
    \<or> (\<exists>ev. ev \<in> {DecodeNext, ListerStep, ForwarderStep, BatcherStep, MainStep} \<union> range WorkerStep
         \<and> clean_step env cfg ev st \<noteq> None)
    \<or> clogged st \<and> errorsQ st \<noteq> []"
proof (rule ccontr)
  assume stop: "\<not> ?thesis"
  then have none: "ev \<in> {DecodeNext, ListerStep, ForwarderStep, BatcherStep, MainStep} \<union> range WorkerStep \<Longrightarrow>
      clean_step env cfg ev st = None" for ev by blast
  have "decoder_step st = None" using none [of DecodeNext] unfolding clean_step_def by simp
  moreover have "lister_step env cfg st = None" using none [of ListerStep] unfolding clean_step_def by simp
  moreover have "forwarder_step st = None" using none [of ForwarderStep] unfolding clean_step_def by simp
  moreover have "batcher_step st = None" using none [of BatcherStep] unfolding clean_step_def by simp
  moreover have "main_step env cfg st = None" using none [of MainStep] unfolding clean_step_def by simp
  moreover have "\<forall>i. worker_step env cfg i st = None"
  proof
    fix i show "worker_step env cfg i st = None"
      using none [of "WorkerStep i"] unfolding clean_step_def by simp
  qed
  moreover have "\<nexists>r. main st = MReturn r" using stop by blast
  ultimately have "clogged st \<and> errorsQ st \<noteq> []"
    by (intro quiet_clogged [of st env cfg] assms)
  with stop show False by blast
qed

text \<open>
  C10: under every schedule, until the call returns either some process can take a step without
  the context being cancelled, or all ten workers have given up, the channel of batches is full
  and the batcher holds one more: the pipeline has no other deadlock, and in that one at least
  one deletion has failed.
\<close>

theorem clean_progress:
  "let st = clean_run env cfg evs (clean_init s)
   in (\<exists>r. main st = MReturn r)
    \<or> (\<exists>ev. ev \<in> {DecodeNext, ListerStep, ForwarderStep, BatcherStep, MainStep} \<union> range WorkerStep
         \<and> clean_step env cfg ev st \<noteq> None)
    \<or> clogged st \<and> errorsQ st \<noteq> []"
  unfolding Let_def by (rule clean_inv_progress [OF clean_inv_run])

lemma clogged_trans: "clean_trans st st' \<Longrightarrow> clogged st \<Longrightarrow> clogged st'"
  by (induction rule: clean_trans.induct)
     (auto simp: clogged_def started_def dest: all_done_nth)

text \<open>
  C11: once the ten workers have given up, the channel of batches is full and the batcher holds one
  more batch, no schedule makes the call return, not even one that cancels the context.
\<close>

theorem clogged_forever:
  assumes "clogged st"
  shows "main (clean_run env cfg evs st) = MWait"
proof -
  have "clogged (clean_run env cfg evs st)"
    using clean_run_invariant [of clogged st env cfg evs] assms clogged_trans by blast
  then show ?thesis by (simp add: clogged_def)
qed

text \<open>
  The state is reached.  In the example the service lists 2100 objects on one page and then answers
  nothing more: each worker takes a batch, fails and stops, ten batches fill the channel, and the
  batcher holds one more.
\<close>

lemma clean_run_append: "clean_run env cfg (evs @ evs') st = clean_run env cfg evs' (clean_run env cfg evs st)"
proof (induction evs arbitrary: st)
  case (Cons ev evs)
  have "clean_run env cfg evs' st = st" if "main st = MReturn r" for r
    using that by (cases evs') simp_all
  with Cons show ?case by (auto split: main.split option.split)
qed simp

definition flow_doc :: json where
  "flow_doc = JObj [(''marker'', JStr []), (''item'', JObj [(''key'', JStr ''x'')])]"

definition flow_script :: "http_response list" where
  "flow_script = take 2 demo_clean_script @ [answer 200 (replicate 2100 flow_doc)]"

text \<open>\<open>n\<close> documents are left, the batcher has \<open>k\<close> names, and no name is in between.\<close>

definition at_rest :: "nat \<Rightarrow> string list list \<Rightarrow> worker list \<Rightarrow> http_response list clean \<Rightarrow> bool" where
  "at_rest n q ws st \<longleftrightarrow>
     main st = MWait \<and> lister st = LRange \<and> pageQ st = [] \<and> namesQ st = [] \<and> forwarder st = FRange \<and>
     objectsQ st = [] \<and> batchQ st = q \<and> workers st = ws \<and> remote (proc st) = [] \<and>
     (\<exists>cur \<in> {([], []), ([], ''x'')}. decoding st = Some (replicate n flow_doc, cur))"

abbreviation flow_run :: "event list \<Rightarrow> http_response list clean \<Rightarrow> http_response list clean" where
  "flow_run \<equiv> clean_run script_env demo_clean_config"

lemma flow_decodes: "cur \<in> {([], []), ([], ''x'')} \<Longrightarrow> dec_listed flow_doc cur = Inr ([], ''x'')"
proof -
  have "dec_listed flow_doc ([], []) = Inr ([], ''x'')" "dec_listed flow_doc ([], ''x'') = Inr ([], ''x'')"
    by code_simp+
  then show "cur \<in> {([], []), ([], ''x'')} \<Longrightarrow> dec_listed flow_doc cur = Inr ([], ''x'')" by auto
qed

definition one_name :: "event list" where
  "one_name = [DecodeNext, ListerStep, ListerStep, ForwarderStep, ForwarderStep, BatcherStep]"

lemma name_moves:
  assumes "at_rest (Suc n) q ws st" "batcher st = BRecv (replicate k ''x'')"
  shows "at_rest n q ws (flow_run one_name st) \<and>
    batcher (flow_run one_name st) =
      (if Suc k < 100 then BRecv (replicate (Suc k) ''x'') else BSend (replicate (Suc k) ''x''))"
  using assms
  by (auto simp: at_rest_def one_name_def clean_step_def decoder_step_def lister_step_def forwarder_step_def
      batcher_step_def started_def flow_decodes MAX_BATCH_SIZE_def replicate_append_same Let_def)

lemma names_move:
  assumes "at_rest (j + n) q ws st" "batcher st = BRecv (replicate k ''x'')" "k + j = 100" "0 < j"
  shows "\<exists>evs. at_rest n q ws (flow_run evs st) \<and> batcher (flow_run evs st) = BSend (replicate 100 ''x'')"
  using assms
proof (induction j arbitrary: st k)
  case (Suc j)
  note moved = name_moves [OF Suc.prems(1) [simplified] Suc.prems(2)]
  show ?case
  proof (cases j)
    case 0
    with Suc.prems(3) moved show ?thesis by (intro exI [of _ one_name]) simp
  next
    case (Suc i)
    with Suc.prems(3) moved have "at_rest (j + n) q ws (flow_run one_name st)"
      "batcher (flow_run one_name st) = BRecv (replicate (Suc k) ''x'')" by simp_all
    from Suc.IH [OF this] Suc.prems(3) Suc obtain evs where
      "at_rest n q ws (flow_run evs (flow_run one_name st)) \<and>
       batcher (flow_run evs (flow_run one_name st)) = BSend (replicate 100 ''x'')" by auto
    then show ?thesis by (metis clean_run_append)
  qed
qed simp

text \<open>A full batch goes into the channel.\<close>

lemma batch_filled:
  assumes "at_rest (100 + n) q ws st" "batcher st = BRecv []" "length q < 10"
  shows "\<exists>evs. at_rest n (q @ [replicate 100 ''x'']) ws (flow_run evs st) \<and> batcher (flow_run evs st) = BRecv []"
proof -
  from names_move [of 100 n q ws st 0] assms obtain evs where
    evs: "at_rest n q ws (flow_run evs st)" "batcher (flow_run evs st) = BSend (replicate 100 ''x'')" by auto
  then have "at_rest n (q @ [replicate 100 ''x'']) ws (flow_run [BatcherStep] (flow_run evs st)) \<and>
      batcher (flow_run [BatcherStep] (flow_run evs st)) = BRecv []"
    using assms(3) by (auto simp: at_rest_def clean_step_def batcher_step_def started_def WORKER_COUNT_def)
  then show ?thesis by (metis clean_run_append)
qed

lemma no_answer:
  assumes "remote s = []"
  shows "\<exists>e s'. sendDeleteObjectsRequest (with_ctx c script_env) cl u b ns s = (Inl e, s') \<and> remote s' = []"
  using assms
  by (auto simp: sendDeleteObjectsRequest_def kodo_send_def action_defs http_Do_def with_ctx_def script_env_def
      script_net_def split: sum.split prod.split)

lemma worker_fails:
  assumes "at_rest n [b] ws st" "batcher st = BRecv []" "i < length ws" "ws ! i = WIdle"
  shows "at_rest n [] (ws[i := WDone]) (flow_run [WorkerStep i, WorkerStep i] st) \<and>
    batcher (flow_run [WorkerStep i, WorkerStep i] st) = BRecv []"
proof -
  have "remote (proc st) = []" using assms(1) by (simp add: at_rest_def)
  from no_answer [OF this] obtain e s' where "sendDeleteObjectsRequest (with_ctx (cancelled st) script_env)
      (cfgClient demo_clean_config) (rsUrl st) (cfgBucket demo_clean_config) b (proc st) = (Inl e, s')" "remote s' = []"
    by blast
  with assms show ?thesis by (auto simp: at_rest_def clean_step_def worker_step_def)
qed

lemma all_fail:
  assumes "at_rest (100 * i + n) [] (replicate (10 - i) WDone @ replicate i WIdle) st" "batcher st = BRecv []" "i \<le> 10"
  shows "\<exists>evs. at_rest n [] (replicate 10 WDone) (flow_run evs st) \<and> batcher (flow_run evs st) = BRecv []"
  using assms
proof (induction i arbitrary: st)
  case 0
  then show ?case by (intro exI [of _ "[]"]) simp
next
  case (Suc i)
  let ?ws = "replicate (10 - Suc i) WDone @ replicate (Suc i) WIdle"
  have "at_rest (100 + (100 * i + n)) [] ?ws st" using Suc.prems(1) by (simp add: algebra_simps)
  from batch_filled [OF this Suc.prems(2)] obtain evs where
    "at_rest (100 * i + n) [replicate 100 ''x''] ?ws (flow_run evs st)" "batcher (flow_run evs st) = BRecv []" by auto
  from worker_fails [OF this, of "10 - Suc i"] have
    "at_rest (100 * i + n) [] (?ws[10 - Suc i := WDone]) (flow_run (evs @ [WorkerStep (10 - Suc i), WorkerStep (10 - Suc i)]) st) \<and>
     batcher (flow_run (evs @ [WorkerStep (10 - Suc i), WorkerStep (10 - Suc i)]) st) = BRecv []"
    by (simp add: clean_run_append nth_append)
  moreover have "?ws[10 - Suc i := WDone] = replicate (10 - i) WDone @ replicate i WIdle"
    using Suc.prems(3) by (simp add: list_update_append Suc_diff_Suc [symmetric] replicate_append_same)
  ultimately show ?case using Suc.IH Suc.prems(3) by (metis Suc_leD clean_run_append)
qed

lemma queue_filled:
  assumes "at_rest (100 * j + n) q ws st" "batcher st = BRecv []" "length q + j = 10"
  shows "\<exists>evs q'. length q' = 10 \<and> at_rest n q' ws (flow_run evs st) \<and> batcher (flow_run evs st) = BRecv []"
  using assms
proof (induction j arbitrary: q st)
  case 0
  then have "length q = 10 \<and> at_rest n q ws (flow_run [] st) \<and> batcher (flow_run [] st) = BRecv []" by simp
  then show ?case by blast
next
  case (Suc j)
  have "at_rest (100 + (100 * j + n)) q ws st" using Suc.prems(1) by (simp add: algebra_simps)
  from batch_filled [OF this Suc.prems(2)] Suc.prems(3) obtain evs where
    "at_rest (100 * j + n) (q @ [replicate 100 ''x'']) ws (flow_run evs st)" "batcher (flow_run evs st) = BRecv []" by auto
  from Suc.IH [OF this] Suc.prems(3) show ?case by (metis (no_types, lifting) Suc_eq_plus1 add.commute add_Suc_right clean_run_append length_append_singleton)
qed

text \<open>The start: the bucket and the address are found and the page is there.\<close>

definition start_view :: "http_response list clean \<Rightarrow>
    main \<times> lister \<times> listed_object list \<times> string result list \<times> forwarder \<times> string list \<times> string list list \<times>
      worker list \<times> batcher \<times> string \<times> bool" where
  "start_view st = (main st, lister st, pageQ st, namesQ st, forwarder st, objectsQ st, batchQ st, workers st,
     batcher st, lastMarker st, cancelled st)"

lemma mains_view: "start_view (flow_run [MainStep, MainStep] (clean_init (script_state (take 2 demo_clean_script @ rest)))) =
  (MWait, LRequest, [], [], FRange, [], [], replicate 10 WIdle, BRecv [], [], False)"
  by code_simp

lemma mains_remote: "remote (proc (flow_run [MainStep, MainStep] (clean_init (script_state (take 2 demo_clean_script @ rest))))) = rest"
  by code_simp

lemma lists_page:
  assumes "remote s = [answer 200 docs]"
  shows "\<exists>s'. sendListObjectsRequest (with_ctx False script_env) (cfgClient demo_clean_config) (cfgRsf demo_clean_config)
    (cfgBucket demo_clean_config) [] s = (Inr docs, s') \<and> remote s' = []"
proof -
  have "is_ok (url_Parse (RequestUrl (list_request (cfgClient demo_clean_config) (cfgRsf demo_clean_config)
      (cfgBucket demo_clean_config) [])))" by code_simp
  with assms show ?thesis
    by (auto simp: sendListObjectsRequest_def Let_def action_defs http_Do_def with_ctx_def script_env_def
        script_net_def answer_def list_response_def is_ok_iff split: sum.split prod.split)
qed

lemma flow_starts:
  "let st = flow_run [MainStep, MainStep, ListerStep] (clean_init (script_state flow_script))
   in at_rest 2100 [] (replicate 10 WIdle) st \<and> batcher st = BRecv []"
proof -
  define st where "st = flow_run [MainStep, MainStep] (clean_init (script_state flow_script))"
  note mains = mains_view [of "[answer 200 (replicate 2100 flow_doc)]", folded flow_script_def st_def, unfolded start_view_def]
    mains_remote [of "[answer 200 (replicate 2100 flow_doc)]", folded flow_script_def st_def]
  from lists_page [OF mains(2)] obtain s' where "sendListObjectsRequest (with_ctx False script_env)
      (cfgClient demo_clean_config) (cfgRsf demo_clean_config) (cfgBucket demo_clean_config) [] (proc st) =
      (Inr (replicate 2100 flow_doc), s')" "remote s' = []" by blast
  with mains(1) have "at_rest 2100 [] (replicate 10 WIdle) (flow_run [ListerStep] st) \<and> batcher (flow_run [ListerStep] st) = BRecv []"
    by (simp add: at_rest_def clean_step_def lister_step_def del: replicate.simps)
  moreover have "flow_run [MainStep, MainStep, ListerStep] (clean_init (script_state flow_script)) = flow_run [ListerStep] st"
    unfolding st_def using clean_run_append [of script_env demo_clean_config "[MainStep, MainStep]" "[ListerStep]"] by simp
  ultimately show ?thesis by simp
qed

lemma clogged_reached: "\<exists>evs. clogged (flow_run evs (clean_init (script_state flow_script)))"
proof -
  let ?st = "flow_run [MainStep, MainStep, ListerStep] (clean_init (script_state flow_script))"
  from flow_starts [unfolded Let_def] have "at_rest (100 * 10 + 1100) [] (replicate (10 - 10) WDone @ replicate 10 WIdle) ?st"
    "batcher ?st = BRecv []" by simp_all
  from all_fail [OF this] obtain e1 where
    "at_rest (100 * 10 + 100) [] (replicate 10 WDone) (flow_run e1 ?st)" "batcher (flow_run e1 ?st) = BRecv []" by auto
  from queue_filled [OF this] obtain e2 q where "length q = 10"
    "at_rest 100 q (replicate 10 WDone) (flow_run e2 (flow_run e1 ?st))" "batcher (flow_run e2 (flow_run e1 ?st)) = BRecv []"
    by auto
  with names_move [of 100 0 q _ _ 0] obtain e3 where
    "at_rest 0 q (replicate 10 WDone) (flow_run e3 (flow_run e2 (flow_run e1 ?st)))"
    "batcher (flow_run e3 (flow_run e2 (flow_run e1 ?st))) = BSend (replicate 100 ''x'')" by auto
  with \<open>length q = 10\<close> have "clogged (flow_run e3 (flow_run e2 (flow_run e1 ?st)))"
    by (auto simp: clogged_def at_rest_def WORKER_COUNT_def)
  then show ?thesis by (metis clean_run_append)
qed

theorem clogged_forever_witness:
  "\<exists>evs. clogged (flow_run evs (clean_init (script_state flow_script))) \<and>
     main (flow_run (evs @ Cancel # demo_schedule) (clean_init (script_state flow_script))) = MWait"
proof -
  obtain evs where clogged: "clogged (flow_run evs (clean_init (script_state flow_script)))"
    using clogged_reached by blast
  with clogged_forever [OF clogged, of script_env demo_clean_config "Cancel # demo_schedule"] show ?thesis
    unfolding clean_run_append [symmetric] by blast
qed

theorem clean_bounds_witness: "length (batchQ demo_clean) \<le> 10 \<and> length (errorsQ demo_clean) \<le> 11"
  using clean_bounds [of script_env demo_clean_config demo_schedule "script_state demo_clean_script"]
  by (simp add: Let_def demo_clean_def)

end
