(* ===== verification/Event_System.thy ===== *)
theory Event_System
  imports Main
begin

text \<open>
  Systems of concurrent processes under a schedule: a step function says what an event does in a
  state, \<open>None\<close> when the event is not enabled there; a schedule is a list of events, of which
  the disabled ones are skipped.  The locale \<open>invariant_system\<close> lifts what every step keeps to
  every schedule.
\<close>

definition apply_event :: "('e \<Rightarrow> 's \<Rightarrow> 's option) \<Rightarrow> 'e \<Rightarrow> 's \<Rightarrow> 's" where
  "apply_event step ev s = (case step ev s of None \<Rightarrow> s | Some s' \<Rightarrow> s')"

definition run_events :: "('e \<Rightarrow> 's \<Rightarrow> 's option) \<Rightarrow> 'e list \<Rightarrow> 's \<Rightarrow> 's" where
  "run_events step evs s = fold (apply_event step) evs s"

lemma run_events_simps [simp]:
  "run_events step [] s = s"
  "run_events step (ev # evs) s = run_events step evs (apply_event step ev s)"
  by (simp_all add: run_events_def)

lemma run_events_append: "run_events step (evs @ evs') s = run_events step evs' (run_events step evs s)"
  by (simp add: run_events_def)

lemma apply_event_Some [simp]: "step ev s = Some s' \<Longrightarrow> apply_event step ev s = s'"
  by (simp add: apply_event_def)

lemma apply_event_None [simp]: "step ev s = None \<Longrightarrow> apply_event step ev s = s"
  by (simp add: apply_event_def)

locale invariant_system =
  fixes step :: "'e \<Rightarrow> 's \<Rightarrow> 's option" and inv :: "'s \<Rightarrow> bool"
  assumes step_inv: "inv s \<Longrightarrow> step ev s = Some s' \<Longrightarrow> inv s'"
begin

lemma apply_inv: "inv s \<Longrightarrow> inv (apply_event step ev s)"
  by (cases "step ev s") (auto intro: step_inv)

lemma run_inv: "inv s \<Longrightarrow> inv (run_events step evs s)"
  by (induction evs arbitrary: s) (auto intro: apply_inv)

end

text \<open>A measure that every enabled event lowers bounds the number of events that take effect.\<close>

fun effective :: "('e \<Rightarrow> 's \<Rightarrow> 's option) \<Rightarrow> 'e list \<Rightarrow> 's \<Rightarrow> nat" where
  "effective step [] s = 0"
| "effective step (ev # evs) s =
     (case step ev s of None \<Rightarrow> effective step evs s | Some s' \<Rightarrow> Suc (effective step evs s'))"

locale bounded_system = invariant_system +
  fixes rank :: "'s \<Rightarrow> nat"
  assumes step_rank: "inv s \<Longrightarrow> step ev s = Some s' \<Longrightarrow> rank s' < rank s"
begin

lemma effective_bound: "inv s \<Longrightarrow> effective step evs s \<le> rank s"
proof (induction evs arbitrary: s)
  case (Cons ev evs)
  show ?case
  proof (cases "step ev s")
    case None
    with Cons show ?thesis by simp
  next
    case (Some s')
    with Cons step_inv have "effective step evs s' \<le> rank s'" by blast
    with step_rank [OF Cons.prems Some] Some show ?thesis by simp
  qed
qed simp

text \<open>Every run can be continued until no event is enabled.\<close>

lemma run_completes: "inv s \<Longrightarrow> \<exists>evs. \<forall>ev. step ev (run_events step evs s) = None"
proof (induction "rank s" arbitrary: s rule: less_induct)
  case less
  show ?case
  proof (cases "\<forall>ev. step ev s = None")
    case True
    then show ?thesis by (intro exI [of _ "[]"]) simp
  next
    case False
    then obtain ev s' where s': "step ev s = Some s'" by auto
    with less step_rank step_inv obtain evs where "\<forall>ev. step ev (run_events step evs s') = None"
      by blast
    with s' show ?thesis by (intro exI [of _ "ev # evs"]) simp
  qed
qed

end

text \<open>
  Simulation: every step looks, through \<open>abs\<close>, like a number of steps of a more abstract
  relation; then so does every run.
\<close>

locale simulated_system = invariant_system +
  fixes abs :: "'s \<Rightarrow> 'a" and spec :: "'a \<Rightarrow> 'a \<Rightarrow> bool"
  assumes step_simulated: "inv s \<Longrightarrow> step ev s = Some s' \<Longrightarrow> spec\<^sup>*\<^sup>* (abs s) (abs s')"
begin

lemma run_simulated: "inv s \<Longrightarrow> spec\<^sup>*\<^sup>* (abs s) (abs (run_events step evs s))"
proof (induction evs arbitrary: s)
  case (Cons ev evs)
  show ?case
  proof (cases "step ev s")
    case None
    with Cons show ?thesis by simp
  next
    case (Some s')
    with Cons step_inv have "spec\<^sup>*\<^sup>* (abs s') (abs (run_events step evs s'))" by blast
    with step_simulated [OF Cons.prems Some] Some show ?thesis by (simp add: rtranclp_trans)
  qed
qed simp

end

end
