(* ===== verification/Kodo_Clean_Termination.thy ===== *)
theory Kodo_Clean_Termination
  imports Kodo_Clean_Facts Event_System
begin

text \<open>
  The deletion pipeline takes finitely many steps when the markers of the listing lead to its end.
  A measure counts what every process still has to do; each step of a process lowers it.
\<close>

section \<open>The pipeline as an event system\<close>

text \<open>A step that changes something: nothing happens after the return and cancelling counts once.\<close>

definition progress_step :: "'w env \<Rightarrow> clean_config \<Rightarrow> event \<Rightarrow> 'w clean \<Rightarrow> 'w clean option" where
  "progress_step env cfg ev st =
     (case main st of
        MReturn r \<Rightarrow> None
      | _ \<Rightarrow> if ev = Cancel \<and> cancelled st then None else clean_step env cfg ev st)"

lemma progress_step_Some:
  "progress_step env cfg ev st = Some st' \<longleftrightarrow>
     (\<nexists>r. main st = MReturn r) \<and> \<not> (ev = Cancel \<and> cancelled st) \<and> clean_step env cfg ev st = Some st'"
  by (auto simp: progress_step_def split: main.split)

lemma cancel_again: "cancelled st \<Longrightarrow> clean_step env cfg Cancel st = Some st"
  by (cases st) (simp add: clean_step_def)

lemma clean_run_events: "clean_run env cfg evs st = run_events (progress_step env cfg) evs st"
proof (induction evs arbitrary: st)
  case (Cons ev evs)
  have "(case main st of MReturn r \<Rightarrow> st | _ \<Rightarrow> (case clean_step env cfg ev st of None \<Rightarrow> st | Some st' \<Rightarrow> st')) =
      apply_event (progress_step env cfg) ev st"
    using cancel_again [of st env cfg]
    by (auto simp: apply_event_def progress_step_def split: main.split option.split)
  moreover have "clean_run env cfg evs st = st" if "main st = MReturn r" for r
    using that by (cases evs) simp_all
  ultimately show ?case
    by (auto simp: Cons.IH [symmetric] split: main.splits option.splits)
qed simp

section \<open>Markers that lead to the end\<close>

text \<open>The objects that the decoder makes of the documents of a page.\<close>

fun page_items :: "json list \<Rightarrow> listed_object \<Rightarrow> listed_object list" where
  "page_items [] cur = []"
| "page_items (j # js) cur = (case dec_listed j cur of Inl e \<Rightarrow> [] | Inr x \<Rightarrow> x # page_items js x)"

text \<open>
  The contract of the list service: \<open>R m\<close> objects, at most, follow a marker \<open>m\<close>, and \<open>R []\<close> is
  the size of the bucket.  Whatever the state of the services, a page asked for with a marker has
  an object, and the marker of the last object of a page, if there is one, leaves the objects of
  the page behind.  A request may fail or be refused at any time, and nothing is said about what
  the state of the services becomes: a bucket that answers reads without changing satisfies this.
\<close>

definition after :: "(string \<Rightarrow> nat) \<Rightarrow> string \<Rightarrow> nat" where
  "after R marker = (if marker = [] then 0 else R marker)"

definition listing_ends :: "'w env \<Rightarrow> clean_config \<Rightarrow> (string \<Rightarrow> nat) \<Rightarrow> bool" where
  "listing_ends env cfg R \<longleftrightarrow>
     (\<forall>marker w resp docs.
        fst (net env (list_request (cfgClient cfg) (cfgRsf cfg) (cfgBucket cfg) marker) w) = Inr resp \<and>
        list_response resp = Inr docs \<longrightarrow>
          (let items = page_items docs ([], []) in
           if items = [] then marker = [] else length items + after R (fst (last items)) \<le> R marker))"

lemma list_page:
  assumes "listing_ends env cfg R"
    and "sendListObjectsRequest (with_ctx cancel env) (cfgClient cfg) (cfgRsf cfg) (cfgBucket cfg) marker s = (Inr docs, s')"
    and "items = page_items docs ([], [])"
  shows "\<not> cancel \<and> (if items = [] then marker = [] else length items + after R (fst (last items)) \<le> R marker)"
proof -
  let ?req = "list_request (cfgClient cfg) (cfgRsf cfg) (cfgBucket cfg) marker"
  from assms(2) obtain resp where "http_Do (with_ctx cancel env) ?req s = (Inr resp, s')" "list_response resp = Inr docs"
    by (auto simp: sendListObjectsRequest_def Let_def and_then_Inr wrap_error_Inr lift_result_def)
  then have "\<not> cancel \<and> fst (net env ?req (remote s)) = Inr resp \<and> list_response resp = Inr docs"
    by (cases cancel) (auto simp: http_Do_def with_ctx_def split: prod.splits)
  with assms(1,3) show ?thesis unfolding listing_ends_def by metis
qed

section \<open>What is left to do\<close>

text \<open>
  A name weighs the less the further it has come: 10 in a document to decode, 9 on the page, then 8,
  7, 6, 5, 4, 3 and 2 on its way to a worker.
\<close>

definition lister_rank :: "lister \<Rightarrow> nat" where
  "lister_rank l = (case l of LRequest \<Rightarrow> 10 | LRange \<Rightarrow> 11 | LSend n \<Rightarrow> 19 | LError e \<Rightarrow> 9 | LDone \<Rightarrow> 0)"

definition forwarder_rank :: "forwarder \<Rightarrow> nat" where
  "forwarder_rank f = (case f of FRange \<Rightarrow> 1 | FSend n \<Rightarrow> 7 | FDone \<Rightarrow> 0)"

definition batcher_rank :: "batcher \<Rightarrow> nat" where
  "batcher_rank b =
     (case b of BRecv ns \<Rightarrow> 2 + 4 * length ns | BSend ns \<Rightarrow> 2 + 4 * length ns
      | BLast ns \<Rightarrow> 1 + 4 * length ns | BDone \<Rightarrow> 0)"

definition worker_rank :: "worker \<Rightarrow> nat" where
  "worker_rank w = (case w of WIdle \<Rightarrow> 1 | WBusy b \<Rightarrow> 1 + 2 * length b | WDone \<Rightarrow> 0)"

definition main_rank :: "main \<Rightarrow> nat" where
  "main_rank m =
     (case m of MFind \<Rightarrow> 14 | MEndpoint b \<Rightarrow> 13 | MWait \<Rightarrow> 2 | MJoin \<Rightarrow> 1 | MReturn r \<Rightarrow> 0)"

definition decoding_rank :: "(json list \<times> listed_object) option \<Rightarrow> nat" where
  "decoding_rank d = (case d of None \<Rightarrow> 0 | Some (docs, cur) \<Rightarrow> 1 + 10 * length (page_items docs cur))"

definition workers_rank :: "worker list \<Rightarrow> nat" where
  "workers_rank ws = sum_list (map worker_rank ws)"

lemmas rank_simps =
  lister_rank_def forwarder_rank_def batcher_rank_def worker_rank_def main_rank_def decoding_rank_def

definition local_rank :: "'w clean \<Rightarrow> nat" where
  "local_rank st =
     decoding_rank (decoding st) + 9 * length (pageQ st) + lister_rank (lister st) +
     7 * length (namesQ st) + forwarder_rank (forwarder st) + 5 * length (objectsQ st) +
     batcher_rank (batcher st) + 3 * length (concat (batchQ st)) + workers_rank (workers st) +
     main_rank (main st) + (if cancelled st then 0 else 1)"

text \<open>
  What further requests may bring: the lister is going to ask with the marker of the last object of
  the current page, or with the last marker it saw.
\<close>

definition page_rest :: "'w clean \<Rightarrow> listed_object list" where
  "page_rest st = pageQ st @ (case decoding st of None \<Rightarrow> [] | Some (docs, cur) \<Rightarrow> page_items docs cur)"

definition end_marker :: "'w clean \<Rightarrow> string" where
  "end_marker st = (if page_rest st = [] then lastMarker st else fst (last (page_rest st)))"

definition more_pages :: "(string \<Rightarrow> nat) \<Rightarrow> string \<Rightarrow> nat" where
  "more_pages R marker = (if marker = [] then 0 else Suc (R marker))"

definition future :: "(string \<Rightarrow> nat) \<Rightarrow> 'w clean \<Rightarrow> nat" where
  "future R st =
     (if cancelled st then 0
      else case lister st of
        LRequest \<Rightarrow> Suc (R (lastMarker st))
      | LRange \<Rightarrow> more_pages R (end_marker st)
      | LSend n \<Rightarrow> more_pages R (end_marker st)
      | _ \<Rightarrow> 0)"

definition clean_rank :: "(string \<Rightarrow> nat) \<Rightarrow> 'w clean \<Rightarrow> nat" where
  "clean_rank R st = 13 * future R st + local_rank st"

lemma workers_rank_update:
  assumes "i < length ws"
  shows "workers_rank (ws[i := w]) + worker_rank (ws ! i) = workers_rank ws + worker_rank w"
  using assms unfolding workers_rank_def
proof (induction ws arbitrary: i)
  case (Cons x ws)
  then show ?case by (cases i) auto
qed simp

text \<open>The transitions, except that a page may arrive and that the decoder may take a document.\<close>

lemma trans_rank:
  assumes "clean_trans st st'" "batches_ok st" "not_started_ok st"
    and "lister st = LRequest \<longrightarrow> lister st' \<noteq> LRange"
    and "length (pageQ st') \<le> length (pageQ st)"
  shows "local_rank st' < local_rank st \<or> st' = st\<lparr>cancelled := True\<rparr> \<and> cancelled st"
  using assms
proof (induction rule: clean_trans.induct)
  case (worker_take i st b q)
  then have "b \<noteq> []" by (auto simp: batches_ok_def)
  with worker_take workers_rank_update [OF worker_take(1), of "WBusy b"] show ?case
    by (simp add: local_rank_def rank_simps)
next
  case (worker_done i st)
  with workers_rank_update [OF worker_done(1), of WDone] show ?case by (simp add: local_rank_def rank_simps)
next
  case (worker_ack i st b s)
  then have "WBusy b \<in> set (workers st)" by (metis nth_mem)
  with worker_ack(3) have "b \<noteq> []" unfolding batches_ok_def by blast
  then obtain n ns where "b = n # ns" by (cases b) auto
  with worker_ack workers_rank_update [OF worker_ack(1), of WIdle] show ?case
    by (simp add: local_rank_def rank_simps)
next
  case (worker_fail i st b s e)
  with workers_rank_update [OF worker_fail(1), of WDone] show ?case by (simp add: local_rank_def rank_simps)
next
  case (worker_cancelled i st e)
  with workers_rank_update [OF worker_cancelled(1), of WDone] show ?case by (simp add: local_rank_def rank_simps)
next
  case (batch_send st ns)
  then have "ns \<noteq> []" by (auto simp: batches_ok_def MAX_BATCH_SIZE_def)
  with batch_send show ?case by (simp add: local_rank_def rank_simps)
next
  case (main_start st s u)
  then have "workers st = []" "batcher st = BRecv []" by (auto simp: not_started_ok_def)
  with main_start(1) show ?case
    by (auto simp: local_rank_def rank_simps workers_rank_def started_def WORKER_COUNT_def sum_list_replicate
        split: main.splits)
next
  case (main_error st s e)
  then show ?case by (auto simp: local_rank_def main_rank_def started_def split: main.splits)
next
  case (cancel st)
  then show ?case by (cases "cancelled st") (simp_all add: local_rank_def)
next
  case (decode_end st)
  then show ?case by (auto simp: local_rank_def decoding_rank_def)
qed (simp_all add: local_rank_def rank_simps)

section \<open>Every step makes progress\<close>

text \<open>The other processes touch neither the lister nor what it reads.\<close>

definition listing_part ::
    "'w clean \<Rightarrow> bool \<times> lister \<times> string \<times> (json list \<times> listed_object) option \<times> listed_object list" where
  "listing_part st = (cancelled st, lister st, lastMarker st, decoding st, pageQ st)"

lemma listing_untouched:
  "forwarder_step st = Some st' \<Longrightarrow> listing_part st' = listing_part st"
  "batcher_step st = Some st' \<Longrightarrow> listing_part st' = listing_part st"
  "batcher_cancel st = Some st' \<Longrightarrow> listing_part st' = listing_part st"
  "worker_step env cfg i st = Some st' \<Longrightarrow> listing_part st' = listing_part st"
  "worker_cancel i st = Some st' \<Longrightarrow> listing_part st' = listing_part st"
  "main_step env cfg st = Some st' \<Longrightarrow> listing_part st' = listing_part st"
proof -
  show "forwarder_step st = Some st' \<Longrightarrow> listing_part st' = listing_part st"
    by (auto simp: listing_part_def forwarder_step_def split: forwarder.splits list.splits sum.splits if_splits)
  show "batcher_step st = Some st' \<Longrightarrow> listing_part st' = listing_part st"
    by (auto simp: listing_part_def batcher_step_def Let_def split: batcher.splits list.splits if_splits)
  show "batcher_cancel st = Some st' \<Longrightarrow> listing_part st' = listing_part st"
    by (auto simp: listing_part_def batcher_cancel_def split: batcher.splits if_splits)
  show "worker_step env cfg i st = Some st' \<Longrightarrow> listing_part st' = listing_part st"
    by (auto simp: listing_part_def worker_step_def split: worker.splits list.splits prod.splits sum.splits if_splits)
  show "worker_cancel i st = Some st' \<Longrightarrow> listing_part st' = listing_part st"
    by (auto simp: listing_part_def worker_cancel_def split: if_splits)
  show "main_step env cfg st = Some st' \<Longrightarrow> listing_part st' = listing_part st"
    by (auto simp: listing_part_def main_step_def
        split: main.splits list.splits prod.splits sum.splits option.splits if_splits)
qed

lemma future_same:
  assumes "page_rest st' = page_rest st" "cancelled st' = cancelled st" "lister st' = lister st"
    "lastMarker st' = lastMarker st"
  shows "future R st' = future R st"
proof -
  have "end_marker st' = end_marker st" using assms by (simp add: end_marker_def)
  with assms show ?thesis by (simp add: future_def split: lister.split)
qed

lemma future_untouched: "listing_part st' = listing_part st \<Longrightarrow> future R st' = future R st"
  by (rule future_same) (simp_all add: listing_part_def page_rest_def)

text \<open>The decoder moves objects from the documents to the page; the lister takes the first one.\<close>

lemma decoder_future: "decoder_step st = Some st' \<Longrightarrow> future R st' = future R st"
  by (rule future_same)
     (auto simp: decoder_step_def page_rest_def split: option.splits list.splits sum.splits if_splits)

lemma cancel_future:
  "decoder_cancel st = Some st' \<Longrightarrow> future R st' = future R st"
  "lister_cancel st = Some st' \<Longrightarrow> future R st' = future R st"
  by (auto simp: decoder_cancel_def lister_cancel_def future_def split: if_splits lister.splits)

lemma lister_future:
  assumes "lister_step env cfg st = Some st'" "lister st = LRequest \<longrightarrow> lister st' \<noteq> LRange"
  shows "future R st' \<le> future R st"
proof (cases "lister st")
  case LRange
  with assms(1) show ?thesis
    by (cases "pageQ st"; cases "decoding st")
       (auto simp: lister_step_def future_def end_marker_def page_rest_def more_pages_def
         split: if_splits prod.splits)
qed (use assms in \<open>auto simp: lister_step_def future_def end_marker_def page_rest_def
    split: prod.splits sum.splits if_splits\<close>)

lemma lister_untouched:
  "decoder_step st = Some st' \<Longrightarrow> lister st' = lister st"
  "decoder_cancel st = Some st' \<Longrightarrow> lister st' = lister st \<and> pageQ st' = pageQ st"
  "lister_cancel st = Some st' \<Longrightarrow> lister st \<noteq> LRequest \<and> pageQ st' = pageQ st"
  "listing_part st' = listing_part st \<Longrightarrow> lister st' = lister st \<and> pageQ st' = pageQ st"
proof -
  show "decoder_step st = Some st' \<Longrightarrow> lister st' = lister st"
    by (auto simp: decoder_step_def split: option.splits list.splits sum.splits if_splits)
  show "decoder_cancel st = Some st' \<Longrightarrow> lister st' = lister st \<and> pageQ st' = pageQ st"
    by (auto simp: decoder_cancel_def split: if_splits)
  show "lister_cancel st = Some st' \<Longrightarrow> lister st \<noteq> LRequest \<and> pageQ st' = pageQ st"
    by (auto simp: lister_cancel_def split: lister.splits if_splits)
qed (simp add: listing_part_def)

lemmas others_untouched = listing_untouched [THEN lister_untouched(4)]

lemma step_keeps_request:
  assumes "clean_step env cfg ev st = Some st'" "lister st = LRequest" "ev \<noteq> ListerStep"
  shows "lister st' = LRequest"
  using assms by (cases ev) (auto simp: clean_step_def dest: lister_untouched(1-3) others_untouched)

lemma step_page:
  assumes "clean_step env cfg ev st = Some st'" "ev \<noteq> DecodeNext"
  shows "length (pageQ st') \<le> length (pageQ st)"
proof (cases "ev = ListerStep")
  case True
  with assms(1) show ?thesis
    by (auto simp: clean_step_def lister_step_def split: lister.splits list.splits prod.splits sum.splits if_splits)
next
  case False
  with assms show ?thesis by (cases ev) (auto simp: clean_step_def dest: lister_untouched(1-3) others_untouched)
qed

lemma update_changes: "i < length ws \<Longrightarrow> ws ! i \<noteq> w \<Longrightarrow> ws[i := w] \<noteq> ws"
  by (metis nth_list_update_eq)

lemma cancel_changes:
  "decoder_cancel st = Some st' \<Longrightarrow> decoding st' \<noteq> decoding st"
  "lister_cancel st = Some st' \<Longrightarrow> lister st' \<noteq> lister st"
  "batcher_cancel st = Some st' \<Longrightarrow> batcher st' \<noteq> batcher st"
  "worker_cancel i st = Some st' \<Longrightarrow> workers st' \<noteq> workers st"
  unfolding decoder_cancel_def lister_cancel_def batcher_cancel_def worker_cancel_def
  by (auto simp: update_changes split: if_splits lister.splits batcher.splits)

lemma lister_changes: "lister_step env cfg st = Some st' \<Longrightarrow> lister st' \<noteq> lister st"
  by (auto simp: lister_step_def split: lister.splits prod.splits sum.splits list.splits if_splits)

lemma forwarder_changes: "forwarder_step st = Some st' \<Longrightarrow> forwarder st' \<noteq> forwarder st"
  by (auto simp: forwarder_step_def split: forwarder.splits sum.splits list.splits if_splits)

lemma batcher_changes: "batcher_step st = Some st' \<Longrightarrow> batcher st' \<noteq> batcher st"
  by (auto simp: batcher_step_def Let_def split: batcher.splits list.splits if_splits)

lemma worker_changes: "worker_step env cfg i st = Some st' \<Longrightarrow> workers st' \<noteq> workers st"
  by (auto simp: worker_step_def update_changes not_le split: worker.splits prod.splits sum.splits list.splits if_splits)

lemma main_changes: "main_step env cfg st = Some st' \<Longrightarrow> main st' \<noteq> main st"
  by (auto simp: main_step_def split: main.splits prod.splits sum.splits option.splits list.splits if_splits)

lemma step_changes:
  assumes "clean_step env cfg ev st = Some st'" "ev \<noteq> Cancel" "ev \<noteq> DecodeNext"
  shows "st' \<noteq> st"
  using assms
  by (cases ev)
     (auto simp: clean_step_def dest: cancel_changes lister_changes forwarder_changes batcher_changes
       worker_changes main_changes)

lemma decoder_rank:
  assumes "decoder_step st = Some st'"
  shows "local_rank st' < local_rank st \<and> proc st' = proc st"
  using assms
  by (auto simp: decoder_step_def local_rank_def decoding_rank_def
      split: option.splits prod.splits list.splits sum.splits if_splits)

lemma lister_request:
  assumes "lister_step env cfg st = Some st'" "lister st = LRequest" "lister st' = LRange"
  obtains docs s where
    "sendListObjectsRequest (with_ctx (cancelled st) env) (cfgClient cfg) (cfgRsf cfg) (cfgBucket cfg)
       (lastMarker st) (proc st) = (Inr docs, s)"
    "st' = st\<lparr>proc := s, lister := LRange, decoding := Some (docs, ([], [])), pageQ := []\<rparr>"
  using assms by (auto simp: lister_step_def split: prod.splits sum.splits)

lemma page_rank:
  assumes "listing_ends env cfg R" "lister_step env cfg st = Some st'" "lister st = LRequest" "lister st' = LRange"
  shows "clean_rank R st' < clean_rank R st"
proof -
  from lister_request [OF assms(2-4)] obtain docs s where
    send: "sendListObjectsRequest (with_ctx (cancelled st) env) (cfgClient cfg) (cfgRsf cfg) (cfgBucket cfg)
      (lastMarker st) (proc st) = (Inr docs, s)"
    and st': "st' = st\<lparr>proc := s, lister := LRange, decoding := Some (docs, ([], [])), pageQ := []\<rparr>"
    by blast
  let ?items = "page_items docs ([], [])"
  note page = list_page [OF assms(1) send refl]
  have part: "page_rest st' = ?items" "cancelled st' = cancelled st" "lister st' = LRange"
    "lastMarker st' = lastMarker st" by (simp_all add: st' page_rest_def)
  have "future R st' + (if ?items = [] then Suc 0 else length ?items) \<le> future R st"
    using page assms(3)
    by (auto simp: future_def end_marker_def part more_pages_def after_def split: if_splits)
  moreover have "local_rank st' \<le> local_rank st + 2 + 10 * length ?items"
    using assms(3) by (simp add: st' local_rank_def decoding_rank_def lister_rank_def)
  ultimately show ?thesis
    by (cases "?items") (simp_all add: clean_rank_def)
qed

lemma step_future:
  assumes "clean_step env cfg ev st = Some st'" "ev \<noteq> Cancel" "lister st = LRequest \<longrightarrow> lister st' \<noteq> LRange"
  shows "future R st' \<le> future R st"
  using assms
  by (cases ev)
     (auto simp: clean_step_def decoder_future cancel_future listing_untouched [THEN future_untouched] intro: lister_future)

lemma progress_rank:
  assumes "clean_inv st" "listing_ends env cfg R" "progress_step env cfg ev st = Some st'"
  shows "clean_rank R st' < clean_rank R st"
proof -
  from assms(3) have step: "clean_step env cfg ev st = Some st'" and fresh: "\<not> (ev = Cancel \<and> cancelled st)"
    by (simp_all add: progress_step_Some)
  consider (decode) "ev = DecodeNext" | (cancel) "ev = Cancel"
    | (page) "lister st = LRequest" "lister st' = LRange" "ev = ListerStep"
    | (other) "ev \<noteq> DecodeNext" "ev \<noteq> Cancel" "lister st = LRequest \<longrightarrow> lister st' \<noteq> LRange"
    using step_keeps_request [OF step] by fastforce
  then show ?thesis
  proof cases
    case decode
    with step decoder_rank [of st st'] decoder_future [of st st' R] show ?thesis
      by (simp add: clean_step_def clean_rank_def)
  next
    case cancel
    with step fresh show ?thesis by (auto simp: clean_step_def clean_rank_def local_rank_def future_def)
  next
    case page
    with step assms(2) show ?thesis by (intro page_rank [of env cfg]) (simp_all add: clean_step_def)
  next
    case other
    have "batches_ok st" "not_started_ok st" using assms(1) by (simp_all add: clean_inv_def)
    from trans_rank [OF clean_step_trans [OF step] this other(3) step_page [OF step other(1)]]
    have "local_rank st' < local_rank st"
    proof
      assume "st' = st\<lparr>cancelled := True\<rparr> \<and> cancelled st"
      then have "st' = st" by (cases st) simp
      with step_changes [OF step other(2,1)] show ?thesis by simp
    qed
    with step_future [OF step other(2,3), of R] show ?thesis by (simp add: clean_rank_def)
  qed
qed

interpretation clean_bounded: bounded_system "progress_step env cfg"
  "\<lambda>st. clean_inv st \<and> listing_ends env cfg R" "clean_rank R" for env cfg R
proof
  fix st st' ev
  assume inv: "clean_inv st \<and> listing_ends env cfg R" and step: "progress_step env cfg ev st = Some st'"
  from step have "clean_trans st st'" by (auto simp: progress_step_Some intro: clean_step_trans)
  with inv show "clean_inv st' \<and> listing_ends env cfg R" by (auto intro: clean_inv_trans)
  from inv step show "clean_rank R st' < clean_rank R st" by (blast intro: progress_rank)
qed

section \<open>Termination\<close>

lemma quiet_outcome:
  assumes "clean_inv st" "\<forall>ev. progress_step env cfg ev st = None"
  shows "(\<exists>r. main st = MReturn r) \<or> clogged st"
proof (rule ccontr)
  assume stop: "\<not> ?thesis"
  with clean_inv_progress [OF assms(1), of env cfg] obtain ev st' where
    "ev \<noteq> Cancel" "clean_step env cfg ev st = Some st'" by fastforce
  with stop have "progress_step env cfg ev st = Some st'" by (simp add: progress_step_Some)
  with assms(2) show False by simp
qed

text \<open>
  C12: when the markers of the listing lead to its end (a page asked for with a marker has an
  object, and its last marker is followed by fewer), a deletion takes under every schedule at most
  13 steps for each object of the bucket and 41 more; and every schedule can be continued to one in
  which the call has returned, unless it ends with the channel of batches clogged.  Nothing is
  assumed of the deletions, of requests that fail, and of how requests change the services.
\<close>

theorem clean_terminates:
  assumes "listing_ends env cfg R"
  shows "effective (progress_step env cfg) evs (clean_init s) \<le> 13 * R [] + 41 \<and>
    (\<exists>more. let st = clean_run env cfg (evs @ more) (clean_init s) in (\<exists>r. main st = MReturn r) \<or> clogged st)"
proof
  have init: "clean_inv (clean_init s) \<and> listing_ends env cfg R"
    using assms clean_inv_init by blast
  have "clean_rank R (clean_init s) = 13 * R [] + 41"
    by (simp add: clean_rank_def future_def local_rank_def clean_init_def rank_simps workers_rank_def)
  with clean_bounded.effective_bound [OF init, of evs]
  show "effective (progress_step env cfg) evs (clean_init s) \<le> 13 * R [] + 41" by simp
  let ?st = "run_events (progress_step env cfg) evs (clean_init s)"
  from clean_bounded.run_inv [OF init, of evs]
  obtain more where quiet: "\<forall>ev. progress_step env cfg ev (run_events (progress_step env cfg) more ?st) = None"
    using clean_bounded.run_completes [of ?st env cfg R] by blast
  have "clean_inv (clean_run env cfg (evs @ more) (clean_init s))" by (rule clean_inv_run)
  with quiet_outcome [of _ env cfg] quiet show "\<exists>more. let st = clean_run env cfg (evs @ more) (clean_init s)
      in (\<exists>r. main st = MReturn r) \<or> clogged st"
    unfolding clean_run_events run_events_append [symmetric] Let_def by blast
qed

text \<open>
  The example: a bucket of three objects in two pages, which answers the same requests in the same
  way at any time and refuses all other markers; the other services follow their script.
\<close>

definition demo_list_url :: "string \<Rightarrow> string" where
  "demo_list_url marker =
     RequestUrl (list_request (cfgClient demo_clean_config) (cfgRsf demo_clean_config) (cfgBucket demo_clean_config) marker)"

definition listed_doc :: "string \<Rightarrow> string \<Rightarrow> json" where
  "listed_doc marker name = JObj [(''marker'', JStr marker), (''item'', JObj [(''key'', JStr name)])]"

definition two_pages_net :: "http_request \<Rightarrow> http_response list \<Rightarrow> http_response result \<times> http_response list" where
  "two_pages_net req w =
     (if RequestUrl req = demo_list_url [] then (Inr (answer 200 [listed_doc ''k'' ''x'', listed_doc ''m'' ''y'']), w)
      else if RequestUrl req = demo_list_url ''m'' then (Inr (answer 200 [listed_doc [] ''z'']), w)
      else if prefix (demo_list_url []) (RequestUrl req) then (Inl (StdErr ''no such marker''), w)
      else script_net req w)"

definition two_pages_env :: "http_response list env" where
  "two_pages_env = script_env\<lparr>net := two_pages_net\<rparr>"

definition two_pages_left :: "string \<Rightarrow> nat" where
  "two_pages_left marker = (if marker = [] then 3 else 1)"

lemma demo_list_url_marker:
  "prefix (demo_list_url []) (demo_list_url marker)" "demo_list_url marker = demo_list_url [] \<Longrightarrow> marker = []"
  by (auto simp: demo_list_url_def list_request_def kodo_request_def split: if_splits)

lemma two_pages_items:
  "page_items [listed_doc ''k'' ''x'', listed_doc ''m'' ''y''] ([], []) = [(''k'', ''x''), (''m'', ''y'')]"
  "page_items [listed_doc [] ''z''] ([], []) = [([], ''z'')]"
  by code_simp+

lemma two_pages_end: "listing_ends two_pages_env demo_clean_config two_pages_left"
  unfolding listing_ends_def
proof (intro allI impI)
  fix marker w resp docs
  assume "fst (net two_pages_env (list_request (cfgClient demo_clean_config) (cfgRsf demo_clean_config)
      (cfgBucket demo_clean_config) marker) w) = Inr resp \<and> list_response resp = Inr docs"
  then have "marker = [] \<and> docs = [listed_doc ''k'' ''x'', listed_doc ''m'' ''y''] \<or>
      marker \<noteq> [] \<and> docs = [listed_doc [] ''z'']"
    using demo_list_url_marker [of marker]
    by (auto simp: two_pages_env_def two_pages_net_def demo_list_url_def [symmetric] list_response_def answer_def
        split: if_splits)
  then show "let items = page_items docs ([], [])
      in if items = [] then marker = []
         else length items + after two_pages_left (fst (last items)) \<le> two_pages_left marker"
    by (elim disjE) (simp_all only: two_pages_items Let_def, simp_all add: two_pages_left_def after_def)
qed

theorem clean_terminates_witness:
  "effective (progress_step two_pages_env demo_clean_config) demo_schedule (clean_init (script_state demo_clean_script)) \<le> 80 \<and>
   (\<exists>more. let st = clean_run two_pages_env demo_clean_config (demo_schedule @ more) (clean_init (script_state demo_clean_script))
      in (\<exists>r. main st = MReturn r) \<or> clogged st)"
  using clean_terminates [OF two_pages_end, of demo_schedule "script_state demo_clean_script"]
  by (simp add: two_pages_left_def)

end
