(* ===== verification/Kodo_Clean_Service.thy ===== *)
theory Kodo_Clean_Service
  imports Kodo_Clean_Termination
begin

text \<open>
  What \<^verbatim>\<open>CleanObjects\<close> promises, as a machine without goroutines and channels, and the proof that the
  pipeline behaves like it under every schedule and for all answers of the services, failures
  included: only names that were listed are deleted, each as often as it was listed, in batches of
  at most a hundred, and success is only reported when nothing listed is left.
\<close>

section \<open>The service\<close>

record cleaning =
  found :: "string multiset"
  gone :: "string multiset"
  outcome :: "unit result option"

inductive cleans :: "cleaning \<Rightarrow> cleaning \<Rightarrow> bool" where
  find: "outcome a = None \<Longrightarrow> cleans a (a\<lparr>found := found a + {#n#}\<rparr>)"
| delete: "outcome a = None \<Longrightarrow> b \<noteq> {#} \<Longrightarrow> size b \<le> 100 \<Longrightarrow> gone a + b \<subseteq># found a \<Longrightarrow>
    cleans a (a\<lparr>gone := gone a + b\<rparr>)"
| succeed: "outcome a = None \<Longrightarrow> gone a = found a \<Longrightarrow> cleans a (a\<lparr>outcome := Some (Inr ())\<rparr>)"
| give_up: "outcome a = None \<Longrightarrow> cleans a (a\<lparr>outcome := Some (Inl e)\<rparr>)"

definition cleaning_init :: cleaning where
  "cleaning_init = \<lparr>found = {#}, gone = {#}, outcome = None\<rparr>"

definition cleaning_promise :: "cleaning \<Rightarrow> bool" where
  "cleaning_promise a \<longleftrightarrow> gone a \<subseteq># found a \<and> (outcome a = Some (Inr ()) \<longrightarrow> gone a = found a)"

lemma cleans_promise: "cleans a b \<Longrightarrow> cleaning_promise a \<Longrightarrow> cleaning_promise b"
  by (induction rule: cleans.induct)
     (auto simp: cleaning_promise_def intro: subset_mset.add_increasing2 subset_mset.order_trans)

lemma cleaning_promised: "cleans\<^sup>*\<^sup>* cleaning_init a \<Longrightarrow> cleaning_promise a"
proof (induction rule: rtranclp_induct)
  case base
  then show ?case by (simp add: cleaning_promise_def cleaning_init_def)
qed (rule cleans_promise)

section \<open>Names that were lost\<close>

text \<open>A failed batch and what a cancelled process held are lost; all else is in flight or deleted.\<close>

definition lost :: "string multiset \<Rightarrow> 'w clean \<Rightarrow> bool" where
  "lost l st \<longleftrightarrow> mset (listed st) = in_flight st + mset (acked st) + l"

lemma lost_trans:
  "clean_trans st st' \<Longrightarrow> lost l st \<Longrightarrow> not_started_ok st \<Longrightarrow> \<exists>d. lost (l + d) st'"
proof (induction rule: clean_trans.induct)
  case (batch_cancel st ns e)
  then show ?case by (intro exI [of _ "mset ns"]) (simp add: lost_def in_flight_def)
next
  case (worker_take i st b q)
  with workers_update [OF worker_take(1), of "WBusy b"] show ?case
    by (intro exI [of _ "{#}"]) (simp add: lost_def in_flight_def)
next
  case (worker_done i st)
  with workers_update [OF worker_done(1), of WDone] show ?case
    by (intro exI [of _ "{#}"]) (simp add: lost_def in_flight_def)
next
  case (worker_ack i st b s)
  with workers_update [OF worker_ack(1), of WIdle] show ?case
    by (intro exI [of _ "{#}"]) (simp add: lost_def in_flight_def ac_simps)
next
  case (worker_fail i st b s e)
  with workers_update [OF worker_fail(1), of WDone] show ?case
    by (intro exI [of _ "mset b"]) (simp add: lost_def in_flight_def ac_simps)
next
  case (worker_cancelled i st e)
  with workers_update [OF worker_cancelled(1), of WDone] show ?case
    by (intro exI [of _ "{#}"]) (simp add: lost_def in_flight_def)
qed (rule exI [of _ "{#}"]; simp add: lost_def in_flight_def not_started_ok_def)+

definition service_inv :: "'w clean \<Rightarrow> bool" where
  "service_inv st \<longleftrightarrow> clean_inv st \<and> (\<exists>l. lost l st)"

lemma service_inv_trans: "clean_trans st st' \<Longrightarrow> service_inv st \<Longrightarrow> service_inv st'"
  unfolding service_inv_def using clean_inv_trans lost_trans by (metis clean_inv_def)

lemma service_inv_init: "service_inv (clean_init s)"
  using clean_inv_init [of s]
  by (auto simp: service_inv_def lost_def clean_init_def in_flight_def workers_names_def)

section \<open>The pipeline implements the service\<close>

definition cleaning_of :: "'w clean \<Rightarrow> cleaning" where
  "cleaning_of st =
     \<lparr>found = mset (listed st), gone = mset (acked st),
      outcome = (case main st of MReturn r \<Rightarrow> Some r | _ \<Rightarrow> None)\<rparr>"

lemma cleaning_of_sel [simp]:
  "found (cleaning_of st) = mset (listed st)" "gone (cleaning_of st) = mset (acked st)"
  "outcome (cleaning_of st) = (case main st of MReturn r \<Rightarrow> Some r | _ \<Rightarrow> None)"
  by (simp_all add: cleaning_of_def)

lemma cleans_once: "cleans a b' \<Longrightarrow> b' = b \<Longrightarrow> cleans\<^sup>=\<^sup>= a b"
  by blast

lemma busy_in_flight:
  assumes "i < length (workers st)" "workers st ! i = WBusy b"
  shows "mset b \<subseteq># in_flight st"
proof -
  have "mset b \<subseteq># workers_names (workers st)"
    using workers_update [OF assms(1), of WIdle] assms(2)
    by simp (metis mset_subset_eq_add_right)
  then show ?thesis
    unfolding in_flight_def by (rule subset_mset.order_trans [OF _ mset_subset_eq_add_right])
qed

lemma ack_allowed:
  assumes "service_inv st" "i < length (workers st)" "workers st ! i = WBusy b"
  shows "mset b \<noteq> {#} \<and> size (mset b) \<le> 100 \<and> mset (acked st) + mset b \<subseteq># mset (listed st)"
proof -
  from assms(1) have "batches_ok st" by (simp add: service_inv_def clean_inv_def)
  moreover have "WBusy b \<in> set (workers st)" using assms(2,3) by (metis nth_mem)
  ultimately have "b \<noteq> [] \<and> length b \<le> MAX_BATCH_SIZE" by (auto simp: batches_ok_def)
  moreover from assms(1) obtain l where "mset (listed st) = in_flight st + mset (acked st) + l"
    by (auto simp: service_inv_def lost_def)
  with busy_in_flight [OF assms(2,3)] have "mset (acked st) + mset b \<subseteq># mset (listed st)"
    by (simp add: add.assoc subset_mset.add_increasing2)
  ultimately show ?thesis by (simp add: MAX_BATCH_SIZE_def)
qed

lemma trans_cleans:
  "clean_trans st st' \<Longrightarrow> service_inv st \<Longrightarrow> \<nexists>r. main st = MReturn r \<Longrightarrow>
     cleans\<^sup>=\<^sup>= (cleaning_of st) (cleaning_of st')"
proof (induction rule: clean_trans.induct)
  case (list_send st n)
  then show ?case
    by (intro cleans_once [OF find [of _ n]]) (simp_all add: cleaning_of_def split: main.splits)
next
  case (worker_ack i st b s)
  with ack_allowed [OF worker_ack(3,1,2)] show ?case
    by (intro cleans_once [OF delete [of _ "mset b"]]) (simp_all add: cleaning_of_def split: main.splits)
next
  case (main_error st e s)
  then show ?case
    by (intro cleans_once [OF give_up [of _ e]]) (simp_all add: cleaning_of_def split: main.splits)
next
  case (main_failed st e q)
  then show ?case
    by (intro cleans_once [OF give_up [of _ e]]) (simp_all add: cleaning_of_def)
next
  case (main_listed st e)
  then show ?case
    by (intro cleans_once [OF give_up [of _ e]]) (simp_all add: cleaning_of_def)
next
  case (main_joined st)
  from main_joined(4) clean_trans.main_joined [OF main_joined(1-3)]
  have "clean_inv (st\<lparr>main := MReturn (Inr ())\<rparr>)"
    by (auto simp: service_inv_def intro: clean_inv_trans)
  from clean_inv_success [OF this] main_joined(1) show ?case
    by (intro cleans_once [OF succeed]) (simp_all add: cleaning_of_def)
qed (simp_all add: cleaning_of_def split: main.splits)

lemma progress_cleans:
  assumes "service_inv st" "progress_step env cfg ev st = Some st'"
  shows "service_inv st' \<and> cleans\<^sup>=\<^sup>= (cleaning_of st) (cleaning_of st')"
  using assms service_inv_trans trans_cleans clean_step_trans by (metis progress_step_Some)

interpretation clean_serves: simulated_system "progress_step env cfg" service_inv cleaning_of cleans for env cfg
proof
  fix st ev st'
  assume "service_inv st" "progress_step env cfg ev st = Some st'"
  from progress_cleans [OF this] show "service_inv st'" "cleans\<^sup>*\<^sup>* (cleaning_of st) (cleaning_of st')" by auto
qed

text \<open>
  C14: the deletion of a bucket's objects implements the cleaning service step by step: it starts
  where the service starts, and each event of every schedule, for all answers, is one step of the
  service or changes nothing the service speaks of.  So under every schedule only listed names
  are deleted, no name more often than it was listed, at most a hundred at a time, nothing once
  the outcome is known, and all of them on success.
\<close>

theorem clean_refines_service:
  "cleaning_of (clean_init s) = cleaning_init \<and>
   cleans\<^sup>=\<^sup>= (cleaning_of (clean_run env cfg evs (clean_init s)))
     (cleaning_of (clean_run env cfg (evs @ [ev]) (clean_init s))) \<and>
   cleaning_promise (cleaning_of (clean_run env cfg evs (clean_init s)))"
proof (intro conjI)
  show init: "cleaning_of (clean_init s) = cleaning_init"
    by (simp add: cleaning_of_def cleaning_init_def clean_init_def)
  let ?st = "clean_run env cfg evs (clean_init s)"
  have "service_inv ?st" unfolding clean_run_events by (rule clean_serves.run_inv [OF service_inv_init])
  then have "cleans\<^sup>=\<^sup>= (cleaning_of ?st) (cleaning_of st')" if "progress_step env cfg ev ?st = Some st'" for st'
    using progress_cleans [OF _ that] by blast
  then have "cleans\<^sup>=\<^sup>= (cleaning_of ?st) (cleaning_of (apply_event (progress_step env cfg) ev ?st))"
    by (cases "progress_step env cfg ev ?st") (simp_all add: apply_event_def)
  then show "cleans\<^sup>=\<^sup>= (cleaning_of ?st) (cleaning_of (clean_run env cfg (evs @ [ev]) (clean_init s)))"
    by (simp add: clean_run_events run_events_append)
  have "cleans\<^sup>*\<^sup>* cleaning_init (cleaning_of ?st)"
    using clean_serves.run_simulated [OF service_inv_init, of s env cfg evs] init by (simp add: clean_run_events)
  then show "cleaning_promise (cleaning_of ?st)" by (rule cleaning_promised)
qed

end
