(* ===== verification/Go_Hash.thy ===== *)
theory Go_Hash
  imports Go_Strings
begin

text \<open>
  What the repository uses of Go's \<^verbatim>\<open>crypto/md5\<close>, \<^verbatim>\<open>crypto/sha1\<close>, \<^verbatim>\<open>crypto/hmac\<close>, \<^verbatim>\<open>encoding/hex\<close>
  and \<^verbatim>\<open>encoding/base64\<close>, over 32-bit words whose additions wrap.  The two digests share the
  padding and the splitting into blocks of 64 bytes; they differ in the order of the bytes of a
  word, the initial state and the rounds.
\<close>

unbundle bit_operations_syntax

section \<open>Bytes and words\<close>

type_synonym w32 = "32 word"

definition byte_of :: "char \<Rightarrow> w32" where
  "byte_of c = of_nat (of_char c)"

definition char_of_byte :: "w32 \<Rightarrow> char" where
  "char_of_byte w = char_of (unat (w AND 0xff))"

definition le_bytes :: "w32 \<Rightarrow> w32 list" where
  "le_bytes w = map (\<lambda>i. drop_bit (8 * i) w AND 0xff) [0..<4]"

definition be_bytes :: "w32 \<Rightarrow> w32 list" where
  "be_bytes w = rev (le_bytes w)"

fun le_words :: "w32 list \<Rightarrow> w32 list" where
  "le_words (a # b # c # d # bs) =
     (a OR push_bit 8 b OR push_bit 16 c OR push_bit 24 d) # le_words bs"
| "le_words bs = []"

fun be_words :: "w32 list \<Rightarrow> w32 list" where
  "be_words (a # b # c # d # bs) =
     (push_bit 24 a OR push_bit 16 b OR push_bit 8 c OR d) # be_words bs"
| "be_words bs = []"

definition rotl :: "nat \<Rightarrow> w32 \<Rightarrow> w32" where
  "rotl n w = push_bit n w OR drop_bit (32 - n) w"

text \<open>The message, the byte \<open>0x80\<close>, zeros up to 56 modulo 64, then the length in bits.\<close>

definition pad_zeros :: "nat \<Rightarrow> nat" where
  "pad_zeros n = (119 - n mod 64) mod 64"

definition padded :: "w32 list \<Rightarrow> w32 list \<Rightarrow> w32 list" where
  "padded len_bytes bs = bs @ [0x80] @ replicate (pad_zeros (length bs)) 0 @ len_bytes"

definition len_lo :: "nat \<Rightarrow> w32" where "len_lo n = of_nat (8 * n)"
definition len_hi :: "nat \<Rightarrow> w32" where "len_hi n = of_nat (8 * n div 2 ^ 32)"

fun blocks :: "nat \<Rightarrow> w32 list \<Rightarrow> w32 list list" where
  "blocks 0 ws = []"
| "blocks (Suc n) ws = take 16 ws # blocks n (drop 16 ws)"

section \<open>MD5\<close>

type_synonym md5_state = "w32 \<times> w32 \<times> w32 \<times> w32"

definition md5_K :: "w32 list" where
  "md5_K = [
      0xd76aa478, 0xe8c7b756, 0x242070db, 0xc1bdceee, 0xf57c0faf, 0x4787c62a,
      0xa8304613, 0xfd469501, 0x698098d8, 0x8b44f7af, 0xffff5bb1, 0x895cd7be,
      0x6b901122, 0xfd987193, 0xa679438e, 0x49b40821, 0xf61e2562, 0xc040b340,
      0x265e5a51, 0xe9b6c7aa, 0xd62f105d, 0x02441453, 0xd8a1e681, 0xe7d3fbc8,
      0x21e1cde6, 0xc33707d6, 0xf4d50d87, 0x455a14ed, 0xa9e3e905, 0xfcefa3f8,
      0x676f02d9, 0x8d2a4c8a, 0xfffa3942, 0x8771f681, 0x6d9d6122, 0xfde5380c,
      0xa4beea44, 0x4bdecfa9, 0xf6bb4b60, 0xbebfbc70, 0x289b7ec6, 0xeaa127fa,
      0xd4ef3085, 0x04881d05, 0xd9d4d039, 0xe6db99e5, 0x1fa27cf8, 0xc4ac5665,
      0xf4292244, 0x432aff97, 0xab9423a7, 0xfc93a039, 0x655b59c3, 0x8f0ccc92,
      0xffeff47d, 0x85845dd1, 0x6fa87e4f, 0xfe2ce6e0, 0xa3014314, 0x4e0811a1,
      0xf7537e82, 0xbd3af235, 0x2ad7d2bb, 0xeb86d391]"

definition md5_shift :: "nat \<Rightarrow> nat" where
  "md5_shift i = [7, 12, 17, 22, 5, 9, 14, 20, 4, 11, 16, 23, 6, 10, 15, 21] ! (4 * (i div 16) + i mod 4)"

definition md5_mix :: "nat \<Rightarrow> w32 \<Rightarrow> w32 \<Rightarrow> w32 \<Rightarrow> w32 \<times> nat" where
  "md5_mix i b c d =
     (if i < 16 then ((b AND c) OR (NOT b AND d), i)
      else if i < 32 then ((d AND b) OR (NOT d AND c), (5 * i + 1) mod 16)
      else if i < 48 then (b XOR c XOR d, (3 * i + 5) mod 16)
      else (c XOR (b OR NOT d), 7 * i mod 16))"

definition md5_round :: "w32 list \<Rightarrow> nat \<Rightarrow> md5_state \<Rightarrow> md5_state" where
  "md5_round m i st =
     (case st of (a, b, c, d) \<Rightarrow>
        (case md5_mix i b c d of (f, g) \<Rightarrow>
           (d, b + rotl (md5_shift i) (a + f + md5_K ! i + m ! g), b, c)))"

definition md5_block :: "w32 list \<Rightarrow> md5_state \<Rightarrow> md5_state" where
  "md5_block m st =
     (case fold (md5_round m) [0..<64] st of (a, b, c, d) \<Rightarrow>
        (case st of (a0, b0, c0, d0) \<Rightarrow> (a0 + a, b0 + b, c0 + c, d0 + d)))"

definition md5_out :: "md5_state \<Rightarrow> w32 list" where
  "md5_out st = (case st of (a, b, c, d) \<Rightarrow> concat (map le_bytes [a, b, c, d]))"

definition md5_Sum :: "string \<Rightarrow> w32 list" where
  "md5_Sum s =
     (let bs = map byte_of s; n = length bs;
          ws = le_words (padded (le_bytes (len_lo n) @ le_bytes (len_hi n)) bs)
      in md5_out (fold md5_block (blocks (length ws div 16) ws)
           (0x67452301, 0xefcdab89, 0x98badcfe, 0x10325476)))"

section \<open>SHA-1 and HMAC\<close>

type_synonym sha1_state = "w32 \<times> w32 \<times> w32 \<times> w32 \<times> w32"

text \<open>The message schedule, most recent word first.\<close>

fun sha1_extend :: "nat \<Rightarrow> w32 list \<Rightarrow> w32 list" where
  "sha1_extend 0 r = r"
| "sha1_extend (Suc n) r = sha1_extend n (rotl 1 (r ! 2 XOR r ! 7 XOR r ! 13 XOR r ! 15) # r)"

definition sha1_mix :: "nat \<Rightarrow> w32 \<Rightarrow> w32 \<Rightarrow> w32 \<Rightarrow> w32 \<times> w32" where
  "sha1_mix i b c d =
     (if i < 20 then ((b AND c) OR (NOT b AND d), 0x5a827999)
      else if i < 40 then (b XOR c XOR d, 0x6ed9eba1)
      else if i < 60 then ((b AND c) OR (b AND d) OR (c AND d), 0x8f1bbcdc)
      else (b XOR c XOR d, 0xca62c1d6))"

definition sha1_round :: "nat \<times> w32 \<Rightarrow> sha1_state \<Rightarrow> sha1_state" where
  "sha1_round iw st =
     (case st of (a, b, c, d, e) \<Rightarrow>
        (case sha1_mix (fst iw) b c d of (f, k) \<Rightarrow>
           (rotl 5 a + f + e + k + snd iw, a, rotl 30 b, c, d)))"

definition sha1_block :: "w32 list \<Rightarrow> sha1_state \<Rightarrow> sha1_state" where
  "sha1_block m st =
     (case fold sha1_round (zip [0..<80] (rev (sha1_extend 64 (rev m)))) st of (a, b, c, d, e) \<Rightarrow>
        (case st of (a0, b0, c0, d0, e0) \<Rightarrow> (a0 + a, b0 + b, c0 + c, d0 + d, e0 + e)))"

definition sha1_out :: "sha1_state \<Rightarrow> w32 list" where
  "sha1_out st = (case st of (a, b, c, d, e) \<Rightarrow> concat (map be_bytes [a, b, c, d, e]))"

definition sha1_bytes :: "w32 list \<Rightarrow> w32 list" where
  "sha1_bytes bs =
     (let n = length bs;
          ws = be_words (padded (be_bytes (len_hi n) @ be_bytes (len_lo n)) bs)
      in sha1_out (fold sha1_block (blocks (length ws div 16) ws)
           (0x67452301, 0xefcdab89, 0x98badcfe, 0x10325476, 0xc3d2e1f0)))"

definition hmac_key :: "w32 list \<Rightarrow> w32 list" where
  "hmac_key key =
     (let k = (if length key > 64 then sha1_bytes key else key) in k @ replicate (64 - length k) 0)"

definition hmac_sha1 :: "string \<Rightarrow> string \<Rightarrow> w32 list" where
  "hmac_sha1 key msg =
     (let k = hmac_key (map byte_of key)
      in sha1_bytes (map (\<lambda>b. b XOR 0x5c) k @
           sha1_bytes (map (\<lambda>b. b XOR 0x36) k @ map byte_of msg)))"

section \<open>Text encodings of bytes\<close>

definition hexChars :: string where
  "hexChars = ''0123456789abcdef''"

definition EncodeToString :: "w32 list \<Rightarrow> string" where
  "EncodeToString bs =
     concat (map (\<lambda>b. [hexChars ! unat (drop_bit 4 (b AND 0xff)), hexChars ! unat (b AND 0xf)]) bs)"

definition base64Chars :: string where
  "base64Chars = ''ABCDEFGHIJKLMNOPQRSTUVWXYZabcdefghijklmnopqrstuvwxyz0123456789-_''"

definition b64 :: "w32 \<Rightarrow> char" where
  "b64 w = base64Chars ! unat (w AND 0x3f)"

text \<open>\<^verbatim>\<open>base64.URLEncoding\<close>, with padding.\<close>

fun URLEncoding :: "w32 list \<Rightarrow> string" where
  "URLEncoding [] = []"
| "URLEncoding [a] = [b64 (drop_bit 2 a), b64 (push_bit 4 a), CHR ''='', CHR ''='']"
| "URLEncoding [a, b] =
     [b64 (drop_bit 2 a), b64 (push_bit 4 a OR drop_bit 4 b), b64 (push_bit 2 b), CHR ''='']"
| "URLEncoding (a # b # c # bs) =
     [b64 (drop_bit 2 a), b64 (push_bit 4 a OR drop_bit 4 b), b64 (push_bit 2 b OR drop_bit 6 c), b64 c] @
     URLEncoding bs"

section \<open>Lengths\<close>

lemma le_bytes_length [simp]: "length (le_bytes w) = 4" "length (be_bytes w) = 4"
  by (simp_all add: le_bytes_def be_bytes_def)

lemma padded_length:
  assumes "length len_bytes = 8"
  shows "64 dvd length (padded len_bytes bs)"
proof -
  have "(n + 1 + (119 - n mod 64) mod 64 + 8) mod 64 = 0" for n :: nat
  proof -
    have r: "n mod 64 < 64" by simp
    have shift: "(n + 1 + z + 8) mod 64 = (n mod 64 + 1 + z + 8) mod 64" for z
      by (metis add.assoc mod_add_left_eq)
    have "(119 - n mod 64) mod 64 = (if n mod 64 \<le> 55 then 55 - n mod 64 else 119 - n mod 64)"
    proof (cases "n mod 64 \<le> 55")
      case True
      then have "119 - n mod 64 = (55 - n mod 64) + 64" by simp
      then have "(119 - n mod 64) mod 64 = (55 - n mod 64) mod 64" by (metis mod_add_self2)
      with True show ?thesis by simp
    qed simp
    then have "n mod 64 + 1 + (119 - n mod 64) mod 64 + 8 \<in> {64, 128}" using r by auto
    moreover have "(n + 1 + (119 - n mod 64) mod 64 + 8) mod 64 =
        (n mod 64 + 1 + (119 - n mod 64) mod 64 + 8) mod 64" by (rule shift)
    ultimately show ?thesis by auto
  qed
  moreover have "length (padded len_bytes bs) =
      length bs + 1 + (119 - length bs mod 64) mod 64 + 8"
    using assms by (simp add: padded_def pad_zeros_def)
  ultimately show ?thesis by (simp only: dvd_eq_mod_eq_0)
qed

lemma md5_out_length: "length (md5_out st) = 16"
  by (cases st) (simp add: md5_out_def)

lemma sha1_out_length: "length (sha1_out st) = 20"
  by (cases st) (simp add: sha1_out_def)

declare blocks.simps [simp del] sha1_extend.simps [simp del]

lemma md5_length [simp]: "length (md5_Sum s) = 16"
  unfolding md5_Sum_def Let_def md5_out_length ..

lemma sha1_length [simp]: "length (sha1_bytes bs) = 20"
  unfolding sha1_bytes_def Let_def sha1_out_length ..

lemma hmac_length [simp]: "length (hmac_sha1 k m) = 20"
  unfolding hmac_sha1_def Let_def by (rule sha1_length)

lemma EncodeToString_length: "length (EncodeToString bs) = 2 * length bs"
  by (induction bs) (simp_all add: EncodeToString_def)

lemma hexChars_length: "length hexChars = 16"
  by (simp add: hexChars_def)

lemma EncodeToString_chars: "set (EncodeToString bs) \<subseteq> set hexChars"
proof -
  have "unat (drop_bit 4 (b AND 0xff)) < 16" "unat (b AND 0xf) < 16" for b :: w32
  proof -
    have "unat (b AND 0xff) \<le> 255" "unat (b AND 0xf) \<le> 15"
      using word_and_le1 [of b "0xff"] word_and_le1 [of b "0xf"] by (simp_all add: word_le_nat_alt)
    then show "unat (drop_bit 4 (b AND 0xff)) < 16" "unat (b AND 0xf) < 16"
      by (simp_all only: unat_drop_bit_eq) (simp_all add: drop_bit_eq_div)
  qed
  then have "hexChars ! unat (drop_bit 4 (b AND 0xff)) \<in> set hexChars"
      "hexChars ! unat (b AND 0xf) \<in> set hexChars" for b :: w32
    by (metis hexChars_length nth_mem)+
  then show ?thesis by (auto simp: EncodeToString_def)
qed

end
