(* ===== verification/Request_Signing.thy ===== *)
theory Request_Signing
  imports Go_Hash Go_Url Go_Strconv "HOL-Library.AList" "HOL-Library.Char_ord" "HOL-Library.List_Lexorder"
    "HOL-Library.Product_Lexorder"
begin

text \<open>
  \<^verbatim>\<open>qiniu/auth.go\<close> and \<^verbatim>\<open>qiniu/user_agent.go\<close>: the transports that sign a request and name the user
  agent.  A request is what the transports see of \<^verbatim>\<open>http.Request\<close>; its headers are the entries of
  the header map in iteration order, and setting a new header puts it last.  The transport below
  (\<^verbatim>\<open>net/http\<close>) is a function from requests to answers over a state.
\<close>

section \<open>Headers (net/textproto, net/http)\<close>

type_synonym header = "(string \<times> string list) list"

definition validHeaderFieldByte :: "char \<Rightarrow> bool" where
  "validHeaderFieldByte c \<longleftrightarrow> isAlnum c \<or> c \<in> set ''!#$%&*+-.^_`|~'' \<or> c = CHR 0x27"

definition upperByte :: "char \<Rightarrow> char" where
  "upperByte c = (let n = of_char c :: nat in if 97 \<le> n \<and> n \<le> 122 then char_of (n - 32) else c)"

fun canonicalize :: "bool \<Rightarrow> string \<Rightarrow> string" where
  "canonicalize upper [] = []"
| "canonicalize upper (c # s) =
     (let d = (if upper then upperByte c else lowerByte c) in d # canonicalize (d = CHR ''-'') s)"

definition CanonicalMIMEHeaderKey :: "string \<Rightarrow> string" where
  "CanonicalMIMEHeaderKey s = (if list_all validHeaderFieldByte s then canonicalize True s else s)"

definition Header_Get :: "header \<Rightarrow> string \<Rightarrow> string" where
  "Header_Get h key =
     (case map_of h (CanonicalMIMEHeaderKey key) of Some (v # vs) \<Rightarrow> v | _ \<Rightarrow> [])"

definition Header_Set :: "string \<Rightarrow> string \<Rightarrow> header \<Rightarrow> header" where
  "Header_Set key v h = AList.update (CanonicalMIMEHeaderKey key) [v] h"

section \<open>Requests\<close>

text \<open>A body yields its bytes and then ends or fails.\<close>

record req_body =
  BodyBytes :: string
  BodyError :: "gerror option"

record signable =
  SgMethod :: string
  SgURL :: url
  SgHost :: string
  SgHeader :: header
  SgContentLength :: int
  SgBody :: "req_body option"

definition io_ReadFull :: "nat \<Rightarrow> req_body \<Rightarrow> string result" where
  "io_ReadFull n b =
     (if n \<le> length (BodyBytes b) then Inr (take n (BodyBytes b))
      else case BodyError b of
        Some e \<Rightarrow> Inl e
      | None \<Rightarrow> Inl (StdErr (if BodyBytes b = [] then ''EOF'' else ''unexpected EOF'')))"

definition io_ReadAll :: "req_body \<Rightarrow> string result" where
  "io_ReadAll b = (case BodyError b of Some e \<Rightarrow> Inl e | None \<Rightarrow> Inr (BodyBytes b))"

definition readAllRequestBody :: "int \<Rightarrow> req_body \<Rightarrow> string result" where
  "readAllRequestBody n b =
     (if n = 0 then Inr []
      else if n > 0 then io_ReadFull (nat n) b
      else io_ReadAll b)"

definition NewReader :: "string \<Rightarrow> req_body" where
  "NewReader s = \<lparr>BodyBytes = s, BodyError = None\<rparr>"

section \<open>The time stamp (time)\<close>

text \<open>Day number since 1970-01-01 to year, month and day of the Gregorian calendar.\<close>

definition civil :: "int \<Rightarrow> int \<times> int \<times> int" where
  "civil days =
     (let z = days + 719468;
          era = z div 146097;
          doe = z mod 146097;
          yoe = (doe - doe div 1460 + doe div 36524 - doe div 146096) div 365;
          doy = doe - (365 * yoe + yoe div 4 - yoe div 100);
          mp = (5 * doy + 2) div 153;
          d = doy - (153 * mp + 2) div 5 + 1;
          m = (if mp < 10 then mp + 3 else mp - 9)
      in (yoe + era * 400 + (if m \<le> 2 then 1 else 0), m, d))"

definition zero_padded :: "nat \<Rightarrow> int \<Rightarrow> string" where
  "zero_padded width n =
     (let s = decimal (nat n) in replicate (width - length s) CHR ''0'' @ s)"

text \<open>\<^verbatim>\<open>Format("20060102T150405Z")\<close> of a time in UTC, given in seconds since 1970 (years 0 to 9999).\<close>

definition formatDate :: "int \<Rightarrow> string" where
  "formatDate t =
     (case civil (t div 86400) of (y, m, d) \<Rightarrow>
        (let r = t mod 86400 in
         zero_padded 4 y @ zero_padded 2 m @ zero_padded 2 d @ ''T'' @
         zero_padded 2 (r div 3600) @ zero_padded 2 (r div 60 mod 60) @ zero_padded 2 (r mod 60) @ ''Z''))"

section \<open>Signing\<close>

record credential =
  accessKeyOf :: string
  secretKeyOf :: string

definition sign :: "credential \<Rightarrow> string \<Rightarrow> string \<Rightarrow> string" where
  "sign c authName data =
     authName @ '' '' @ accessKeyOf c @ '':'' @ URLEncoding (hmac_sha1 (secretKeyOf c) data)"

definition FORM_TYPE :: string where "FORM_TYPE = ''application/x-www-form-urlencoded''"
definition JSON_TYPE :: string where "JSON_TYPE = ''application/json''"

definition path_and_query :: "url \<Rightarrow> string" where
  "path_and_query u = Path u @ (if RawQuery u \<noteq> [] then ''?'' @ RawQuery u else [])"

text \<open>
  The signed part of the body (none without a body or for other content types), and the request
  with its body put back.
\<close>

definition include_body :: "string \<Rightarrow> string list \<Rightarrow> signable \<Rightarrow> string result \<times> signable" where
  "include_body op types rq =
     (case SgBody rq of
        None \<Rightarrow> (Inr [], rq)
      | Some b \<Rightarrow>
          if Header_Get (SgHeader rq) ''Content-Type'' \<in> set types then
            (case readAllRequestBody (SgContentLength rq) b of
               Inl e \<Rightarrow> (Inl (Wrapf ''read request body error'' [op] e), rq)
             | Inr body \<Rightarrow> (Inr body, rq\<lparr>SgBody := Some (NewReader body)\<rparr>))
          else (Inr [], rq))"

definition signQBoxRequest :: "credential \<Rightarrow> signable \<Rightarrow> string result \<times> signable" where
  "signQBoxRequest c rq =
     (case include_body ''QiniuAuthTransport.signQBoxRequest'' [FORM_TYPE] rq of
        (Inl e, rq1) \<Rightarrow> (Inl e, rq1)
      | (Inr body, rq1) \<Rightarrow> (Inr (sign c ''QBox'' (path_and_query (SgURL rq) @ newline @ body)), rq1))"

text \<open>The headers \<^verbatim>\<open>X-Qiniu-*\<close>, sorted by name and value.\<close>

definition Less :: "string \<times> string \<Rightarrow> string \<times> string \<Rightarrow> bool" where
  "Less a b =
     (if fst a < fst b then True else if fst a > fst b then False else snd a < snd b)"

definition is_xQiniu :: "string \<Rightarrow> bool" where
  "is_xQiniu name \<longleftrightarrow> length name > length ''X-Qiniu-'' \<and> HasPrefix name ''X-Qiniu-''"

definition xQiniuHeaders :: "header \<Rightarrow> (string \<times> string) list" where
  "xQiniuHeaders h =
     map (\<lambda>(name, vs). (CanonicalMIMEHeaderKey name, Header_Get h name)) (filter (is_xQiniu \<circ> fst) h)"

definition header_line :: "string \<times> string \<Rightarrow> string" where
  "header_line nv = fst nv @ '': '' @ snd nv @ newline"

definition qiniu_head :: "signable \<Rightarrow> string" where
  "qiniu_head rq =
     SgMethod rq @ '' '' @ path_and_query (SgURL rq) @ newline @
     ''Host: '' @ SgHost rq @ newline @
     ''Content-Type: '' @ Header_Get (SgHeader rq) ''Content-Type'' @ newline @
     concat (map header_line (sort (xQiniuHeaders (SgHeader rq)))) @ newline"

text \<open>The request as it is when it is signed: dated, with a content type.\<close>

definition qiniu_prepared :: "string \<Rightarrow> signable \<Rightarrow> signable" where
  "qiniu_prepared timeString rq =
     (let h = Header_Set ''X-Qiniu-Date'' timeString (SgHeader rq) in
      rq\<lparr>SgHeader :=
        (if Header_Get h ''Content-Type'' = [] then Header_Set ''Content-Type'' FORM_TYPE h else h)\<rparr>)"

definition signQiniuRequest :: "credential \<Rightarrow> string \<Rightarrow> signable \<Rightarrow> string result \<times> signable" where
  "signQiniuRequest c timeString rq =
     (let rq1 = qiniu_prepared timeString rq in
      case include_body ''QiniuAuthTransport.signQiniuRequest'' [FORM_TYPE, JSON_TYPE] rq1 of
        (Inl e, rq2) \<Rightarrow> (Inl e, rq2)
      | (Inr body, rq2) \<Rightarrow> (Inr (sign c ''Qiniu'' (qiniu_head rq1 @ body)), rq2))"

section \<open>Transports\<close>

type_synonym ('w, 'r) round_tripper = "signable \<Rightarrow> 'w \<Rightarrow> 'r result \<times> 'w"

record ('w, 'r) QiniuAuthTransport =
  atTransport :: "('w, 'r) round_tripper option"
  atCredential :: credential
  atUseQBoxAuth :: bool

definition NewQiniuAuthTransport ::
    "string \<Rightarrow> string \<Rightarrow> ('w, 'r) round_tripper option \<Rightarrow> bool \<Rightarrow> ('w, 'r) QiniuAuthTransport" where
  "NewQiniuAuthTransport ak sk transport qbox =
     \<lparr>atTransport = transport, atCredential = \<lparr>accessKeyOf = ak, secretKeyOf = sk\<rparr>, atUseQBoxAuth = qbox\<rparr>"

text \<open>\<open>defaultTransport\<close> is \<^verbatim>\<open>http.DefaultTransport\<close> and \<open>now\<close> the clock in seconds.\<close>

definition inner_transport ::
    "('w, 'r) round_tripper \<Rightarrow> ('w, 'r) round_tripper option \<Rightarrow> ('w, 'r) round_tripper" where
  "inner_transport defaultTransport transport = (case transport of None \<Rightarrow> defaultTransport | Some t \<Rightarrow> t)"

definition Auth_RoundTrip ::
    "('w, 'r) round_tripper \<Rightarrow> int \<Rightarrow> ('w, 'r) QiniuAuthTransport \<Rightarrow> ('w, 'r) round_tripper" where
  "Auth_RoundTrip defaultTransport now t rq w =
     (let inner = inner_transport defaultTransport (atTransport t) in
      if Header_Get (SgHeader rq) ''Authorization'' = [] then
        (case (if atUseQBoxAuth t then signQBoxRequest (atCredential t) rq
               else signQiniuRequest (atCredential t) (formatDate now) rq) of
           (Inl e, rq1) \<Rightarrow>
             (Inl (Wrapf ''QiniuAuthTransport.RoundTrip: sign request error'' [if atUseQBoxAuth t then ''QBox'' else ''Qiniu''] e), w)
         | (Inr auth, rq1) \<Rightarrow> inner (rq1\<lparr>SgHeader := Header_Set ''Authorization'' auth (SgHeader rq1)\<rparr>) w)
      else inner rq w)"

record ('w, 'r) UserAgentTransport =
  uaTransport :: "('w, 'r) round_tripper option"
  uaUserAgent :: string

definition NewUserAgentTransport ::
    "string \<Rightarrow> ('w, 'r) round_tripper option \<Rightarrow> ('w, 'r) UserAgentTransport" where
  "NewUserAgentTransport ua transport = \<lparr>uaTransport = transport, uaUserAgent = ua\<rparr>"

definition UserAgent_RoundTrip ::
    "('w, 'r) round_tripper \<Rightarrow> ('w, 'r) UserAgentTransport \<Rightarrow> ('w, 'r) round_tripper" where
  "UserAgent_RoundTrip defaultTransport t rq w =
     inner_transport defaultTransport (uaTransport t)
       (if Header_Get (SgHeader rq) ''User-Agent'' = []
        then rq\<lparr>SgHeader := Header_Set ''User-Agent'' (uaUserAgent t) (SgHeader rq)\<rparr> else rq) w"

text \<open>The transport of both service clients: signing over the user agent over the default transport.\<close>

definition client_transport ::
    "('w, 'r) round_tripper \<Rightarrow> int \<Rightarrow> string \<Rightarrow> string \<Rightarrow> string \<Rightarrow> bool \<Rightarrow> ('w, 'r) round_tripper" where
  "client_transport defaultTransport now ua ak sk qbox =
     Auth_RoundTrip defaultTransport now
       (NewQiniuAuthTransport ak sk
         (Some (UserAgent_RoundTrip defaultTransport (NewUserAgentTransport ua None))) qbox)"

end
