(* ===== verification/Request_Signing_Facts.thy ===== *)
theory Request_Signing_Facts
  imports Request_Signing
begin

text \<open>
  Properties of request signing: header maps do not depend on their iteration order, what the
  signed text determines, what reaches the transport below.
\<close>

section \<open>Header names\<close>

lemma byte_case_codes:
  "of_char (upperByte c) = (let n = of_char c :: nat in if 97 \<le> n \<and> n \<le> 122 then n - 32 else n)"
  "of_char (lowerByte c) = (let n = of_char c :: nat in if 65 \<le> n \<and> n \<le> 90 then n + 32 else n)"
proof -
  have bound: "(of_char c :: nat) < 256" by simp
  show "of_char (upperByte c) = (let n = of_char c :: nat in if 97 \<le> n \<and> n \<le> 122 then n - 32 else n)"
    using bound by (auto simp: upperByte_def Let_def of_char_of intro!: mod_less)
  show "of_char (lowerByte c) = (let n = of_char c :: nat in if 65 \<le> n \<and> n \<le> 90 then n + 32 else n)"
    using bound by (simp add: lowerByte_def Let_def of_char_of)
qed

lemma byte_case_idem [simp]: "upperByte (upperByte c) = upperByte c" "lowerByte (lowerByte c) = lowerByte c"
proof -
  have "of_char (upperByte (upperByte c)) = (of_char (upperByte c) :: nat)"
    unfolding byte_case_codes(1) Let_def by auto
  then show "upperByte (upperByte c) = upperByte c" by simp
  have "of_char (lowerByte (lowerByte c)) = (of_char (lowerByte c) :: nat)"
    unfolding byte_case_codes(2) Let_def by auto
  then show "lowerByte (lowerByte c) = lowerByte c" by simp
qed

lemma canonicalize_idem: "canonicalize upper (canonicalize upper s) = canonicalize upper s"
proof (induction upper s rule: canonicalize.induct)
  case (2 upper c s)
  then show ?case by (cases upper) (simp_all add: Let_def)
qed simp

lemma isAlnum_case [simp]: "isAlnum (upperByte c) \<longleftrightarrow> isAlnum c" "isAlnum (lowerByte c) \<longleftrightarrow> isAlnum c"
  unfolding isAlnum_def isAlpha_def isDigit_def byte_case_codes Let_def by auto

lemma case_not_alnum: "\<not> isAlnum c \<Longrightarrow> upperByte c = c" "\<not> isAlnum c \<Longrightarrow> lowerByte c = c"
  by (auto simp: isAlnum_def isAlpha_codes isDigit_def upperByte_def lowerByte_def Let_def)

lemma valid_case [simp]:
  "validHeaderFieldByte c \<Longrightarrow> validHeaderFieldByte (upperByte c)"
  "validHeaderFieldByte c \<Longrightarrow> validHeaderFieldByte (lowerByte c)"
  by (cases "isAlnum c"; simp add: validHeaderFieldByte_def case_not_alnum)+

lemma valid_canonicalize: "list_all validHeaderFieldByte s \<Longrightarrow> list_all validHeaderFieldByte (canonicalize upper s)"
  by (induction upper s rule: canonicalize.induct) (simp_all add: Let_def)

lemma Canonical_idem [simp]: "CanonicalMIMEHeaderKey (CanonicalMIMEHeaderKey s) = CanonicalMIMEHeaderKey s"
  by (simp add: CanonicalMIMEHeaderKey_def canonicalize_idem valid_canonicalize)

lemma Canonical_known [simp]:
  "CanonicalMIMEHeaderKey ''X-Qiniu-Date'' = ''X-Qiniu-Date''"
  "CanonicalMIMEHeaderKey ''Content-Type'' = ''Content-Type''"
  "CanonicalMIMEHeaderKey ''Authorization'' = ''Authorization''"
  "CanonicalMIMEHeaderKey ''User-Agent'' = ''User-Agent''"
  by code_simp+

section \<open>Header maps\<close>

lemma map_of_Set: "map_of (Header_Set key v h) = (map_of h)(CanonicalMIMEHeaderKey key \<mapsto> [v])"
  by (simp add: Header_Set_def update_conv')

lemma Header_Get_Set:
  "Header_Get (Header_Set key v h) key' =
     (if CanonicalMIMEHeaderKey key' = CanonicalMIMEHeaderKey key then v else Header_Get h key')"
  by (simp add: Header_Get_def map_of_Set)

text \<open>The same header map, visited in two orders.\<close>

definition same_header :: "header \<Rightarrow> header \<Rightarrow> bool" where
  "same_header h h' \<longleftrightarrow> distinct (map fst h) \<and> distinct (map fst h') \<and> map_of h = map_of h'"

lemma same_header_Get: "same_header h h' \<Longrightarrow> Header_Get h key = Header_Get h' key"
  by (simp add: same_header_def Header_Get_def)

lemma same_header_Set: "same_header h h' \<Longrightarrow> same_header (Header_Set key v h) (Header_Set key v h')"
  unfolding same_header_def map_of_Set by (simp add: Header_Set_def distinct_update)

lemma same_header_mset: "same_header h h' \<Longrightarrow> mset h = mset h'"
  unfolding same_header_def
  by (metis map_of_inject_set distinct_map set_eq_iff_mset_eq_distinct)

lemma same_header_mset_iff: "distinct (map fst h) \<Longrightarrow> mset h = mset h' \<Longrightarrow> same_header h h'"
  unfolding same_header_def
  by (metis map_of_inject_set mset_eq_imp_distinct_iff mset_eq_setD mset_map)

lemma xQiniuHeaders_same:
  assumes "same_header h h'"
  shows "sort (xQiniuHeaders h) = sort (xQiniuHeaders h')"
proof -
  let ?item = "\<lambda>(name, vs :: string list). (CanonicalMIMEHeaderKey name, Header_Get h name)"
  have "xQiniuHeaders h' = map ?item (filter (is_xQiniu \<circ> fst) h')"
    by (simp add: xQiniuHeaders_def same_header_Get [OF assms])
  moreover have "xQiniuHeaders h = map ?item (filter (is_xQiniu \<circ> fst) h)"
    by (simp add: xQiniuHeaders_def)
  ultimately have "mset (xQiniuHeaders h) = mset (xQiniuHeaders h')"
    using same_header_mset [OF assms] by (simp only: mset_map mset_filter)
  then show ?thesis by (metis properties_for_sort sorted_sort mset_sort)
qed

text \<open>\<^verbatim>\<open>Less\<close> is the order by name, then value; sorting by it has one result.\<close>

lemma Less_iff: "Less a b \<longleftrightarrow> a < b"
  by (cases a; cases b) (auto simp: Less_def less_prod_simp)

lemma sorted_by_Less: "sorted_wrt (\<lambda>a b. \<not> Less b a) hs \<Longrightarrow> mset hs = mset hs' \<Longrightarrow> hs = sort hs'"
  by (simp add: Less_iff not_less properties_for_sort)

section \<open>The order of the headers\<close>

lemma path_and_query_header [simp]: "SgURL (rq\<lparr>SgHeader := h\<rparr>) = SgURL rq" by simp

lemma include_body_same:
  assumes "same_header (SgHeader rq) h"
  shows "fst (include_body op types (rq\<lparr>SgHeader := h\<rparr>)) = fst (include_body op types rq)"
    "SgHeader (snd (include_body op types rq)) = SgHeader rq"
  using same_header_Get [OF assms]
  by (simp_all add: include_body_def split: option.split sum.split)

lemma qiniu_prepared_same:
  assumes "same_header (SgHeader rq) h"
  shows "\<exists>h'. qiniu_prepared t (rq\<lparr>SgHeader := h\<rparr>) = (qiniu_prepared t rq)\<lparr>SgHeader := h'\<rparr> \<and>
    same_header (SgHeader (qiniu_prepared t rq)) h'"
  using same_header_Set [OF assms, of "''X-Qiniu-Date''" t]
    same_header_Get [OF same_header_Set [OF assms, of "''X-Qiniu-Date''" t], of "''Content-Type''"]
  by (auto simp: qiniu_prepared_def Let_def intro: same_header_Set)

lemma qiniu_head_same:
  assumes "same_header (SgHeader rq) h"
  shows "qiniu_head (rq\<lparr>SgHeader := h\<rparr>) = qiniu_head rq"
  using same_header_Get [OF assms] xQiniuHeaders_same [OF assms] by (simp add: qiniu_head_def)

text \<open>
  C23: the signatures of both schemes do not depend on the order in which the header map is
  visited; sorting the \<^verbatim>\<open>X-Qiniu-\<close> headers makes the signed text canonical.
\<close>

theorem signature_order:
  assumes "same_header (SgHeader rq) h"
  shows "fst (signQiniuRequest c t (rq\<lparr>SgHeader := h\<rparr>)) = fst (signQiniuRequest c t rq) \<and>
    fst (signQBoxRequest c (rq\<lparr>SgHeader := h\<rparr>)) = fst (signQBoxRequest c rq)"
proof
  obtain h' where h': "qiniu_prepared t (rq\<lparr>SgHeader := h\<rparr>) = (qiniu_prepared t rq)\<lparr>SgHeader := h'\<rparr>"
    "same_header (SgHeader (qiniu_prepared t rq)) h'"
    using qiniu_prepared_same [OF assms] by blast
  have split: "fst (case x of (Inl e, rq1) \<Rightarrow> (Inl e, rq1) | (Inr b, rq1) \<Rightarrow> (Inr (f b), rq1)) =
      (case fst x of Inl e \<Rightarrow> Inl e | Inr b \<Rightarrow> Inr (f b))"
    for x :: "string result \<times> signable" and f :: "string \<Rightarrow> string"
    by (cases x) (simp split: sum.split)
  show "fst (signQiniuRequest c t (rq\<lparr>SgHeader := h\<rparr>)) = fst (signQiniuRequest c t rq)"
    unfolding signQiniuRequest_def Let_def h'(1) split include_body_same(1) [OF h'(2)] qiniu_head_same [OF h'(2)] ..
  show "fst (signQBoxRequest c (rq\<lparr>SgHeader := h\<rparr>)) = fst (signQBoxRequest c rq)"
    unfolding signQBoxRequest_def split include_body_same(1) [OF assms] path_and_query_header ..
qed

definition demo_signable :: signable where
  "demo_signable =
     \<lparr>SgMethod = ''POST'', SgURL = endpoint_url ''http'' ''h'' ''/p'', SgHost = ''h'',
      SgHeader = [(''X-Qiniu-B'', [''2'']), (''Content-Type'', [''application/json'']), (''X-Qiniu-A'', [''1''])],
      SgContentLength = 2, SgBody = Some (NewReader ''{}'')\<rparr>"

definition demo_credential :: credential where
  "demo_credential = \<lparr>accessKeyOf = ''ak'', secretKeyOf = ''sk''\<rparr>"

theorem signature_order_witness:
  "fst (signQiniuRequest demo_credential ''t'' (demo_signable\<lparr>SgHeader := rev (SgHeader demo_signable)\<rparr>)) =
     fst (signQiniuRequest demo_credential ''t'' demo_signable)"
proof -
  have "same_header (SgHeader demo_signable) (rev (SgHeader demo_signable))"
    by (rule same_header_mset_iff) (simp_all add: demo_signable_def)
  from signature_order [OF this] show ?thesis by blast
qed

section \<open>What the signed text determines\<close>

lemma append_at_separator:
  assumes "a @ c # x = b @ c # y" "c \<notin> set a" "c \<notin> set b"
  shows "a = b \<and> x = y"
proof -
  have "takeWhile (\<lambda>d. d \<noteq> c) (a @ c # x) = a" "takeWhile (\<lambda>d. d \<noteq> c) (b @ c # y) = b"
    using assms(2,3) by (auto simp: takeWhile_append)
  with assms(1) have "a = b" by metis
  with assms(1) show ?thesis by simp
qed

text \<open>Headers that can be written on a line: a name without a colon, a value without a line break.\<close>

definition line_ok :: "string \<times> string \<Rightarrow> bool" where
  "line_ok nv \<longleftrightarrow> fst nv \<noteq> [] \<and> CHR '':'' \<notin> set (fst nv) \<and> CHR 0x0A \<notin> set (fst nv) \<and> CHR 0x0A \<notin> set (snd nv)"

lemma header_line_append: "header_line (n, v) @ r = n @ CHR '':'' # CHR '' '' # v @ CHR 0x0A # r"
  by (simp add: header_line_def newline_def)

lemma header_lines_inject:
  assumes "list_all line_ok hs" "list_all line_ok hs'"
    and "concat (map header_line hs) @ newline @ body = concat (map header_line hs') @ newline @ body'"
  shows "hs = hs' \<and> body = body'"
  using assms
proof (induction hs arbitrary: hs')
  case Nil
  show ?case
  proof (cases hs')
    case (Cons nv ns)
    with Nil show ?thesis by (cases "fst nv") (auto simp: line_ok_def header_line_def newline_def)
  qed (use Nil in \<open>simp add: newline_def\<close>)
next
  case (Cons nv ns)
  note prems = Cons.prems
  show ?case
  proof (cases hs')
    case Nil
    with prems show ?thesis by (cases "fst nv") (auto simp: line_ok_def header_line_def newline_def)
  next
    case (Cons nv' ns')
    obtain n v n' v' where nv: "nv = (n, v)" "nv' = (n', v')" by fastforce
    let ?rest = "concat (map header_line ns) @ newline @ body"
    let ?rest' = "concat (map header_line ns') @ newline @ body'"
    have "n @ CHR '':'' # (CHR '' '' # v @ CHR 0x0A # ?rest) = n' @ CHR '':'' # (CHR '' '' # v' @ CHR 0x0A # ?rest')"
      using prems(3) unfolding Cons nv list.map concat.simps append.assoc header_line_append append_Cons .
    moreover have "CHR '':'' \<notin> set n" "CHR '':'' \<notin> set n'"
      using prems(1,2) Cons nv by (auto simp: line_ok_def)
    ultimately have n: "n = n'" and "v @ CHR 0x0A # ?rest = v' @ CHR 0x0A # ?rest'"
      using append_at_separator [of n "CHR '':''" _ n'] by auto
    moreover have "CHR 0x0A \<notin> set v" "CHR 0x0A \<notin> set v'"
      using prems(1,2) Cons nv by (auto simp: line_ok_def)
    ultimately have "v = v'" "?rest = ?rest'" using append_at_separator [of v "CHR 0x0A" _ v'] by auto
    with Cons.IH [of ns'] prems(1,2) Cons nv n show ?thesis by auto
  qed
qed

definition head_ok :: "signable \<Rightarrow> bool" where
  "head_ok rq \<longleftrightarrow>
     CHR '' '' \<notin> set (SgMethod rq) \<and> CHR 0x0A \<notin> set (path_and_query (SgURL rq)) \<and>
     CHR 0x0A \<notin> set (SgHost rq) \<and> CHR 0x0A \<notin> set (Header_Get (SgHeader rq) ''Content-Type'') \<and>
     list_all line_ok (xQiniuHeaders (SgHeader rq))"

text \<open>
  C22: the text of the Qiniu scheme determines what it was made from: when no part contains a line
  break (nor the method a space, nor a header name a colon), two requests with the same signed
  text have the same method, path with query, host, content type and \<^verbatim>\<open>X-Qiniu-\<close> headers, and the
  same signed body.
\<close>

theorem qiniu_text_binds:
  assumes "head_ok rq" "head_ok rq'" "qiniu_head rq @ body = qiniu_head rq' @ body'"
  shows "SgMethod rq = SgMethod rq' \<and> path_and_query (SgURL rq) = path_and_query (SgURL rq') \<and>
    SgHost rq = SgHost rq' \<and>
    Header_Get (SgHeader rq) ''Content-Type'' = Header_Get (SgHeader rq') ''Content-Type'' \<and>
    mset (xQiniuHeaders (SgHeader rq)) = mset (xQiniuHeaders (SgHeader rq')) \<and> body = body'"
proof -
  let ?ct = "\<lambda>r. Header_Get (SgHeader r) ''Content-Type''" and ?hs = "\<lambda>r. sort (xQiniuHeaders (SgHeader r))"
  let ?t4 = "\<lambda>r b. concat (map header_line (?hs r)) @ newline @ b"
  let ?t3 = "\<lambda>r b. ?ct r @ CHR 0x0A # ?t4 r b"
  let ?t2 = "\<lambda>r b. SgHost r @ CHR 0x0A # ''Content-Type: '' @ ?t3 r b"
  let ?t1 = "\<lambda>r b. path_and_query (SgURL r) @ CHR 0x0A # ''Host: '' @ ?t2 r b"
  note ok = assms(1,2) [unfolded head_ok_def]
  have "qiniu_head r @ b = SgMethod r @ CHR '' '' # ?t1 r b" for r b
    by (simp add: qiniu_head_def newline_def)
  with assms(3) have "SgMethod rq @ CHR '' '' # ?t1 rq body = SgMethod rq' @ CHR '' '' # ?t1 rq' body'" by metis
  then have m: "SgMethod rq = SgMethod rq' \<and> ?t1 rq body = ?t1 rq' body'"
    by (rule append_at_separator) (use ok in simp_all)
  have p: "path_and_query (SgURL rq) = path_and_query (SgURL rq') \<and> ''Host: '' @ ?t2 rq body = ''Host: '' @ ?t2 rq' body'"
    by (rule append_at_separator [OF conjunct2 [OF m]]) (use ok in simp_all)
  then have "?t2 rq body = ?t2 rq' body'" by (simp only: same_append_eq)
  then have h: "SgHost rq = SgHost rq' \<and> ''Content-Type: '' @ ?t3 rq body = ''Content-Type: '' @ ?t3 rq' body'"
    by (rule append_at_separator) (use ok in simp_all)
  then have "?t3 rq body = ?t3 rq' body'" by (simp only: same_append_eq)
  then have c: "?ct rq = ?ct rq' \<and> ?t4 rq body = ?t4 rq' body'"
    by (rule append_at_separator) (use ok in simp_all)
  have "list_all line_ok (?hs rq)" "list_all line_ok (?hs rq')"
    using assms(1,2) by (simp_all add: head_ok_def list_all_iff)
  from header_lines_inject [OF this conjunct2 [OF c]] have "?hs rq = ?hs rq'" "body = body'" by auto
  with m p h c show ?thesis by (metis mset_sort)
qed

section \<open>What is sent\<close>

text \<open>A body that can be read and has the announced length; its signed part.\<close>

definition body_ready :: "signable \<Rightarrow> bool" where
  "body_ready rq \<longleftrightarrow>
     (\<forall>b. SgBody rq = Some b \<longrightarrow> BodyError b = None \<and> SgContentLength rq = int (length (BodyBytes b)))"

definition signed_body :: "string list \<Rightarrow> signable \<Rightarrow> string" where
  "signed_body types rq =
     (case SgBody rq of
        Some b \<Rightarrow> if Header_Get (SgHeader rq) ''Content-Type'' \<in> set types then BodyBytes b else []
      | None \<Rightarrow> [])"

lemma include_body_ready:
  assumes "body_ready rq"
  shows "include_body op types rq = (Inr (signed_body types rq), rq)"
proof (cases "SgBody rq")
  case (Some b)
  with assms have b: "BodyError b = None" "SgContentLength rq = int (length (BodyBytes b))"
    by (simp_all add: body_ready_def)
  then have "b = NewReader (BodyBytes b)" by (cases b) (simp add: NewReader_def)
  with Some have "rq\<lparr>SgBody := Some (NewReader (BodyBytes b))\<rparr> = rq" by (cases rq) simp
  moreover from b have "readAllRequestBody (SgContentLength rq) b = Inr (BodyBytes b)"
    by (auto simp: readAllRequestBody_def io_ReadFull_def)
  ultimately show ?thesis using Some by (simp add: include_body_def signed_body_def)
qed (simp add: include_body_def signed_body_def)

lemma filter_update_other: "\<not> P k \<Longrightarrow> filter (P \<circ> fst) (AList.update k v h) = filter (P \<circ> fst) h"
  by (induction h) auto

lemma Canonical_xQiniu: "is_xQiniu name \<Longrightarrow> \<exists>s. CanonicalMIMEHeaderKey name = CHR ''X'' # s"
  by (cases name) (auto simp: is_xQiniu_def HasPrefix_iff_prefix CanonicalMIMEHeaderKey_def upperByte_def Let_def)

text \<open>Setting a header outside the \<^verbatim>\<open>X-Qiniu-\<close> ones, other than the content type, does not change the signed text.\<close>

definition unsigned_name :: "string \<Rightarrow> bool" where
  "unsigned_name k \<longleftrightarrow> k \<in> {''Authorization'', ''User-Agent''}"

lemma xQiniuHeaders_unsigned:
  assumes "unsigned_name k"
  shows "xQiniuHeaders (Header_Set k v h) = xQiniuHeaders h"
proof -
  have k: "CanonicalMIMEHeaderKey k = k" "\<not> is_xQiniu k" "hd k \<noteq> CHR ''X''"
    using assms by (auto simp: unsigned_name_def is_xQiniu_def HasPrefix_def)
  have "Header_Get (Header_Set k v h) name = Header_Get h name" if "is_xQiniu name" for name
    using Canonical_xQiniu [OF that] k by (auto simp: Header_Get_Set)
  moreover have "filter (is_xQiniu \<circ> fst) (Header_Set k v h) = filter (is_xQiniu \<circ> fst) h"
    unfolding Header_Set_def k(1) by (rule filter_update_other) (rule k(2))
  ultimately show ?thesis
    by (auto simp: xQiniuHeaders_def intro!: map_cong)
qed

lemma qiniu_head_unsigned:
  assumes "unsigned_name k"
  shows "qiniu_head (rq\<lparr>SgHeader := Header_Set k v (SgHeader rq)\<rparr>) = qiniu_head rq"
    "signed_body types (rq\<lparr>SgHeader := Header_Set k v (SgHeader rq)\<rparr>) = signed_body types rq"
  using assms
  by (auto simp: qiniu_head_def signed_body_def xQiniuHeaders_unsigned Header_Get_Set unsigned_name_def
      split: option.split)

lemma qiniu_prepared_Get:
  "Header_Get (SgHeader (qiniu_prepared t rq)) k =
     (if CanonicalMIMEHeaderKey k = ''X-Qiniu-Date'' then t
      else if CanonicalMIMEHeaderKey k = ''Content-Type'' \<and> Header_Get (SgHeader rq) ''Content-Type'' = [] then FORM_TYPE
      else Header_Get (SgHeader rq) k)"
  by (simp add: qiniu_prepared_def Let_def Header_Get_Set)

text \<open>
  C21: a request that is not signed yet and whose body has the announced length is sent once, with
  its method, address and body unchanged, dated and signed: the signature is the one its receiver
  computes from the request received, with the secret key.  Of the other headers only a missing
  content type and user agent are filled in.
\<close>

theorem client_transport_signed:
  assumes "Header_Get (SgHeader rq) ''Authorization'' = []" "body_ready rq"
  shows "\<exists>h. client_transport dt now ua ak sk False rq w = dt (rq\<lparr>SgHeader := h\<rparr>) w \<and>
    Header_Get h ''Authorization'' = sign \<lparr>accessKeyOf = ak, secretKeyOf = sk\<rparr> ''Qiniu''
      (qiniu_head (rq\<lparr>SgHeader := h\<rparr>) @ signed_body [FORM_TYPE, JSON_TYPE] (rq\<lparr>SgHeader := h\<rparr>)) \<and>
    Header_Get h ''X-Qiniu-Date'' = formatDate now \<and>
    (\<forall>k. CanonicalMIMEHeaderKey k \<notin> {''Authorization'', ''X-Qiniu-Date''} \<longrightarrow>
       Header_Get h k =
         (if Header_Get (SgHeader rq) k \<noteq> [] then Header_Get (SgHeader rq) k
          else if CanonicalMIMEHeaderKey k = ''Content-Type'' then FORM_TYPE
          else if CanonicalMIMEHeaderKey k = ''User-Agent'' then ua
          else []))"
proof -
  let ?c = "\<lparr>accessKeyOf = ak, secretKeyOf = sk\<rparr>"
  let ?p = "qiniu_prepared (formatDate now) rq"
  let ?auth = "sign ?c ''Qiniu'' (qiniu_head ?p @ signed_body [FORM_TYPE, JSON_TYPE] ?p)"
  have "body_ready ?p" using assms(2) by (simp add: body_ready_def qiniu_prepared_def Let_def)
  then have sign: "signQiniuRequest ?c (formatDate now) rq = (Inr ?auth, ?p)"
    by (simp add: signQiniuRequest_def Let_def include_body_ready)
  let ?h1 = "Header_Set ''Authorization'' ?auth (SgHeader ?p)"
  let ?h2 = "if Header_Get ?h1 ''User-Agent'' = [] then Header_Set ''User-Agent'' ua ?h1 else ?h1"
  have p: "?p\<lparr>SgHeader := h\<rparr> = rq\<lparr>SgHeader := h\<rparr>" for h
    by (simp add: qiniu_prepared_def Let_def)
  have run: "client_transport dt now ua ak sk False rq w = dt (rq\<lparr>SgHeader := ?h2\<rparr>) w"
    using assms(1)
    by (simp add: client_transport_def Auth_RoundTrip_def NewQiniuAuthTransport_def inner_transport_def sign p
        UserAgent_RoundTrip_def NewUserAgentTransport_def)
  have u: "unsigned_name ''Authorization''" "unsigned_name ''User-Agent''" by (simp_all add: unsigned_name_def)
  have "qiniu_head (?p\<lparr>SgHeader := ?h2\<rparr>) = qiniu_head ?p"
    "signed_body types (?p\<lparr>SgHeader := ?h2\<rparr>) = signed_body types ?p" for types
    using qiniu_head_unsigned [OF u(1), where rq = ?p and v = ?auth]
      qiniu_head_unsigned [OF u(2), where rq = "?p\<lparr>SgHeader := ?h1\<rparr>" and v = ua] by simp_all
  then have "qiniu_head (rq\<lparr>SgHeader := ?h2\<rparr>) = qiniu_head ?p"
    "signed_body types (rq\<lparr>SgHeader := ?h2\<rparr>) = signed_body types ?p" for types
    unfolding p by auto
  then have "Header_Get ?h2 ''Authorization'' = sign ?c ''Qiniu''
      (qiniu_head (rq\<lparr>SgHeader := ?h2\<rparr>) @ signed_body [FORM_TYPE, JSON_TYPE] (rq\<lparr>SgHeader := ?h2\<rparr>))"
    by (simp add: Header_Get_Set)
  moreover have "Header_Get ?h2 ''X-Qiniu-Date'' = formatDate now"
    by (simp add: Header_Get_Set qiniu_prepared_Get)
  moreover have "Header_Get ?h2 k =
         (if Header_Get (SgHeader rq) k \<noteq> [] then Header_Get (SgHeader rq) k
          else if CanonicalMIMEHeaderKey k = ''Content-Type'' then FORM_TYPE
          else if CanonicalMIMEHeaderKey k = ''User-Agent'' then ua
          else [])"
    if "CanonicalMIMEHeaderKey k \<notin> {''Authorization'', ''X-Qiniu-Date''}" for k
  proof -
    have same: "Header_Get (SgHeader rq) k = Header_Get (SgHeader rq) x"
      if "CanonicalMIMEHeaderKey k = CanonicalMIMEHeaderKey x" for x
      using that by (simp add: Header_Get_def)
    show ?thesis
      using that same [of "''Content-Type''"] same [of "''User-Agent''"]
      by (auto simp: Header_Get_Set qiniu_prepared_Get)
  qed
  ultimately show ?thesis using run by blast
qed

lemma demo_signable_ready: "Header_Get (SgHeader demo_signable) ''Authorization'' = []" "body_ready demo_signable"
  by (simp_all add: demo_signable_def Header_Get_def body_ready_def NewReader_def)

theorem client_transport_signed_witness:
  "\<exists>h. client_transport (\<lambda>rq w. (Inr rq, w)) 0 ''ua'' ''ak'' ''sk'' False demo_signable () =
      (Inr (demo_signable\<lparr>SgHeader := h\<rparr>), ()) \<and> Header_Get h ''User-Agent'' = ''ua'' \<and>
    Header_Get h ''Content-Type'' = JSON_TYPE"
proof -
  have known: "Header_Get (SgHeader demo_signable) ''User-Agent'' = []"
    "Header_Get (SgHeader demo_signable) ''Content-Type'' = JSON_TYPE"
    by (simp_all add: demo_signable_def Header_Get_def JSON_TYPE_def)
  from client_transport_signed [OF demo_signable_ready, of "\<lambda>rq w. (Inr rq, w)" 0 "''ua''" "''ak''" "''sk''" "()"]
  obtain h where h: "client_transport (\<lambda>rq w. (Inr rq, w)) 0 ''ua'' ''ak'' ''sk'' False demo_signable () =
      (Inr (demo_signable\<lparr>SgHeader := h\<rparr>), ())"
    and get: "\<forall>k. CanonicalMIMEHeaderKey k \<notin> {''Authorization'', ''X-Qiniu-Date''} \<longrightarrow>
       Header_Get h k =
         (if Header_Get (SgHeader demo_signable) k \<noteq> [] then Header_Get (SgHeader demo_signable) k
          else if CanonicalMIMEHeaderKey k = ''Content-Type'' then FORM_TYPE
          else if CanonicalMIMEHeaderKey k = ''User-Agent'' then ''ua''
          else [])" by blast
  have "JSON_TYPE \<noteq> []" by (simp add: JSON_TYPE_def)
  with get [rule_format, of "''User-Agent''"] get [rule_format, of "''Content-Type''"] known
  have "Header_Get h ''User-Agent'' = ''ua''" "Header_Get h ''Content-Type'' = JSON_TYPE" by simp_all
  with h show ?thesis by blast
qed

section \<open>Bodies that cannot be read\<close>

text \<open>
  With either scheme, a form request whose body is shorter than the announced length is not
  sent: the transport reports an error and nothing below it is called.
\<close>

theorem short_body_not_sent:
  assumes "Header_Get (SgHeader rq) ''Authorization'' = []"
    and "Header_Get (SgHeader rq) ''Content-Type'' \<in> {[], FORM_TYPE}" "qbox \<longrightarrow> Header_Get (SgHeader rq) ''Content-Type'' \<noteq> []"
    and "SgBody rq = Some b" "int (length (BodyBytes b)) < SgContentLength rq"
  shows "\<exists>e. client_transport dt now ua ak sk qbox rq w = (Inl e, w)"
proof -
  have read: "\<exists>e. readAllRequestBody (SgContentLength rq) b = Inl e"
    using assms(5) by (auto simp: readAllRequestBody_def io_ReadFull_def split: option.split)
  show ?thesis
  proof (cases qbox)
    case True
    with assms(2,3) have "Header_Get (SgHeader rq) ''Content-Type'' \<in> set [FORM_TYPE]" by simp
    with assms(4) read have "\<exists>e. signQBoxRequest \<lparr>accessKeyOf = ak, secretKeyOf = sk\<rparr> rq = (Inl e, rq)"
      by (auto simp: signQBoxRequest_def include_body_def)
    with assms(1) True show ?thesis
      by (auto simp: client_transport_def Auth_RoundTrip_def NewQiniuAuthTransport_def)
  next
    case False
    let ?p = "qiniu_prepared (formatDate now) rq"
    have "Header_Get (SgHeader ?p) ''Content-Type'' = FORM_TYPE"
      using assms(2) by (auto simp: qiniu_prepared_Get)
    moreover have "SgBody ?p = Some b" "SgContentLength ?p = SgContentLength rq"
      using assms(4) by (simp_all add: qiniu_prepared_def Let_def)
    ultimately have "\<exists>e. signQiniuRequest \<lparr>accessKeyOf = ak, secretKeyOf = sk\<rparr> (formatDate now) rq = (Inl e, ?p)"
      using read by (auto simp: signQiniuRequest_def Let_def include_body_def)
    with assms(1) False show ?thesis
      by (auto simp: client_transport_def Auth_RoundTrip_def NewQiniuAuthTransport_def)
  qed
qed

theorem short_body_not_sent_witness:
  "\<exists>e. client_transport (\<lambda>rq w. (Inr rq, True)) 0 ''ua'' ''ak'' ''sk'' True
     (demo_signable\<lparr>SgHeader := [(''Content-Type'', [FORM_TYPE])], SgContentLength := 3\<rparr>) False = (Inl e, False)"
  by (rule short_body_not_sent [where b = "NewReader ''{}''"]) (simp_all add: demo_signable_def Header_Get_def NewReader_def FORM_TYPE_def)

definition demo_signable2 :: signable where
  "demo_signable2 = demo_signable\<lparr>SgHeader := rev (SgHeader demo_signable), SgContentLength := 0, SgBody := None\<rparr>"

lemma demo_head_ok: "head_ok demo_signable" "head_ok demo_signable2" "qiniu_head demo_signable = qiniu_head demo_signable2"
  by code_simp+

theorem qiniu_text_binds_witness:
  "mset (xQiniuHeaders (SgHeader demo_signable)) = mset (xQiniuHeaders (SgHeader demo_signable2))"
proof -
  have "qiniu_head demo_signable @ ''{}'' = qiniu_head demo_signable2 @ ''{}''" by (simp add: demo_head_ok(3))
  from qiniu_text_binds [OF demo_head_ok(1,2) this] show ?thesis by blast
qed

end
