(* ===== verification/Host_World.thy ===== *)
theory Host_World
  imports Http_World Protocol
begin

text \<open>
  The operating system as the plugin and the connector use it: files and directories, external
  commands, the mount table.  Every operation is a field of \<open>host\<close>, a parameter of the
  operations that use it; it acts on the same outside world as the remote services.

  An external command that asks questions on its standard output is run by
  \<open>exec_Interactive\<close>: its second argument is what the caller does with each chunk of output,
  namely the text it writes to the standard input, if any.

  \<open>mountinfo_GetMounts\<close> is \<^verbatim>\<open>GetMounts\<close> of the third-party package
  \<^verbatim>\<open>github.com/moby/sys/mountinfo\<close>; the documented behaviour of its filter is \<open>filter_mounts\<close>.
\<close>

record mount_info =
  Mountpoint :: string
  FSType :: string

text \<open>
  A connection to the connector's socket, from the side that dials it: the successive outcomes of
  reading a JSON document from it (\<open>NoMore\<close> when the decoder finds the end of the stream, an error
  of the connection or a closing bracket), and the outcome of the \<open>k\<close>-th write.  A list of reads
  that ends without \<open>NoMore\<close> is a peer that has not said anything more yet.
\<close>

datatype conn_read = NoMore | Item "json result"

record session =
  incoming :: "conn_read list"
  write_error :: "nat \<Rightarrow> gerror option"

datatype stat_result = StatDir | StatOther | StatNotExist | StatError gerror

record 'w host =
  os_MkdirTemp :: "string \<Rightarrow> string \<Rightarrow> 'w \<Rightarrow> string result \<times> 'w"
  os_Remove :: "string \<Rightarrow> 'w \<Rightarrow> unit result \<times> 'w"
  os_RemoveAll :: "string \<Rightarrow> 'w \<Rightarrow> unit result \<times> 'w"
  os_MkdirAll :: "string \<Rightarrow> nat \<Rightarrow> 'w \<Rightarrow> unit result \<times> 'w"
  os_ReadDir :: "string \<Rightarrow> 'w \<Rightarrow> string list result"
  os_Lstat :: "string \<Rightarrow> 'w \<Rightarrow> stat_result"
  os_Stat :: "string \<Rightarrow> 'w \<Rightarrow> stat_result"
  os_Pipe :: "'w \<Rightarrow> unit result \<times> 'w"
  exec_LookPath :: "string \<Rightarrow> 'w \<Rightarrow> unit result"
  exec_Output :: "exec_cmd \<Rightarrow> 'w \<Rightarrow> string result \<times> 'w"
  exec_Interactive :: "exec_cmd \<Rightarrow> (string \<Rightarrow> string option result) \<Rightarrow> 'w \<Rightarrow> unit result \<times> 'w"
  net_Dial :: "string \<Rightarrow> 'w \<Rightarrow> session result \<times> 'w"
  mountinfo_GetMounts :: "(mount_info \<Rightarrow> bool \<times> bool) \<Rightarrow> 'w \<Rightarrow> mount_info list result"

section \<open>Calls as actions\<close>

definition host_call :: "('w \<Rightarrow> 'a result \<times> 'w) \<Rightarrow> ('w, 'a) action" where
  "host_call f s = (case f (remote s) of (r, w) \<Rightarrow> (r, s\<lparr>remote := w\<rparr>))"

definition host_read :: "('w \<Rightarrow> 'a result) \<Rightarrow> ('w, 'a) action" where
  "host_read f s = (f (remote s), s)"

text \<open>\<^verbatim>\<open>defer d()\<close> around \<open>a\<close>: \<open>d\<close> runs whatever the outcome of \<open>a\<close> and its own outcome is dropped.\<close>

definition deferring :: "('w, 'b) action \<Rightarrow> ('w, 'a) action \<Rightarrow> ('w, 'a) action" where
  "deferring d a s = (case a s of (r, s1) \<Rightarrow> (r, snd (d s1)))"

lemma sends_host_call [intro, simp]: "sends P (host_call f)"
  by (auto simp: sends_def host_call_def split: prod.splits)

lemma sends_host_read [intro, simp]: "sends P (host_read f)"
  by (auto simp: sends_def host_read_def)

lemma host_call_sent: "host_call f s = (r, s') \<Longrightarrow> sent s' = sent s"
  by (auto simp: host_call_def split: prod.splits)

lemma sends_deferring:
  assumes "sends P d" "sends P a"
  shows "sends P (deferring d a)"
  unfolding sends_def
proof
  fix s
  obtain r s1 where a: "a s = (r, s1)" by fastforce
  with assms(2) obtain rs where "sent s1 = sent s @ rs" "list_all P rs"
    unfolding sends_def by (metis snd_conv)
  moreover from assms(1) obtain rs' where "sent (snd (d s1)) = sent s1 @ rs'" "list_all P rs'"
    unfolding sends_def by blast
  ultimately show "\<exists>rs. sent (snd (deferring d a s)) = sent s @ rs \<and> list_all P rs"
    using a by (intro exI [of _ "rs @ rs'"]) (simp add: deferring_def)
qed

lemma deferring_Inr: "deferring d a s = (Inr x, s') \<longleftrightarrow> (\<exists>s1. a s = (Inr x, s1) \<and> s' = snd (d s1))"
  by (auto simp: deferring_def split: prod.splits)

section \<open>The mount table\<close>

text \<open>
  The documented filter of \<^verbatim>\<open>GetMounts\<close>: an entry is left out when the filter says skip; when it
  says stop, no later entry is read.
\<close>

fun filter_mounts :: "(mount_info \<Rightarrow> bool \<times> bool) \<Rightarrow> mount_info list \<Rightarrow> mount_info list" where
  "filter_mounts f [] = []"
| "filter_mounts f (m # ms) =
     (case f m of (skip, stop) \<Rightarrow>
        if skip then filter_mounts f ms else if stop then [m] else m # filter_mounts f ms)"

definition mounts_as_documented :: "'w host \<Rightarrow> ('w \<Rightarrow> mount_info list) \<Rightarrow> bool" where
  "mounts_as_documented host table \<longleftrightarrow>
     (\<forall>f w. mountinfo_GetMounts host f w = Inr (filter_mounts f (table w)))"

lemma filter_mounts_no_skip: "(\<And>m. \<not> fst (f m)) \<Longrightarrow> ms \<noteq> [] \<Longrightarrow> filter_mounts f ms \<noteq> []"
  by (cases ms) (auto simp: case_prod_beta)

lemma filter_mounts_Nil: "(\<And>m. m \<in> set ms \<Longrightarrow> fst (f m)) \<Longrightarrow> filter_mounts f ms = []"
  by (induction ms) (auto simp: case_prod_beta)

end
