(* ===== verification/Mount_Local.thy ===== *)
theory Mount_Local
  imports Host_World
begin

text \<open>
  The parts of \<^verbatim>\<open>plugin/utils.go\<close> that work on the plugin's own host: creating the mount path,
  mounting KodoFS with a local process, unmounting and looking at the mount table.
\<close>

section \<open>Directories and commands\<close>

definition plugin_ensureCommandExists :: "'w host \<Rightarrow> string \<Rightarrow> ('w, unit) action" where
  "plugin_ensureCommandExists host name =
     wrap_error (Wrapf ''cannot find command'' [name]) (host_read (exec_LookPath host name))"

definition ensureDirectoryCreated :: "'w host \<Rightarrow> string \<Rightarrow> ('w, unit) action" where
  "ensureDirectoryCreated host path s =
     (case os_Lstat host path (remote s) of
        StatNotExist \<Rightarrow> host_call (os_MkdirAll host path 493) s
      | StatError e \<Rightarrow> fail e s
      | StatOther \<Rightarrow> fail (Errorf ''already exist and it is not directory'' [path]) s
      | StatDir \<Rightarrow> succeed () s)"

section \<open>KodoFS in a local process\<close>

definition masterPrompt :: string where
  "masterPrompt = ''please enter the master address(separate multiple addresses with commas):''"

definition tokenPrompt :: string where
  "tokenPrompt = ''please enter the AccessToken:''"

text \<open>What the mount command is told when it prints a chunk of text; other text is only logged.\<close>

definition answer_prompt :: "url option \<Rightarrow> string \<Rightarrow> string \<Rightarrow> string option result" where
  "answer_prompt mountServerAddress accessToken txt =
     (if Contains txt masterPrompt then
        (case mountServerAddress of
           None \<Rightarrow> Inl (Panic ''nil pointer dereference'')
         | Some u \<Rightarrow> Inr (Some (url_String u @ newline)))
      else if Contains txt tokenPrompt then Inr (Some (accessToken @ newline))
      else Inr None)"

definition mountKodoFSLocally ::
    "'w host \<Rightarrow> (nat \<Rightarrow> nat) \<Rightarrow> string \<Rightarrow> string \<Rightarrow> string \<Rightarrow> url option \<Rightarrow> string \<Rightarrow> string \<Rightarrow> ('w, unit) action" where
  "mountKodoFSLocally host draws volumeId gateway mountPath mountServerAddress accessToken subDir =
     (let cmd = \<lparr>FsVolumeId = volumeId, FsGatewayID = gateway, FsMountPath = mountPath, FsSubDir = subDir,
            FsMayRunOnSystemd = False\<rparr> in
      and_then (wrap_error (Wrapf ''failed to create stdin pipe'' []) (host_call (os_Pipe host))) (\<lambda>_.
      and_then (wrap_error (Wrapf ''failed to create stdout pipe'' []) (host_call (os_Pipe host))) (\<lambda>_.
      and_then (wrap_error (Wrapf ''failed to create stderr pipe'' []) (host_call (os_Pipe host))) (\<lambda>_.
      host_call (exec_Interactive host (KodoFS_ExecCommand draws cmd)
        (answer_prompt mountServerAddress accessToken))))))"

section \<open>Unmounting\<close>

definition umount :: "'w host \<Rightarrow> string \<Rightarrow> ('w, unit) action" where
  "umount host mountPath =
     and_then (host_call (exec_Output host \<lparr>ExecName = ''umount'', ExecArgs = [''-f'', mountPath]\<rparr>))
       (\<lambda>_. succeed ())"

definition FuseTypeKodoFS :: string where "FuseTypeKodoFS = ''fuse.KodoFS''"
definition FuseTypeKodo :: string where "FuseTypeKodo = ''fuse.rclone''"

definition isMounted :: "'w host \<Rightarrow> string \<Rightarrow> string \<Rightarrow> ('w, bool) action" where
  "isMounted host mountPath fstype =
     and_then (wrap_error (Wrapf ''failed to find the mount point'' [])
         (host_read (mountinfo_GetMounts host
           (\<lambda>i. (False, Mountpoint i = mountPath \<and> FSType i = fstype)))))
       (\<lambda>info. succeed (length info > 0))"

definition isKodoFSMounted :: "'w host \<Rightarrow> string \<Rightarrow> ('w, bool) action" where
  "isKodoFSMounted host mountPath = isMounted host mountPath FuseTypeKodoFS"

definition isKodoMounted :: "'w host \<Rightarrow> string \<Rightarrow> ('w, bool) action" where
  "isKodoMounted host mountPath = isMounted host mountPath FuseTypeKodo"

section \<open>Facts\<close>

lemma sends_local [intro, simp]:
  "sends P (umount host path)"
  "sends P (isMounted host path ft)"
  "sends P (mountKodoFSLocally host draws v g m a t d)"
  unfolding umount_def isMounted_def mountKodoFSLocally_def Let_def
  by (intro sends_and_then sends_wrap sends_host_call sends_host_read sends_succeed)+

lemma sends_ensureDirectoryCreated [intro, simp]: "sends P (ensureDirectoryCreated host path)"
  unfolding sends_def
proof
  fix s :: "'a pstate"
  show "\<exists>rs. sent (snd (ensureDirectoryCreated host path s)) = sent s @ rs \<and> list_all P rs"
    by (cases "os_Lstat host path (remote s)")
       (auto simp: ensureDirectoryCreated_def action_defs host_call_def split: prod.split)
qed

lemma isMounted_state: "isMounted host path ft s = (r, s') \<Longrightarrow> s' = s"
  by (auto simp: isMounted_def action_defs host_read_def split: prod.splits sum.splits)

lemma isMounted_counted:
  assumes "mounts_as_documented host table" "table (remote s) \<noteq> []"
  shows "isMounted host mountPath fstype s = (Inr True, s)"
proof -
  let ?f = "\<lambda>i. (False, Mountpoint i = mountPath \<and> FSType i = fstype)"
  have "filter_mounts ?f (table (remote s)) \<noteq> []"
    by (rule filter_mounts_no_skip [OF _ assms(2)]) simp
  with assms(1) show ?thesis
    by (simp add: isMounted_def action_defs host_read_def mounts_as_documented_def)
qed

text \<open>
  As soon as the mount table has any entry, every path is reported as mounted, with either
  file system type: the filter never skips an entry, so the entries before the searched one (or
  all of them, when there is none) are counted too.
\<close>

theorem isMounted_any_mount:
  assumes "mounts_as_documented host table" "table (remote s) \<noteq> []"
  shows "isMounted host mountPath fstype s = (Inr True, s)"
  using assms by (rule isMounted_counted)

text \<open>A host for the examples: its operations succeed and its only mount is the root file system.\<close>

definition rootfs_host :: "'w host" where
  "rootfs_host =
     \<lparr>os_MkdirTemp = \<lambda>_ _ w. (Inr ''/tmp/t'', w), os_Remove = \<lambda>_ w. (Inr (), w),
      os_RemoveAll = \<lambda>_ w. (Inr (), w), os_MkdirAll = \<lambda>_ _ w. (Inr (), w),
      os_ReadDir = \<lambda>_ _. Inr [''a'', ''b''], os_Lstat = \<lambda>_ _. StatNotExist, os_Stat = \<lambda>_ _. StatNotExist,
      os_Pipe = \<lambda>w. (Inr (), w), exec_LookPath = \<lambda>_ _. Inr (), exec_Output = \<lambda>_ w. (Inr [], w),
      exec_Interactive = \<lambda>_ _ w. (Inr (), w),
      net_Dial = \<lambda>_ w. (Inr \<lparr>incoming = [], write_error = \<lambda>_. None\<rparr>, w),
      mountinfo_GetMounts = \<lambda>f _. Inr (filter_mounts f [\<lparr>Mountpoint = ''/'', FSType = ''ext4''\<rparr>])\<rparr>"

lemma rootfs_mounts: "mounts_as_documented rootfs_host (\<lambda>_. [\<lparr>Mountpoint = ''/'', FSType = ''ext4''\<rparr>])"
  by (simp add: mounts_as_documented_def rootfs_host_def)

theorem isMounted_any_mount_witness:
  "isMounted rootfs_host ''/never/mounted'' FuseTypeKodo
     \<lparr>remote = (), cacheMap = Map.empty, clock_reads = 0, sent = []\<rparr> =
   (Inr True, \<lparr>remote = (), cacheMap = Map.empty, clock_reads = 0, sent = []\<rparr>)"
  by (rule isMounted_any_mount [OF rootfs_mounts]) simp

end
