(* ===== verification/Go_Path.thy ===== *)
theory Go_Path
  imports Go_Strings
begin

text \<open>
  What the repository uses of Go's package \<^verbatim>\<open>path/filepath\<close> on Unix: \<^verbatim>\<open>Clean\<close>, \<^verbatim>\<open>Join\<close> and
  \<^verbatim>\<open>Dir\<close>.  \<open>Clean\<close> works on the slash-separated elements with a stack (kept in reverse), as the
  standard library does with its output buffer.
\<close>

fun splitSlash :: "string \<Rightarrow> string list" where
  "splitSlash [] = [[]]"
| "splitSlash (c # s) =
     (if c = CHR ''/'' then [] # splitSlash s
      else (case splitSlash s of e # es \<Rightarrow> (c # e) # es | [] \<Rightarrow> [[c]]))"

fun joinSlash :: "string list \<Rightarrow> string" where
  "joinSlash [] = []"
| "joinSlash [e] = e"
| "joinSlash (e # es) = e @ ''/'' @ joinSlash es"

fun cleanElems :: "bool \<Rightarrow> string list \<Rightarrow> string list \<Rightarrow> string list" where
  "cleanElems rooted stack [] = rev stack"
| "cleanElems rooted stack (e # es) =
     (if e = [] \<or> e = ''.'' then cleanElems rooted stack es
      else if e = ''..'' then
        (case stack of
           t # below \<Rightarrow>
             if t = ''..'' then cleanElems rooted (e # stack) es else cleanElems rooted below es
         | [] \<Rightarrow> if rooted then cleanElems rooted [] es else cleanElems rooted [e] es)
      else cleanElems rooted (e # stack) es)"

definition Clean :: "string \<Rightarrow> string" where
  "Clean path =
     (if path = [] then ''.''
      else let rooted = (hd path = CHR ''/'');
               out = joinSlash (cleanElems rooted [] (splitSlash path))
           in if rooted then CHR ''/'' # out else if out = [] then ''.'' else out)"

definition Join :: "string list \<Rightarrow> string" where
  "Join elems =
     (case dropWhile (\<lambda>e. e = []) elems of [] \<Rightarrow> [] | es \<Rightarrow> Clean (joinSlash es))"

definition Dir :: "string \<Rightarrow> string" where
  "Dir path = Clean (rev (dropWhile (\<lambda>c. c \<noteq> CHR ''/'') (rev path)))"

section \<open>Cleaning\<close>

definition plain_elem :: "string \<Rightarrow> bool" where
  "plain_elem e \<longleftrightarrow> e \<noteq> [] \<and> e \<noteq> ''.'' \<and> e \<noteq> ''..'' \<and> CHR ''/'' \<notin> set e"

lemma splitSlash_nonempty [simp]: "splitSlash s \<noteq> []"
  by (induction s) (auto split: list.splits)

lemma splitSlash_no_slash: "e \<in> set (splitSlash s) \<Longrightarrow> CHR ''/'' \<notin> set e"
proof (induction s arbitrary: e)
  case (Cons c s)
  then show ?case by (auto split: if_splits list.splits)
qed simp

lemma splitSlash_plain: "CHR ''/'' \<notin> set e \<Longrightarrow> splitSlash e = [e]"
  by (induction e) auto

lemma splitSlash_append: "CHR ''/'' \<notin> set e \<Longrightarrow> splitSlash (e @ ''/'' @ s) = e # splitSlash s"
  by (induction e) auto

lemma splitSlash_join:
  "es \<noteq> [] \<Longrightarrow> \<forall>e \<in> set es. CHR ''/'' \<notin> set e \<Longrightarrow> splitSlash (joinSlash es) = es"
proof (induction es rule: joinSlash.induct)
  case (2 e)
  then show ?case by (simp add: splitSlash_plain)
next
  case (3 e e' es)
  then show ?case using splitSlash_append [of e "joinSlash (e' # es)"] by simp
qed simp

lemma cleanElems_plain: "\<forall>e \<in> set es. plain_elem e \<Longrightarrow> cleanElems rooted stack es = rev stack @ es"
  by (induction es arbitrary: stack) (auto simp: plain_elem_def)

text \<open>The elements that survive cleaning of a rooted path are plain: no \<open>..\<close> is left.\<close>

lemma cleanElems_rooted:
  assumes "\<forall>e \<in> set stack. plain_elem e" "\<forall>e \<in> set es. CHR ''/'' \<notin> set e"
  shows "\<forall>e \<in> set (cleanElems True stack es). plain_elem e"
  using assms
proof (induction es arbitrary: stack)
  case (Cons e es)
  consider "e = [] \<or> e = ''.''" | "e = ''..''" | "plain_elem e"
    using Cons.prems(2) by (auto simp: plain_elem_def)
  then show ?case
  proof cases
    case 1
    with Cons.IH [of stack] Cons.prems show ?thesis by simp
  next
    case 2
    show ?thesis
    proof (cases stack)
      case Nil
      with 2 Cons.IH [of "[]"] Cons.prems show ?thesis by simp
    next
      case (Cons t below)
      then have "t \<noteq> ''..''" using Cons.prems(1) by (simp add: plain_elem_def)
      with 2 Cons Cons.IH [of below] Cons.prems show ?thesis by simp
    qed
  next
    case 3
    then have "\<not> (e = [] \<or> e = ''.'')" "e \<noteq> ''..''" by (auto simp: plain_elem_def)
    then have eq: "cleanElems True stack (e # es) = cleanElems True (e # stack) es" by simp
    have "\<forall>x \<in> set (e # stack). plain_elem x" "\<forall>x \<in> set es. CHR ''/'' \<notin> set x"
      using 3 Cons.prems by simp_all
    then show ?thesis unfolding eq by (rule Cons.IH)
  qed
qed simp

end
