(* ===== verification/Plugin_Main.thy ===== *)
theory Plugin_Main
  imports Mount_Local Go_Strconv Go_Path
begin

text \<open>
  Starting the plugin: \<^verbatim>\<open>plugin/main.go\<close>, \<^verbatim>\<open>plugin/driver.go\<close> and the log set-up of
  \<^verbatim>\<open>plugin/utils.go\<close>.  The environment, the flags (which are never nil) and the variables of the
  linker are parameters, as are opening and renaming files, and \<^verbatim>\<open>ParseEndpoint\<close> of the
  third-party package \<^verbatim>\<open>csi-common\<close>; running the gRPC server is not modelled.
\<close>

section \<open>Numbers\<close>

text \<open>\<^verbatim>\<open>strconv.Atoi\<close> at 64 bits.\<close>

definition Atoi :: "string \<Rightarrow> int result" where
  "Atoi s =
     (let neg = (s \<noteq> [] \<and> hd s = CHR ''-'');
          digits = (if s \<noteq> [] \<and> hd s \<in> {CHR ''-'', CHR ''+''} then tl s else s)
      in case ParseUint digits of
           Inl e \<Rightarrow> Inl e
         | Inr u \<Rightarrow>
             if \<not> neg \<and> unat u \<ge> 2 ^ 63 \<or> neg \<and> unat u > 2 ^ 63 then Inl (StdErr ''value out of range'')
             else Inr (if neg then - int (unat u) else int (unat u)))"

section \<open>The drivers\<close>

definition KodoDriverName :: string where "KodoDriverName = ''kodo''"
definition KodoFSDriverName :: string where "KodoFSDriverName = ''kodofs''"
definition TypePluginKodo :: string where "TypePluginKodo = ''kodoplugin.storage.qiniu.com''"
definition TypePluginKodoFS :: string where "TypePluginKodoFS = ''kodofsplugin.storage.qiniu.com''"

datatype access_mode = MULTI_NODE_MULTI_WRITER
datatype capability = CREATE_DELETE_VOLUME | PUBLISH_UNPUBLISH_VOLUME

record driver =
  drvName :: string
  drvVersion :: string
  drvNodeID :: string
  drvEndpoint :: string
  drvAccessModes :: "access_mode list"
  drvCapabilities :: "capability list"

definition newDriver :: "string \<Rightarrow> string \<Rightarrow> string \<Rightarrow> string \<Rightarrow> driver" where
  "newDriver name nodeID endpoint version =
     \<lparr>drvName = name, drvVersion = version, drvNodeID = nodeID, drvEndpoint = endpoint,
      drvAccessModes = [MULTI_NODE_MULTI_WRITER],
      drvCapabilities = [CREATE_DELETE_VOLUME, PUBLISH_UNPUBLISH_VOLUME]\<rparr>"

definition newKodoDriver :: "string \<Rightarrow> string \<Rightarrow> string \<Rightarrow> driver" where
  "newKodoDriver = newDriver TypePluginKodo"

definition newKodoFSDriver :: "string \<Rightarrow> string \<Rightarrow> string \<Rightarrow> driver" where
  "newKodoFSDriver = newDriver TypePluginKodoFS"

section \<open>The process\<close>

text \<open>
  Opening a log file gives its size, \<open>None\<close> when \<^verbatim>\<open>Stat\<close> fails on it; \<open>ppTimeStamp\<close> is the time of the
  rotation as it is formatted into the name.
\<close>

record 'w plugin_process =
  ppHost :: "'w host"
  ppOpenFile :: "string \<Rightarrow> 'w \<Rightarrow> int option result \<times> 'w"
  ppRename :: "string \<Rightarrow> string \<Rightarrow> 'w \<Rightarrow> unit result \<times> 'w"
  ppTimeStamp :: string
  ppGetenv :: "string \<Rightarrow> string"
  ppParseEndpoint :: "string \<Rightarrow> (string \<times> string) result"
  ppVersion :: string

definition KubeletRootDir :: "(string \<Rightarrow> string) \<Rightarrow> string" where
  "KubeletRootDir getenv =
     (let rootDir = getenv ''KUBELET_ROOT_DIR'' in if rootDir \<noteq> [] then rootDir else ''/var/lib/kubelet'')"

definition LOG_DIR_PATH :: string where
  "LOG_DIR_PATH = ''/var/log/qiniu/storage/csi-plugin/''"

datatype log_output = LogStdout | LogFile string | LogBoth string

definition log_type :: "(string \<Rightarrow> string) \<Rightarrow> string" where
  "log_type getenv =
     (let t = ToLower (getenv ''LOG_TYPE'') in if t \<noteq> ''stdout'' \<and> t \<noteq> ''host'' then ''both'' else t)"

definition log_file :: "string \<Rightarrow> string \<Rightarrow> string" where
  "log_file driverName timeStr = Join [LOG_DIR_PATH, driverName @ ''plugin'' @ timeStr @ ''.log'']"

definition too_large :: "int option \<Rightarrow> bool" where
  "too_large bytes = (case bytes of None \<Rightarrow> False | Some n \<Rightarrow> n > 2 * 1024 * 1024)"

definition setLogAttribute :: "'w plugin_process \<Rightarrow> string \<Rightarrow> ('w, log_output) action" where
  "setLogAttribute pp driverName s =
     (let t = log_type (ppGetenv pp); file = log_file driverName [];
          output = (if t = ''both'' then LogBoth file else LogFile file) in
      if t = ''stdout'' then (Inr LogStdout, s)
      else
        (let s1 = snd (host_call (os_MkdirAll (ppHost pp) LOG_DIR_PATH 493) s) in
         case host_call (ppOpenFile pp file) s1 of
           (Inl e, s2) \<Rightarrow> (Inl e, s2)
         | (Inr bytes, s2) \<Rightarrow>
             if too_large bytes then
               (let s3 = snd (host_call (ppRename pp file (log_file driverName (ppTimeStamp pp))) s2) in
                case host_call (ppOpenFile pp file) s3 of
                  (Inl e, s4) \<Rightarrow> (Inl e, s4)
                | (Inr _, s4) \<Rightarrow> (Inr output, s4))
             else (Inr output, s2)))"

definition prepare_endpoint :: "'w plugin_process \<Rightarrow> string \<Rightarrow> ('w, unit) action" where
  "prepare_endpoint pp endpoint =
     and_then (lift_result (ppParseEndpoint pp endpoint)) (\<lambda>(proto, addr).
       if proto = ''unix'' then ensureDirectoryCreated (ppHost pp) (Dir addr) else succeed ())"

definition service_port :: "(string \<Rightarrow> string) \<Rightarrow> int \<Rightarrow> int" where
  "service_port getenv healthPort =
     (case Atoi (getenv ''SERVICE_PORT'') of
        Inl e \<Rightarrow> healthPort
      | Inr n \<Rightarrow> if n = 0 then healthPort else n)"

text \<open>The exit code, or the driver that runs, the log output and the port of the health check.\<close>

datatype plugin_outcome = PluginExit nat | PluginRuns driver log_output int

definition plugin_main ::
    "'w plugin_process \<Rightarrow> string \<Rightarrow> string \<Rightarrow> string \<Rightarrow> int \<Rightarrow> 'w pstate \<Rightarrow> plugin_outcome \<times> 'w pstate" where
  "plugin_main pp driverName nodeID endpoint healthPort s =
     (if driverName \<notin> {KodoDriverName, KodoFSDriverName} then (PluginExit 1, s)
      else case and_then (setLogAttribute pp driverName) (\<lambda>output.
             and_then (plugin_ensureCommandExists (ppHost pp) ''umount'') (\<lambda>_.
             and_then (prepare_endpoint pp endpoint) (\<lambda>_. succeed output))) s of
        (Inl e, s1) \<Rightarrow> (PluginExit 1, s1)
      | (Inr output, s1) \<Rightarrow>
          (PluginRuns
             (if driverName = KodoDriverName then newKodoDriver nodeID endpoint (ppVersion pp)
              else newKodoFSDriver nodeID endpoint (ppVersion pp))
             output (service_port (ppGetenv pp) healthPort), s1))"

text \<open>The methods of both controller servers that are not implemented.\<close>

definition ControllerExpandVolume :: "('w, unit) action" where
  "ControllerExpandVolume = fail (Errorf ''Unimplemented'' [])"

definition ControllerGetVolume :: "('w, unit) action" where
  "ControllerGetVolume = fail (Errorf ''Unimplemented'' [])"

section \<open>Facts\<close>

lemma Atoi_decimal:
  assumes "n < 2 ^ 63"
  shows "Atoi (decimal n) = Inr (int n)" "Atoi (CHR ''-'' # decimal n) = Inr (- int n)"
proof -
  have n: "n \<le> maxUint64" using assms by (simp add: maxUint64_def)
  then have p: "ParseUint (decimal n) = Inr (word_of_nat n)"
    using ParseUint_decimal [of n] by simp
  have "hd (decimal n) \<noteq> CHR ''-''" "hd (decimal n) \<noteq> CHR ''+''"
    using decimal_hd_last(1) [of n] by (auto simp: isDigit_def)
  moreover have "unat (word_of_nat n :: 64 word) = n" using assms by (simp add: unat_of_nat)
  ultimately show "Atoi (decimal n) = Inr (int n)" "Atoi (CHR ''-'' # decimal n) = Inr (- int n)"
    using assms p by (simp_all add: Atoi_def)
qed

lemma service_port_nonzero: "healthPort \<noteq> 0 \<Longrightarrow> service_port getenv healthPort \<noteq> 0"
  by (simp add: service_port_def split: sum.split)

lemma setLogAttribute_output:
  "setLogAttribute pp d s = (Inr output, s') \<Longrightarrow>
     output =
       (if ToLower (ppGetenv pp ''LOG_TYPE'') = ''stdout'' then LogStdout
        else if ToLower (ppGetenv pp ''LOG_TYPE'') = ''host'' then LogFile (log_file d [])
        else LogBoth (log_file d []))"
  by (auto simp: setLogAttribute_def log_type_def Let_def split: if_splits prod.splits sum.splits)

text \<open>
  C36: the plugin runs only under one of its two names, as the driver of that name for the given
  node and endpoint, after \<^verbatim>\<open>umount\<close> was found and the endpoint was understood, whose directory, for
  a Unix socket, is there or was created.  \<^verbatim>\<open>LOG_TYPE\<close>, in whatever case, decides the log output:
  standard output for \<^verbatim>\<open>stdout\<close>, the log file of the driver for \<^verbatim>\<open>host\<close>, and both for anything else;
  a valid, non-zero \<^verbatim>\<open>SERVICE_PORT\<close> overrides the port of the health check.
\<close>

theorem plugin_main_runs:
  assumes "plugin_main pp driverName nodeID endpoint healthPort s = (PluginRuns d output port, s')"
  shows "((driverName = ''kodo'' \<and> drvName d = TypePluginKodo) \<or> (driverName = ''kodofs'' \<and> drvName d = TypePluginKodoFS)) \<and>
    drvNodeID d = nodeID \<and> drvEndpoint d = endpoint \<and>
    (\<exists>s1. exec_LookPath (ppHost pp) ''umount'' (remote s1) = Inr () \<and>
      (\<exists>proto addr. ppParseEndpoint pp endpoint = Inr (proto, addr) \<and>
        (proto = ''unix'' \<longrightarrow> ensureDirectoryCreated (ppHost pp) (Dir addr) s1 = (Inr (), s')))) \<and>
    output =
      (if ToLower (ppGetenv pp ''LOG_TYPE'') = ''stdout'' then LogStdout
       else if ToLower (ppGetenv pp ''LOG_TYPE'') = ''host'' then LogFile (log_file driverName [])
       else LogBoth (log_file driverName [])) \<and>
    port = (case Atoi (ppGetenv pp ''SERVICE_PORT'') of Inr n \<Rightarrow> if n = 0 then healthPort else n | Inl _ \<Rightarrow> healthPort)"
proof -
  from assms have names: "driverName \<in> {KodoDriverName, KodoFSDriverName}"
    by (auto simp: plugin_main_def split: if_splits)
  with assms obtain s1 where log: "setLogAttribute pp driverName s = (Inr output, s1)"
    and find: "plugin_ensureCommandExists (ppHost pp) ''umount'' s1 = (Inr (), s1)"
    and ep: "prepare_endpoint pp endpoint s1 = (Inr (), s')"
    and d: "d = (if driverName = KodoDriverName then newKodoDriver nodeID endpoint (ppVersion pp)
              else newKodoFSDriver nodeID endpoint (ppVersion pp))"
    and port: "port = service_port (ppGetenv pp) healthPort"
    by (auto simp: plugin_main_def and_then_Inr succeed_def plugin_ensureCommandExists_def wrap_error_Inr host_read_def
        split: prod.splits sum.splits)
  from find have "exec_LookPath (ppHost pp) ''umount'' (remote s1) = Inr ()"
    by (simp add: plugin_ensureCommandExists_def wrap_error_Inr host_read_def)
  moreover from ep have "\<exists>proto addr. ppParseEndpoint pp endpoint = Inr (proto, addr) \<and>
        (proto = ''unix'' \<longrightarrow> ensureDirectoryCreated (ppHost pp) (Dir addr) s1 = (Inr (), s'))"
    by (auto simp: prepare_endpoint_def and_then_Inr lift_result_def split: if_splits)
  moreover have "port = (case Atoi (ppGetenv pp ''SERVICE_PORT'') of Inr n \<Rightarrow> if n = 0 then healthPort else n | Inl _ \<Rightarrow> healthPort)"
    unfolding port service_port_def by (simp split: sum.split)
  ultimately show ?thesis
    using names d setLogAttribute_output [OF log]
    by (auto simp: newKodoDriver_def newKodoFSDriver_def newDriver_def KodoDriverName_def KodoFSDriverName_def)
qed

definition demo_plugin :: "unit plugin_process" where
  "demo_plugin =
     \<lparr>ppHost = rootfs_host, ppOpenFile = \<lambda>_ w. (Inr (Some 3000000), w), ppRename = \<lambda>_ _ w. (Inr (), w),
      ppTimeStamp = ''-2024'', ppGetenv = \<lambda>k. if k = ''SERVICE_PORT'' then ''8080'' else [],
      ppParseEndpoint = \<lambda>_. Inr (''unix'', ''/run/csi.sock''), ppVersion = ''v1''\<rparr>"

definition demo_plugin_state :: "unit pstate" where
  "demo_plugin_state = \<lparr>remote = (), cacheMap = Map.empty, clock_reads = 0, sent = []\<rparr>"

lemma demo_plugin_runs:
  "\<exists>d output port s'. plugin_main demo_plugin ''kodo'' ''n1'' ''e'' 11260 demo_plugin_state = (PluginRuns d output port, s')"
  by (simp add: plugin_main_def demo_plugin_def demo_plugin_state_def KodoDriverName_def setLogAttribute_def
      log_type_def too_large_def host_call_def rootfs_host_def and_then_def plugin_ensureCommandExists_def
      wrap_error_def host_read_def prepare_endpoint_def lift_result_def ensureDirectoryCreated_def succeed_def Let_def)

theorem plugin_main_runs_witness:
  "\<exists>d output port s'. plugin_main demo_plugin ''kodo'' ''n1'' ''e'' 11260 demo_plugin_state = (PluginRuns d output port, s') \<and>
     drvName d = TypePluginKodo \<and> output = LogBoth (log_file ''kodo'' []) \<and> port = 8080"
proof -
  obtain d out port s' where run:
    "plugin_main demo_plugin ''kodo'' ''n1'' ''e'' 11260 demo_plugin_state = (PluginRuns d out port, s')"
    using demo_plugin_runs by blast
  have "decimal 8080 = ''8080''" by (simp add: decimal.simps digitChar_def char_of_def bit_0)
  with Atoi_decimal(1) [of 8080] have "Atoi ''8080'' = Inr 8080" by simp
  with plugin_main_runs [OF run] have "drvName d = TypePluginKodo" "out = LogBoth (log_file ''kodo'' [])" "port = 8080"
    by (simp_all add: demo_plugin_def)
  with run show ?thesis by blast
qed

end
