(* ===== verification/Kodo_Create_Facts.thy ===== *)
theory Kodo_Create_Facts
  imports Kodo_Volume_Context
begin

text \<open>
  Properties of the Kodo controller's \<^verbatim>\<open>CreateVolume\<close>: idempotence, what a failed call leaves
  behind, which requests it sends and with whose credentials, and what its volumes mean to the
  parser used by the other calls.
\<close>

section \<open>The volumes map\<close>

lemma CreateVolume_new:
  assumes "vols (ReqName req) = None"
  shows "CreateVolume env bd pd req (vols, s) =
    (case make_volume env bd pd req s of
       (Inl e, s') \<Rightarrow> (Inl e, vols, s')
     | (Inr v, s') \<Rightarrow> (Inr v, vols(ReqName req \<mapsto> v), s'))"
  using assms by (simp add: CreateVolume_def)

lemma CreateVolume_known:
  "vols (ReqName req) = Some v \<Longrightarrow> CreateVolume env bd pd req (vols, s) = (Inr v, vols, s)"
  by (simp add: CreateVolume_def)

text \<open>
  C3: a repeated CreateVolume answers with the volume of the first call whatever its other
  arguments, random draws and the state of the services are then, and changes nothing; a failed
  call leaves the map of volumes as it was.
\<close>

theorem CreateVolume_idempotent:
  assumes "CreateVolume env bd pd req (vols, s) = (r, vols', s')"
  shows "case r of
      Inl e \<Rightarrow> vols' = vols
    | Inr v \<Rightarrow> vols' = vols(ReqName req \<mapsto> v) \<and>
        (ReqName req' = ReqName req \<longrightarrow>
           CreateVolume env' bd' pd' req' (vols', s'') = (Inr v, vols', s''))"
proof (cases "vols (ReqName req)")
  case None
  show ?thesis
  proof (cases r)
    case (Inl e)
    with assms None show ?thesis by (auto simp: CreateVolume_new split: prod.splits sum.splits)
  next
    case (Inr v)
    with assms None have "vols' = vols(ReqName req \<mapsto> v)"
      by (auto simp: CreateVolume_new split: prod.splits sum.splits)
    with Inr show ?thesis by (simp add: CreateVolume_known)
  qed
next
  case (Some v)
  with assms have "r = Inr v" "vols' = vols" by (auto simp: CreateVolume_def)
  with Some show ?thesis by (auto simp: CreateVolume_known)
qed

theorem CreateVolume_idempotent_witness:
  "fst (CreateVolume script_env (\<lambda>n. n) (\<lambda>n. n) (demo_request\<lparr>Parameters := []\<rparr>)
      (fst (snd demo_run), script_state [])) = fst demo_run"
proof (cases "fst demo_run")
  case (Inl e)
  with demo_run_ok show ?thesis by simp
next
  case (Inr v)
  with CreateVolume_idempotent [OF demo_run_eq, of "demo_request\<lparr>Parameters := []\<rparr>" script_env
      "\<lambda>n. n" "\<lambda>n. n" "script_state []"]
  show ?thesis by (auto simp: demo_request_def)
qed

section \<open>The requests\<close>

definition make_bucket_request :: "KodoClient \<Rightarrow> string \<Rightarrow> http_request \<Rightarrow> bool" where
  "make_bucket_request c bname r \<longleftrightarrow>
     by_client c r \<and> Method r = ''POST'' \<and>
     (\<exists>reg. RequestUrl r = url_String (kcUcUrl c) @ ''/mkbucketv3/'' @ bname @ ''/region/'' @ reg @
        ''/private/true/nodomain/true'')"

definition provision_request :: "KodoClient \<Rightarrow> string \<Rightarrow> http_request \<Rightarrow> bool" where
  "provision_request c bname r \<longleftrightarrow> lookup_or_iam c r \<or> make_bucket_request c bname r"

lemma provision_lookup: "lookup_by c r \<Longrightarrow> provision_request c bname r"
  by (simp add: provision_request_def lookup_or_iam_def)

lemma provision_iam: "lookup_or_iam c r \<Longrightarrow> provision_request c bname r"
  by (simp add: provision_request_def)

lemma CreateBucket_sends: "sends (make_bucket_request c bname) (CreateBucket env c bname reg)"
  unfolding CreateBucket_def by (rule sends_kodo_send) (auto simp: make_bucket_request_def)

lemma ensure_bucket_sends:
  assumes "sf_sequential env"
  shows "sends (provision_request c bname) (ensure_bucket env c bname p)"
proof -
  have find: "sends (provision_request c bname) (FindBucketByName env c bname uc)" for uc
    by (rule sends_mono [OF FindBucketByName_sends [OF assms] provision_lookup])
  have mk: "sends (provision_request c bname) (CreateBucket env c bname reg)" for reg
    by (rule sends_mono [OF CreateBucket_sends]) (simp add: provision_request_def)
  show ?thesis
    unfolding ensure_bucket_def
    by (intro sends_and_then sends_wrap find)
       (auto split: option.split intro!: sends_and_then sends_wrap find mk)
qed

lemma volume_s3Endpoint_sends:
  assumes "sf_sequential env"
  shows "sends (provision_request c bname) (volume_s3Endpoint env c reg)"
  unfolding volume_s3Endpoint_def
  by (intro sends_and_then sends_wrap sends_mono [OF GetS3Endpoint_sends [OF assms] provision_lookup])
     (auto split: option.split)

lemma volume_s3Region_sends:
  assumes "sf_sequential env"
  shows "sends (provision_request c bname) (volume_s3Region env c reg)"
  unfolding volume_s3Region_def
  by (intro sends_and_then sends_wrap
      sends_mono [OF FromKodoRegionIDToS3RegionID_sends [OF assms] provision_lookup])
     (auto split: option.split)

lemma grant_bucket_sends:
  assumes "sf_sequential env"
  shows "sends (provision_request c bname) (grant_bucket env c user pw b)"
  unfolding grant_bucket_def Let_def
  by (intro sends_and_then sends_wrap sends_succeed
      sends_mono [OF CreateIAMUser_sends [OF assms] provision_iam]
      sends_mono [OF GetIAMUserKeyPair_sends [OF assms] provision_iam]
      sends_mono [OF CreateIAMPolicy_sends [OF assms] provision_iam]
      sends_mono [OF GrantIAMPolicyToUser_sends [OF assms] provision_iam])

text \<open>The client CreateVolume works with, and the name of its bucket.\<close>

definition create_client :: "'w env \<Rightarrow> scp \<Rightarrow> url \<Rightarrow> KodoClient" where
  "create_client env p u = NewKodoClient (accessKey p) (secretKey p) u (VERSION env) (COMMITID env)"

definition create_bucketName :: "(nat \<Rightarrow> nat) \<Rightarrow> create_request \<Rightarrow> string" where
  "create_bucketName bd req = ReqName req @ ''-'' @ randomBucketName bd 16"

lemma make_volume_parsed:
  assumes "parseKodoStorageClassParameter ''CreateVolume'' (Parameters req) (Secrets req) = Inr p0"
    and "ucEndpoint p0 = Some u"
  shows "make_volume env bd pd req =
    and_then (ensure_bucket env (create_client env p0 u) (create_bucketName bd req) p0) (\<lambda>(bucket, p).
     and_then (volume_s3Endpoint env (create_client env p0 u) (region p)) (\<lambda>ep.
     and_then (volume_s3Region env (create_client env p0 u) (region p)) (\<lambda>rid.
     and_then (grant_bucket env (create_client env p0 u) (ReqName req) (randomPassword pd 128)
         (Bucket_Name bucket)) (\<lambda>(ak, sk).
     succeed \<lparr>CapacityBytes = RequiredBytes req, VolumeID = ReqName req,
       VolumeContext = context_of (kodo_context (p\<lparr>accessKey := ak, secretKey := sk\<rparr>) bucket ep rid
         (accessKey p0) (secretKey p0))\<rparr>))))"
  using assms
  by (simp add: make_volume_def pv_client_def create_client_def create_bucketName_def and_then_def
      [of "lift_result x" for x] lift_result_def fun_eq_iff)

text \<open>
  C20: every request of CreateVolume carries the credentials of the storage class and the user
  agent of the driver, and is a lookup, an IAM request, or the creation of the bucket named
  after the volume with its random ending; no other bucket is created and none is deleted.
\<close>

theorem CreateVolume_requests:
  assumes "sf_sequential env"
    and "parseKodoStorageClassParameter ''CreateVolume'' (Parameters req) (Secrets req) = Inr p0"
    and "ucEndpoint p0 = Some u"
    and "CreateVolume env bd pd req (vols, s) = (r, vols', s')"
  shows "\<exists>rs. sent s' = sent s @ rs \<and>
    list_all (provision_request (create_client env p0 u) (create_bucketName bd req)) rs"
proof -
  let ?c = "create_client env p0 u"
  have "sends (provision_request ?c (create_bucketName bd req)) (make_volume env bd pd req)"
    unfolding make_volume_parsed [OF assms(2,3)]
    by (intro sends_and_then ensure_bucket_sends volume_s3Endpoint_sends volume_s3Region_sends
        grant_bucket_sends sends_succeed assms(1) | clarsimp simp: split_beta)+
  then obtain rs where "sent (snd (make_volume env bd pd req s)) = sent s @ rs"
      "list_all (provision_request ?c (create_bucketName bd req)) rs"
    unfolding sends_def by blast
  with assms(4) show ?thesis
    by (auto simp: CreateVolume_def split: option.splits prod.splits sum.splits)
qed

definition demo_parsed :: scp where
  "demo_parsed = the (ok_value (parseKodoStorageClassParameter ''CreateVolume'' demo_parameters []))"

lemma demo_parsed_facts:
  "parseKodoStorageClassParameter ''CreateVolume'' demo_parameters [] = Inr demo_parsed"
  "ucEndpoint demo_parsed = Some (endpoint_url ''http'' ''uc.example.com'' [])"
  by code_simp+

theorem CreateVolume_requests_witness:
  "list_all (provision_request (create_client script_env demo_parsed
      (endpoint_url ''http'' ''uc.example.com'' [])) ''pv-aaaaaaaaaaaaaaaa'') (sent (snd (snd demo_run)))"
proof -
  have "create_bucketName (\<lambda>_. 0) demo_request = ''pv-aaaaaaaaaaaaaaaa''" by code_simp
  with CreateVolume_requests [OF script_env_sequential _ demo_parsed_facts(2) demo_run_eq]
    demo_parsed_facts(1)
  show ?thesis by (auto simp: demo_request_def script_state_def)
qed

section \<open>What the volume means later\<close>

lemma find_bucket_name: "find_bucket n bs = Inr (Some b) \<Longrightarrow> Bucket_Name b = n"
  by (induction n bs rule: find_bucket.induct) (auto split: if_splits)

lemma FindBucketByName_name:
  "FindBucketByName env c n False s = (Inr (Some b), s') \<Longrightarrow> Bucket_Name b = n"
  by (auto simp: FindBucketByName_def findBucketByName_def and_then_Inr lift_result_def
      dest: find_bucket_name)

lemma ensure_bucket_result:
  assumes "ensure_bucket env c n p s = (Inr (b, q), s')"
  shows "Bucket_Name b = n \<and> (q = p \<or> q = p\<lparr>region := Bucket_Region b\<rparr>)"
  using assms
  by (auto simp: ensure_bucket_def and_then_Inr wrap_error_Inr succeed_def fail_def
      split: option.splits dest: FindBucketByName_name)

lemma make_volume_result:
  assumes "make_volume env bd pd req s = (Inr v, s')"
  shows "\<exists>p0 q b ep rid ak sk.
    parseKodoStorageClassParameter ''CreateVolume'' (Parameters req) (Secrets req) = Inr p0 \<and>
    Bucket_Name b = create_bucketName bd req \<and>
    (q = p0 \<or> q = p0\<lparr>region := Bucket_Region b\<rparr>) \<and>
    v = \<lparr>CapacityBytes = RequiredBytes req, VolumeID = ReqName req,
      VolumeContext = context_of (kodo_context (q\<lparr>accessKey := ak, secretKey := sk\<rparr>) b ep rid
        (accessKey p0) (secretKey p0))\<rparr>"
proof -
  from assms obtain p0 c bq s1 where p0:
    "parseKodoStorageClassParameter ''CreateVolume'' (Parameters req) (Secrets req) = Inr p0"
    and bq: "ensure_bucket env c (create_bucketName bd req) p0 s = (Inr bq, s1)"
    and rest: "\<exists>ep rid ak sk. v = \<lparr>CapacityBytes = RequiredBytes req, VolumeID = ReqName req,
        VolumeContext = context_of (kodo_context ((snd bq)\<lparr>accessKey := ak, secretKey := sk\<rparr>)
          (fst bq) ep rid (accessKey p0) (secretKey p0))\<rparr>"
    unfolding make_volume_def create_bucketName_def
    by (fastforce simp: and_then_Inr lift_result_def succeed_def)
  from ensure_bucket_result [of env c "create_bucketName bd req" p0 s "fst bq" "snd bq" s1] bq p0 rest
  show ?thesis by (metis prod.collapse)
qed

text \<open>
  The IAM user of a volume: made with a password, asked for its key pair, and granted a policy
  for the bucket, one call after the other.
\<close>

definition iam_user_granted ::
    "'w env \<Rightarrow> KodoClient \<Rightarrow> string \<Rightarrow> string \<Rightarrow> string \<Rightarrow> 'w pstate \<Rightarrow> string \<times> string \<Rightarrow> 'w pstate \<Rightarrow> bool" where
  "iam_user_granted env c user pw bname s keys s' \<longleftrightarrow>
     (\<exists>s1 s2 s3. CreateIAMUser env c user pw s = (Inr (), s1) \<and> GetIAMUserKeyPair env c user s1 = (Inr keys, s2) \<and>
        CreateIAMPolicy env c (normalizePolicyName user) bname s2 = (Inr (), s3) \<and>
        GrantIAMPolicyToUser env c user [normalizePolicyName user] s3 = (Inr (), s'))"

lemma grant_bucket_Inr:
  "grant_bucket env c user pw bname s = (Inr keys, s') \<longleftrightarrow> iam_user_granted env c user pw bname s keys s'"
  unfolding grant_bucket_def iam_user_granted_def Let_def
  by (cases keys) (auto simp: and_then_Inr wrap_error_Inr succeed_def)

lemma make_volume_run:
  assumes "make_volume env bd pd req s = (Inr v, s')"
  obtains p0 u q b ep rid ak sk s1 s2 s3 where
    "parseKodoStorageClassParameter ''CreateVolume'' (Parameters req) (Secrets req) = Inr p0"
    "ucEndpoint p0 = Some u"
    "ensure_bucket env (create_client env p0 u) (create_bucketName bd req) p0 s = (Inr (b, q), s1)"
    "volume_s3Endpoint env (create_client env p0 u) (region q) s1 = (Inr ep, s2)"
    "volume_s3Region env (create_client env p0 u) (region q) s2 = (Inr rid, s3)"
    "iam_user_granted env (create_client env p0 u) (ReqName req) (randomPassword pd 128) (Bucket_Name b) s3 (ak, sk) s'"
    "v = \<lparr>CapacityBytes = RequiredBytes req, VolumeID = ReqName req,
       VolumeContext = context_of (kodo_context (q\<lparr>accessKey := ak, secretKey := sk\<rparr>) b ep rid
         (accessKey p0) (secretKey p0))\<rparr>"
proof -
  from assms obtain p0 u where p: "parseKodoStorageClassParameter ''CreateVolume'' (Parameters req) (Secrets req) = Inr p0"
    "ucEndpoint p0 = Some u"
    by (auto simp: make_volume_def and_then_Inr lift_result_def pv_client_def split: option.splits)
  from assms [unfolded make_volume_parsed [OF p]] p that show thesis
    by (auto simp: and_then_Inr grant_bucket_Inr succeed_def)
qed

text \<open>
  C19: a volume that CreateVolume makes is the result of this run: the bucket named after the
  volume found or made, the S3 endpoint and region asked for, an IAM user created, its key pair
  fetched and its policy granted, each from the state the one before left.  Its context holds the
  parameters of the storage class with that key pair in place of the original one, the original
  one, the bucket, the endpoint and the region; when these are storable, every later call reads
  them back from it, whatever the secrets and the orders, without any request.
\<close>

theorem CreateVolume_context:
  assumes "CreateVolume env bd pd req (vols, s) = (Inr v, vols', s')" "vols (ReqName req) = None"
  shows "\<exists>p0 u p1 b ep rid ak sk s1 s2 s3. let c = create_client env p0 u; q = p1\<lparr>accessKey := ak, secretKey := sk\<rparr> in
    parseKodoStorageClassParameter ''CreateVolume'' (Parameters req) (Secrets req) = Inr p0 \<and> ucEndpoint p0 = Some u
    \<and> ensure_bucket env c (create_bucketName bd req) p0 s = (Inr (b, p1), s1)
    \<and> volume_s3Endpoint env c (region p1) s1 = (Inr ep, s2) \<and> volume_s3Region env c (region p1) s2 = (Inr rid, s3)
    \<and> iam_user_granted env c (ReqName req) (randomPassword pd 128) (Bucket_Name b) s3 (ak, sk) s'
    \<and> Bucket_Name b = create_bucketName bd req \<and> (p1 = p0 \<or> p1 = p0\<lparr>region := Bucket_Region b\<rparr>)
    \<and> v = \<lparr>CapacityBytes = RequiredBytes req, VolumeID = ReqName req,
        VolumeContext = context_of (kodo_context q b ep rid (accessKey p0) (secretKey p0))\<rparr>
    \<and> (\<forall>secrets ctx1 ctx2 env2 fn t.
         storable secrets q b ep rid (accessKey p0) (secretKey p0)
         \<and> same_gomap (VolumeContext v) ctx1 \<and> same_gomap (VolumeContext v) ctx2 \<longrightarrow>
         parseKodoPvParameter (env2 :: 'w env) fn ctx1 ctx2 secrets t =
           (Inr (read_back q b ep rid (accessKey p0) (secretKey p0)), t))"
proof -
  from assms have "make_volume env bd pd req s = (Inr v, s')"
    by (auto simp: CreateVolume_new split: prod.splits sum.splits)
  then obtain p0 u p1 b ep rid ak sk s1 s2 s3 where
    run: "parseKodoStorageClassParameter ''CreateVolume'' (Parameters req) (Secrets req) = Inr p0"
    "ucEndpoint p0 = Some u"
    "ensure_bucket env (create_client env p0 u) (create_bucketName bd req) p0 s = (Inr (b, p1), s1)"
    "volume_s3Endpoint env (create_client env p0 u) (region p1) s1 = (Inr ep, s2)"
    "volume_s3Region env (create_client env p0 u) (region p1) s2 = (Inr rid, s3)"
    "iam_user_granted env (create_client env p0 u) (ReqName req) (randomPassword pd 128) (Bucket_Name b) s3 (ak, sk) s'"
    and v: "v = \<lparr>CapacityBytes = RequiredBytes req, VolumeID = ReqName req,
       VolumeContext = context_of (kodo_context (p1\<lparr>accessKey := ak, secretKey := sk\<rparr>) b ep rid
         (accessKey p0) (secretKey p0))\<rparr>"
    by (rule make_volume_run)
  have bucket: "Bucket_Name b = create_bucketName bd req" "p1 = p0 \<or> p1 = p0\<lparr>region := Bucket_Region b\<rparr>"
    using ensure_bucket_result [OF run(3)] by auto
  have again: "\<forall>secrets ctx1 ctx2 env2 fn t.
      storable secrets (p1\<lparr>accessKey := ak, secretKey := sk\<rparr>) b ep rid (accessKey p0) (secretKey p0)
      \<and> same_gomap (VolumeContext v) ctx1 \<and> same_gomap (VolumeContext v) ctx2 \<longrightarrow>
      parseKodoPvParameter (env2 :: 'w env) fn ctx1 ctx2 secrets t =
        (Inr (read_back (p1\<lparr>accessKey := ak, secretKey := sk\<rparr>) b ep rid (accessKey p0) (secretKey p0)), t)"
    unfolding v by (auto intro: kodo_context_parse_all)
  show ?thesis
    unfolding Let_def
    by (rule exI [of _ p0], rule exI [of _ u], rule exI [of _ p1], rule exI [of _ b], rule exI [of _ ep],
        rule exI [of _ rid], rule exI [of _ ak], rule exI [of _ sk], rule exI [of _ s1], rule exI [of _ s2],
        rule exI [of _ s3], intro conjI run bucket v again)
qed

text \<open>In the example the user has the key pair \<open>uak\<close>, \<open>usk\<close>, and these two stand in the context.\<close>

definition demo_keys :: "(string option \<times> string option) option" where
  "demo_keys = (case fst demo_run of Inl e \<Rightarrow> None
     | Inr v \<Rightarrow> Some (map_of (VolumeContext v) (field_name FIELD_ACCESS_KEY), map_of (VolumeContext v) (field_name FIELD_SECRET_KEY)))"

theorem CreateVolume_context_witness:
  "\<exists>v c b s3. fst demo_run = Inr v \<and> VolumeID v = ''pv'' \<and> CapacityBytes v = 5 \<and>
     map_of (VolumeContext v) (field_name FIELD_ACCESS_KEY) = Some ''uak'' \<and>
     map_of (VolumeContext v) (field_name FIELD_SECRET_KEY) = Some ''usk'' \<and>
     iam_user_granted script_env c ''pv'' (randomPassword (\<lambda>_. 0) 128) b s3 (''uak'', ''usk'') (snd (snd demo_run))"
proof -
  obtain v where v: "fst demo_run = Inr v" using demo_run_ok by (auto simp: is_ok_iff)
  have "demo_keys = Some (Some ''uak'', Some ''usk'')" by code_simp
  then have keys: "map_of (VolumeContext v) (field_name FIELD_ACCESS_KEY) = Some ''uak''"
    "map_of (VolumeContext v) (field_name FIELD_SECRET_KEY) = Some ''usk''"
    by (simp_all add: demo_keys_def v)
  from CreateVolume_context [OF demo_run_eq [unfolded v]] obtain p0 u p1 b ep rid ak sk s3 where
    granted: "iam_user_granted script_env (create_client script_env p0 u) ''pv'' (randomPassword (\<lambda>_. 0) 128)
      (Bucket_Name b) s3 (ak, sk) (snd (snd demo_run))"
    and made: "v = \<lparr>CapacityBytes = 5, VolumeID = ''pv'', VolumeContext = context_of
      (kodo_context (p1\<lparr>accessKey := ak, secretKey := sk\<rparr>) b ep rid (accessKey p0) (secretKey p0))\<rparr>"
    unfolding Let_def demo_request_def by simp (elim exE conjE, rule that)
  have "ak = ''uak'' \<and> sk = ''usk''"
    using keys by (simp add: made context_of_def entries_of_def kodo_context_def)
  with v keys granted made show ?thesis by auto
qed

end
