(* ===== verification/Kodo_Delete_Volume.thy ===== *)
theory Kodo_Delete_Volume
  imports Kodo_Volume_Context Kodo_Clean_Facts
begin

text \<open>
  \<^verbatim>\<open>DeleteVolume\<close> of \<^verbatim>\<open>plugin/kodo_controller_server.go\<close>.  The Kubernetes client is a parameter:
  \<open>getPv\<close> answers for a volume name with the persistent volume or an error.  The two lists of a
  volume's attributes are the same map in the iteration orders of the parser's two loops, and
  \<open>evs\<close> is the schedule of the goroutines that delete the objects; the result is \<open>None\<close> when the
  call has not returned at its end.
\<close>

section \<open>Persistent volumes\<close>

record pv_info =
  VolumeAttributes :: "(gomap \<times> gomap) option"
  ReclaimPolicy :: string

definition PersistentVolumeReclaimDelete :: string where
  "PersistentVolumeReclaimDelete = ''Delete''"

record delete_request =
  DelVolumeId :: string
  DelSecrets :: gomap

section \<open>DeleteVolume\<close>

definition revoke_bucket :: "'w env \<Rightarrow> KodoClient \<Rightarrow> string \<Rightarrow> ('w, unit) action" where
  "revoke_bucket env c userName =
     (let policyName = normalizePolicyName userName in
      and_then (wrap_error (Wrapf ''revoke IAM policy'' [policyName, userName])
          (RevokeIAMPolicyFromUser env c userName [policyName])) (\<lambda>_.
      and_then (wrap_error (Wrapf ''delete IAM policy'' [policyName]) (DeleteIAMPolicy env c policyName)) (\<lambda>_.
      wrap_error (Wrapf ''delete IAM user'' [userName]) (DeleteIAMUser env c userName))))"

definition delete_bucket ::
    "'w env \<Rightarrow> KodoClient \<Rightarrow> string \<Rightarrow> event list \<Rightarrow> 'w pstate \<Rightarrow> (unit result \<times> 'w pstate) option" where
  "delete_bucket env c bname evs s =
     (case CleanObjects env c bname evs s of
        None \<Rightarrow> None
      | Some (Inl e, s1) \<Rightarrow> Some (Inl (rewrap (\<lambda>_. Errorf ''failed to clean all objects'' [bname]) e), s1)
      | Some (Inr u, s1) \<Rightarrow>
          (case DeleteBucket env c bname s1 of
             (Inl e, s2) \<Rightarrow> Some (Inl (rewrap (\<lambda>_. Errorf ''failed to delete bucket'' [bname]) e), s2)
           | (Inr v, s2) \<Rightarrow> Some (Inr (), s2)))"

definition delete_parsed ::
    "'w env \<Rightarrow> event list \<Rightarrow> string \<Rightarrow> string \<Rightarrow> kodoPvParameter \<Rightarrow> 'w pstate \<Rightarrow>
       (unit result \<times> 'w pstate) option" where
  "delete_parsed env evs volumeId policy p s =
     (case pv_client env (originalAccessKey p) (originalSecretKey p) (ucEndpoint (kodoStorageClass p)) of
        Inl e \<Rightarrow> Some (Inl e, s)
      | Inr c \<Rightarrow>
          (case revoke_bucket env c volumeId s of
             (Inl e, s1) \<Rightarrow> Some (Inl e, s1)
           | (Inr u, s1) \<Rightarrow>
               if policy = PersistentVolumeReclaimDelete then delete_bucket env c (bucketName p) evs s1
               else Some (Inr (), s1)))"

definition DeleteVolume ::
    "'w env \<Rightarrow> (string \<Rightarrow> pv_info result) \<Rightarrow> event list \<Rightarrow> delete_request \<Rightarrow> volumes \<times> 'w pstate \<Rightarrow>
       (unit result \<times> volumes \<times> 'w pstate) option" where
  "DeleteVolume env getPv evs req st =
     (case st of (vols, s) \<Rightarrow>
      case getPv (DelVolumeId req) of
        Inl e \<Rightarrow> Some (Inl (Wrapf ''get volume info from Kubernetes'' [DelVolumeId req] e), vols, s)
      | Inr pv \<Rightarrow>
          (case VolumeAttributes pv of
             None \<Rightarrow> Some (Inl (Panic ''nil pointer dereference''), vols, s)
           | Some (ctx1, ctx2) \<Rightarrow>
               (case parseKodoPvParameter env ''DeleteVolume'' ctx1 ctx2 (DelSecrets req) s of
                  (Inl e, s1) \<Rightarrow> Some (Inl e, vols, s1)
                | (Inr p, s1) \<Rightarrow>
                    map_option (\<lambda>(r, s2). (r, vols(DelVolumeId req := None), s2))
                      (delete_parsed env evs (DelVolumeId req) (ReclaimPolicy pv) p s1))))"

section \<open>Requests\<close>

lemma revoke_bucket_sends:
  assumes "sf_sequential env"
  shows "sends (lookup_or_iam c) (revoke_bucket env c u)"
  unfolding revoke_bucket_def Let_def
  by (intro sends_and_then sends_wrap RevokeIAMPolicyFromUser_sends DeleteIAMPolicy_sends
      DeleteIAMUser_sends assms)

lemma lookup_bucket_sends:
  assumes "sf_sequential env"
  shows "sends (lookup_by c) (lookup_bucket env fn c p)"
  unfolding lookup_bucket_def
  by (auto intro!: sends_and_then sends_wrap FindBucketByName_sends assms split: option.split)

lemma lookup_s3Endpoint_sends:
  assumes "sf_sequential env"
  shows "sends (lookup_by c) (lookup_s3Endpoint env fn c p)"
  unfolding lookup_s3Endpoint_def
  by (auto intro!: sends_and_then sends_wrap GetS3Endpoint_sends assms split: option.split)

lemma lookup_s3Region_sends:
  assumes "sf_sequential env"
  shows "sends (lookup_by c) (lookup_s3Region env fn c p)"
  unfolding lookup_s3Region_def
  by (auto intro!: sends_and_then sends_wrap FromKodoRegionIDToS3RegionID_sends assms split: option.split)

text \<open>Reading the parameters of a volume only looks things up, with some client.\<close>

definition some_lookup :: "http_request \<Rightarrow> bool" where
  "some_lookup r \<longleftrightarrow> (\<exists>c. lookup_by c r)"

definition some_lookup_or_iam :: "http_request \<Rightarrow> bool" where
  "some_lookup_or_iam r \<longleftrightarrow> (\<exists>c. lookup_or_iam c r)"

lemma parseKodoPvParameter_sends:
  assumes "sf_sequential env"
  shows "sends some_lookup (parseKodoPvParameter env fn ctx1 ctx2 secrets)"
  unfolding parseKodoPvParameter_def
  by (intro sends_and_then sends_lift sends_mono [OF lookup_bucket_sends [OF assms]]
      sends_mono [OF lookup_s3Endpoint_sends [OF assms]]
      sends_mono [OF lookup_s3Region_sends [OF assms]])
     (auto simp: some_lookup_def)

lemma sent_by: "sends P a \<Longrightarrow> a s = (r, s') \<Longrightarrow> \<exists>rs. sent s' = sent s @ rs \<and> list_all P rs"
  unfolding sends_def by (metis snd_conv)

section \<open>Properties\<close>

lemma DeleteVolume_volumes:
  assumes "DeleteVolume env getPv evs req (vols, s) = Some (r, vols', s')"
  shows "vols' = vols \<or> vols' = vols(DelVolumeId req := None)"
  using assms
  by (auto simp: DeleteVolume_def split: sum.splits option.splits prod.splits)

text \<open>
  C4: with any reclaim policy other than Delete, DeleteVolume returns under every schedule of the
  deleting goroutines, and every request it sends is a lookup or an IAM request: neither the
  objects nor the bucket of the volume are touched.
\<close>

theorem DeleteVolume_retain:
  assumes "sf_sequential env"
    and "getPv (DelVolumeId req) = Inr pv" "ReclaimPolicy pv \<noteq> PersistentVolumeReclaimDelete"
  shows "\<exists>r vols' s' rs. DeleteVolume env getPv evs req (vols, s) = Some (r, vols', s')
    \<and> sent s' = sent s @ rs \<and> list_all some_lookup_or_iam rs"
proof (cases "VolumeAttributes pv")
  case None
  with assms show ?thesis by (auto simp: DeleteVolume_def intro: exI [of _ "[]"])
next
  case (Some c12)
  obtain ctx1 ctx2 where c12: "c12 = (ctx1, ctx2)" by fastforce
  obtain r1 s1 where parse:
    "parseKodoPvParameter env ''DeleteVolume'' ctx1 ctx2 (DelSecrets req) s = (r1, s1)" by fastforce
  obtain rs1 where rs1: "sent s1 = sent s @ rs1" "list_all some_lookup_or_iam rs1"
    using sent_by [OF parseKodoPvParameter_sends [OF assms(1)] parse]
    by (fastforce simp: list_all_iff some_lookup_def some_lookup_or_iam_def)
  show ?thesis
  proof (cases r1)
    case (Inl e)
    with Some c12 parse assms rs1 show ?thesis by (auto simp: DeleteVolume_def)
  next
    case (Inr p)
    note parsed = Some c12 parse assms rs1 Inr
    show ?thesis
    proof (cases "pv_client env (originalAccessKey p) (originalSecretKey p) (ucEndpoint (kodoStorageClass p))")
      case (Inl e)
      with parsed show ?thesis by (auto simp: DeleteVolume_def delete_parsed_def)
    next
      case (Inr c)
      obtain r2 s2 where rev: "revoke_bucket env c (DelVolumeId req) s1 = (r2, s2)" by fastforce
      obtain rs2 where "sent s2 = sent s1 @ rs2" "list_all some_lookup_or_iam rs2"
        using sent_by [OF revoke_bucket_sends [OF assms(1)] rev]
        by (auto simp: list_all_iff some_lookup_or_iam_def)
      with parsed Inr rev show ?thesis
        by (cases r2) (auto simp: DeleteVolume_def delete_parsed_def intro!: exI [of _ "rs1 @ rs2"])
    qed
  qed
qed

definition demo_context :: gomap where
  "demo_context =
     context_of (kodo_context demo_parameter demo_bucket demo_s3 ''cn-east-1'' ''ak'' ''sk'')"

definition demo_pv :: "string \<Rightarrow> pv_info result" where
  "demo_pv name = Inr \<lparr>VolumeAttributes = Some (demo_context, rev demo_context), ReclaimPolicy = ''Retain''\<rparr>"

definition demo_delete :: delete_request where
  "demo_delete = \<lparr>DelVolumeId = ''pv'', DelSecrets = []\<rparr>"

definition demo_delete_script :: "http_response list" where
  "demo_delete_script = [answer 200 [demo_regions], answer 200 [], answer 200 [], answer 200 []]"

theorem DeleteVolume_retain_witness:
  "\<exists>r vols' s' rs. DeleteVolume script_env demo_pv [] demo_delete (Map.empty, script_state demo_delete_script)
      = Some (r, vols', s')
    \<and> sent s' = sent (script_state demo_delete_script) @ rs \<and> list_all some_lookup_or_iam rs"
proof (rule DeleteVolume_retain [OF script_env_sequential])
  show "demo_pv (DelVolumeId demo_delete) =
      Inr \<lparr>VolumeAttributes = Some (demo_context, rev demo_context), ReclaimPolicy = ''Retain''\<rparr>"
    by (rule demo_pv_def)
  show "ReclaimPolicy \<lparr>VolumeAttributes = Some (demo_context, rev demo_context), ReclaimPolicy = ''Retain''\<rparr>
      \<noteq> PersistentVolumeReclaimDelete"
    unfolding PersistentVolumeReclaimDelete_def pv_info.select_convs by simp
qed

text \<open>
  C9: a DeleteVolume that succeeds has forgotten the volume, has revoked and removed the IAM user
  and policy with the original credentials of the volume, and, under the policy Delete, has
  cleaned the bucket without an error before the bucket itself was dropped successfully.
\<close>

theorem DeleteVolume_success:
  assumes "DeleteVolume env getPv evs req (vols, s) = Some (Inr (), vols', s')"
  shows "\<exists>pv ctx1 ctx2 p c s1 s2.
    getPv (DelVolumeId req) = Inr pv \<and> VolumeAttributes pv = Some (ctx1, ctx2)
    \<and> parseKodoPvParameter env ''DeleteVolume'' ctx1 ctx2 (DelSecrets req) s = (Inr p, s1)
    \<and> kcAccessKey c = originalAccessKey p \<and> kcSecretKey c = originalSecretKey p
    \<and> revoke_bucket env c (DelVolumeId req) s1 = (Inr (), s2)
    \<and> vols' = vols(DelVolumeId req := None)
    \<and> (if ReclaimPolicy pv = PersistentVolumeReclaimDelete
       then \<exists>s3. CleanObjects env c (bucketName p) evs s2 = Some (Inr (), s3)
          \<and> DeleteBucket env c (bucketName p) s3 = (Inr (), s')
       else s' = s2)"
proof -
  from assms obtain pv ctx1 ctx2 p s1 where
    pv: "getPv (DelVolumeId req) = Inr pv" "VolumeAttributes pv = Some (ctx1, ctx2)"
      "parseKodoPvParameter env ''DeleteVolume'' ctx1 ctx2 (DelSecrets req) s = (Inr p, s1)"
    and del: "delete_parsed env evs (DelVolumeId req) (ReclaimPolicy pv) p s1 = Some (Inr (), s')"
    and v: "vols' = vols(DelVolumeId req := None)"
    by (auto simp: DeleteVolume_def split: sum.splits option.splits prod.splits)
  from del obtain c s2 where
    c: "pv_client env (originalAccessKey p) (originalSecretKey p) (ucEndpoint (kodoStorageClass p)) = Inr c"
      "revoke_bucket env c (DelVolumeId req) s1 = (Inr (), s2)"
    and rest: "if ReclaimPolicy pv = PersistentVolumeReclaimDelete
       then delete_bucket env c (bucketName p) evs s2 = Some (Inr (), s') else s' = s2"
    by (auto simp: delete_parsed_def split: sum.splits prod.splits if_splits)
  from c(1) have "kcAccessKey c = originalAccessKey p" "kcSecretKey c = originalSecretKey p"
    by (auto simp: pv_client_def NewKodoClient_def split: option.splits)
  moreover have "if ReclaimPolicy pv = PersistentVolumeReclaimDelete
       then \<exists>s3. CleanObjects env c (bucketName p) evs s2 = Some (Inr (), s3)
          \<and> DeleteBucket env c (bucketName p) s3 = (Inr (), s')
       else s' = s2"
    using rest by (auto simp: delete_bucket_def split: option.splits sum.splits prod.splits if_splits)
  ultimately show ?thesis using pv v c(2) by blast
qed

lemma demo_delete_run:
  "map_option fst (DeleteVolume script_env demo_pv [] demo_delete
     (Map.empty, script_state demo_delete_script)) = Some (Inr ())"
  by code_simp

theorem DeleteVolume_success_witness:
  "\<exists>vols' s'. DeleteVolume script_env demo_pv [] demo_delete (Map.empty, script_state demo_delete_script)
      = Some (Inr (), vols', s') \<and> vols' ''pv'' = None"
proof -
  obtain vols' s' where run: "DeleteVolume script_env demo_pv [] demo_delete
      (Map.empty, script_state demo_delete_script) = Some (Inr (), vols', s')"
    using demo_delete_run by fastforce
  with DeleteVolume_success [OF run] show ?thesis by (auto simp: demo_delete_def)
qed

end
