(* ===== verification/Kodofs_Parameters.thy ===== *)
theory Kodofs_Parameters
  imports Kodo_Storage_Class
begin

text \<open>
  \<^verbatim>\<open>plugin/kodofs_parameters.go\<close>: the parameters of KodoFS storage classes and volumes.  The fields
  of the two structs carry the prefix \<open>fs\<close>; the embedded struct of the volume parameters is the
  field \<open>kodofsStorageClass\<close>.  The file system type is an 8-bit and the block size a 32-bit number: a parsed 64-bit
  number is converted, which drops its upper bits.

  Both parsers range over the parameters with the loop of \<open>Param_Loop\<close>; the switch bodies satisfy
  its contract, so the declarative readings and the independence of the iteration order come from
  there.
\<close>

section \<open>Storage class parameters\<close>

record kodofsStorageClassParameter =
  fsAccessKey :: string
  fsSecretKey :: string
  fsMountServerAddress :: "url option"
  fsMasterServerAddress :: "url option"
  fsRegion :: string
  fsType :: "8 word"
  fsBlockSize :: "32 word"

type_synonym fsp = kodofsStorageClassParameter

definition fsp_zero :: fsp where
  "fsp_zero = \<lparr>fsAccessKey = [], fsSecretKey = [], fsMountServerAddress = None,
     fsMasterServerAddress = None, fsRegion = [], fsType = 0, fsBlockSize = 0\<rparr>"

definition fs_parse_url :: "string \<Rightarrow> field \<Rightarrow> string \<Rightarrow> url result" where
  "fs_parse_url fn f v =
     (case parseUrl v of Inl e \<Rightarrow> Inl (Wrapf ''invalid'' [fn, field_name f, v] e) | Inr u \<Rightarrow> Inr u)"

definition fs_set_url ::
    "string \<Rightarrow> field \<Rightarrow> string \<Rightarrow> ((url option \<Rightarrow> url option) \<Rightarrow> fsp \<Rightarrow> fsp) \<Rightarrow> fsp \<Rightarrow> fsp result" where
  "fs_set_url fn f v upd p =
     (case fs_parse_url fn f v of Inl e \<Rightarrow> Inl e | Inr u \<Rightarrow> Inr (upd (\<lambda>_. Some u) p))"

definition fs_set_type :: "string \<Rightarrow> string \<Rightarrow> fsp \<Rightarrow> fsp result" where
  "fs_set_type fn v p =
     (case parseUint v of
        Inl e \<Rightarrow> Inl (Wrapf ''invalid'' [fn, field_name FIELD_FS_TYPE, v] e)
      | Inr n \<Rightarrow> Inr (p\<lparr>fsType := ucast n\<rparr>))"

definition fs_set_blockSize :: "string \<Rightarrow> string \<Rightarrow> fsp \<Rightarrow> fsp result" where
  "fs_set_blockSize fn v p =
     (case parseUint v of
        Inl e \<Rightarrow> Inl (Errorf ''invalid'' [fn, field_name FIELD_BLOCK_SIZE, v])
      | Inr n \<Rightarrow> Inr (p\<lparr>fsBlockSize := ucast n\<rparr>))"

definition fs_sc_field :: "string \<Rightarrow> field \<Rightarrow> string \<Rightarrow> fsp \<Rightarrow> fsp result" where
  "fs_sc_field fn f v p =
     (case f of
        FIELD_ACCESS_KEY \<Rightarrow> Inr (p\<lparr>fsAccessKey := TrimSpace v\<rparr>)
      | FIELD_SECRET_KEY \<Rightarrow> Inr (p\<lparr>fsSecretKey := TrimSpace v\<rparr>)
      | FIELD_MOUNT_SERVER_ADDRESS \<Rightarrow> fs_set_url fn f v fsMountServerAddress_update p
      | FIELD_MASTER_SERVER_ADDRESS \<Rightarrow> fs_set_url fn f v fsMasterServerAddress_update p
      | FIELD_REGION \<Rightarrow> Inr (p\<lparr>fsRegion := TrimSpace v\<rparr>)
      | FIELD_FS_TYPE \<Rightarrow> fs_set_type fn v p
      | FIELD_BLOCK_SIZE \<Rightarrow> fs_set_blockSize fn v p
      | _ \<Rightarrow> Inr p)"

definition fs_sc_loop :: "string \<Rightarrow> fsp \<Rightarrow> gomap \<Rightarrow> fsp result" where
  "fs_sc_loop fn p ctx = range_switch (fs_sc_field fn) p ctx"

text \<open>A component from the secrets; a missing one is an error unless secrets are ignored.\<close>

definition fs_text :: "string \<Rightarrow> gomap \<Rightarrow> bool \<Rightarrow> field \<Rightarrow> string \<Rightarrow> string result" where
  "fs_text fn secrets ignoreSecrets f cur =
     (if cur = [] then
        (case secret secrets f of
           Some v \<Rightarrow> Inr (TrimSpace v)
         | None \<Rightarrow> if \<not> ignoreSecrets then Inl (Errorf ''is empty'' [fn, field_name f]) else Inr cur)
      else Inr cur)"

definition fs_url :: "string \<Rightarrow> gomap \<Rightarrow> bool \<Rightarrow> field \<Rightarrow> url option \<Rightarrow> url option result" where
  "fs_url fn secrets ignoreSecrets f cur =
     (case cur of
        Some u \<Rightarrow> Inr (Some u)
      | None \<Rightarrow>
          (case secret secrets f of
             Some v \<Rightarrow> (case fs_parse_url fn f v of Inl e \<Rightarrow> Inl e | Inr u \<Rightarrow> Inr (Some u))
           | None \<Rightarrow> if \<not> ignoreSecrets then Inl (Errorf ''is empty'' [fn, field_name f]) else Inr None))"

definition fs_blockSize_default :: "fsp \<Rightarrow> fsp" where
  "fs_blockSize_default p = (if fsBlockSize p = 0 then p\<lparr>fsBlockSize := push_bit 22 1\<rparr> else p)"

definition fs_sc_secrets :: "string \<Rightarrow> gomap \<Rightarrow> bool \<Rightarrow> fsp \<Rightarrow> fsp result" where
  "fs_sc_secrets fn secrets ign p =
     (case fs_text fn secrets ign FIELD_ACCESS_KEY (fsAccessKey p) of Inl e \<Rightarrow> Inl e | Inr ak \<Rightarrow>
      case fs_text fn secrets ign FIELD_SECRET_KEY (fsSecretKey p) of Inl e \<Rightarrow> Inl e | Inr sk \<Rightarrow>
      case fs_url fn secrets ign FIELD_MOUNT_SERVER_ADDRESS (fsMountServerAddress p) of Inl e \<Rightarrow> Inl e | Inr mnt \<Rightarrow>
      case fs_url fn secrets ign FIELD_MASTER_SERVER_ADDRESS (fsMasterServerAddress p) of Inl e \<Rightarrow> Inl e | Inr mas \<Rightarrow>
      case fs_text fn secrets ign FIELD_REGION (fsRegion p) of Inl e \<Rightarrow> Inl e | Inr reg \<Rightarrow>
      Inr (fs_blockSize_default (p\<lparr>fsAccessKey := ak, fsSecretKey := sk, fsMountServerAddress := mnt,
        fsMasterServerAddress := mas, fsRegion := reg\<rparr>)))"

definition parseKodoFSStorageClassParameter ::
    "string \<Rightarrow> gomap \<Rightarrow> gomap \<Rightarrow> bool \<Rightarrow> fsp result" where
  "parseKodoFSStorageClassParameter fn ctx secrets ignoreSecrets =
     (case fs_sc_loop fn fsp_zero ctx of Inl e \<Rightarrow> Inl e | Inr p \<Rightarrow> fs_sc_secrets fn secrets ignoreSecrets p)"

section \<open>Volume parameters\<close>

record kodofsPvParameter =
  kodofsStorageClass :: fsp
  gatewayID :: string
  accessToken :: string
  accessPointId :: string

definition fs_pv_field :: "string \<Rightarrow> field \<Rightarrow> string \<Rightarrow> kodofsPvParameter \<Rightarrow> kodofsPvParameter result" where
  "fs_pv_field fn f v p =
     (case f of
        FIELD_GATEWAY_ID \<Rightarrow> Inr (p\<lparr>gatewayID := TrimSpace v\<rparr>)
      | FIELD_ACCESS_POINT_ID \<Rightarrow> Inr (p\<lparr>accessPointId := TrimSpace v\<rparr>)
      | FIELD_ACCESS_TOKEN \<Rightarrow> Inr (p\<lparr>accessToken := TrimSpace v\<rparr>)
      | _ \<Rightarrow> Inr p)"

definition fs_pv_loop :: "string \<Rightarrow> kodofsPvParameter \<Rightarrow> gomap \<Rightarrow> kodofsPvParameter result" where
  "fs_pv_loop fn p ctx = range_switch (fs_pv_field fn) p ctx"

text \<open>
  The error for a missing mount server address is formatted with its two arguments swapped.
\<close>

definition fs_pv_mountServer :: "string \<Rightarrow> gomap \<Rightarrow> kodofsPvParameter \<Rightarrow> kodofsPvParameter result" where
  "fs_pv_mountServer fn secrets p =
     (case fsMountServerAddress (kodofsStorageClass p) of
        Some _ \<Rightarrow> Inr p
      | None \<Rightarrow>
          (case secret secrets FIELD_MOUNT_SERVER_ADDRESS of
             Some v \<Rightarrow>
               (case fs_parse_url fn FIELD_MOUNT_SERVER_ADDRESS v of
                  Inl e \<Rightarrow> Inl e
                | Inr u \<Rightarrow> Inr (p\<lparr>kodofsStorageClass := (kodofsStorageClass p)\<lparr>fsMountServerAddress := Some u\<rparr>\<rparr>))
           | None \<Rightarrow> Inl (Errorf ''is empty'' [field_name FIELD_MOUNT_SERVER_ADDRESS, fn])))"

definition fs_pv_secrets :: "string \<Rightarrow> gomap \<Rightarrow> kodofsPvParameter \<Rightarrow> kodofsPvParameter result" where
  "fs_pv_secrets fn secrets p =
     (case required fn secrets FIELD_GATEWAY_ID (gatewayID p) of Inl e \<Rightarrow> Inl e | Inr gw \<Rightarrow>
      case fs_pv_mountServer fn secrets (p\<lparr>gatewayID := gw\<rparr>) of Inl e \<Rightarrow> Inl e | Inr p1 \<Rightarrow>
      case required fn secrets FIELD_ACCESS_TOKEN (accessToken p1) of Inl e \<Rightarrow> Inl e | Inr tok \<Rightarrow>
      Inr (p1\<lparr>accessToken := tok\<rparr>))"

text \<open>
  An error of the storage class parser is discarded: the volume then starts from the zero record.
\<close>

definition fs_pv_start :: "string \<Rightarrow> gomap \<Rightarrow> kodofsPvParameter" where
  "fs_pv_start fn ctx =
     \<lparr>kodofsStorageClass = (case parseKodoFSStorageClassParameter fn ctx [] True of
        Inl e \<Rightarrow> fsp_zero | Inr q \<Rightarrow> q), gatewayID = [], accessToken = [], accessPointId = []\<rparr>"

definition parseKodoFSPvParameter :: "string \<Rightarrow> gomap \<Rightarrow> gomap \<Rightarrow> gomap \<Rightarrow> kodofsPvParameter result" where
  "parseKodoFSPvParameter fn ctx1 ctx2 secrets =
     (case fs_pv_loop fn (fs_pv_start fn ctx1) ctx2 of Inl e \<Rightarrow> Inl e | Inr p \<Rightarrow> fs_pv_secrets fn secrets p)"

section \<open>The declarative reading of the loops\<close>

definition val_url :: "string option \<Rightarrow> url option" where
  "val_url v = Option.bind v (\<lambda>s. ok_value (parseUrl s))"

definition val_narrow :: "string option \<Rightarrow> 'a::len word" where
  "val_narrow v = (case val_uint v of None \<Rightarrow> 0 | Some n \<Rightarrow> ucast n)"

definition fs_sc_spec :: "(field \<rightharpoonup> string) \<Rightarrow> fsp" where
  "fs_sc_spec m =
     \<lparr>fsAccessKey = val_string (m FIELD_ACCESS_KEY), fsSecretKey = val_string (m FIELD_SECRET_KEY),
      fsMountServerAddress = val_url (m FIELD_MOUNT_SERVER_ADDRESS),
      fsMasterServerAddress = val_url (m FIELD_MASTER_SERVER_ADDRESS),
      fsRegion = val_string (m FIELD_REGION), fsType = val_narrow (m FIELD_FS_TYPE),
      fsBlockSize = val_narrow (m FIELD_BLOCK_SIZE)\<rparr>"

definition fs_sc_ok :: "field \<Rightarrow> string \<Rightarrow> bool" where
  "fs_sc_ok f v \<longleftrightarrow>
     (f \<in> {FIELD_MOUNT_SERVER_ADDRESS, FIELD_MASTER_SERVER_ADDRESS} \<longrightarrow> is_ok (parseUrl v)) \<and>
     (f \<in> {FIELD_FS_TYPE, FIELD_BLOCK_SIZE} \<longrightarrow> is_ok (parseUint v))"

lemmas fs_set_defs = fs_set_url_def fs_parse_url_def fs_set_type_def fs_set_blockSize_def

lemma fs_sc_field_ok: "is_ok (fs_sc_field fn f v p) \<longleftrightarrow> fs_sc_ok f v"
  by (cases f; simp add: fs_sc_field_def fs_sc_ok_def fs_set_defs split: sum.split)

lemma fs_sc_field_spec:
  "fs_sc_ok f v \<Longrightarrow> fs_sc_field fn f v (fs_sc_spec m) = Inr (fs_sc_spec (m(f \<mapsto> v)))"
  by (cases f; simp add: fs_sc_field_def fs_sc_spec_def fs_sc_ok_def fs_set_defs val_defs
      val_url_def val_narrow_def is_ok_def split: sum.splits)

lemma fsp_zero_spec: "fsp_zero = fs_sc_spec Map.empty"
  by (simp add: fsp_zero_def fs_sc_spec_def val_defs val_url_def val_narrow_def)

interpretation fs_sc: param_switch "fs_sc_field fn" fs_sc_ok fs_sc_spec for fn
  by unfold_locales (simp_all add: fs_sc_field_ok fs_sc_field_spec)

definition fs_pv_spec :: "fsp \<Rightarrow> (field \<rightharpoonup> string) \<Rightarrow> kodofsPvParameter" where
  "fs_pv_spec q m =
     \<lparr>kodofsStorageClass = q, gatewayID = val_string (m FIELD_GATEWAY_ID),
      accessToken = val_string (m FIELD_ACCESS_TOKEN),
      accessPointId = val_string (m FIELD_ACCESS_POINT_ID)\<rparr>"

lemma fs_pv_field_spec: "fs_pv_field fn f v (fs_pv_spec q m) = Inr (fs_pv_spec q (m(f \<mapsto> v)))"
  by (cases f; simp add: fs_pv_field_def fs_pv_spec_def val_string_def)

interpretation fs_pv: param_switch "fs_pv_field fn" "\<lambda>_ _. True" "fs_pv_spec q" for fn q
proof (unfold_locales; simp?)
  show "is_ok (fs_pv_field fn f v p)" for f v p by (cases f; simp add: fs_pv_field_def)
qed (simp add: fs_pv_field_spec)

lemma fs_sc_loop_iff:
  "fs_sc_loop fn fsp_zero ctx = Inr p \<longleftrightarrow> entries_ok fs_sc_ok ctx \<and> p = fs_sc_spec (fields_of ctx)"
  by (simp add: fs_sc_loop_def fsp_zero_spec fs_sc.loop_iff)

lemma parse_fs_sc_iff:
  "parseKodoFSStorageClassParameter fn ctx secrets ign = Inr p \<longleftrightarrow>
     entries_ok fs_sc_ok ctx \<and> fs_sc_secrets fn secrets ign (fs_sc_spec (fields_of ctx)) = Inr p"
proof (cases "fs_sc_loop fn fsp_zero ctx")
  case (Inl e)
  then have "\<not> entries_ok fs_sc_ok ctx" using fs_sc_loop_iff [of fn ctx] by auto
  with Inl show ?thesis by (simp add: parseKodoFSStorageClassParameter_def)
next
  case (Inr q)
  then show ?thesis
    using fs_sc_loop_iff [of fn ctx q] by (simp add: parseKodoFSStorageClassParameter_def)
qed

lemma entries_ok_True [simp]: "entries_ok (\<lambda>_ _. True) m"
  by (auto simp: entries_ok_def list_all_iff split: option.split)

lemma fs_pv_loop_eq:
  "fs_pv_loop fn (fs_pv_start fn ctx1) ctx2 =
     Inr (fs_pv_spec (kodofsStorageClass (fs_pv_start fn ctx1)) (fields_of ctx2))"
proof -
  have "fs_pv_start fn ctx1 = fs_pv_spec (kodofsStorageClass (fs_pv_start fn ctx1)) Map.empty"
    by (simp add: fs_pv_start_def fs_pv_spec_def val_string_def)
  then show ?thesis
    using fs_pv.loop_iff [of fn "kodofsStorageClass (fs_pv_start fn ctx1)" ctx2]
    by (metis entries_ok_True fs_pv_loop_def)
qed

lemma parse_fs_pv_eq:
  "parseKodoFSPvParameter fn ctx1 ctx2 secrets =
     fs_pv_secrets fn secrets (fs_pv_spec (kodofsStorageClass (fs_pv_start fn ctx1)) (fields_of ctx2))"
  by (simp add: parseKodoFSPvParameter_def fs_pv_loop_eq)

end
