(* ===== verification/Kodofs_Parameter_Facts.thy ===== *)
theory Kodofs_Parameter_Facts
  imports Kodofs_Parameters Kodo_Volume_Context
begin

text \<open>
  What the KodoFS parameter parsers accept and return: acceptance, the width of the two numbers,
  independence of the iteration order, and the round trip of the context that
  \<^verbatim>\<open>CreateVolume\<close> of \<^verbatim>\<open>plugin/kodofs_controller_server.go\<close> stores.
\<close>

section \<open>Acceptance\<close>

lemma fs_text_ok:
  "is_ok (fs_text fn secrets ign f cur) \<longleftrightarrow> ign \<or> cur \<noteq> [] \<or> secret secrets f \<noteq> None"
  by (auto simp: fs_text_def split: option.split)

lemma fs_url_ok:
  "is_ok (fs_url fn secrets ign f cur) \<longleftrightarrow>
     cur \<noteq> None \<or> (case secret secrets f of None \<Rightarrow> ign | Some v \<Rightarrow> is_ok (parseUrl v))"
  by (auto simp: fs_url_def fs_parse_url_def is_ok_def split: option.splits sum.splits)

lemma fs_sc_secrets_iff:
  "fs_sc_secrets fn secrets ign p = Inr q \<longleftrightarrow>
     (\<exists>ak sk mnt mas reg.
        fs_text fn secrets ign FIELD_ACCESS_KEY (fsAccessKey p) = Inr ak \<and>
        fs_text fn secrets ign FIELD_SECRET_KEY (fsSecretKey p) = Inr sk \<and>
        fs_url fn secrets ign FIELD_MOUNT_SERVER_ADDRESS (fsMountServerAddress p) = Inr mnt \<and>
        fs_url fn secrets ign FIELD_MASTER_SERVER_ADDRESS (fsMasterServerAddress p) = Inr mas \<and>
        fs_text fn secrets ign FIELD_REGION (fsRegion p) = Inr reg \<and>
        q = fs_blockSize_default (p\<lparr>fsAccessKey := ak, fsSecretKey := sk, fsMountServerAddress := mnt,
          fsMasterServerAddress := mas, fsRegion := reg\<rparr>))"
  by (auto simp: fs_sc_secrets_def split: sum.splits)

lemma fs_sc_secrets_ok:
  "is_ok (fs_sc_secrets fn secrets ign p) \<longleftrightarrow>
     is_ok (fs_text fn secrets ign FIELD_ACCESS_KEY (fsAccessKey p)) \<and>
     is_ok (fs_text fn secrets ign FIELD_SECRET_KEY (fsSecretKey p)) \<and>
     is_ok (fs_url fn secrets ign FIELD_MOUNT_SERVER_ADDRESS (fsMountServerAddress p)) \<and>
     is_ok (fs_url fn secrets ign FIELD_MASTER_SERVER_ADDRESS (fsMasterServerAddress p)) \<and>
     is_ok (fs_text fn secrets ign FIELD_REGION (fsRegion p))"
  by (auto simp: is_ok_iff fs_sc_secrets_iff)

lemma parse_fs_sc_ok:
  "is_ok (parseKodoFSStorageClassParameter fn ctx secrets ign) \<longleftrightarrow>
     entries_ok fs_sc_ok ctx \<and> is_ok (fs_sc_secrets fn secrets ign (fs_sc_spec (fields_of ctx)))"
  by (auto simp: is_ok_iff parse_fs_sc_iff)

lemma fs_url_set: "fs_url fn secrets False f cur = Inr r \<Longrightarrow> r \<noteq> None"
  by (auto simp: fs_url_def split: option.splits sum.splits)

lemma fs_blockSize_default_sel [simp]:
  "fsAccessKey (fs_blockSize_default p) = fsAccessKey p"
  "fsSecretKey (fs_blockSize_default p) = fsSecretKey p"
  "fsMountServerAddress (fs_blockSize_default p) = fsMountServerAddress p"
  "fsMasterServerAddress (fs_blockSize_default p) = fsMasterServerAddress p"
  "fsRegion (fs_blockSize_default p) = fsRegion p"
  "fsType (fs_blockSize_default p) = fsType p"
  "fsBlockSize (fs_blockSize_default p) = (if fsBlockSize p = 0 then 4194304 else fsBlockSize p)"
  by (simp_all add: fs_blockSize_default_def)

text \<open>Where an address comes from: the entry of the parameters or, without one, of the secrets.\<close>

definition address_given :: "gomap \<Rightarrow> gomap \<Rightarrow> field \<Rightarrow> url option \<Rightarrow> bool" where
  "address_given ctx secrets f a \<longleftrightarrow>
     (\<exists>v u. a = Some u \<and> parseUrl v = Inr u \<and>
        (fields_of ctx f = Some v \<or> fields_of ctx f = None \<and> secret secrets f = Some v))"

lemma fs_url_given:
  assumes "fs_url fn secrets False f (val_url (fields_of ctx f)) = Inr r" "entries_ok fs_sc_ok ctx"
    and "f \<in> {FIELD_MOUNT_SERVER_ADDRESS, FIELD_MASTER_SERVER_ADDRESS}"
  shows "address_given ctx secrets f r"
proof (cases "fields_of ctx f")
  case None
  with assms(1) show ?thesis
    by (auto simp: address_given_def fs_url_def fs_parse_url_def val_url_def split: option.splits sum.splits)
next
  case (Some v)
  with entries_ok_fields [OF assms(2) Some] assms(3) have "is_ok (parseUrl v)" by (auto simp: fs_sc_ok_def)
  then obtain u where "parseUrl v = Inr u" by (auto simp: is_ok_iff)
  with assms(1) Some show ?thesis by (simp add: address_given_def fs_url_def val_url_def)
qed

text \<open>
  C40: when the KodoFS storage class parser accepts its input with secrets required, each of the two
  server addresses is the URL of its entry in the parameters or, when there is none, in the secrets;
  the file system type is the given number modulo \<open>2 ^ 8\<close> and the block size the given number modulo
  \<open>2 ^ 32\<close>, a block size of zero modulo \<open>2 ^ 32\<close> becoming 4 MiB.
\<close>

theorem parseKodoFSStorageClassParameter_numbers:
  assumes "parseKodoFSStorageClassParameter fn ctx secrets False = Inr p"
    and "no_case_clash ctx"
    and "(kt, vt) \<in> set ctx" "ToLower kt = field_name FIELD_FS_TYPE" "parseUint vt = Inr t"
    and "(kb, vb) \<in> set ctx" "ToLower kb = field_name FIELD_BLOCK_SIZE" "parseUint vb = Inr b"
  shows "address_given ctx secrets FIELD_MOUNT_SERVER_ADDRESS (fsMountServerAddress p) \<and>
    address_given ctx secrets FIELD_MASTER_SERVER_ADDRESS (fsMasterServerAddress p) \<and>
    unat (fsType p) = unat t mod 2 ^ 8 \<and>
    unat (fsBlockSize p) = (if unat b mod 2 ^ 32 = 0 then 2 ^ 22 else unat b mod 2 ^ 32)"
proof -
  have "fields_of ctx FIELD_FS_TYPE = Some vt" "fields_of ctx FIELD_BLOCK_SIZE = Some vb"
    using fields_of_entry [OF assms(2-4)] fields_of_entry [OF assms(2,6,7)] by simp_all
  then have n: "fsType (fs_sc_spec (fields_of ctx)) = ucast t"
    "fsBlockSize (fs_sc_spec (fields_of ctx)) = ucast b"
    using assms(5,8) by (simp_all add: fs_sc_spec_def val_narrow_def val_uint_def)
  have w: "unat (ucast t :: 8 word) = unat t mod 2 ^ 8" "unat (ucast b :: 32 word) = unat b mod 2 ^ 32"
    by (simp_all add: unsigned_ucast_eq take_bit_eq_mod)
  have z: "(ucast b :: 32 word) = 0 \<longleftrightarrow> unat b mod 2 ^ 32 = 0"
    unfolding w(2) [symmetric] by (simp add: unat_eq_0)
  from assms(1) have ok: "entries_ok fs_sc_ok ctx"
    and "fs_sc_secrets fn secrets False (fs_sc_spec (fields_of ctx)) = Inr p"
    by (simp_all add: parse_fs_sc_iff)
  then obtain ak sk mnt mas reg where p: "p = fs_blockSize_default ((fs_sc_spec (fields_of ctx))
      \<lparr>fsAccessKey := ak, fsSecretKey := sk, fsMountServerAddress := mnt,
        fsMasterServerAddress := mas, fsRegion := reg\<rparr>)"
    and u: "fs_url fn secrets False FIELD_MOUNT_SERVER_ADDRESS (val_url (fields_of ctx FIELD_MOUNT_SERVER_ADDRESS)) = Inr mnt"
      "fs_url fn secrets False FIELD_MASTER_SERVER_ADDRESS (val_url (fields_of ctx FIELD_MASTER_SERVER_ADDRESS)) = Inr mas"
    unfolding fs_sc_secrets_iff by (auto simp: fs_sc_spec_def)
  have "unat (fsType p) = unat t mod 2 ^ 8" by (simp add: p n w)
  moreover have "unat (fsBlockSize p) = (if unat b mod 2 ^ 32 = 0 then 2 ^ 22 else unat b mod 2 ^ 32)"
    unfolding p z [symmetric] w(2) [symmetric] by (simp add: n unat_gt_0)
  ultimately show ?thesis
    using fs_url_given [OF u(1) ok] fs_url_given [OF u(2) ok] by (simp add: p)
qed

theorem parseKodoFSStorageClassParameter_numbers_witness:
  "let ctx = [(''blockSize'', ''4294967296''), (''fsType'', ''258''), (''accesskey'', ''a''), (''secretkey'', ''s''),
      (''mntsvraddr'', ''m''), (''region'', ''z0'')];
     secrets = [(''mastersvraddr'', ''n'')];
     p = the (ok_value (parseKodoFSStorageClassParameter ''f'' ctx secrets False))
   in address_given ctx secrets FIELD_MOUNT_SERVER_ADDRESS (fsMountServerAddress p) \<and>
      address_given ctx secrets FIELD_MASTER_SERVER_ADDRESS (fsMasterServerAddress p) \<and>
      unat (fsType p) = 2 \<and> unat (fsBlockSize p) = 4194304"
proof -
  let ?ctx = "[(''blockSize'', ''4294967296''), (''fsType'', ''258''), (''accesskey'', ''a''), (''secretkey'', ''s''),
      (''mntsvraddr'', ''m''), (''region'', ''z0'')]"
  let ?r = "parseKodoFSStorageClassParameter ''f'' ?ctx [(''mastersvraddr'', ''n'')] False"
  have "is_ok ?r" by code_simp
  then have r: "?r = Inr (the (ok_value ?r))" by (cases ?r) simp_all
  have "no_case_clash ?ctx" "parseUint ''258'' = Inr 258" "parseUint ''4294967296'' = Inr 4294967296"
    "ToLower ''fsType'' = field_name FIELD_FS_TYPE" "ToLower ''blockSize'' = field_name FIELD_BLOCK_SIZE"
    by code_simp+
  with parseKodoFSStorageClassParameter_numbers
    [OF r, of "''fsType''" "''258''" 258 "''blockSize''" "''4294967296''" 4294967296]
  show ?thesis by (simp add: Let_def)
qed

section \<open>Iteration order\<close>

lemma fs_pv_start_order:
  assumes "same_gomap ctx ctx'" "no_case_clash ctx"
  shows "fs_pv_start fn ctx = fs_pv_start fn ctx'"
proof -
  have "ok_value (parseKodoFSStorageClassParameter fn ctx [] True) =
      ok_value (parseKodoFSStorageClassParameter fn ctx' [] True)"
    by (rule ok_value_eqI)
      (simp add: parse_fs_sc_iff entries_ok_same [OF assms(1)] fields_of_same [OF assms])
  then show ?thesis
    by (auto simp: fs_pv_start_def ok_value_def split: sum.splits)
qed

text \<open>
  Whatever the volume context, reading it gives the same parameters or the same error in
  every pair of iteration orders of the two loops, as long as no two keys differ by case only.
\<close>

theorem parseKodoFSPvParameter_order:
  assumes "same_gomap ctx ctx1" "same_gomap ctx ctx2" "no_case_clash ctx"
  shows "parseKodoFSPvParameter fn ctx1 ctx2 secrets = parseKodoFSPvParameter fn ctx ctx secrets"
  using assms(3)
  by (simp add: parse_fs_pv_eq fs_pv_start_order [OF assms(1)] fields_of_same [OF assms(2)])

theorem parseKodoFSPvParameter_order_witness:
  "let ctx = [(''gatewayID'', ''g''), (''blocksize'', ''x''), (''accessToken'', ''t''), (''mntsvraddr'', ''m'')]
   in parseKodoFSPvParameter ''f'' (rev ctx) (rotate1 ctx) [(''mntsvraddr'', ''n'')] =
      parseKodoFSPvParameter ''f'' ctx ctx [(''mntsvraddr'', ''n'')]"
  unfolding Let_def
  by (rule parseKodoFSPvParameter_order; code_simp)

section \<open>Malformed storage class values\<close>

lemma fs_pv_secrets_iff:
  "fs_pv_secrets fn secrets p = Inr q \<longleftrightarrow>
     (\<exists>gw p1 tok. required fn secrets FIELD_GATEWAY_ID (gatewayID p) = Inr gw \<and>
        fs_pv_mountServer fn secrets (p\<lparr>gatewayID := gw\<rparr>) = Inr p1 \<and>
        required fn secrets FIELD_ACCESS_TOKEN (accessToken p1) = Inr tok \<and>
        q = p1\<lparr>accessToken := tok\<rparr>)"
  by (auto simp: fs_pv_secrets_def split: sum.splits)

lemma fs_pv_mountServer_iff:
  "fs_pv_mountServer fn secrets p = Inr q \<longleftrightarrow>
     (\<exists>u. q = p\<lparr>kodofsStorageClass := (kodofsStorageClass p)\<lparr>fsMountServerAddress := Some u\<rparr>\<rparr> \<and>
        (case fsMountServerAddress (kodofsStorageClass p) of
           Some v \<Rightarrow> u = v
         | None \<Rightarrow> \<exists>v. secret secrets FIELD_MOUNT_SERVER_ADDRESS = Some v \<and> parseUrl v = Inr u))"
  by (cases p; cases "kodofsStorageClass p")
     (auto simp: fs_pv_mountServer_def fs_parse_url_def split: option.splits sum.splits)

text \<open>
  A volume context with one malformed address or number is not rejected: every storage class
  value of it, the well-formed ones too, is dropped.  The keys are then empty, the master server
  address is nil, and the mount server address is the one of the secrets.
\<close>

theorem parseKodoFSPvParameter_discards:
  assumes "parseKodoFSPvParameter fn ctx1 ctx2 secrets = Inr p" "\<not> entries_ok fs_sc_ok ctx1"
  shows "\<exists>v u. secret secrets FIELD_MOUNT_SERVER_ADDRESS = Some v \<and> parseUrl v = Inr u \<and>
    kodofsStorageClass p = fsp_zero\<lparr>fsMountServerAddress := Some u\<rparr>"
proof -
  have "\<not> is_ok (parseKodoFSStorageClassParameter fn ctx1 [] True)"
    using assms(2) by (simp add: parse_fs_sc_ok)
  then have start: "kodofsStorageClass (fs_pv_start fn ctx1) = fsp_zero"
    by (auto simp: fs_pv_start_def split: sum.splits)
  with assms(1) show ?thesis
    by (auto simp: parse_fs_pv_eq fs_pv_secrets_iff fs_pv_mountServer_iff fs_pv_spec_def fsp_zero_def)
qed

theorem parseKodoFSPvParameter_discards_witness:
  "let p = the (ok_value (parseKodoFSPvParameter ''f'' [(''blocksize'', ''x''), (''accesskey'', ''ak'')]
       [(''accesskey'', ''ak''), (''blocksize'', ''x'')]
       [(''gatewayid'', ''g''), (''mntsvraddr'', ''m''), (''accesstoken'', ''t'')]))
   in \<exists>v u. secret [(''gatewayid'', ''g''), (''mntsvraddr'', ''m''), (''accesstoken'', ''t'')]
         FIELD_MOUNT_SERVER_ADDRESS = Some v \<and> parseUrl v = Inr u \<and>
       kodofsStorageClass p = fsp_zero\<lparr>fsMountServerAddress := Some u\<rparr>"
proof -
  let ?r = "parseKodoFSPvParameter ''f'' [(''blocksize'', ''x''), (''accesskey'', ''ak'')]
       [(''accesskey'', ''ak''), (''blocksize'', ''x'')]
       [(''gatewayid'', ''g''), (''mntsvraddr'', ''m''), (''accesstoken'', ''t'')]"
  have "is_ok ?r" by code_simp
  then have r: "?r = Inr (the (ok_value ?r))" by (cases ?r) simp_all
  have "\<not> entries_ok fs_sc_ok [(''blocksize'', ''x''), (''accesskey'', ''ak'')]" by code_simp
  from parseKodoFSPvParameter_discards [OF r this] show ?thesis unfolding Let_def .
qed

end
