(* ===== verification/Kodofs_Client.thy ===== *)
theory Kodofs_Client
  imports Kodo_Client
begin

text \<open>
  \<^verbatim>\<open>qiniu/kodofs.go\<close>: the client of the KodoFS master service.  A response is judged by the
  \<^verbatim>\<open>code\<close> of its body, never by the HTTP status.  The address of the service is a pointer that may
  be nil, in which case every method panics.
\<close>

section \<open>The client and its responses\<close>

definition masterPath :: string where
  "masterPath = ''/v1/kodofs-master/''"

record KodoFSClient =
  fcAccessKey :: string
  fcSecretKey :: string
  fcMasterUrl :: "url option"
  fcUserAgent :: string

definition NewKodoFSClient :: "string \<Rightarrow> string \<Rightarrow> url option \<Rightarrow> string \<Rightarrow> string \<Rightarrow> KodoFSClient" where
  "NewKodoFSClient ak sk master version commitId =
     \<lparr>fcAccessKey = ak, fcSecretKey = sk, fcMasterUrl = master,
      fcUserAgent = ''QiniuCSIDriver/'' @ version @ ''/'' @ commitId @ ''/kodofs''\<rparr>"

record fs_error_body =
  Code :: int
  ErrorCode :: string
  Message :: string

definition zero_fs_error :: fs_error_body where
  "zero_fs_error = \<lparr>Code = 0, ErrorCode = [], Message = []\<rparr>"

definition dec_fs_error :: "json \<Rightarrow> fs_error_body result" where
  "dec_fs_error j =
     dec_struct
       [at_field ''code'' (dec_int 32) Code Code_update,
        at_field ''error_code'' dec_string ErrorCode ErrorCode_update,
        at_field ''message'' dec_string Message Message_update] j zero_fs_error"

definition fs_error_of :: "fs_error_body \<Rightarrow> gerror" where
  "fs_error_of b = KodoFSErrorResponseBody (Code b) (ErrorCode b) (Message b)"

definition parseKodoFSErrorFromResponseBody :: "resp_body \<Rightarrow> fs_error_body option result" where
  "parseKodoFSErrorFromResponseBody bs =
     (case unmarshal bs of
        Inl e \<Rightarrow> Inl (Wrapf ''parseKodoFSErrorFromResponseBody: failed to parse'' [] e)
      | Inr j \<Rightarrow>
          (case dec_fs_error j of
             Inl e \<Rightarrow> Inl (Wrapf ''parseKodoFSErrorFromResponseBody: failed to parse'' [] e)
           | Inr b \<Rightarrow> Inr (if Code b \<noteq> 0 then Some b else None)))"

definition kodofs_request ::
    "KodoFSClient \<Rightarrow> string \<Rightarrow> string \<Rightarrow> string \<Rightarrow> http_body \<Rightarrow> http_request" where
  "kodofs_request c method requestUrl ctype body =
     \<lparr>Method = method, RequestUrl = requestUrl, ContentType = ctype, ReqBody = body,
      SignKeys = (fcAccessKey c, fcSecretKey c), UseQBoxAuth = True, UserAgent = fcUserAgent c\<rparr>"

text \<open>
  The sequence the methods share; \<open>on_error\<close> is what a method makes of an error body and
  \<open>decode\<close> what it makes of any other.
\<close>

definition kodofs_response ::
    "string \<Rightarrow> (fs_error_body \<Rightarrow> 'a result) \<Rightarrow> (resp_body \<Rightarrow> 'a result) \<Rightarrow> http_response \<Rightarrow> 'a result" where
  "kodofs_response op on_error decode resp =
     (case RespBody resp of
        Inl e \<Rightarrow> Inl (Wrapf ''read response err'' [op] e)
      | Inr bs \<Rightarrow>
          (case parseKodoFSErrorFromResponseBody bs of
             Inl e \<Rightarrow> Inl e
           | Inr (Some errBody) \<Rightarrow> on_error errBody
           | Inr None \<Rightarrow> decode bs))"

definition kodofs_send ::
    "'w env \<Rightarrow> KodoFSClient \<Rightarrow> string \<Rightarrow> (fs_error_body \<Rightarrow> 'a result) \<Rightarrow> (resp_body \<Rightarrow> 'a result) \<Rightarrow>
       string \<Rightarrow> string \<Rightarrow> string \<Rightarrow> http_body \<Rightarrow> ('w, 'a) action" where
  "kodofs_send env c op on_error decode method path ctype body =
     (case fcMasterUrl c of
        None \<Rightarrow> fail (Panic ''nil pointer dereference'')
      | Some u \<Rightarrow>
          (let req = kodofs_request c method (url_String u @ masterPath @ path) ctype body in
           and_then (wrap_error (Wrapf ''create request err'' [op]) (lift_result (url_Parse (RequestUrl req))))
             (\<lambda>_. and_then (wrap_error (Wrapf ''send request err'' [op]) (http_Do env req))
               (\<lambda>resp. lift_result (kodofs_response op on_error decode resp)))))"

definition fs_fail :: "fs_error_body \<Rightarrow> 'a result" where
  "fs_fail b = Inl (fs_error_of b)"

definition string_field :: "string \<Rightarrow> json \<Rightarrow> string result" where
  "string_field name j = dec_struct [at_field name dec_string id (\<lambda>f. f)] j []"

section \<open>The methods\<close>

definition Fs_CreateVolume ::
    "'w env \<Rightarrow> KodoFSClient \<Rightarrow> string \<Rightarrow> string \<Rightarrow> string \<Rightarrow> 8 word \<Rightarrow> 32 word \<Rightarrow> ('w, string) action" where
  "Fs_CreateVolume env c volumeName description region fstype blockSize =
     kodofs_send env c ''KodoFSClient.CreateVolume'' fs_fail
       (decode_as ''KodoFSClient.CreateVolume'' (string_field ''volume''))
       ''POST'' ''volume/create'' ''application/json''
       (JsonBody (JObj [(''description'', JStr description), (''region'', JStr region),
          (''fsType'', JNum (uint fstype)), (''blockSize'', JNum (uint blockSize)),
          (''volumeName'', JStr volumeName)]))"

definition CreateAccessPoint :: "'w env \<Rightarrow> KodoFSClient \<Rightarrow> string \<Rightarrow> string \<Rightarrow> ('w, string) action" where
  "CreateAccessPoint env c volumeName description =
     kodofs_send env c ''KodoFSClient.CreateAccessPoint'' fs_fail
       (decode_as ''KodoFSClient.CreateAccessPoint'' (string_field ''accessId''))
       ''POST'' ''accessPoint/create'' ''application/json''
       (JsonBody (JObj [(''description'', JStr description), (''volume'', JStr volumeName),
          (''path'', JStr ''/''), (''mode'', JArr (map JStr [''read'', ''write'', ''delete'']))]))"

text \<open>\<^verbatim>\<open>url.Values.Encode\<close> of a single pair.\<close>

definition query_pair :: "string \<Rightarrow> string \<Rightarrow> string" where
  "query_pair k v = escape k encodeQueryComponent @ ''='' @ escape v encodeQueryComponent"

definition GetAccessToken :: "'w env \<Rightarrow> KodoFSClient \<Rightarrow> string \<Rightarrow> ('w, string) action" where
  "GetAccessToken env c apId =
     kodofs_send env c ''KodoFSClient.GetAccessToken'' fs_fail
       (decode_as ''KodoFSClient.GetAccessToken'' (string_field ''accessToken''))
       ''GET'' (''accessPoint/info?'' @ query_pair ''accessId'' apId) [] NoBody"

definition RemoveAccessPoint :: "'w env \<Rightarrow> KodoFSClient \<Rightarrow> string \<Rightarrow> ('w, unit) action" where
  "RemoveAccessPoint env c apId =
     kodofs_send env c ''KodoFSClient.RemoveAccessPoint'' fs_fail no_result
       ''POST'' ''accessPoint/remove'' [] (JsonBody (JObj [(''accessId'', JStr apId)]))"

definition IsVolumeExists :: "'w env \<Rightarrow> KodoFSClient \<Rightarrow> string \<Rightarrow> ('w, bool) action" where
  "IsVolumeExists env c volumeName =
     kodofs_send env c ''KodoFSClient.IsVolumeExists''
       (\<lambda>b. if Code b = -2000 then Inr False else fs_fail b) (\<lambda>_. Inr True)
       ''GET'' (''volume/info?'' @ query_pair ''volume'' volumeName) [] NoBody"

definition RenameVolume :: "'w env \<Rightarrow> KodoFSClient \<Rightarrow> string \<Rightarrow> string \<Rightarrow> ('w, unit) action" where
  "RenameVolume env c oldVolumeName newVolumeName =
     kodofs_send env c ''KodoFSClient.RenameVolume'' fs_fail no_result
       ''POST'' ''volume/rename'' []
       (JsonBody (JObj [(''oldVolumeName'', JStr oldVolumeName), (''newVolumeName'', JStr newVolumeName)]))"

definition RemoveVolume :: "'w env \<Rightarrow> KodoFSClient \<Rightarrow> string \<Rightarrow> ('w, unit) action" where
  "RemoveVolume env c volumeName =
     kodofs_send env c ''KodoFSClient.RemoveVolume'' fs_fail no_result
       ''POST'' ''volume/remove'' [] (JsonBody (JObj [(''volume'', JStr volumeName)]))"

lemmas kodofs_methods = Fs_CreateVolume_def CreateAccessPoint_def GetAccessToken_def
  RemoveAccessPoint_def IsVolumeExists_def RenameVolume_def RemoveVolume_def

section \<open>Requests\<close>

text \<open>A call to the master service: its method name, signed with the client's keys.\<close>

definition fs_call :: "KodoFSClient \<Rightarrow> string \<Rightarrow> http_request \<Rightarrow> bool" where
  "fs_call c path r \<longleftrightarrow>
     SignKeys r = (fcAccessKey c, fcSecretKey c) \<and> UserAgent r = fcUserAgent c \<and>
     (\<exists>u. fcMasterUrl c = Some u \<and> RequestUrl r = url_String u @ masterPath @ path)"

lemma fs_call_request [simp]:
  "fs_call c path (kodofs_request c m (url_String u @ masterPath @ path) ct b) \<longleftrightarrow>
     (\<exists>v. fcMasterUrl c = Some v \<and> url_String v = url_String u)"
  by (auto simp: fs_call_def kodofs_request_def)

lemma kodofs_send_sends:
  assumes "\<And>u. fcMasterUrl c = Some u \<Longrightarrow>
    P (kodofs_request c method (url_String u @ masterPath @ path) ctype body)"
  shows "sends P (kodofs_send env c op on_error decode method path ctype body)"
proof (cases "fcMasterUrl c")
  case None
  then show ?thesis by (simp add: kodofs_send_def)
next
  case (Some u)
  then show ?thesis unfolding kodofs_send_def Let_def
    by (simp, intro sends_and_then sends_wrap sends_lift sends_http_Do assms) (simp add: Some)
qed

text \<open>With a nil address every method panics before it sends anything.\<close>

lemma kodofs_send_nil:
  "fcMasterUrl c = None \<Longrightarrow>
     kodofs_send env c op on_error decode method path ctype body s = (Inl (Panic ''nil pointer dereference''), s)"
  by (simp add: kodofs_send_def fail_def)

end
