(* ===== verification/Kodofs_Controller.thy ===== *)
theory Kodofs_Controller
  imports Kodofs_Parameter_Facts Kodofs_Client Mount_Local Kodo_Delete_Volume Go_Path
begin

text \<open>
  \<^verbatim>\<open>plugin/kodofs_controller_server.go\<close>: CreateVolume and DeleteVolume of the KodoFS driver.  As in
  the Kodo driver a call holds the lock of the volume map while it works, so each is a function on
  the map and the process state.

  The loop that archives a retained volume has no exit but errors.  It runs with fuel; \<open>None\<close>
  means that it is still running when the fuel is used up.
\<close>

section \<open>CreateVolume\<close>

definition kodofs_context :: "fsp \<Rightarrow> url \<Rightarrow> url \<Rightarrow> string \<Rightarrow> string \<Rightarrow> string \<Rightarrow> ctx_table" where
  "kodofs_context p mnt mas gateway apId token =
     [(FIELD_GATEWAY_ID, Some gateway),
      (FIELD_ACCESS_POINT_ID, Some apId),
      (FIELD_ACCESS_TOKEN, Some token),
      (FIELD_ACCESS_KEY, Some (fsAccessKey p)),
      (FIELD_SECRET_KEY, Some (fsSecretKey p)),
      (FIELD_MOUNT_SERVER_ADDRESS, Some (url_String mnt)),
      (FIELD_MASTER_SERVER_ADDRESS, Some (url_String mas)),
      (FIELD_REGION, Some (fsRegion p)),
      (FIELD_FS_TYPE, Some (FormatUint (ucast (fsType p)))),
      (FIELD_BLOCK_SIZE, Some (FormatUint (ucast (fsBlockSize p))))]"

text \<open>\<^verbatim>\<open>u.String()\<close> on a pointer.\<close>

definition deref_url :: "url option \<Rightarrow> url result" where
  "deref_url u = (case u of None \<Rightarrow> Inl (Panic ''nil pointer dereference'') | Some v \<Rightarrow> Inr v)"

definition kodofs_client :: "'w env \<Rightarrow> fsp \<Rightarrow> KodoFSClient" where
  "kodofs_client env p =
     NewKodoFSClient (fsAccessKey p) (fsSecretKey p) (fsMasterServerAddress p) (VERSION env) (COMMITID env)"

definition kodofs_make_volume :: "'w env \<Rightarrow> create_request \<Rightarrow> ('w, csi_volume) action" where
  "kodofs_make_volume env req =
     and_then (lift_result (parseKodoFSStorageClassParameter ''CreateVolume'' (Parameters req) (Secrets req) False)) (\<lambda>p.
     and_then (wrap_error (Wrapf ''create mount'' [ReqName req])
         (Fs_CreateVolume env (kodofs_client env p) (ReqName req) (ReqName req) (fsRegion p) (fsType p) (fsBlockSize p))) (\<lambda>gateway.
     and_then (wrap_error (Wrapf ''create access point'' [ReqName req])
         (CreateAccessPoint env (kodofs_client env p) (ReqName req) (ReqName req))) (\<lambda>apId.
     and_then (wrap_error (Wrapf ''get access token'' [apId])
         (GetAccessToken env (kodofs_client env p) apId)) (\<lambda>token.
     and_then (lift_result (deref_url (fsMountServerAddress p))) (\<lambda>mnt.
     and_then (lift_result (deref_url (fsMasterServerAddress p))) (\<lambda>mas.
     succeed \<lparr>CapacityBytes = RequiredBytes req, VolumeID = ReqName req,
       VolumeContext = context_of (kodofs_context p mnt mas gateway apId token)\<rparr>))))))"

definition KodoFS_CreateVolume ::
    "'w env \<Rightarrow> create_request \<Rightarrow> volumes \<times> 'w pstate \<Rightarrow> csi_volume result \<times> volumes \<times> 'w pstate" where
  "KodoFS_CreateVolume env req st =
     (case st of (vols, s) \<Rightarrow>
        (case vols (ReqName req) of
           Some volume \<Rightarrow> (Inr volume, vols, s)
         | None \<Rightarrow>
             (case kodofs_make_volume env req s of
                (Inl e, s') \<Rightarrow> (Inl e, vols, s')
              | (Inr volume, s') \<Rightarrow> (Inr volume, vols(ReqName req \<mapsto> volume), s'))))"

section \<open>DeleteVolume, reclaim policy Delete\<close>

fun remove_entries :: "'w host \<Rightarrow> string \<Rightarrow> string list \<Rightarrow> ('w, unit) action" where
  "remove_entries host path [] = succeed ()"
| "remove_entries host path (entry # entries) =
     and_then (wrap_error (Wrapf ''failed to clean volume file'' [Join [path, entry]])
         (host_call (os_RemoveAll host (Join [path, entry]))))
       (\<lambda>_. remove_entries host path entries)"

text \<open>
  After emptying the volume: unmount it and only then remove the access point and the volume.  A
  failed unmount of a path that is not reported as mounted is not an error, and nothing is removed.
  The error for a path that is still mounted wraps a nil error.
\<close>

definition unmount_and_remove ::
    "'w env \<Rightarrow> 'w host \<Rightarrow> KodoFSClient \<Rightarrow> string \<Rightarrow> string \<Rightarrow> string \<Rightarrow> ('w, unit) action" where
  "unmount_and_remove env host c path apId volumeId s =
     (case umount host path s of
        (Inl e, s1) \<Rightarrow>
          and_then (wrap_error (Wrapf ''failed to check if mounted'' [path]) (isKodoFSMounted host path))
            (\<lambda>mounted. if mounted then fail (Errorf ''failed to umount'' [path]) else succeed ()) s1
      | (Inr _, s1) \<Rightarrow>
          and_then (wrap_error (Wrapf ''remove access point'' [apId]) (RemoveAccessPoint env c apId))
            (\<lambda>_. wrap_error (Wrapf ''delete volume'' [volumeId]) (RemoveVolume env c volumeId)) s1)"

definition empty_and_remove ::
    "'w env \<Rightarrow> 'w host \<Rightarrow> KodoFSClient \<Rightarrow> string \<Rightarrow> string \<Rightarrow> string \<Rightarrow> ('w, unit) action" where
  "empty_and_remove env host c path apId volumeId =
     and_then (wrap_error (Wrapf ''failed to list all directory entries'' [path]) (host_read (os_ReadDir host path)))
       (\<lambda>entries. and_then (remove_entries host path entries)
          (\<lambda>_. unmount_and_remove env host c path apId volumeId))"

definition kodofs_delete ::
    "'w env \<Rightarrow> 'w host \<Rightarrow> (nat \<Rightarrow> nat) \<Rightarrow> KodoFSClient \<Rightarrow> string \<Rightarrow> kodofsPvParameter \<Rightarrow> ('w, unit) action" where
  "kodofs_delete env host draws c volumeId p =
     and_then (wrap_error (Wrapf ''failed to check if volume exists'' [volumeId]) (IsVolumeExists env c volumeId))
       (\<lambda>found. if \<not> found then succeed () else
          and_then (wrap_error (Wrapf ''failed to create temporary mount point'' [])
              (host_call (os_MkdirTemp host [] ''temp-mnt-point-*'')))
            (\<lambda>path. deferring (host_call (os_Remove host path))
               (and_then (wrap_error (Wrapf ''failed to mount kodofs'' [path])
                   (mountKodoFSLocally host draws volumeId (gatewayID p) path
                     (fsMountServerAddress (kodofsStorageClass p)) (accessToken p) ''/''))
                 (\<lambda>_. deferring (umount host path)
                    (empty_and_remove env host c path (accessPointId p) volumeId)))))"

section \<open>DeleteVolume, other reclaim policies\<close>

definition archiveName :: "nat \<Rightarrow> string \<Rightarrow> string" where
  "archiveName i volumeId = ''deleted-'' @ decimal i @ ''-'' @ volumeId"

definition archive_step :: "'w env \<Rightarrow> KodoFSClient \<Rightarrow> string \<Rightarrow> nat \<Rightarrow> ('w, unit) action" where
  "archive_step env c volumeId i =
     and_then (wrap_error (Wrapf ''get volume'' [archiveName i volumeId])
         (IsVolumeExists env c (archiveName i volumeId)))
       (\<lambda>found. if found then succeed ()
          else wrap_error (Wrapf ''rename volume'' [volumeId, archiveName i volumeId])
            (RenameVolume env c volumeId (archiveName i volumeId)))"

fun archive_loop ::
    "'w env \<Rightarrow> KodoFSClient \<Rightarrow> string \<Rightarrow> nat \<Rightarrow> nat \<Rightarrow> 'w pstate \<Rightarrow> (unit result \<times> 'w pstate) option" where
  "archive_loop env c volumeId i 0 s = None"
| "archive_loop env c volumeId i (Suc fuel) s =
     (case archive_step env c volumeId i s of
        (Inl e, s1) \<Rightarrow> Some (Inl e, s1)
      | (Inr _, s1) \<Rightarrow> archive_loop env c volumeId (Suc i) fuel s1)"

definition kodofs_retain ::
    "'w env \<Rightarrow> KodoFSClient \<Rightarrow> nat \<Rightarrow> string \<Rightarrow> kodofsPvParameter \<Rightarrow> 'w pstate \<Rightarrow>
       (unit result \<times> 'w pstate) option" where
  "kodofs_retain env c fuel volumeId p s =
     (case wrap_error (Wrapf ''remove access point'' [accessPointId p])
             (RemoveAccessPoint env c (accessPointId p)) s of
        (Inl e, s1) \<Rightarrow> Some (Inl e, s1)
      | (Inr _, s1) \<Rightarrow> archive_loop env c volumeId 0 fuel s1)"

definition kodofs_delete_parsed ::
    "'w env \<Rightarrow> 'w host \<Rightarrow> (nat \<Rightarrow> nat) \<Rightarrow> nat \<Rightarrow> string \<Rightarrow> string \<Rightarrow> kodofsPvParameter \<Rightarrow> 'w pstate \<Rightarrow>
       (unit result \<times> 'w pstate) option" where
  "kodofs_delete_parsed env host draws fuel volumeId policy p s =
     (let c = kodofs_client env (kodofsStorageClass p) in
      if policy = PersistentVolumeReclaimDelete then Some (kodofs_delete env host draws c volumeId p s)
      else kodofs_retain env c fuel volumeId p s)"

definition KodoFS_DeleteVolume ::
    "'w env \<Rightarrow> 'w host \<Rightarrow> (string \<Rightarrow> pv_info result) \<Rightarrow> (nat \<Rightarrow> nat) \<Rightarrow> nat \<Rightarrow> delete_request \<Rightarrow>
       volumes \<times> 'w pstate \<Rightarrow> (unit result \<times> volumes \<times> 'w pstate) option" where
  "KodoFS_DeleteVolume env host getPv draws fuel req st =
     (case st of (vols, s) \<Rightarrow>
      case getPv (DelVolumeId req) of
        Inl e \<Rightarrow> Some (Inl (Wrapf ''get volume info from Kubernetes'' [DelVolumeId req] e), vols, s)
      | Inr pv \<Rightarrow>
          (case VolumeAttributes pv of
             None \<Rightarrow> Some (Inl (Panic ''nil pointer dereference''), vols, s)
           | Some (ctx1, ctx2) \<Rightarrow>
               (case parseKodoFSPvParameter ''DeleteVolume'' ctx1 ctx2 (DelSecrets req) of
                  Inl e \<Rightarrow> Some (Inl e, vols, s)
                | Inr p \<Rightarrow>
                    map_option (\<lambda>(r, s1). (r, vols(DelVolumeId req := None), s1))
                      (kodofs_delete_parsed env host draws fuel (DelVolumeId req) (ReclaimPolicy pv) p s))))"

end
