(* ===== verification/Kodofs_Controller_Facts.thy ===== *)
theory Kodofs_Controller_Facts
  imports Kodofs_Controller
begin

text \<open>
  Properties of the KodoFS controller: the stored context is read back, what a successful deletion
  has done, and that the other reclaim policies never lead to a successful deletion.
\<close>

section \<open>The context of a created volume\<close>

lemma kodofs_context_distinct: "distinct (map fst (kodofs_context p mnt mas gw ap tok))"
  by (simp add: kodofs_context_def)

definition fs_storable :: "fsp \<Rightarrow> url \<Rightarrow> url \<Rightarrow> string \<Rightarrow> string \<Rightarrow> string \<Rightarrow> bool" where
  "fs_storable p mnt mas gw ap tok \<longleftrightarrow>
     list_all trimmed [fsAccessKey p, fsSecretKey p, fsRegion p, gw, ap, tok] \<and> gw \<noteq> [] \<and> tok \<noteq> [] \<and>
     fsMountServerAddress p = Some mnt \<and> fsMasterServerAddress p = Some mas \<and>
     url_stable mnt \<and> url_stable mas \<and> fsBlockSize p \<noteq> 0"

lemma parseUint_FormatUint: "parseUint (FormatUint n) = Inr n"
  using parseUint_format [of n] by (simp add: plugin_formatUint_def)

lemma ucast_back: "ucast (ucast (n :: 8 word) :: 64 word) = n" "ucast (ucast (m :: 32 word) :: 64 word) = m"
  by (simp_all add: ucast_up_ucast_id is_up)

lemma val_narrow_printed:
  "val_narrow (Some (FormatUint (ucast (n :: 8 word)))) = n"
  "val_narrow (Some (FormatUint (ucast (m :: 32 word)))) = m"
  by (simp_all add: val_narrow_def val_uint_def parseUint_FormatUint ucast_back)

lemma kodofs_context_sc:
  assumes "fs_storable p mnt mas gw ap tok"
  shows "fs_sc_spec (fields_of (context_of (kodofs_context p mnt mas gw ap tok))) = p"
  using assms unfolding fs_sc_spec_def context_fields [OF kodofs_context_distinct]
  by (simp add: kodofs_context_def fs_storable_def val_roundtrips val_narrow_printed val_url_def
      url_stable_def)

lemma kodofs_context_pv:
  assumes "fs_storable p mnt mas gw ap tok"
  shows "fs_pv_spec q (fields_of (context_of (kodofs_context p mnt mas gw ap tok))) =
    \<lparr>kodofsStorageClass = q, gatewayID = gw, accessToken = tok, accessPointId = ap\<rparr>"
  using assms unfolding fs_pv_spec_def context_fields [OF kodofs_context_distinct]
  by (simp add: kodofs_context_def fs_storable_def val_roundtrips)

lemma kodofs_context_accepted:
  assumes "fs_storable p mnt mas gw ap tok"
  shows "entries_ok fs_sc_ok (context_of (kodofs_context p mnt mas gw ap tok))"
  unfolding entries_ok_context
  using assms by (simp add: kodofs_context_def fs_sc_ok_def fs_storable_def url_stable_def
      parseUint_FormatUint)

lemma fs_sc_secrets_ignored:
  assumes "fsMountServerAddress p = Some mnt" "fsMasterServerAddress p = Some mas" "fsBlockSize p \<noteq> 0"
  shows "fs_sc_secrets fn [] True p = Inr p"
proof -
  have "fs_text fn [] True f cur = Inr cur" for f cur
    by (simp add: fs_text_def secret_def)
  with assms show ?thesis
    by (cases p) (simp add: fs_sc_secrets_def fs_url_def fs_blockSize_default_def)
qed

lemma kodofs_context_parse:
  assumes "fs_storable p mnt mas gw ap tok"
    and "same_gomap (context_of (kodofs_context p mnt mas gw ap tok)) ctx1"
    and "same_gomap (context_of (kodofs_context p mnt mas gw ap tok)) ctx2"
  shows "parseKodoFSPvParameter fn ctx1 ctx2 secrets =
    Inr \<lparr>kodofsStorageClass = p, gatewayID = gw, accessToken = tok, accessPointId = ap\<rparr>"
proof -
  let ?ctx = "context_of (kodofs_context p mnt mas gw ap tok)"
  let ?q = "\<lparr>kodofsStorageClass = p, gatewayID = gw, accessToken = tok, accessPointId = ap\<rparr>"
  have nc: "no_case_clash ?ctx" by (rule context_no_case_clash [OF kodofs_context_distinct])
  have "fs_sc_secrets fn [] True p = Inr p"
    using assms(1) by (intro fs_sc_secrets_ignored) (auto simp: fs_storable_def)
  then have "parseKodoFSStorageClassParameter fn ?ctx [] True = Inr p"
    by (simp add: parse_fs_sc_iff kodofs_context_sc [OF assms(1)] kodofs_context_accepted [OF assms(1)])
  then have "kodofsStorageClass (fs_pv_start fn ctx1) = p"
    using fs_pv_start_order [OF assms(2) nc, of fn] by (simp add: fs_pv_start_def)
  moreover have "fields_of ctx2 = fields_of ?ctx" using fields_of_same [OF assms(3) nc] by simp
  moreover have "fs_pv_secrets fn secrets ?q = Inr ?q"
    using assms(1) by (simp add: fs_pv_secrets_def fs_pv_mountServer_def required_def fs_storable_def)
  ultimately show ?thesis
    by (simp add: parse_fs_pv_eq kodofs_context_pv [OF assms(1)])
qed

text \<open>
  C24: the context KodoFS CreateVolume stores is read back, in any iteration order and whatever
  the secrets, to the parameters, gateway, access point and token it was printed from.
\<close>

theorem kodofs_context_roundtrip:
  assumes "fs_storable p mnt mas gw ap tok"
    and "same_gomap (context_of (kodofs_context p mnt mas gw ap tok)) ctx1"
    and "same_gomap (context_of (kodofs_context p mnt mas gw ap tok)) ctx2"
  shows "parseKodoFSPvParameter fn ctx1 ctx2 secrets =
    Inr \<lparr>kodofsStorageClass = p, gatewayID = gw, accessToken = tok, accessPointId = ap\<rparr>"
  using assms by (rule kodofs_context_parse)

definition demo_fsp :: fsp where
  "demo_fsp = \<lparr>fsAccessKey = ''ak'', fsSecretKey = ''sk'',
     fsMountServerAddress = Some (endpoint_url ''http'' ''uc.example.com'' []),
     fsMasterServerAddress = Some demo_s3, fsRegion = ''b1'', fsType = 3, fsBlockSize = 4096\<rparr>"

lemma demo_fs_storable:
  "fs_storable demo_fsp (endpoint_url ''http'' ''uc.example.com'' []) demo_s3 ''uak'' ''usk'' ''b1''"
  by (simp add: fs_storable_def demo_fsp_def demo_trimmed endpoint_stable demo_endpoints demo_s3_def)

theorem kodofs_context_roundtrip_witness:
  "let ctx = context_of (kodofs_context demo_fsp (endpoint_url ''http'' ''uc.example.com'' []) demo_s3
       ''uak'' ''usk'' ''b1'')
   in parseKodoFSPvParameter ''f'' (rev ctx) ctx [(''gatewayid'', ''other'')] =
     Inr \<lparr>kodofsStorageClass = demo_fsp, gatewayID = ''uak'', accessToken = ''b1'', accessPointId = ''usk''\<rparr>"
  using kodofs_context_roundtrip [OF demo_fs_storable, of _ _ "''f''" "[(''gatewayid'', ''other'')]"]
  by (simp add: Let_def same_gomap_def)


section \<open>Creation\<close>

lemma parse_fs_sc_create:
  assumes "parseKodoFSStorageClassParameter fn ctx secrets False = Inr p"
  shows "(\<exists>mnt mas. fsMountServerAddress p = Some mnt \<and> fsMasterServerAddress p = Some mas) \<and>
    fsBlockSize p \<noteq> 0 \<and> list_all trimmed [fsAccessKey p, fsSecretKey p, fsRegion p]"
proof -
  have trim: "fs_text fn secrets False f (val_string v) = Inr r \<Longrightarrow> trimmed r" for f v r
    by (auto simp: fs_text_def split: if_splits option.splits)
  from assms have "fs_sc_secrets fn secrets False (fs_sc_spec (fields_of ctx)) = Inr p"
    by (simp add: parse_fs_sc_iff)
  then show ?thesis
    by (auto simp: fs_sc_secrets_iff fs_sc_spec_def intro: trim dest: fs_url_set split: if_splits)
qed

lemma kodofs_make_volume_Inr:
  "kodofs_make_volume env req s = (Inr v, s') \<longleftrightarrow>
     (\<exists>p mnt mas gw ap tok s1 s2.
        parseKodoFSStorageClassParameter ''CreateVolume'' (Parameters req) (Secrets req) False = Inr p \<and>
        fsMountServerAddress p = Some mnt \<and> fsMasterServerAddress p = Some mas \<and>
        Fs_CreateVolume env (kodofs_client env p) (ReqName req) (ReqName req) (fsRegion p) (fsType p)
          (fsBlockSize p) s = (Inr gw, s1) \<and>
        CreateAccessPoint env (kodofs_client env p) (ReqName req) (ReqName req) s1 = (Inr ap, s2) \<and>
        GetAccessToken env (kodofs_client env p) ap s2 = (Inr tok, s') \<and>
        v = \<lparr>CapacityBytes = RequiredBytes req, VolumeID = ReqName req,
          VolumeContext = context_of (kodofs_context p mnt mas gw ap tok)\<rparr>)"
  by (auto simp: kodofs_make_volume_def and_then_Inr wrap_error_Inr lift_result_def succeed_def
      deref_url_def split: option.splits)

text \<open>
  A KodoFS volume that is newly created went through the creation of the volume, of its access
  point and of a token, in this order and with the parsed parameters; the volume map gains exactly
  this volume, and when the service answers with trimmed, non-empty values and the addresses print
  to their own text, its context is read back to those answers.
\<close>

theorem KodoFS_CreateVolume_context:
  assumes "KodoFS_CreateVolume env req (vols, s) = (Inr v, vols', s')" "vols (ReqName req) = None"
  shows "\<exists>p mnt mas gw ap tok s1 s2.
    parseKodoFSStorageClassParameter ''CreateVolume'' (Parameters req) (Secrets req) False = Inr p \<and>
    Fs_CreateVolume env (kodofs_client env p) (ReqName req) (ReqName req) (fsRegion p) (fsType p)
      (fsBlockSize p) s = (Inr gw, s1) \<and>
    CreateAccessPoint env (kodofs_client env p) (ReqName req) (ReqName req) s1 = (Inr ap, s2) \<and>
    GetAccessToken env (kodofs_client env p) ap s2 = (Inr tok, s') \<and>
    vols' = vols(ReqName req \<mapsto> v) \<and> VolumeID v = ReqName req \<and>
    fsMountServerAddress p = Some mnt \<and> fsMasterServerAddress p = Some mas \<and>
    (list_all trimmed [gw, ap, tok] \<and> gw \<noteq> [] \<and> tok \<noteq> [] \<and> url_stable mnt \<and> url_stable mas \<longrightarrow>
      (\<forall>fn secrets. parseKodoFSPvParameter fn (VolumeContext v) (VolumeContext v) secrets =
        Inr \<lparr>kodofsStorageClass = p, gatewayID = gw, accessToken = tok, accessPointId = ap\<rparr>))"
proof -
  from assms have make: "kodofs_make_volume env req s = (Inr v, s')" "vols' = vols(ReqName req \<mapsto> v)"
    by (auto simp: KodoFS_CreateVolume_def split: prod.splits sum.splits)
  from make(1) obtain p mnt mas gw ap tok s1 s2 where
    p: "parseKodoFSStorageClassParameter ''CreateVolume'' (Parameters req) (Secrets req) False = Inr p"
    and u: "fsMountServerAddress p = Some mnt" "fsMasterServerAddress p = Some mas"
    and c: "Fs_CreateVolume env (kodofs_client env p) (ReqName req) (ReqName req) (fsRegion p) (fsType p)
          (fsBlockSize p) s = (Inr gw, s1)"
      "CreateAccessPoint env (kodofs_client env p) (ReqName req) (ReqName req) s1 = (Inr ap, s2)"
      "GetAccessToken env (kodofs_client env p) ap s2 = (Inr tok, s')"
    and v: "v = \<lparr>CapacityBytes = RequiredBytes req, VolumeID = ReqName req,
          VolumeContext = context_of (kodofs_context p mnt mas gw ap tok)\<rparr>"
    unfolding kodofs_make_volume_Inr by blast
  have "parseKodoFSPvParameter fn (VolumeContext v) (VolumeContext v) secrets =
      Inr \<lparr>kodofsStorageClass = p, gatewayID = gw, accessToken = tok, accessPointId = ap\<rparr>"
    if "list_all trimmed [gw, ap, tok] \<and> gw \<noteq> [] \<and> tok \<noteq> [] \<and> url_stable mnt \<and> url_stable mas" for fn secrets
    using that parse_fs_sc_create [OF p] u
    by (intro kodofs_context_parse) (auto simp: v fs_storable_def)
  moreover have "VolumeID v = ReqName req" by (simp add: v)
  ultimately show ?thesis using p u c make(2) by blast
qed

definition demo_fs_request :: create_request where
  "demo_fs_request = \<lparr>ReqName = ''pv'', Parameters = [(''accessKey'', ''ak''), (''secretkey'', ''sk''),
     (''mntsvraddr'', ''http://uc.example.com''), (''mastersvraddr'', ''https://s3.example.com''),
     (''region'', ''z0'')], Secrets = [], RequiredBytes = 5\<rparr>"

definition demo_fs_script :: "http_response list" where
  "demo_fs_script = [answer 200 [JObj [(''volume'', JStr ''gw'')]], answer 500 [JObj [(''accessId'', JStr ''ap'')]],
     answer 200 [JObj [(''code'', JNum 0), (''accessToken'', JStr ''tok'')]]]"

definition demo_fs_run :: "csi_volume result \<times> volumes \<times> http_response list pstate" where
  "demo_fs_run = KodoFS_CreateVolume script_env demo_fs_request (Map.empty, script_state demo_fs_script)"

theorem KodoFS_CreateVolume_context_witness:
  "\<exists>v. fst demo_fs_run = Inr v \<and> fst (snd demo_fs_run) = [''pv'' \<mapsto> v] \<and> VolumeID v = ''pv''"
proof -
  have "is_ok (fst demo_fs_run)" by code_simp
  then obtain v where v: "fst demo_fs_run = Inr v" by (auto simp: is_ok_iff)
  then have "KodoFS_CreateVolume script_env demo_fs_request (Map.empty, script_state demo_fs_script) =
      (Inr v, fst (snd demo_fs_run), snd (snd demo_fs_run))"
    by (metis demo_fs_run_def prod.collapse)
  from KodoFS_CreateVolume_context [OF this] v show ?thesis by (auto simp: demo_fs_request_def)
qed

section \<open>Deletion\<close>

lemma archive_loop_not_ok: "archive_loop env c volumeId i fuel s = Some (r, s') \<Longrightarrow> \<not> is_ok r"
proof (induction fuel arbitrary: i s)
  case (Suc fuel)
  then show ?case by (auto split: prod.splits sum.splits)
qed simp

lemma kodofs_retain_not_ok: "kodofs_retain env c fuel volumeId p s = Some (r, s') \<Longrightarrow> \<not> is_ok r"
  by (auto simp: kodofs_retain_def split: prod.splits sum.splits dest: archive_loop_not_ok)

lemma archive_loop_runs:
  assumes "\<And>i s. is_ok (fst (archive_step env c volumeId i s))"
  shows "archive_loop env c volumeId i fuel s = None"
proof (induction fuel arbitrary: i s)
  case (Suc fuel)
  with assms [of i s] show ?case by (auto split: prod.splits sum.splits)
qed simp

text \<open>
  C26: with a reclaim policy other than Delete, deleting a KodoFS volume never succeeds, however
  long it runs and whatever the services answer: the loop that looks for a free archive name does
  not stop after the renaming.
\<close>

theorem KodoFS_DeleteVolume_retain:
  assumes "getPv (DelVolumeId req) = Inr pv" "ReclaimPolicy pv \<noteq> PersistentVolumeReclaimDelete"
    and "KodoFS_DeleteVolume env host getPv draws fuel req (vols, s) = Some (r, vols', s')"
  shows "\<not> is_ok r"
  using assms
  by (auto simp: KodoFS_DeleteVolume_def kodofs_delete_parsed_def Let_def
      dest: kodofs_retain_not_ok split: sum.splits option.splits)


lemma umount_and_remove_ok:
  assumes "unmount_and_remove env host c path ap volumeId s = (Inr (), s')"
  shows "(\<exists>s1 s2. umount host path s = (Inr (), s1) \<and> RemoveAccessPoint env c ap s1 = (Inr (), s2) \<and>
        RemoveVolume env c volumeId s2 = (Inr (), s')) \<or>
    (\<exists>e. umount host path s = (Inl e, s') \<and> isKodoFSMounted host path s' = (Inr False, s'))"
proof (cases "umount host path s")
  case (Pair r s1)
  show ?thesis
  proof (cases r)
    case (Inl e)
    with assms Pair obtain b where b: "isKodoFSMounted host path s1 = (Inr b, s')" "\<not> b"
      by (auto simp: unmount_and_remove_def and_then_Inr wrap_error_Inr succeed_def fail_def isKodoFSMounted_def
          split: if_splits dest: isMounted_state)
    moreover have "s' = s1" using b(1) unfolding isKodoFSMounted_def by (rule isMounted_state)
    ultimately show ?thesis using Pair Inl by auto
  next
    case (Inr u)
    with assms Pair show ?thesis
      by (auto simp: unmount_and_remove_def and_then_Inr wrap_error_Inr)
  qed
qed

text \<open>
  What has happened when the body of a deletion under policy Delete ends without an error: the
  volume was not found; or its root was mounted on a temporary directory and emptied, and then
  either the directory was unmounted and the access point and the volume were removed, or the
  unmounting failed while the mount table was empty, and neither of them was removed.
\<close>

definition fs_mounted_and_emptied ::
    "'w env \<Rightarrow> 'w host \<Rightarrow> (nat \<Rightarrow> nat) \<Rightarrow> KodoFSClient \<Rightarrow> string \<Rightarrow> kodofsPvParameter \<Rightarrow> string \<Rightarrow>
       'w pstate \<Rightarrow> 'w pstate \<Rightarrow> bool" where
  "fs_mounted_and_emptied env host draws c volumeId p path s sc \<longleftrightarrow>
     (\<exists>s0 st sm entries. IsVolumeExists env c volumeId s = (Inr True, s0) \<and>
        host_call (os_MkdirTemp host [] ''temp-mnt-point-*'') s0 = (Inr path, st) \<and>
        mountKodoFSLocally host draws volumeId (gatewayID p) path
          (fsMountServerAddress (kodofsStorageClass p)) (accessToken p) ''/'' st = (Inr (), sm) \<and>
        os_ReadDir host path (remote sm) = Inr entries \<and> remove_entries host path entries sm = (Inr (), sc))"

lemma umount_sent: "sent (snd (umount host path s)) = sent s"
  by (auto simp: umount_def and_then_def succeed_def host_call_def split: prod.split sum.split)

lemma kodofs_delete_success:
  assumes "mounts_as_documented host table"
    and "kodofs_delete env host draws c volumeId p s = (Inr (), s')"
  shows "IsVolumeExists env c volumeId s = (Inr False, s') \<or>
    (\<exists>path sc. fs_mounted_and_emptied env host draws c volumeId p path s sc \<and>
      ((\<exists>s1 s2 s3. umount host path sc = (Inr (), s1) \<and>
          RemoveAccessPoint env c (accessPointId p) s1 = (Inr (), s2) \<and>
          RemoveVolume env c volumeId s2 = (Inr (), s3)) \<or>
       (\<exists>e su. umount host path sc = (Inl e, su) \<and> table (remote su) = [] \<and> sent s' = sent su)))"
proof -
  from assms(2) obtain found s0 where ex: "IsVolumeExists env c volumeId s = (Inr found, s0)"
    by (auto simp: kodofs_delete_def and_then_Inr wrap_error_Inr)
  show ?thesis
  proof (cases found)
    case False
    with assms(2) ex show ?thesis by (auto simp: kodofs_delete_def and_then_Inr wrap_error_Inr succeed_def)
  next
    case True
    then have ex: "IsVolumeExists env c volumeId s = (Inr True, s0)" using ex by simp
    with assms(2) obtain path st sm se where
      tmp: "host_call (os_MkdirTemp host [] ''temp-mnt-point-*'') s0 = (Inr path, st)"
      and mnt: "mountKodoFSLocally host draws volumeId (gatewayID p) path
        (fsMountServerAddress (kodofsStorageClass p)) (accessToken p) ''/'' st = (Inr (), sm)"
      and emp: "empty_and_remove env host c path (accessPointId p) volumeId sm = (Inr (), se)"
      and s': "s' = snd (host_call (os_Remove host path) (snd (umount host path se)))"
      by (auto simp: kodofs_delete_def and_then_Inr wrap_error_Inr deferring_Inr)
    from emp obtain entries sc where
      rd: "os_ReadDir host path (remote sm) = Inr entries" "remove_entries host path entries sm = (Inr (), sc)"
      and fin: "unmount_and_remove env host c path (accessPointId p) volumeId sc = (Inr (), se)"
      by (auto simp: empty_and_remove_def and_then_Inr wrap_error_Inr host_read_def)
    have "fs_mounted_and_emptied env host draws c volumeId p path s sc"
      unfolding fs_mounted_and_emptied_def using ex tmp mnt rd by fast
    moreover have "table (remote su) = []" if "isKodoFSMounted host path su = (Inr False, su)" for su
      using that isMounted_counted [OF assms(1), of su path FuseTypeKodoFS] by (auto simp: isKodoFSMounted_def)
    moreover have "sent s' = sent se"
      unfolding s' by (simp add: host_call_sent [OF prod.collapse [symmetric]] umount_sent)
    ultimately show ?thesis using umount_and_remove_ok [OF fin] by blast
  qed
qed

text \<open>
  C25: a DeleteVolume of KodoFS that succeeds under policy Delete read the parameters of the volume,
  forgot it, and in one of three ways was done with its data.  It found that the volume does not
  exist; or it mounted the volume, removed every entry of its root, unmounted it and removed the
  access point and the volume, in this order; or the unmounting failed while no mount was in the
  mount table, and it sent nothing more: then the volume is reported as deleted and still exists.
\<close>

theorem KodoFS_DeleteVolume_success:
  assumes "mounts_as_documented host table" "getPv (DelVolumeId req) = Inr pv"
    and "ReclaimPolicy pv = PersistentVolumeReclaimDelete"
    and "KodoFS_DeleteVolume env host getPv draws fuel req (vols, s) = Some (Inr (), vols', s')"
  shows "\<exists>ctx1 ctx2 p. let v = DelVolumeId req; c = kodofs_client env (kodofsStorageClass p) in
    VolumeAttributes pv = Some (ctx1, ctx2) \<and>
    parseKodoFSPvParameter ''DeleteVolume'' ctx1 ctx2 (DelSecrets req) = Inr p \<and> vols' = vols(v := None) \<and>
    (IsVolumeExists env c v s = (Inr False, s') \<or>
     (\<exists>path sc. fs_mounted_and_emptied env host draws c v p path s sc \<and>
      ((\<exists>s1 s2 s3. umount host path sc = (Inr (), s1) \<and>
          RemoveAccessPoint env c (accessPointId p) s1 = (Inr (), s2) \<and>
          RemoveVolume env c v s2 = (Inr (), s3)) \<or>
       (\<exists>e su. umount host path sc = (Inl e, su) \<and> table (remote su) = [] \<and> sent s' = sent su))))"
proof -
  from assms(2-4) obtain ctx1 ctx2 p where attrs: "VolumeAttributes pv = Some (ctx1, ctx2)"
    "parseKodoFSPvParameter ''DeleteVolume'' ctx1 ctx2 (DelSecrets req) = Inr p" "vols' = vols(DelVolumeId req := None)"
    and del: "kodofs_delete env host draws (kodofs_client env (kodofsStorageClass p)) (DelVolumeId req) p s = (Inr (), s')"
    by (auto simp: KodoFS_DeleteVolume_def kodofs_delete_parsed_def Let_def split: sum.splits option.splits prod.splits)
  show ?thesis
    unfolding Let_def
    by (rule exI [of _ ctx1], rule exI [of _ ctx2], rule exI [of _ p], intro conjI attrs)
      (rule kodofs_delete_success [OF assms(1) del])
qed

definition demo_fs_context :: gomap where
  "demo_fs_context = context_of (kodofs_context demo_fsp (endpoint_url ''http'' ''uc.example.com'' []) demo_s3
     ''uak'' ''usk'' ''b1'')"

definition demo_fs_deletable :: pv_info where
  "demo_fs_deletable = \<lparr>VolumeAttributes = Some (demo_fs_context, demo_fs_context),
     ReclaimPolicy = PersistentVolumeReclaimDelete\<rparr>"

definition demo_fs_parsed :: kodofsPvParameter where
  "demo_fs_parsed = \<lparr>kodofsStorageClass = demo_fsp, gatewayID = ''uak'', accessToken = ''b1'', accessPointId = ''usk''\<rparr>"

definition three_answers :: "http_response list pstate" where
  "three_answers = script_state [answer 200 [JObj []], answer 200 [JObj []], answer 200 [JObj []]]"

lemma demo_fs_parsed: "parseKodoFSPvParameter fn demo_fs_context demo_fs_context secrets = Inr demo_fs_parsed"
  using kodofs_context_parse [OF demo_fs_storable]
  by (simp add: demo_fs_context_def demo_fs_parsed_def same_gomap_def)

text \<open>The example: all three requests are answered, and the root directory is in the mount table.\<close>

theorem KodoFS_DeleteVolume_success_witness:
  "\<exists>vols' s' path sc s1 s2 s3. let c = kodofs_client script_env demo_fsp in
     KodoFS_DeleteVolume script_env rootfs_host (\<lambda>_. Inr demo_fs_deletable) (\<lambda>_. 0) 3
       \<lparr>DelVolumeId = ''pv'', DelSecrets = []\<rparr> (Map.empty, three_answers) = Some (Inr (), vols', s') \<and>
     fs_mounted_and_emptied script_env rootfs_host (\<lambda>_. 0) c ''pv'' demo_fs_parsed path three_answers sc \<and>
     umount rootfs_host path sc = (Inr (), s1) \<and> RemoveAccessPoint script_env c ''usk'' s1 = (Inr (), s2) \<and>
     RemoveVolume script_env c ''pv'' s2 = (Inr (), s3)"
proof -
  let ?del = "kodofs_delete script_env rootfs_host (\<lambda>_. 0) (kodofs_client script_env demo_fsp) ''pv'' demo_fs_parsed three_answers"
  let ?req = "\<lparr>DelVolumeId = ''pv'', DelSecrets = []\<rparr>"
  have "is_ok (fst ?del)" by code_simp
  then obtain s' where del: "?del = (Inr (), s')" by (metis is_ok_iff prod.collapse unit.exhaust)
  have p: "kodofsStorageClass demo_fs_parsed = demo_fsp" "accessPointId demo_fs_parsed = ''usk''"
    by (simp_all add: demo_fs_parsed_def)
  have run: "KodoFS_DeleteVolume script_env rootfs_host (\<lambda>_. Inr demo_fs_deletable) (\<lambda>_. 0) 3 ?req
      (Map.empty, three_answers) = Some (Inr (), Map.empty(''pv'' := None), s')"
    by (simp add: KodoFS_DeleteVolume_def kodofs_delete_parsed_def demo_fs_deletable_def demo_fs_parsed p del)
  have "fst (IsVolumeExists script_env (kodofs_client script_env demo_fsp) ''pv'' three_answers) \<noteq> Inr False"
    by code_simp
  then have found: "IsVolumeExists script_env (kodofs_client script_env demo_fsp) ''pv'' three_answers \<noteq> (Inr False, x)" for x
    by auto
  have policy: "ReclaimPolicy demo_fs_deletable = PersistentVolumeReclaimDelete" by (simp add: demo_fs_deletable_def)
  note KodoFS_DeleteVolume_success [OF rootfs_mounts, of "\<lambda>_. Inr demo_fs_deletable" ?req demo_fs_deletable, OF refl policy run]
  then obtain path sc s1 s2 s3 where
    "fs_mounted_and_emptied script_env rootfs_host (\<lambda>_. 0) (kodofs_client script_env demo_fsp) ''pv'' demo_fs_parsed
      path three_answers sc"
    "umount rootfs_host path sc = (Inr (), s1)"
    "RemoveAccessPoint script_env (kodofs_client script_env demo_fsp) ''usk'' s1 = (Inr (), s2)"
    "RemoveVolume script_env (kodofs_client script_env demo_fsp) ''pv'' s2 = (Inr (), s3)"
    by (simp add: Let_def demo_fs_deletable_def demo_fs_parsed found p) (elim exE conjE, rule that)
  with run show ?thesis unfolding Let_def by blast
qed

section \<open>A volume without a master server address\<close>

lemma wrap_error_Panic: "a s = (Inl (Panic m), s') \<Longrightarrow> wrap_error w a s = (Inl (Panic m), s')"
  by (simp add: wrap_error_def)

lemma and_then_Inl: "a s = (Inl e, s') \<Longrightarrow> and_then a k s = (Inl e, s')"
  by (simp add: and_then_def)

lemma kodofs_nil_calls:
  assumes "fcMasterUrl c = None"
  shows "IsVolumeExists env c v s = (Inl (Panic ''nil pointer dereference''), s)"
    "RemoveAccessPoint env c ap s = (Inl (Panic ''nil pointer dereference''), s)"
  by (simp_all add: IsVolumeExists_def RemoveAccessPoint_def kodofs_send_nil [OF assms])

text \<open>
  A volume whose context parses but gives no master server address (the parser does not
  require one) makes DeleteVolume panic, whatever the reclaim policy.
\<close>

theorem KodoFS_DeleteVolume_nil_master:
  assumes "getPv (DelVolumeId req) = Inr pv" "VolumeAttributes pv = Some (ctx1, ctx2)"
    and "parseKodoFSPvParameter ''DeleteVolume'' ctx1 ctx2 (DelSecrets req) = Inr p"
    and "fsMasterServerAddress (kodofsStorageClass p) = None"
  shows "KodoFS_DeleteVolume env host getPv draws fuel req (vols, s) =
    Some (Inl (Panic ''nil pointer dereference''), vols(DelVolumeId req := None), s)"
proof -
  let ?c = "kodofs_client env (kodofsStorageClass p)"
  have nil: "fcMasterUrl ?c = None" by (simp add: kodofs_client_def NewKodoFSClient_def assms(4))
  note calls = kodofs_nil_calls [OF nil]
  have "kodofs_delete env host draws ?c v p s = (Inl (Panic ''nil pointer dereference''), s)" for v
    unfolding kodofs_delete_def by (intro and_then_Inl wrap_error_Panic calls)
  moreover have "kodofs_retain env ?c fuel v p s = Some (Inl (Panic ''nil pointer dereference''), s)" for v
    by (simp add: kodofs_retain_def wrap_error_Panic [OF calls(2)])
  ultimately have "kodofs_delete_parsed env host draws fuel v pol p s =
      Some (Inl (Panic ''nil pointer dereference''), s)" for v pol
    by (simp add: kodofs_delete_parsed_def Let_def)
  then show ?thesis using assms(1-3) by (simp add: KodoFS_DeleteVolume_def)
qed

definition demo_fs_static :: pv_info where
  "demo_fs_static = \<lparr>VolumeAttributes = Some ([(''gatewayid'', ''g''), (''mntsvraddr'', ''m''), (''accesstoken'', ''t'')],
     [(''gatewayid'', ''g''), (''mntsvraddr'', ''m''), (''accesstoken'', ''t'')]), ReclaimPolicy = ''Retain''\<rparr>"

definition demo_fs_static_parameter :: "kodofsPvParameter result" where
  "demo_fs_static_parameter =
     parseKodoFSPvParameter ''DeleteVolume'' [(''gatewayid'', ''g''), (''mntsvraddr'', ''m''), (''accesstoken'', ''t'')]
       [(''gatewayid'', ''g''), (''mntsvraddr'', ''m''), (''accesstoken'', ''t'')] []"

lemma demo_fs_static_parses:
  "\<exists>p. demo_fs_static_parameter = Inr p \<and> fsMasterServerAddress (kodofsStorageClass p) = None"
proof -
  have "map_option (\<lambda>p. fsMasterServerAddress (kodofsStorageClass p)) (ok_value demo_fs_static_parameter) = Some None"
    by code_simp
  then show ?thesis by (auto simp: ok_value_def split: sum.splits)
qed

theorem KodoFS_DeleteVolume_nil_master_witness:
  "KodoFS_DeleteVolume script_env rootfs_host (\<lambda>_. Inr demo_fs_static) (\<lambda>_. 0) 3
      \<lparr>DelVolumeId = ''pv'', DelSecrets = []\<rparr> (Map.empty, script_state []) =
    Some (Inl (Panic ''nil pointer dereference''), Map.empty(''pv'' := None), script_state [])"
proof -
  obtain p where p: "demo_fs_static_parameter = Inr p" "fsMasterServerAddress (kodofsStorageClass p) = None"
    using demo_fs_static_parses by blast
  show ?thesis
    using KodoFS_DeleteVolume_nil_master [of "\<lambda>_. Inr demo_fs_static" "\<lparr>DelVolumeId = ''pv'', DelSecrets = []\<rparr>"
        demo_fs_static _ _ p script_env rootfs_host "\<lambda>_. 0" 3 Map.empty "script_state []"] p
    by (simp add: demo_fs_static_def demo_fs_static_parameter_def)
qed

theorem KodoFS_DeleteVolume_retain_witness:
  "\<not> is_ok (fst (the (KodoFS_DeleteVolume script_env rootfs_host (\<lambda>_. Inr demo_fs_static) (\<lambda>_. 0) 3
      \<lparr>DelVolumeId = ''pv'', DelSecrets = []\<rparr> (Map.empty, script_state []))))"
proof -
  let ?r = "KodoFS_DeleteVolume script_env rootfs_host (\<lambda>_. Inr demo_fs_static) (\<lambda>_. 0) 3
      \<lparr>DelVolumeId = ''pv'', DelSecrets = []\<rparr> (Map.empty, script_state [])"
  have "?r \<noteq> None" by code_simp
  then obtain r vols' s' where "?r = Some (r, vols', s')" by auto
  from KodoFS_DeleteVolume_retain [OF _ _ this, of demo_fs_static] this show ?thesis
    by (simp add: demo_fs_static_def PersistentVolumeReclaimDelete_def)
qed

end
