(* ===== verification/Protocol_Json.thy ===== *)
theory Protocol_Json
  imports Http_World Protocol
begin

text \<open>
  The commands of package \<^verbatim>\<open>protocol\<close> as JSON documents, the way \<^verbatim>\<open>encoding/json\<close> writes and reads
  the tagged structs.  A struct is described by one table that gives, per field, its name, the
  document it is written as (\<open>None\<close> for an empty field tagged \<^verbatim>\<open>omitempty\<close>) and how it is
  read.  The locale \<open>struct_codec\<close> is the contract of such a table: names are distinct up to case
  and reading the written fields into the zero value restores the struct; its lemmas are the round
  trip and the injectivity of the encoding.
\<close>

section \<open>Tables\<close>

type_synonym 'r struct_field = "string \<times> ('r \<Rightarrow> json option) \<times> (json \<Rightarrow> 'r \<Rightarrow> 'r result)"

definition enc_entry :: "'r \<Rightarrow> 'r struct_field \<Rightarrow> (string \<times> json) list" where
  "enc_entry r f = (case fst (snd f) r of None \<Rightarrow> [] | Some j \<Rightarrow> [(fst f, j)])"

definition enc_struct :: "'r struct_field list \<Rightarrow> 'r \<Rightarrow> json" where
  "enc_struct tbl r = JObj (concat (map (enc_entry r) tbl))"

definition dec_table :: "'r struct_field list \<Rightarrow> (string \<times> (json \<Rightarrow> 'r \<Rightarrow> 'r result)) list" where
  "dec_table tbl = map (\<lambda>f. (fst f, snd (snd f))) tbl"

fun replay :: "'r struct_field list \<Rightarrow> 'r \<Rightarrow> 'r \<Rightarrow> 'r result" where
  "replay [] r acc = Inr acc"
| "replay ((n, e, d) # tbl) r acc =
     (case e r of
        None \<Rightarrow> replay tbl r acc
      | Some j \<Rightarrow> (case d j acc of Inl x \<Rightarrow> Inl x | Inr acc' \<Rightarrow> replay tbl r acc'))"

definition names_distinct :: "'r struct_field list \<Rightarrow> bool" where
  "names_distinct tbl \<longleftrightarrow> distinct (map (\<lambda>f. foldName (fst f)) tbl)"

lemma find_distinct: "distinct (map g xs) \<Longrightarrow> x \<in> set xs \<Longrightarrow> find (\<lambda>y. g y = g x) xs = Some x"
  by (induction xs) auto

lemma dec_fields_replay:
  "names_distinct tbl \<Longrightarrow> set fs \<subseteq> set tbl \<Longrightarrow>
     dec_fields (dec_table tbl) (concat (map (enc_entry r) fs)) acc = replay fs r acc"
proof (induction fs arbitrary: acc)
  case (Cons f fs)
  obtain n e d where f: "f = (n, e, d)" by (cases f)
  have "find (\<lambda>nd. foldName (fst nd) = foldName n) (dec_table tbl) = Some (n, d)"
  proof -
    have "distinct (map (\<lambda>nd. foldName (fst nd)) (dec_table tbl))"
      using Cons.prems(1) by (simp add: names_distinct_def dec_table_def comp_def)
    moreover have "(n, d) \<in> set (dec_table tbl)"
      using Cons.prems(2) f by (force simp: dec_table_def)
    ultimately show ?thesis using find_distinct [of "\<lambda>nd. foldName (fst nd)" _ "(n, d)"] by simp
  qed
  with Cons f show ?case
    by (simp add: enc_entry_def split: option.split sum.split)
qed simp

lemma dec_enc_replay:
  "names_distinct tbl \<Longrightarrow> dec_struct (dec_table tbl) (enc_struct tbl r) acc = replay tbl r acc"
  using dec_fields_replay [of tbl tbl r acc] by (simp add: dec_struct_def enc_struct_def)

locale struct_codec =
  fixes tbl :: "'r struct_field list" and zero :: 'r and good :: "'r \<Rightarrow> bool"
  assumes names: "names_distinct tbl"
    and fields: "good r \<Longrightarrow> replay tbl r zero = Inr r"
begin

lemma struct_roundtrip: "good r \<Longrightarrow> dec_struct (dec_table tbl) (enc_struct tbl r) zero = Inr r"
  using dec_enc_replay [OF names] fields by simp

lemma enc_struct_inj: "good r \<Longrightarrow> good r' \<Longrightarrow> enc_struct tbl r = enc_struct tbl r' \<Longrightarrow> r = r'"
  using struct_roundtrip by (metis sum.inject(2))

end

section \<open>Kinds of fields\<close>

definition dec_uint64 :: "json \<Rightarrow> 64 word \<Rightarrow> 64 word result" where
  "dec_uint64 j old =
     (case j of
        JNum n \<Rightarrow> if 0 \<le> n \<and> n < 2 ^ 64 then Inr (word_of_int n) else Inl jsonTypeError
      | JNull \<Rightarrow> Inr old
      | _ \<Rightarrow> Inl jsonTypeError)"

definition fld ::
    "('a \<Rightarrow> json option) \<Rightarrow> (json \<Rightarrow> 'a \<Rightarrow> 'a result) \<Rightarrow> string \<Rightarrow> ('r \<Rightarrow> 'a) \<Rightarrow>
       (('a \<Rightarrow> 'a) \<Rightarrow> 'r \<Rightarrow> 'r) \<Rightarrow> 'r struct_field" where
  "fld enc d name get upd =
     (name, \<lambda>r. enc (get r), \<lambda>j r. case d j (get r) of Inl e \<Rightarrow> Inl e | Inr x \<Rightarrow> Inr (upd (\<lambda>_. x) r))"

definition str_fld :: "string \<Rightarrow> ('r \<Rightarrow> string) \<Rightarrow> ((string \<Rightarrow> string) \<Rightarrow> 'r \<Rightarrow> 'r) \<Rightarrow> 'r struct_field" where
  "str_fld = fld (\<lambda>v. Some (JStr v)) dec_string"

definition str_omit :: "string \<Rightarrow> ('r \<Rightarrow> string) \<Rightarrow> ((string \<Rightarrow> string) \<Rightarrow> 'r \<Rightarrow> 'r) \<Rightarrow> 'r struct_field" where
  "str_omit = fld (\<lambda>v. if v = [] then None else Some (JStr v)) dec_string"

definition bool_fld :: "string \<Rightarrow> ('r \<Rightarrow> bool) \<Rightarrow> ((bool \<Rightarrow> bool) \<Rightarrow> 'r \<Rightarrow> 'r) \<Rightarrow> 'r struct_field" where
  "bool_fld = fld (\<lambda>v. Some (JBool v)) dec_bool"

definition bool_omit :: "string \<Rightarrow> ('r \<Rightarrow> bool) \<Rightarrow> ((bool \<Rightarrow> bool) \<Rightarrow> 'r \<Rightarrow> 'r) \<Rightarrow> 'r struct_field" where
  "bool_omit = fld (\<lambda>v. if v then Some (JBool v) else None) dec_bool"

definition u64_omit ::
    "string \<Rightarrow> ('r \<Rightarrow> 64 word option) \<Rightarrow> ((64 word option \<Rightarrow> 64 word option) \<Rightarrow> 'r \<Rightarrow> 'r) \<Rightarrow> 'r struct_field" where
  "u64_omit = fld (map_option (\<lambda>n. JNum (uint n))) (dec_pointer dec_uint64 0)"

lemmas fld_kinds = str_fld_def str_omit_def bool_fld_def bool_omit_def u64_omit_def

lemma dec_uint64_uint: "dec_uint64 (JNum (uint n)) old = Inr n"
  using uint_lt2p [of n] by (simp add: dec_uint64_def)

text \<open>One field: when the accumulator still has the zero value there, its component is restored.\<close>

lemma replay_fld:
  assumes "\<And>v. case enc v of None \<Rightarrow> v = get acc | Some j \<Rightarrow> d j (get acc) = Inr v"
    and "upd (\<lambda>_. get acc) acc = acc"
  shows "replay (fld enc d name get upd # tbl) r acc = replay tbl r (upd (\<lambda>_. get r) acc)"
  using assms(1) [of "get r"] assms(2) by (auto simp: fld_def split: option.splits)

lemma replay_kinds:
  "upd (\<lambda>_. get acc) acc = acc \<Longrightarrow>
     replay (str_fld name get upd # tbl) r acc = replay tbl r (upd (\<lambda>_. get r) acc)"
  "get acc = [] \<Longrightarrow> upd (\<lambda>_. get acc) acc = acc \<Longrightarrow>
     replay (str_omit name get upd # tbl) r acc = replay tbl r (upd (\<lambda>_. get r) acc)"
  "updb (\<lambda>_. getb acc) acc = acc \<Longrightarrow>
     replay (bool_fld name getb updb # tbl) r acc = replay tbl r (updb (\<lambda>_. getb r) acc)"
  "\<not> getb acc \<Longrightarrow> updb (\<lambda>_. getb acc) acc = acc \<Longrightarrow>
     replay (bool_omit name getb updb # tbl) r acc = replay tbl r (updb (\<lambda>_. getb r) acc)"
  "getu acc = None \<Longrightarrow> updu (\<lambda>_. getu acc) acc = acc \<Longrightarrow>
     replay (u64_omit name getu updu # tbl) r acc = replay tbl r (updu (\<lambda>_. getu r) acc)"
  unfolding fld_kinds
  by (rule replay_fld;
      auto simp: dec_string_def dec_bool_def dec_pointer_def dec_uint64_uint split: option.splits)+

section \<open>The commands\<close>

definition kodo_table :: "InitKodoMountCmd struct_field list" where
  "kodo_table =
     [str_fld ''volume_id'' VolumeId VolumeId_update,
      str_fld ''mount_path'' MountPath MountPath_update,
      str_fld ''sub_dir'' SubDir SubDir_update,
      str_fld ''access_key'' AccessKey AccessKey_update,
      str_fld ''secret_key'' SecretKey SecretKey_update,
      str_fld ''bucket_id'' BucketId BucketId_update,
      str_fld ''s3_region'' S3Region S3Region_update,
      str_fld ''s3_endpoint'' S3Endpoint S3Endpoint_update,
      bool_fld ''s3_force_path_style'' S3ForcePathStyle S3ForcePathStyle_update,
      str_fld ''storage_class'' StorageClass StorageClass_update,
      str_omit ''vfs_cache_mode'' VfsCacheMode VfsCacheMode_update,
      str_omit ''dir_cache_duration'' DirCacheDuration DirCacheDuration_update,
      u64_omit ''buffer_size'' BufferSize BufferSize_update,
      str_omit ''vfs_cache_max_age'' VfsCacheMaxAge VfsCacheMaxAge_update,
      str_omit ''vfs_cache_poll_interval'' VfsCachePollInterval VfsCachePollInterval_update,
      str_omit ''vfs_write_back'' VfsWriteBack VfsWriteBack_update,
      u64_omit ''vfs_cache_max_size'' VfsCacheMaxSize VfsCacheMaxSize_update,
      u64_omit ''vfs_read_ahead'' VfsReadAhead VfsReadAhead_update,
      bool_omit ''vfs_fast_finger_print'' VfsFastFingerPrint VfsFastFingerPrint_update,
      u64_omit ''vfs_read_chunk_size'' VfsReadChunkSize VfsReadChunkSize_update,
      u64_omit ''vfs_read_chunk_size_limit'' VfsReadChunkSizeLimit VfsReadChunkSizeLimit_update,
      bool_omit ''no_cache_sum'' NoCheckSum NoCheckSum_update,
      bool_omit ''no_mod_time'' NoModTime NoModTime_update,
      bool_omit ''no_seek'' NoSeek NoSeek_update,
      bool_omit ''read_only'' ReadOnly ReadOnly_update,
      str_omit ''vfs_read_wait'' VfsReadWait VfsReadWait_update,
      str_omit ''vfs_write_wait'' VfsWriteWait VfsWriteWait_update,
      u64_omit ''transfers'' Transfers Transfers_update,
      u64_omit ''vfs_disk_space_total_size'' VfsDiskSpaceTotalSize VfsDiskSpaceTotalSize_update,
      u64_omit ''upload_cutoff'' UploadCutoff UploadCutoff_update,
      u64_omit ''upload_chunk_size'' UploadChunkSize UploadChunkSize_update,
      u64_omit ''upload_concurrency'' UploadConcurrency UploadConcurrency_update,
      bool_omit ''write_back_cache'' WriteBackCache WriteBackCache_update,
      bool_omit ''debug_http'' DebugHttp DebugHttp_update,
      bool_omit ''debug_fuse'' DebugFuse DebugFuse_update,
      bool_fld ''may_run_on_systemd'' MayRunOnSystemd MayRunOnSystemd_update]"

definition zero_kodo :: InitKodoMountCmd where
  "zero_kodo = \<lparr>VolumeId = [], MountPath = [], SubDir = [], AccessKey = [], SecretKey = [], BucketId = [],
     S3Region = [], S3Endpoint = [], S3ForcePathStyle = False, StorageClass = [], VfsCacheMode = [],
     DirCacheDuration = [], BufferSize = None, VfsCacheMaxAge = [], VfsCachePollInterval = [],
     VfsWriteBack = [], VfsCacheMaxSize = None, VfsReadAhead = None, VfsFastFingerPrint = False,
     VfsReadChunkSize = None, VfsReadChunkSizeLimit = None, NoCheckSum = False, NoModTime = False,
     NoSeek = False, ReadOnly = False, VfsReadWait = [], VfsWriteWait = [], Transfers = None,
     VfsDiskSpaceTotalSize = None, UploadCutoff = None, UploadChunkSize = None,
     UploadConcurrency = None, WriteBackCache = False, DebugHttp = False, DebugFuse = False,
     MayRunOnSystemd = False\<rparr>"

definition kodofs_table :: "InitKodoFSMountCmd struct_field list" where
  "kodofs_table =
     [str_fld ''volume_id'' FsVolumeId FsVolumeId_update,
      str_fld ''gateway_id'' FsGatewayID FsGatewayID_update,
      str_fld ''mount_path'' FsMountPath FsMountPath_update,
      str_fld ''sub_dir'' FsSubDir FsSubDir_update,
      bool_fld ''may_run_on_systemd'' FsMayRunOnSystemd FsMayRunOnSystemd_update]"

definition zero_kodofs :: InitKodoFSMountCmd where
  "zero_kodofs = \<lparr>FsVolumeId = [], FsGatewayID = [], FsMountPath = [], FsSubDir = [], FsMayRunOnSystemd = False\<rparr>"

definition umount_table :: "KodoUmountCmd struct_field list" where
  "umount_table =
     [str_fld ''volume_id'' UmVolumeId UmVolumeId_update,
      str_fld ''mount_path'' UmMountPath UmMountPath_update]"

definition zero_umount :: KodoUmountCmd where
  "zero_umount = \<lparr>UmVolumeId = [], UmMountPath = []\<rparr>"

interpretation kodo_json: struct_codec kodo_table zero_kodo "\<lambda>_. True"
proof
  show "names_distinct kodo_table"
    by (simp add: names_distinct_def kodo_table_def fld_kinds fld_def lowerByte_def Let_def)
  show "replay kodo_table r zero_kodo = Inr r" for r
    unfolding kodo_table_def zero_kodo_def by (simp add: replay_kinds)
qed

interpretation kodofs_json: struct_codec kodofs_table zero_kodofs "\<lambda>_. True"
proof
  show "names_distinct kodofs_table"
    by (simp add: names_distinct_def kodofs_table_def fld_kinds fld_def lowerByte_def Let_def)
  show "replay kodofs_table r zero_kodofs = Inr r" for r
    unfolding kodofs_table_def zero_kodofs_def by (simp add: replay_kinds)
qed

interpretation umount_json: struct_codec umount_table zero_umount "\<lambda>_. True"
proof
  show "names_distinct umount_table"
    by (simp add: names_distinct_def umount_table_def fld_kinds fld_def lowerByte_def Let_def)
  show "replay umount_table r zero_umount = Inr r" for r
    unfolding umount_table_def zero_umount_def by (simp add: replay_kinds)
qed

text \<open>
  The three data commands.  A terminate code is an \<^verbatim>\<open>int\<close> of 64 bits.
\<close>

definition int_fld :: "string \<Rightarrow> ('r \<Rightarrow> int) \<Rightarrow> ((int \<Rightarrow> int) \<Rightarrow> 'r \<Rightarrow> 'r) \<Rightarrow> 'r struct_field" where
  "int_fld = fld (\<lambda>v. Some (JNum v)) (dec_int 64)"

record response_data =
  RespIsError :: bool
  RespData :: string

definition request_data_table :: "string struct_field list" where
  "request_data_table = [str_fld ''data'' id (\<lambda>f. f)]"

definition response_data_table :: "response_data struct_field list" where
  "response_data_table =
     [bool_fld ''is_error'' RespIsError RespIsError_update,
      str_fld ''data'' RespData RespData_update]"

definition zero_response :: response_data where
  "zero_response = \<lparr>RespIsError = False, RespData = []\<rparr>"

definition terminate_table :: "int struct_field list" where
  "terminate_table = [int_fld ''code'' id (\<lambda>f. f)]"

definition int64_code :: "int \<Rightarrow> bool" where
  "int64_code c \<longleftrightarrow> - (2 ^ 63) \<le> c \<and> c < 2 ^ 63"

interpretation request_data_json: struct_codec request_data_table "[]" "\<lambda>_. True"
  by unfold_locales
     (simp_all add: names_distinct_def request_data_table_def fld_kinds fld_def dec_string_def)

interpretation response_data_json: struct_codec response_data_table zero_response "\<lambda>_. True"
proof
  show "names_distinct response_data_table"
    by (simp add: names_distinct_def response_data_table_def fld_kinds fld_def lowerByte_def Let_def)
  show "replay response_data_table r zero_response = Inr r" for r
    unfolding response_data_table_def zero_response_def by (simp add: replay_kinds)
qed

interpretation terminate_json: struct_codec terminate_table 0 int64_code
  by unfold_locales
     (simp_all add: names_distinct_def terminate_table_def int_fld_def fld_def dec_int_def int64_code_def)

section \<open>Requests\<close>

text \<open>
  \<^verbatim>\<open>protocol.Request\<close>.  The payload is raw JSON; \<open>None\<close> stands for a missing one, which no later
  \<^verbatim>\<open>Unmarshal\<close> accepts.
\<close>

record request =
  RqVersion :: string
  RqCmd :: string
  RqPayload :: "json option"

definition request_table :: "request struct_field list" where
  "request_table =
     [str_fld ''version'' RqVersion RqVersion_update,
      str_fld ''cmd'' RqCmd RqCmd_update,
      fld (\<lambda>p. Some (case p of None \<Rightarrow> JNull | Some j \<Rightarrow> j)) (\<lambda>j _. Inr (Some j)) ''payload'' RqPayload RqPayload_update]"

definition zero_request :: request where
  "zero_request = \<lparr>RqVersion = [], RqCmd = [], RqPayload = None\<rparr>"

lemma replay_payload:
  assumes "get r = Some j"
  shows "replay (fld (\<lambda>p. Some (case p of None \<Rightarrow> JNull | Some j \<Rightarrow> j)) (\<lambda>j _. Inr (Some j)) name get upd # tbl) r acc =
    replay tbl r (upd (\<lambda>_. get r) acc)"
  using assms by (simp add: fld_def)

interpretation request_json: struct_codec request_table zero_request "\<lambda>r. RqPayload r \<noteq> None"
proof
  show "names_distinct request_table"
    by (simp add: names_distinct_def request_table_def fld_kinds fld_def lowerByte_def Let_def)
  fix r :: request
  assume "RqPayload r \<noteq> None"
  then obtain j where "RqPayload r = Some j" by blast
  then show "replay request_table r zero_request = Inr r"
    unfolding request_table_def zero_request_def by (simp add: replay_kinds replay_payload)
qed

definition makeRequest :: "string \<Rightarrow> json \<Rightarrow> request" where
  "makeRequest cmdName payload = \<lparr>RqVersion = Version, RqCmd = cmdName, RqPayload = Some payload\<rparr>"

text \<open>The document of a command and the name under which it travels.\<close>

definition marshal_cmd :: "cmd \<Rightarrow> json" where
  "marshal_cmd c =
     (case c of
        CInitKodoMount k \<Rightarrow> enc_struct kodo_table k
      | CInitKodoFSMount k \<Rightarrow> enc_struct kodofs_table k
      | CKodoUmount k \<Rightarrow> enc_struct umount_table k
      | RequestDataCmd d \<Rightarrow> enc_struct request_data_table d
      | ResponseDataCmd e d \<Rightarrow> enc_struct response_data_table \<lparr>RespIsError = e, RespData = d\<rparr>
      | TerminateCmd code \<Rightarrow> enc_struct terminate_table code)"

definition cmd_name :: "cmd \<Rightarrow> string" where
  "cmd_name c =
     (case c of
        CInitKodoMount k \<Rightarrow> InitKodoMountCmdName
      | CInitKodoFSMount k \<Rightarrow> InitKodoFsMountCmdName
      | CKodoUmount k \<Rightarrow> KodoUmountCmdName
      | RequestDataCmd d \<Rightarrow> RequestDataCmdName
      | ResponseDataCmd e d \<Rightarrow> ResponseDataCmdName
      | TerminateCmd code \<Rightarrow> TerminateCmdName)"

definition cmd_message :: "cmd \<Rightarrow> json" where
  "cmd_message c = enc_struct request_table (makeRequest (cmd_name c) (marshal_cmd c))"

definition read_request :: "json \<Rightarrow> request result" where
  "read_request j = dec_struct (dec_table request_table) j zero_request"

definition read_payload :: "'r struct_field list \<Rightarrow> 'r \<Rightarrow> request \<Rightarrow> 'r result" where
  "read_payload tbl zero rq =
     (case RqPayload rq of None \<Rightarrow> Inl jsonSyntaxError | Some j \<Rightarrow> dec_struct (dec_table tbl) j zero)"

lemma read_request_message [simp]:
  "read_request (cmd_message c) = Inr (makeRequest (cmd_name c) (marshal_cmd c))"
  unfolding read_request_def cmd_message_def
  by (rule request_json.struct_roundtrip) (simp add: makeRequest_def)

lemma makeRequest_sel [simp]:
  "RqVersion (makeRequest n j) = Version" "RqCmd (makeRequest n j) = n" "RqPayload (makeRequest n j) = Some j"
  by (simp_all add: makeRequest_def)

text \<open>Reading the payload of a request made from a command gives the command's own data.\<close>

lemma read_payload_message:
  "read_payload kodo_table zero_kodo (makeRequest n (marshal_cmd (CInitKodoMount k))) = Inr k"
  "read_payload kodofs_table zero_kodofs (makeRequest n (marshal_cmd (CInitKodoFSMount f))) = Inr f"
  "read_payload umount_table zero_umount (makeRequest n (marshal_cmd (CKodoUmount u))) = Inr u"
  "read_payload request_data_table [] (makeRequest n (marshal_cmd (RequestDataCmd d))) = Inr d"
  "read_payload response_data_table zero_response (makeRequest n (marshal_cmd (ResponseDataCmd e d))) =
     Inr \<lparr>RespIsError = e, RespData = d\<rparr>"
  "int64_code code \<Longrightarrow>
     read_payload terminate_table 0 (makeRequest n (marshal_cmd (TerminateCmd code))) = Inr code"
  by (simp_all add: read_payload_def marshal_cmd_def kodo_json.struct_roundtrip kodofs_json.struct_roundtrip
      umount_json.struct_roundtrip request_data_json.struct_roundtrip
      response_data_json.struct_roundtrip terminate_json.struct_roundtrip)

end
