(* ===== verification/Mount_Session.thy ===== *)
theory Mount_Session
  imports Mount_Local Protocol_Json Kodo_Pv_Parameters Go_Path
begin

text \<open>
  The conversation of the plugin with the connector (\<^verbatim>\<open>plugin/utils.go\<close>): \<^verbatim>\<open>mountKodoFS\<close>, \<^verbatim>\<open>mountKodo\<close>
  and \<^verbatim>\<open>cleanAfterKodoUmount\<close>.  Both mount functions send one mount command and then read messages in
  a loop; the loop is \<open>mount_loop\<close>, whose first argument says what is answered to a chunk of
  output.  It returns the outcome, \<open>None\<close> while it still waits for a message, and the documents
  written so far.
\<close>

section \<open>Writing a command\<close>

definition SocketPath :: string where
  "SocketPath = ''/var/lib/qiniu/storage/csi-plugin/connector.sock''"

definition writeCmdToConn :: "session \<Rightarrow> cmd \<Rightarrow> json list \<Rightarrow> unit result \<times> json list" where
  "writeCmdToConn ses c out =
     (case write_error ses (length out) of
        Some e \<Rightarrow> (Inl (Wrapf ''failed to write command'' [SocketPath] e), out)
      | None \<Rightarrow> (Inr (), out @ [cmd_message c]))"

section \<open>Reading messages\<close>

type_synonym reply = "response_data \<Rightarrow> (string \<times> string) option result"

text \<open>The answer to output of the KodoFS mount command; the Kodo one is never answered.\<close>

definition kodofs_reply :: "url option \<Rightarrow> string \<Rightarrow> reply" where
  "kodofs_reply mountServerAddress accessToken d =
     (if RespIsError d then Inr None
      else if Contains (RespData d) masterPrompt then
        (case mountServerAddress of
           None \<Rightarrow> Inl (Panic ''nil pointer dereference'')
         | Some u \<Rightarrow> Inr (Some (''failed to enter the master address'', url_String u @ newline)))
      else if Contains (RespData d) tokenPrompt then
        Inr (Some (''failed to enter the AccessToken'', accessToken @ newline))
      else Inr None)"

definition kodo_reply :: reply where
  "kodo_reply d = Inr None"

text \<open>One message: \<open>Inl\<close> the outcome of the loop, or \<open>Inr\<close> what to answer before reading on.\<close>

definition terminated :: "int \<Rightarrow> unit result" where
  "terminated code =
     (if code = 0 then Inr () else Inl (Errorf ''unexpected command returns code'' [statusText code]))"

definition mount_message :: "reply \<Rightarrow> json \<Rightarrow> unit result + (string \<times> string) option" where
  "mount_message reply j =
     (case read_request j of
        Inl e \<Rightarrow> Inl (Inl (Wrapf ''failed to decode json request'' [] e))
      | Inr rq \<Rightarrow>
          if RqVersion rq \<noteq> Version then Inl (Inl (Errorf ''unrecognized protocol version'' [RqVersion rq]))
          else if RqCmd rq = ResponseDataCmdName then
            (case read_payload response_data_table zero_response rq of
               Inl e \<Rightarrow> Inl (Inl (Wrapf ''failed to marshal json payload'' [] e))
             | Inr d \<Rightarrow> (case reply d of Inl e \<Rightarrow> Inl (Inl e) | Inr r \<Rightarrow> Inr r))
          else if RqCmd rq = TerminateCmdName then
            (case read_payload terminate_table 0 rq of
               Inl e \<Rightarrow> Inl (Inl (Wrapf ''failed to marshal json payload'' [] e))
             | Inr code \<Rightarrow> Inl (terminated code))
          else Inr None)"

fun mount_loop ::
    "reply \<Rightarrow> session \<Rightarrow> json list \<Rightarrow> conn_read list \<Rightarrow> unit result option \<times> json list" where
  "mount_loop reply ses out [] = (None, out)"
| "mount_loop reply ses out (NoMore # rs) = (Some (Inr ()), out)"
| "mount_loop reply ses out (Item (Inl e) # rs) =
     (Some (Inl (Wrapf ''failed to decode json request'' [] e)), out)"
| "mount_loop reply ses out (Item (Inr j) # rs) =
     (case mount_message reply j of
        Inl r \<Rightarrow> (Some r, out)
      | Inr None \<Rightarrow> mount_loop reply ses out rs
      | Inr (Some (what, data)) \<Rightarrow>
          (case writeCmdToConn ses (RequestDataCmd data) out of
             (Inl e, out') \<Rightarrow> (Some (Inl (Wrapf what [] e)), out')
           | (Inr _, out') \<Rightarrow> mount_loop reply ses out' rs))"

section \<open>The mount functions\<close>

text \<open>The outcome, the documents written and the new state.\<close>

type_synonym 'w mounting = "'w pstate \<Rightarrow> unit result option \<times> json list \<times> 'w pstate"

definition run_session :: "reply \<Rightarrow> cmd \<Rightarrow> session \<Rightarrow> unit result option \<times> json list" where
  "run_session reply c ses =
     (case writeCmdToConn ses c [] of
        (Inl e, out) \<Rightarrow> (Some (Inl e), out)
      | (Inr _, out) \<Rightarrow> mount_loop reply ses out (incoming ses))"

definition mount_over_socket :: "'w host \<Rightarrow> reply \<Rightarrow> cmd \<Rightarrow> 'w mounting" where
  "mount_over_socket host reply c s =
     (case host_call (net_Dial host SocketPath) s of
        (Inl e, s1) \<Rightarrow> (Some (Inl (Wrapf ''failed to dial unix socket'' [SocketPath] e)), [], s1)
      | (Inr ses, s1) \<Rightarrow> (case run_session reply c ses of (r, out) \<Rightarrow> (r, out, s1)))"

definition rooted_subDir :: "string \<Rightarrow> string" where
  "rooted_subDir d =
     (if d = [] then ''/'' else if \<not> HasPrefix d ''/'' then Join [''/'', d] else d)"

definition mountKodoFS ::
    "'w host \<Rightarrow> string \<Rightarrow> string \<Rightarrow> string \<Rightarrow> url option \<Rightarrow> string \<Rightarrow> string \<Rightarrow> 'w mounting" where
  "mountKodoFS host volumeId gateway mountPath mountServerAddress token dir =
     mount_over_socket host (kodofs_reply mountServerAddress token)
       (CInitKodoFSMount \<lparr>FsVolumeId = volumeId, FsGatewayID = gateway, FsMountPath = mountPath,
          FsSubDir = rooted_subDir dir, FsMayRunOnSystemd = True\<rparr>)"

text \<open>
  The command for rclone.  The long argument list of the source is the parameter record, with the
  endpoint printed by the caller; a missing pointer leaves a field empty, and
  \<^verbatim>\<open>MayRunOnSystemd\<close> is not set.
\<close>

definition opt_Duration :: "Duration option \<Rightarrow> string" where
  "opt_Duration d = (case d of None \<Rightarrow> [] | Some n \<Rightarrow> Duration_String n)"

definition kodo_mount_cmd :: "string \<Rightarrow> string \<Rightarrow> kodoPvParameter \<Rightarrow> string \<Rightarrow> InitKodoMountCmd" where
  "kodo_mount_cmd volumeId mountPath p endpoint =
     (let q = kodoStorageClass p in
      \<lparr>VolumeId = volumeId, MountPath = mountPath, SubDir = subDir q, AccessKey = accessKey q,
       SecretKey = secretKey q, BucketId = bucketID p, S3Region = s3Region p, S3Endpoint = endpoint,
       S3ForcePathStyle = (case s3ForcePathStyle q of None \<Rightarrow> False | Some b \<Rightarrow> b),
       StorageClass = storageClass q, VfsCacheMode = vfsCacheMode q,
       DirCacheDuration = opt_Duration (dirCacheDuration q), BufferSize = bufferSize q,
       VfsCacheMaxAge = opt_Duration (vfsCacheMaxAge q),
       VfsCachePollInterval = opt_Duration (vfsCachePollInterval q),
       VfsWriteBack = opt_Duration (vfsWriteBack q), VfsCacheMaxSize = vfsCacheMaxSize q,
       VfsReadAhead = vfsReadAhead q, VfsFastFingerPrint = vfsFastFingerprint q,
       VfsReadChunkSize = vfsReadChunkSize q, VfsReadChunkSizeLimit = vfsReadChunkSizeLimit q,
       NoCheckSum = noCheckSum q, NoModTime = noModTime q, NoSeek = noSeek q, ReadOnly = readOnly q,
       VfsReadWait = opt_Duration (vfsReadWait q), VfsWriteWait = opt_Duration (vfsWriteWait q),
       Transfers = transfers q, VfsDiskSpaceTotalSize = vfsDiskSpaceTotalSize q,
       UploadCutoff = uploadCutoff q, UploadChunkSize = uploadChunkSize q,
       UploadConcurrency = uploadConcurrency q, WriteBackCache = writeBackCache q,
       DebugHttp = debugHttp q, DebugFuse = debugFuse q, MayRunOnSystemd = False\<rparr>)"

definition mountKodo :: "'w host \<Rightarrow> string \<Rightarrow> string \<Rightarrow> kodoPvParameter \<Rightarrow> string \<Rightarrow> 'w mounting" where
  "mountKodo host volumeId mountPath p endpoint =
     mount_over_socket host kodo_reply (CInitKodoMount (kodo_mount_cmd volumeId mountPath p endpoint))"

definition cleanAfterKodoUmount ::
    "'w host \<Rightarrow> string \<Rightarrow> string \<Rightarrow> 'w pstate \<Rightarrow> unit result \<times> json list \<times> 'w pstate" where
  "cleanAfterKodoUmount host volumeId mountPath s =
     (case host_call (net_Dial host SocketPath) s of
        (Inl e, s1) \<Rightarrow> (Inl (Wrapf ''failed to dial unix socket'' [SocketPath] e), [], s1)
      | (Inr ses, s1) \<Rightarrow>
          (case writeCmdToConn ses (CKodoUmount \<lparr>UmVolumeId = volumeId, UmMountPath = mountPath\<rparr>) [] of
             (r, out) \<Rightarrow> (r, out, s1)))"

section \<open>What the loop makes of messages\<close>

lemma cmd_names_distinct [simp]: "ResponseDataCmdName \<noteq> TerminateCmdName" "TerminateCmdName \<noteq> ResponseDataCmdName"
  by (simp_all add: cmd_names)

lemma mount_message_response:
  "mount_message reply (cmd_message (ResponseDataCmd e d)) =
     (case reply \<lparr>RespIsError = e, RespData = d\<rparr> of Inl x \<Rightarrow> Inl (Inl x) | Inr r \<Rightarrow> Inr r)"
  by (simp add: mount_message_def cmd_name_def read_payload_message)

lemma mount_message_terminate:
  "int64_code code \<Longrightarrow> mount_message reply (cmd_message (TerminateCmd code)) = Inl (terminated code)"
  by (simp add: mount_message_def cmd_name_def read_payload_message)

lemma mount_loop_out: "\<exists>extra. snd (mount_loop reply ses out rs) = out @ extra"
proof (induction reply ses out rs rule: mount_loop.induct)
  case (4 reply ses out j rs)
  then show ?case
    by (fastforce simp: writeCmdToConn_def split: sum.split option.split)
qed simp_all

lemma kodo_loop_silent: "snd (mount_loop kodo_reply ses out rs) = out"
proof -
  have "mount_message kodo_reply j \<noteq> Inr (Some x)" for j x
    by (auto simp: mount_message_def kodo_reply_def split: sum.split if_split)
  then show ?thesis
    by (induction "kodo_reply" ses out rs rule: mount_loop.induct)
       (auto split: sum.split option.split)
qed

text \<open>
  Whatever the messages, a Kodo mount writes at most one document, the mount command made
  from its parameters, and that document is read back to exactly that command.
\<close>

theorem mountKodo_writes:
  assumes "mountKodo host volumeId mountPath p endpoint s = (r, out, s')"
  shows "(out = [] \<and> (\<exists>e. r = Some (Inl e))) \<or>
    (out = [cmd_message (CInitKodoMount (kodo_mount_cmd volumeId mountPath p endpoint))] \<and>
     (\<forall>j \<in> set out. \<exists>rq. read_request j = Inr rq \<and> RqVersion rq = Version \<and>
        RqCmd rq = InitKodoMountCmdName \<and>
        read_payload kodo_table zero_kodo rq = Inr (kodo_mount_cmd volumeId mountPath p endpoint)))"
proof -
  let ?c = "CInitKodoMount (kodo_mount_cmd volumeId mountPath p endpoint)"
  obtain d s1 where dial: "host_call (net_Dial host SocketPath) s = (d, s1)" by fastforce
  show ?thesis
  proof (cases d)
    case (Inl e)
    with assms dial show ?thesis by (auto simp: mountKodo_def mount_over_socket_def)
  next
    case (Inr ses)
    then have run: "run_session kodo_reply ?c ses = (r, out)"
      using assms dial by (auto simp: mountKodo_def mount_over_socket_def split: prod.splits)
    show ?thesis
    proof (cases "write_error ses 0")
      case (Some e)
      with run show ?thesis by (auto simp: run_session_def writeCmdToConn_def)
    next
      case None
      with run have "out = [cmd_message ?c]"
        using kodo_loop_silent [of ses "[cmd_message ?c]" "incoming ses"]
        by (simp add: run_session_def writeCmdToConn_def)
      then show ?thesis by (simp add: read_payload_message cmd_name_def)
    qed
  qed
qed

theorem mountKodo_writes_witness:
  "fst (snd (mountKodo rootfs_host ''pv'' ''/m'' (pv_zero scp_zero) ''e''
       \<lparr>remote = (), cacheMap = Map.empty, clock_reads = 0, sent = []\<rparr>)) \<in>
     {[], [cmd_message (CInitKodoMount (kodo_mount_cmd ''pv'' ''/m'' (pv_zero scp_zero) ''e''))]}"
proof -
  let ?m = "mountKodo rootfs_host ''pv'' ''/m'' (pv_zero scp_zero) ''e''
       \<lparr>remote = (), cacheMap = Map.empty, clock_reads = 0, sent = []\<rparr>"
  obtain r out s' where m: "?m = (r, out, s')" by (metis prod_cases3)
  from mountKodo_writes [OF m] m show ?thesis by auto
qed

section \<open>A whole conversation\<close>

definition chunk_message :: "bool \<times> string \<Rightarrow> conn_read" where
  "chunk_message ed = Item (Inr (cmd_message (ResponseDataCmd (fst ed) (snd ed))))"

text \<open>What the plugin types in reply to a list of output chunks of the KodoFS mount command.\<close>

definition typed :: "url \<Rightarrow> string \<Rightarrow> bool \<times> string \<Rightarrow> string list" where
  "typed u tok ed =
     (if fst ed then []
      else if Contains (snd ed) masterPrompt then [url_String u @ newline]
      else if Contains (snd ed) tokenPrompt then [tok @ newline] else [])"

lemma mount_loop_chunks:
  assumes "\<And>k. write_error ses k = None"
  shows "mount_loop (kodofs_reply (Some u) tok) ses out (map chunk_message ds @ rs) =
    mount_loop (kodofs_reply (Some u) tok) ses
      (out @ map (\<lambda>d. cmd_message (RequestDataCmd d)) (concat (map (typed u tok) ds))) rs"
proof (induction ds arbitrary: out)
  case (Cons d ds)
  then show ?case
    by (cases d) (simp add: chunk_message_def mount_message_response kodofs_reply_def typed_def
        writeCmdToConn_def assms)
qed simp

lemma kodo_loop_chunks:
  "mount_loop kodo_reply ses out (map chunk_message ds @ rs) = mount_loop kodo_reply ses out rs"
  by (induction ds) (simp_all add: chunk_message_def mount_message_response kodo_reply_def)

text \<open>
  C27: in a KodoFS mount conversation the plugin answers the prompts of the standard output in
  their order, with the mount server address and the token, and never a chunk marked as standard
  error; a terminate message decides the outcome by its code, and a connection that ends without
  one counts as success.
\<close>

theorem mountKodoFS_conversation:
  assumes "\<And>k. write_error ses k = None" "int64_code code"
    and "host_call (net_Dial host SocketPath) s = (Inr (ses\<lparr>incoming := map chunk_message ds @ rs\<rparr>), s')"
  shows "\<exists>out. out = cmd_message (CInitKodoFSMount \<lparr>FsVolumeId = v, FsGatewayID = g, FsMountPath = m,
        FsSubDir = rooted_subDir dir, FsMayRunOnSystemd = True\<rparr>) #
        map (\<lambda>d. cmd_message (RequestDataCmd d)) (concat (map (typed u tok) ds)) \<and>
    (rs = [] \<longrightarrow> mountKodoFS host v g m (Some u) tok dir s = (None, out, s')) \<and>
    (rs = [NoMore] \<longrightarrow> mountKodoFS host v g m (Some u) tok dir s = (Some (Inr ()), out, s')) \<and>
    (rs = [Item (Inr (cmd_message (TerminateCmd code)))] \<longrightarrow>
       mountKodoFS host v g m (Some u) tok dir s = (Some (terminated code), out, s'))"
proof -
  let ?ses = "ses\<lparr>incoming := map chunk_message ds @ rs\<rparr>"
  let ?init = "CInitKodoFSMount \<lparr>FsVolumeId = v, FsGatewayID = g, FsMountPath = m,
        FsSubDir = rooted_subDir dir, FsMayRunOnSystemd = True\<rparr>"
  let ?out = "cmd_message ?init # map (\<lambda>d. cmd_message (RequestDataCmd d)) (concat (map (typed u tok) ds))"
  have "\<And>k. write_error ?ses k = None" using assms(1) by simp
  from mount_loop_chunks [OF this, of u tok "[cmd_message ?init]" ds rs]
  have "mountKodoFS host v g m (Some u) tok dir s =
      (case mount_loop (kodofs_reply (Some u) tok) ?ses ?out rs of (r, out) \<Rightarrow> (r, out, s'))"
    by (simp add: mountKodoFS_def mount_over_socket_def assms(1,3) run_session_def writeCmdToConn_def)
  then show ?thesis by (simp add: mount_message_terminate [OF assms(2)])
qed

definition talking_host :: "conn_read list \<Rightarrow> 'w host" where
  "talking_host rs = rootfs_host\<lparr>net_Dial := \<lambda>_ w. (Inr \<lparr>incoming = rs, write_error = \<lambda>_. None\<rparr>, w)\<rparr>"

theorem mountKodoFS_conversation_witness:
  "fst (mountKodoFS (talking_host [chunk_message (False, tokenPrompt), NoMore]) ''pv'' ''g'' ''/m''
     (Some (endpoint_url ''http'' ''h'' [])) ''tok'' ''/'' \<lparr>remote = (), cacheMap = Map.empty, clock_reads = 0, sent = []\<rparr>)
   = Some (Inr ())"
proof -
  let ?ses = "\<lparr>incoming = [], write_error = \<lambda>_. None\<rparr> :: session"
  let ?s = "\<lparr>remote = (), cacheMap = Map.empty, clock_reads = 0, sent = []\<rparr> :: unit pstate"
  have "host_call (net_Dial (talking_host [chunk_message (False, tokenPrompt), NoMore]) SocketPath) ?s =
      (Inr (?ses\<lparr>incoming := map chunk_message [(False, tokenPrompt)] @ [NoMore]\<rparr>), ?s)"
    by (simp add: host_call_def talking_host_def)
  from mountKodoFS_conversation [OF _ _ this, of 0 "''pv''" "''g''" "''/m''" "''/''"
      "endpoint_url ''http'' ''h'' []" "''tok''"]
  show ?thesis by (auto simp: int64_code_def)
qed

end
