(* ===== verification/Node_Servers.thy ===== *)
theory Node_Servers
  imports Mount_Session Kodofs_Parameter_Facts Kodo_Volume_Context
begin

text \<open>
  \<^verbatim>\<open>plugin/kodo_node_server.go\<close> and \<^verbatim>\<open>plugin/kodofs_node_server.go\<close>: publishing a volume at a path
  and taking it away again.  An operation returns its outcome (\<open>None\<close> while the mount conversation
  still waits for the connector), the documents written to the connector, and the new state.
\<close>

section \<open>Requests\<close>

record publish_request =
  PubTargetPath :: string
  PubVolumeId :: string
  PubContext :: "gomap \<times> gomap"
  PubSecrets :: gomap

record unpublish_request =
  UnpTargetPath :: string
  UnpVolumeId :: string

text \<open>The common end of both publish operations: wrap the error of the mount function.\<close>

definition mounted_at :: "string \<Rightarrow> 'w mounting \<Rightarrow> 'w mounting" where
  "mounted_at mountPath m s =
     (case m s of
        (Some (Inl e), out, s1) \<Rightarrow> (Some (Inl (rewrap (Wrapf ''failed to mount'' [mountPath]) e)), out, s1)
      | (r, out, s1) \<Rightarrow> (r, out, s1))"

section \<open>The Kodo node server\<close>

definition Kodo_NodePublishVolume :: "'w env \<Rightarrow> 'w host \<Rightarrow> publish_request \<Rightarrow> 'w mounting" where
  "Kodo_NodePublishVolume env host req s =
     (if PubTargetPath req = [] then (Some (Inl (Errorf ''NodePublishVolume: mountPath is empty'' [])), [], s)
      else case parseKodoPvParameter env ''NodePublishVolume'' (fst (PubContext req)) (snd (PubContext req))
             (PubSecrets req) s of
        (Inl e, s1) \<Rightarrow> (Some (Inl e), [], s1)
      | (Inr p, s1) \<Rightarrow>
          (case wrap_error (Wrapf ''create mount path'' [PubTargetPath req])
                  (ensureDirectoryCreated host (PubTargetPath req)) s1 of
             (Inl e, s2) \<Rightarrow> (Some (Inl e), [], s2)
           | (Inr _, s2) \<Rightarrow>
               (case s3Endpoint p of
                  None \<Rightarrow> (Some (Inl (Panic ''nil pointer dereference'')), [], s2)
                | Some ep \<Rightarrow>
                    mounted_at (PubTargetPath req)
                      (mountKodo host (PubVolumeId req) (PubTargetPath req) p (url_String ep)) s2)))"

text \<open>
  Detecting the mount and unmounting, common to both drivers: an error of the detection and a path
  that is not mounted are only logged.
\<close>

definition unmount_if_mounted ::
    "'w host \<Rightarrow> ('w, bool) action \<Rightarrow> string \<Rightarrow> ('w, unit) action" where
  "unmount_if_mounted host detect mountPath s =
     (case detect s of
        (Inl e, s1) \<Rightarrow> (Inr (), s1)
      | (Inr mounted, s1) \<Rightarrow>
          if \<not> mounted then (Inr (), s1)
          else wrap_error (Wrapf ''failed to unmount'' []) (umount host mountPath) s1)"

definition Kodo_NodeUnpublishVolume ::
    "'w host \<Rightarrow> unpublish_request \<Rightarrow> 'w pstate \<Rightarrow> unit result \<times> json list \<times> 'w pstate" where
  "Kodo_NodeUnpublishVolume host req s =
     (if UnpTargetPath req = [] then (Inl (Errorf ''NodeUnpublishVolume: mountPath is empty'' []), [], s)
      else case unmount_if_mounted host (isKodoMounted host (UnpTargetPath req)) (UnpTargetPath req) s of
        (Inl e, s1) \<Rightarrow> (Inl e, [], s1)
      | (Inr _, s1) \<Rightarrow>
          (case cleanAfterKodoUmount host (UnpVolumeId req) (UnpTargetPath req) s1 of
             (r, out, s2) \<Rightarrow> (Inr (), out, s2)))"

section \<open>The KodoFS node server\<close>

definition KodoFS_NodePublishVolume :: "'w host \<Rightarrow> publish_request \<Rightarrow> 'w mounting" where
  "KodoFS_NodePublishVolume host req s =
     (if PubTargetPath req = [] then (Some (Inl (Errorf ''NodePublishVolume: mountPath is empty'' [])), [], s)
      else case parseKodoFSPvParameter ''NodePublishVolume'' (fst (PubContext req)) (snd (PubContext req))
             (PubSecrets req) of
        Inl e \<Rightarrow> (Some (Inl e), [], s)
      | Inr p \<Rightarrow>
          (case wrap_error (Wrapf ''create mount path'' [PubTargetPath req])
                  (ensureDirectoryCreated host (PubTargetPath req)) s of
             (Inl e, s2) \<Rightarrow> (Some (Inl e), [], s2)
           | (Inr _, s2) \<Rightarrow>
               mounted_at (PubTargetPath req)
                 (mountKodoFS host (PubVolumeId req) (gatewayID p) (PubTargetPath req)
                   (fsMountServerAddress (kodofsStorageClass p)) (accessToken p) ''/'') s2))"

definition KodoFS_NodeUnpublishVolume :: "'w host \<Rightarrow> unpublish_request \<Rightarrow> ('w, unit) action" where
  "KodoFS_NodeUnpublishVolume host req s =
     (if UnpTargetPath req = [] then (Inl (Errorf ''NodeUnpublishVolume: mountPath is empty'' []), s)
      else unmount_if_mounted host (isKodoFSMounted host (UnpTargetPath req)) (UnpTargetPath req) s)"

text \<open>\<^verbatim>\<open>NodeStageVolume\<close> and \<^verbatim>\<open>NodeUnstageVolume\<close> do nothing and \<^verbatim>\<open>NodeExpandVolume\<close> is not implemented.\<close>

definition NodeStageVolume :: "('w, unit) action" where
  "NodeStageVolume = succeed ()"

definition NodeUnstageVolume :: "('w, unit) action" where
  "NodeUnstageVolume = succeed ()"

definition NodeExpandVolume :: "('w, unit) action" where
  "NodeExpandVolume = fail (Errorf ''Unimplemented'' [])"

section \<open>Unpublishing\<close>

lemma umount_outcome: "is_ok (fst (umount host path s)) \<longleftrightarrow>
    is_ok (fst (exec_Output host \<lparr>ExecName = ''umount'', ExecArgs = [''-f'', path]\<rparr> (remote s)))"
  by (auto simp: umount_def and_then_def succeed_def host_call_def split: prod.splits sum.splits)

lemma unmount_if_mounted_any:
  assumes "mounts_as_documented host table" "table (remote s) \<noteq> []"
  shows "unmount_if_mounted host (isMounted host path ft) path s =
    wrap_error (Wrapf ''failed to unmount'' []) (umount host path) s"
  by (simp add: unmount_if_mounted_def isMounted_counted [OF assms])

text \<open>
  C30: on a host with at least one mount, unpublishing a volume of either driver succeeds exactly
  when \<^verbatim>\<open>umount -f\<close> of the target path does: a path that is no longer mounted is not skipped, so a
  repeated call fails as soon as \<^verbatim>\<open>umount\<close> does.  What becomes of the connector's files does
  not count.
\<close>

theorem NodeUnpublish_outcome:
  assumes "mounts_as_documented host table" "table (remote s) \<noteq> []" "UnpTargetPath req \<noteq> []"
  shows "(is_ok (fst (Kodo_NodeUnpublishVolume host req s)) \<longleftrightarrow>
      is_ok (fst (exec_Output host \<lparr>ExecName = ''umount'', ExecArgs = [''-f'', UnpTargetPath req]\<rparr> (remote s)))) \<and>
    (is_ok (fst (KodoFS_NodeUnpublishVolume host req s)) \<longleftrightarrow>
      is_ok (fst (exec_Output host \<lparr>ExecName = ''umount'', ExecArgs = [''-f'', UnpTargetPath req]\<rparr> (remote s))))"
proof -
  let ?p = "UnpTargetPath req"
  have w: "is_ok (fst (wrap_error f a t)) \<longleftrightarrow> is_ok (fst (a t))" for f and a :: "('a, unit) action" and t
    by (auto simp: wrap_error_def split: prod.splits sum.splits)
  have any: "unmount_if_mounted host (isKodoMounted host ?p) ?p s = wrap_error (Wrapf ''failed to unmount'' []) (umount host ?p) s"
    "unmount_if_mounted host (isKodoFSMounted host ?p) ?p s = wrap_error (Wrapf ''failed to unmount'' []) (umount host ?p) s"
    unfolding isKodoMounted_def isKodoFSMounted_def by (rule unmount_if_mounted_any [OF assms(1,2)])+
  have "is_ok (fst (Kodo_NodeUnpublishVolume host req s)) \<longleftrightarrow>
      is_ok (fst (wrap_error (Wrapf ''failed to unmount'' []) (umount host ?p) s))"
    by (simp add: Kodo_NodeUnpublishVolume_def assms(3) any split: prod.split sum.split)
  moreover have "is_ok (fst (KodoFS_NodeUnpublishVolume host req s)) \<longleftrightarrow>
      is_ok (fst (wrap_error (Wrapf ''failed to unmount'' []) (umount host ?p) s))"
    by (simp add: KodoFS_NodeUnpublishVolume_def assms(3) any)
  ultimately show ?thesis by (simp add: w umount_outcome)
qed

definition stuck_host :: "'w host" where
  "stuck_host = rootfs_host\<lparr>exec_Output := \<lambda>_ w. (Inl (StdErr ''not mounted''), w)\<rparr>"

theorem NodeUnpublish_outcome_witness:
  "\<not> is_ok (fst (Kodo_NodeUnpublishVolume stuck_host \<lparr>UnpTargetPath = ''/m'', UnpVolumeId = ''pv''\<rparr> (script_state [])))"
proof -
  have "mounts_as_documented stuck_host (\<lambda>_. [\<lparr>Mountpoint = ''/'', FSType = ''ext4''\<rparr>])"
    by (simp add: mounts_as_documented_def stuck_host_def rootfs_host_def)
  from NodeUnpublish_outcome [OF this, where s = "script_state []" and req = "\<lparr>UnpTargetPath = ''/m'', UnpVolumeId = ''pv''\<rparr>"]
  show ?thesis by (simp add: stuck_host_def)
qed

section \<open>Publishing\<close>

lemma ensureDirectoryCreated_ok:
  "ensureDirectoryCreated host path s = (Inr u, s') \<Longrightarrow>
     os_Lstat host path (remote s) = StatDir \<and> s' = s \<or>
     os_Lstat host path (remote s) = StatNotExist \<and> host_call (os_MkdirAll host path 493) s = (Inr u, s')"
  by (auto simp: ensureDirectoryCreated_def action_defs split: stat_result.splits)

lemma mounted_at_Inr:
  "mounted_at path m s = (Some (Inr u), out, s') \<longleftrightarrow> m s = (Some (Inr u), out, s')"
  by (auto simp: mounted_at_def split: prod.splits option.splits sum.splits)

lemma mount_over_socket_out:
  assumes "mount_over_socket host reply c s = (Some (Inr u), out, s')"
  shows "\<exists>extra. out = cmd_message c # extra"
proof -
  obtain d s1 where dial: "host_call (net_Dial host SocketPath) s = (d, s1)" by fastforce
  show ?thesis
  proof (cases d)
    case (Inl e)
    with assms dial show ?thesis by (simp add: mount_over_socket_def)
  next
    case (Inr ses)
    with assms dial have "run_session reply c ses = (Some (Inr u), out)"
      by (auto simp: mount_over_socket_def split: prod.splits)
    then show ?thesis
      using mount_loop_out [of reply ses "[cmd_message c]" "incoming ses"]
      by (auto simp: run_session_def writeCmdToConn_def split: option.splits)
  qed
qed

text \<open>
  A Kodo volume is only reported as published after its parameters were read, the mount path
  was a directory or was created, and the connector was sent the mount command made from these
  parameters.
\<close>

theorem Kodo_NodePublish_success:
  assumes "Kodo_NodePublishVolume env host req s = (Some (Inr u), out, s')"
  shows "PubTargetPath req \<noteq> [] \<and>
    (\<exists>p ep s1 s2 extra. parseKodoPvParameter env ''NodePublishVolume'' (fst (PubContext req)) (snd (PubContext req))
        (PubSecrets req) s = (Inr p, s1) \<and> s3Endpoint p = Some ep \<and>
      (os_Lstat host (PubTargetPath req) (remote s1) = StatDir \<and> s2 = s1 \<or>
       os_Lstat host (PubTargetPath req) (remote s1) = StatNotExist \<and>
         host_call (os_MkdirAll host (PubTargetPath req) 493) s1 = (Inr (), s2)) \<and>
      mountKodo host (PubVolumeId req) (PubTargetPath req) p (url_String ep) s2 = (Some (Inr u), out, s') \<and>
      out = cmd_message (CInitKodoMount (kodo_mount_cmd (PubVolumeId req) (PubTargetPath req) p (url_String ep))) # extra)"
proof -
  from assms have ne: "PubTargetPath req \<noteq> []"
    by (auto simp: Kodo_NodePublishVolume_def)
  with assms obtain p s1 where p: "parseKodoPvParameter env ''NodePublishVolume'' (fst (PubContext req))
      (snd (PubContext req)) (PubSecrets req) s = (Inr p, s1)"
    by (auto simp: Kodo_NodePublishVolume_def split: prod.splits sum.splits)
  with assms ne obtain s2 where d: "ensureDirectoryCreated host (PubTargetPath req) s1 = (Inr (), s2)"
    by (auto simp: Kodo_NodePublishVolume_def wrap_error_def split: prod.splits sum.splits)
  with assms ne p obtain ep where ep: "s3Endpoint p = Some ep"
    and m: "mountKodo host (PubVolumeId req) (PubTargetPath req) p (url_String ep) s2 = (Some (Inr u), out, s')"
    by (auto simp: Kodo_NodePublishVolume_def wrap_error_def mounted_at_Inr split: option.splits)
  have "\<exists>extra. out = cmd_message (CInitKodoMount (kodo_mount_cmd (PubVolumeId req) (PubTargetPath req) p (url_String ep))) # extra"
    using m unfolding mountKodo_def by (rule mount_over_socket_out)
  with ne p d ep m ensureDirectoryCreated_ok [OF d] show ?thesis by blast
qed

definition demo_publish :: publish_request where
  "demo_publish =
     (let ctx = context_of (kodo_context demo_parameter demo_bucket demo_s3 ''cn-east-1'' ''ak'' ''sk'')
      in \<lparr>PubTargetPath = ''/m'', PubVolumeId = ''pv'', PubContext = (ctx, ctx), PubSecrets = []\<rparr>)"

lemma demo_publish_ok:
  "fst (Kodo_NodePublishVolume script_env (talking_host [Item (Inr (cmd_message (TerminateCmd 0)))]) demo_publish
     (script_state [])) = Some (Inr ())"
proof -
  have m: "mount_message kodo_reply (cmd_message (TerminateCmd 0)) = Inl (Inr ())"
    using mount_message_terminate [of 0 kodo_reply] by (simp add: int64_code_def terminated_def)
  show ?thesis
    using kodo_context_parse_all [OF demo_storable, of _ _ script_env "''NodePublishVolume''" "script_state []"]
    by (simp add: Kodo_NodePublishVolume_def demo_publish_def Let_def read_back_def
        ensureDirectoryCreated_def talking_host_def rootfs_host_def host_call_def wrap_error_def mounted_at_def
        mountKodo_def mount_over_socket_def run_session_def writeCmdToConn_def m)
qed

theorem Kodo_NodePublish_success_witness:
  "\<exists>p ep extra. s3Endpoint p = Some ep \<and>
     fst (snd (Kodo_NodePublishVolume script_env (talking_host [Item (Inr (cmd_message (TerminateCmd 0)))]) demo_publish
       (script_state []))) = cmd_message (CInitKodoMount (kodo_mount_cmd ''pv'' ''/m'' p (url_String ep))) # extra"
proof -
  let ?r = "Kodo_NodePublishVolume script_env (talking_host [Item (Inr (cmd_message (TerminateCmd 0)))]) demo_publish
       (script_state [])"
  have r: "?r = (Some (Inr ()), fst (snd ?r), snd (snd ?r))"
    using demo_publish_ok by (metis prod.collapse)
  from Kodo_NodePublish_success [OF r] show ?thesis by (auto simp: demo_publish_def Let_def)
qed

end
