(* ===== verification/Connector_Utils.thy ===== *)
theory Connector_Utils
  imports Host_World Go_Hash Go_Path
begin

text \<open>
  \<^verbatim>\<open>connector/utils.go\<close>.  The connector's operations act on the outside world alone.  The record
  \<open>connector\<close> holds what they are given: the host, the directories and the user agent that
  \<^verbatim>\<open>main\<close> sets up, the standard input of the running process, and the third-party package
  \<^verbatim>\<open>goconfig\<close> as \<open>goconfig_Save\<close>, which is told the values set in an empty configuration
  (section, key, value), in the order of the calls, and the path to save them at.
\<close>

type_synonym ('w, 'a) io = "'w \<Rightarrow> 'a result \<times> 'w"

definition io_then :: "('w, 'a) io \<Rightarrow> ('a \<Rightarrow> ('w, 'b) io) \<Rightarrow> ('w, 'b) io" where
  "io_then a k w = (case a w of (Inl e, w') \<Rightarrow> (Inl e, w') | (Inr x, w') \<Rightarrow> k x w')"

record 'w connector =
  cHost :: "'w host"
  goconfig_Save :: "(string \<times> string \<times> string) list \<Rightarrow> string \<Rightarrow> ('w, unit) io"
  stdin_Write :: "string \<Rightarrow> ('w, unit) io"
  rcloneConfigDir :: string
  rcloneCacheDir :: string
  rcloneLogDir :: string
  rcloneUserAgent :: string

section \<open>Directories and files\<close>

definition userLogDir :: "string \<Rightarrow> (string \<Rightarrow> string) \<Rightarrow> string result" where
  "userLogDir goos getenv =
     (if goos = ''windows'' then
        (let d = getenv ''LocalAppData'' in
         if d = [] then Inl (Errorf ''%LocalAppData% is not defined'' []) else Inr d)
      else if goos = ''darwin'' \<or> goos = ''ios'' then
        (let d = getenv ''HOME'' in
         if d = [] then Inl (Errorf ''$HOME is not defined'' []) else Inr (d @ ''/Library/Logs''))
      else if goos = ''plan9'' then
        (let d = getenv ''home'' in
         if d = [] then Inl (Errorf ''$home is not defined'' []) else Inr (d @ ''/lib/log''))
      else Inr ''/var/log'')"

definition rcloneCacheId :: "string list \<Rightarrow> string" where
  "rcloneCacheId items = EncodeToString (md5_Sum (concat (map (\<lambda>item. item @ [CHR 0x00]) items)))"

text \<open>
  When \<^verbatim>\<open>Stat\<close> fails otherwise than with "not exist", the file information is nil and asking it
  whether it is a directory panics.
\<close>

definition ensureDirectoryExists :: "'w host \<Rightarrow> string \<Rightarrow> ('w, unit) io" where
  "ensureDirectoryExists host path w =
     (case os_Stat host path w of
        StatNotExist \<Rightarrow> os_MkdirAll host path 448 w
      | StatError e \<Rightarrow> (Inl (Panic ''nil pointer dereference''), w)
      | StatOther \<Rightarrow> (Inl (Errorf ''exists but not a directory'' [path]), w)
      | StatDir \<Rightarrow> (Inr (), w))"

definition ensureFileNotExists :: "'w host \<Rightarrow> string \<Rightarrow> ('w, unit) io" where
  "ensureFileNotExists host path w =
     (case os_Stat host path w of StatNotExist \<Rightarrow> (Inr (), w) | _ \<Rightarrow> os_Remove host path w)"

section \<open>Commands\<close>

definition ensureCommandExists :: "'w host \<Rightarrow> string \<Rightarrow> ('w, unit) io" where
  "ensureCommandExists host name w =
     (case exec_LookPath host name w of
        Inl e \<Rightarrow> (Inl (Wrapf ''cannot find command'' [name] e), w)
      | Inr _ \<Rightarrow> (Inr (), w))"

definition useSystemdOrNot :: "'w host \<Rightarrow> ('w, unit) io" where
  "useSystemdOrNot host =
     io_then (ensureCommandExists host ''systemd-run'') (\<lambda>_.
     io_then (exec_Output host \<lparr>ExecName = ''systemd-run'',
         ExecArgs = [''--no-ask-password'', ''--unit=systemd-test.service'', ''--pipe'',
           ''--service-type=forking'', ''--collect'', ''true'']\<rparr>) (\<lambda>_ w. (Inr (), w)))"

section \<open>The rclone configuration\<close>

datatype rclone_key =
    RCLONE_CONFIG_KEY_TYPE
  | RCLONE_CONFIG_KEY_PROVIDER
  | RCLONE_CONFIG_KEY_ACCESS_KEY
  | RCLONE_CONFIG_KEY_SECRET_KEY
  | RCLONE_CONFIG_KEY_REGION
  | RCLONE_CONFIG_KEY_ENDPOINT
  | RCLONE_CONFIG_KEY_FORCE_PATH_STYLE
  | RCLONE_CONFIG_KEY_LOCATION_CONSTRAINT
  | RCLONE_CONFIG_KEY_ACL
  | RCLONE_CONFIG_KEY_STORAGE_CLASS
  | RCLONE_CONFIG_KEY_NO_CHECK_BUCKET
  | RCLONE_CONFIG_KEY_UPLOAD_CHUNK_SIZE
  | RCLONE_CONFIG_KEY_UPLOAD_CUTOFF
  | RCLONE_CONFIG_KEY_UPLOAD_CONCURRENCY

primrec rclone_key_name :: "rclone_key \<Rightarrow> string" where
  "rclone_key_name RCLONE_CONFIG_KEY_TYPE = ''type''"
| "rclone_key_name RCLONE_CONFIG_KEY_PROVIDER = ''provider''"
| "rclone_key_name RCLONE_CONFIG_KEY_ACCESS_KEY = ''access_key_id''"
| "rclone_key_name RCLONE_CONFIG_KEY_SECRET_KEY = ''secret_access_key''"
| "rclone_key_name RCLONE_CONFIG_KEY_REGION = ''region''"
| "rclone_key_name RCLONE_CONFIG_KEY_ENDPOINT = ''endpoint''"
| "rclone_key_name RCLONE_CONFIG_KEY_FORCE_PATH_STYLE = ''force_path_style''"
| "rclone_key_name RCLONE_CONFIG_KEY_LOCATION_CONSTRAINT = ''location_constraint''"
| "rclone_key_name RCLONE_CONFIG_KEY_ACL = ''acl''"
| "rclone_key_name RCLONE_CONFIG_KEY_STORAGE_CLASS = ''storage_class''"
| "rclone_key_name RCLONE_CONFIG_KEY_NO_CHECK_BUCKET = ''no_check_bucket''"
| "rclone_key_name RCLONE_CONFIG_KEY_UPLOAD_CHUNK_SIZE = ''chunk_size''"
| "rclone_key_name RCLONE_CONFIG_KEY_UPLOAD_CUTOFF = ''upload_cutoff''"
| "rclone_key_name RCLONE_CONFIG_KEY_UPLOAD_CONCURRENCY = ''upload_concurrency''"

definition RCLONE_CONFIG_S3_TYPE :: string where "RCLONE_CONFIG_S3_TYPE = ''s3''"
definition RCLONE_CONFIG_QINIU_PROVIDER :: string where "RCLONE_CONFIG_QINIU_PROVIDER = ''Qiniu''"
definition RCLONE_CONFIG_PUBLIC_READ_WRITE_ACL :: string where "RCLONE_CONFIG_PUBLIC_READ_WRITE_ACL = ''public-read-write''"
definition RCLONE_CONFIG_BOOL_TRUE :: string where "RCLONE_CONFIG_BOOL_TRUE = ''true''"

definition optional_value :: "rclone_key \<Rightarrow> string option \<Rightarrow> (string \<times> string) list" where
  "optional_value k v = (case v of None \<Rightarrow> [] | Some x \<Rightarrow> [(rclone_key_name k, x)])"

definition rclone_values :: "InitKodoMountCmd \<Rightarrow> (string \<times> string) list" where
  "rclone_values c =
     map (\<lambda>(k, v). (rclone_key_name k, v))
       [(RCLONE_CONFIG_KEY_TYPE, RCLONE_CONFIG_S3_TYPE), (RCLONE_CONFIG_KEY_PROVIDER, RCLONE_CONFIG_QINIU_PROVIDER),
        (RCLONE_CONFIG_KEY_ACCESS_KEY, AccessKey c), (RCLONE_CONFIG_KEY_SECRET_KEY, SecretKey c),
        (RCLONE_CONFIG_KEY_REGION, S3Region c), (RCLONE_CONFIG_KEY_ENDPOINT, S3Endpoint c),
        (RCLONE_CONFIG_KEY_LOCATION_CONSTRAINT, S3Region c),
        (RCLONE_CONFIG_KEY_ACL, RCLONE_CONFIG_PUBLIC_READ_WRITE_ACL), (RCLONE_CONFIG_KEY_STORAGE_CLASS, StorageClass c),
        (RCLONE_CONFIG_KEY_NO_CHECK_BUCKET, RCLONE_CONFIG_BOOL_TRUE),
        (RCLONE_CONFIG_KEY_FORCE_PATH_STYLE, FormatBool (S3ForcePathStyle c))] @
     optional_value RCLONE_CONFIG_KEY_UPLOAD_CHUNK_SIZE (map_option formatByteSize (UploadChunkSize c)) @
     optional_value RCLONE_CONFIG_KEY_UPLOAD_CUTOFF (map_option formatByteSize (UploadCutoff c)) @
     optional_value RCLONE_CONFIG_KEY_UPLOAD_CONCURRENCY (map_option formatUint (UploadConcurrency c))"

definition rclone_config_path :: "'w connector \<Rightarrow> InitKodoMountCmd \<Rightarrow> string" where
  "rclone_config_path cn c = Join [rcloneConfigDir cn, VolumeId c @ ''.conf'']"

text \<open>The path is returned also when saving fails.\<close>

definition writeRcloneConfig :: "'w connector \<Rightarrow> InitKodoMountCmd \<Rightarrow> 'w \<Rightarrow> string \<times> unit result \<times> 'w" where
  "writeRcloneConfig cn c w =
     (rclone_config_path cn c,
      goconfig_Save cn (map (\<lambda>(k, v). (VolumeId c, k, v)) (rclone_values c)) (rclone_config_path cn c) w)"

section \<open>The version of rclone\<close>

text \<open>
  The three regular expressions are literals followed by white space (\<^verbatim>\<open>\s+\<close>) and end in a word
  that is captured.  A literal never starts with white space, so each \<^verbatim>\<open>\s+\<close> takes all of it;
  the first position where the literals match is the leftmost match.
\<close>

definition regexSpace :: "char \<Rightarrow> bool" where
  "regexSpace c \<longleftrightarrow> c \<in> {CHR '' '', CHR 0x09, CHR 0x0A, CHR 0x0C, CHR 0x0D}"

fun match_here :: "string list \<Rightarrow> string \<Rightarrow> string option" where
  "match_here [] s =
     (let word = takeWhile (\<lambda>c. \<not> regexSpace c) s in if word = [] then None else Some word)"
| "match_here (lit # lits) s =
     (if HasPrefix s lit then
        (let rest = drop (length lit) s in
         if rest \<noteq> [] \<and> regexSpace (hd rest) then match_here lits (dropWhile regexSpace rest) else None)
      else None)"

fun match_first :: "string list \<Rightarrow> string \<Rightarrow> string option" where
  "match_first lits [] = None"
| "match_first lits (c # s) =
     (case match_here lits (c # s) of Some word \<Rightarrow> Some word | None \<Rightarrow> match_first lits s)"

definition submatch :: "string list \<Rightarrow> string \<Rightarrow> string" where
  "submatch lits s = (case match_first lits s of Some word \<Rightarrow> word | None \<Rightarrow> [])"

definition getRcloneVersion :: "'w host \<Rightarrow> ('w, string \<times> string \<times> string) io" where
  "getRcloneVersion host =
     io_then (exec_Output host \<lparr>ExecName = RcloneCmd, ExecArgs = [''version'']\<rparr>) (\<lambda>output w.
       (Inr (submatch [''rclone''] output, submatch [''-'', ''os/version:''] output,
             submatch [''-'', ''os/kernel:''] output), w))"

section \<open>Facts\<close>

lemma rclone_values_keys: "distinct (map fst (rclone_values c))"
  by (simp add: rclone_values_def optional_value_def split: option.split)

lemma match_here_word:
  "match_here lits s = Some word \<Longrightarrow> word \<noteq> [] \<and> (\<forall>c \<in> set word. \<not> regexSpace c)"
  by (induction lits s rule: match_here.induct)
     (auto simp: Let_def split: if_splits dest: set_takeWhileD)

lemma match_first_word:
  "match_first lits s = Some word \<Longrightarrow> word \<noteq> [] \<and> (\<forall>c \<in> set word. \<not> regexSpace c)"
  by (induction lits s rule: match_first.induct) (auto split: option.splits dest: match_here_word)

lemma rcloneCacheId_length [simp]: "length (rcloneCacheId items) = 32"
  by (simp add: rcloneCacheId_def EncodeToString_length)

lemma rcloneCacheId_no_slash: "CHR ''/'' \<notin> set (rcloneCacheId items)" "CHR ''.'' \<notin> set (rcloneCacheId items)"
  using EncodeToString_chars [of "md5_Sum (concat (map (\<lambda>item. item @ [CHR 0x00]) items))"]
  by (auto simp: rcloneCacheId_def hexChars_def)

lemma rcloneCacheId_plain: "plain_elem (rcloneCacheId items)"
proof -
  have "rcloneCacheId items \<noteq> x" if "length x \<noteq> 32" for x
    using that by (metis rcloneCacheId_length)
  then have "rcloneCacheId items \<noteq> []" "rcloneCacheId items \<noteq> ''.''" "rcloneCacheId items \<noteq> ''..''"
    by simp_all
  then show ?thesis using rcloneCacheId_no_slash by (simp add: plain_elem_def)
qed

end
