(* ===== verification/Connector.thy ===== *)
theory Connector
  imports Connector_Utils Protocol_Json Event_System
begin

text \<open>
  \<^verbatim>\<open>connector/main.go\<close>: what the connector does with one connection.  \<^verbatim>\<open>handleConn\<close> scans lines
  and passes the commands to \<^verbatim>\<open>handleCmd\<close>, which runs them; the output of the mount command and
  its exit code go back through a channel to the goroutine that writes to the connection.

  The goroutines of a connection form a state machine: the scanning part of \<^verbatim>\<open>handleConn\<close>
  (\<open>reader\<close>), its writing goroutine (\<open>writer\<close>), the loop of \<^verbatim>\<open>handleCmd\<close> (\<open>handler\<close>), the two
  output readers (\<open>outStdout\<close>, \<open>outStderr\<close>) and the goroutine that waits for the process
  (\<open>runner\<close>).  Both channels are unbuffered: a send happens together with its receive.  Both
  output readers read from the standard output of the process, as they do in the code.
\<close>

section \<open>Commands from lines (handleConn)\<close>

definition parse_request :: "request \<Rightarrow> cmd result" where
  "parse_request rq =
     (if RqVersion rq \<noteq> Version then Inl (Errorf ''Unrecognized protocol version'' [RqVersion rq])
      else if RqCmd rq = InitKodoFsMountCmdName then
        map_sum id CInitKodoFSMount (read_payload kodofs_table zero_kodofs rq)
      else if RqCmd rq = InitKodoMountCmdName then
        map_sum id CInitKodoMount (read_payload kodo_table zero_kodo rq)
      else if RqCmd rq = RequestDataCmdName then
        map_sum id RequestDataCmd (read_payload request_data_table [] rq)
      else if RqCmd rq = KodoUmountCmdName then
        map_sum id CKodoUmount (read_payload umount_table zero_umount rq)
      else Inl (Errorf ''Unrecognized request cmd'' [RqCmd rq]))"

text \<open>A line is the document it holds, or the error of parsing it.\<close>

definition parse_line :: "json result \<Rightarrow> cmd result" where
  "parse_line line =
     (case line of
        Inl e \<Rightarrow> Inl e
      | Inr j \<Rightarrow> (case read_request j of Inl e \<Rightarrow> Inl e | Inr rq \<Rightarrow> parse_request rq))"

section \<open>Running a command (handleCmd)\<close>

record handler_vars =
  hExec :: "exec_cmd option"
  hStdin :: bool
  hStdout :: bool
  hStderr :: bool
  hConfigPath :: string
  hCtx :: goctx

datatype started = StartStdout | StartStderr | StartRun

text \<open>Read on, return from \<^verbatim>\<open>handleCmd\<close>, or panic, which ends the whole connector.\<close>

datatype next_move = Continue | Return | Crash

definition on_error :: "gerror \<Rightarrow> next_move" where
  "on_error e = (case e of Panic m \<Rightarrow> Crash | _ \<Rightarrow> Return)"

type_synonym 'w handling = "next_move \<times> handler_vars \<times> started list \<times> 'w"

definition execCommand :: "'w connector \<Rightarrow> exec_cmd \<Rightarrow> handler_vars \<Rightarrow> 'w \<Rightarrow> 'w handling" where
  "execCommand cn ec h w =
     (if hExec h \<noteq> None then (Return, h, [], w)
      else let h1 = h\<lparr>hExec := Some ec\<rparr> in
        case os_Pipe (cHost cn) w of
          (Inl e, w1) \<Rightarrow> (Return, h1, [], w1)
        | (Inr _, w1) \<Rightarrow>
            (case os_Pipe (cHost cn) w1 of
               (Inl e, w2) \<Rightarrow> (Return, h1\<lparr>hStdin := True\<rparr>, [], w2)
             | (Inr _, w2) \<Rightarrow>
                 (case os_Pipe (cHost cn) w2 of
                    (Inl e, w3) \<Rightarrow> (Return, h1\<lparr>hStdin := True, hStdout := True\<rparr>, [StartStdout], w3)
                  | (Inr _, w3) \<Rightarrow>
                      (Continue, h1\<lparr>hStdin := True, hStdout := True, hStderr := True\<rparr>,
                       [StartStdout, StartStderr, StartRun], w3))))"

text \<open>Fall back to running without systemd when it cannot be used.\<close>

definition with_systemd :: "'w connector \<Rightarrow> bool \<Rightarrow> 'w \<Rightarrow> bool \<times> 'w" where
  "with_systemd cn wanted w =
     (if wanted then
        (case useSystemdOrNot (cHost cn) w of (Inl e, w1) \<Rightarrow> (False, w1) | (Inr _, w1) \<Rightarrow> (True, w1))
      else (False, w))"

definition volumeCacheDir :: "'w connector \<Rightarrow> string \<Rightarrow> string \<Rightarrow> string" where
  "volumeCacheDir cn volumeId mountPath =
     Join [rcloneCacheDir cn, volumeId, rcloneCacheId [mountPath]]"

definition rcloneLogFile :: "'w connector \<Rightarrow> string \<Rightarrow> string \<Rightarrow> string" where
  "rcloneLogFile cn volumeId mountPath =
     Join [rcloneLogDir cn, volumeId, rcloneCacheId [mountPath] @ ''.log'']"

definition kodo_ctx :: "'w connector \<Rightarrow> string \<Rightarrow> InitKodoMountCmd \<Rightarrow> goctx \<Rightarrow> goctx" where
  "kodo_ctx cn configPath c ctx =
     ctx(ContextKeyConfigFilePath \<mapsto> configPath, ContextKeyUserAgent \<mapsto> rcloneUserAgent cn,
         ContextKeyLogFilePath \<mapsto> rcloneLogFile cn (VolumeId c) (MountPath c),
         ContextKeyCacheDirPath \<mapsto> volumeCacheDir cn (VolumeId c) (MountPath c))"

definition handle_kodo ::
    "'w connector \<Rightarrow> (nat \<Rightarrow> nat) \<Rightarrow> InitKodoMountCmd \<Rightarrow> handler_vars \<Rightarrow> 'w \<Rightarrow> 'w handling" where
  "handle_kodo cn draws c0 h w =
     (case with_systemd cn (MayRunOnSystemd c0) w of
        (sysd, w1) \<Rightarrow>
          (let c = c0\<lparr>MayRunOnSystemd := sysd\<rparr> in
           case writeRcloneConfig cn c w1 of
             (configPath, r, w2) \<Rightarrow>
               (let h1 = h\<lparr>hConfigPath := configPath\<rparr> in
                case r of
                  Inl e \<Rightarrow> (on_error e, h1, [], w2)
                | Inr _ \<Rightarrow>
                    (case ensureDirectoryExists (cHost cn) (volumeCacheDir cn (VolumeId c) (MountPath c)) w2 of
                       (Inl e, w3) \<Rightarrow> (on_error e, h1, [], w3)
                     | (Inr _, w3) \<Rightarrow>
                         (case ensureDirectoryExists (cHost cn) (Dir (rcloneLogFile cn (VolumeId c) (MountPath c))) w3 of
                            (Inl e, w4) \<Rightarrow> (on_error e, h1, [], w4)
                          | (Inr _, w4) \<Rightarrow>
                              (let h2 = h1\<lparr>hCtx := kodo_ctx cn configPath c (hCtx h1)\<rparr> in
                               case Kodo_ExecCommand draws (hCtx h2) c of
                                 Inl e \<Rightarrow> (on_error e, h2, [], w4)
                               | Inr ec \<Rightarrow> execCommand cn ec h2 w4))))))"

definition handle_kodofs ::
    "'w connector \<Rightarrow> (nat \<Rightarrow> nat) \<Rightarrow> InitKodoFSMountCmd \<Rightarrow> handler_vars \<Rightarrow> 'w \<Rightarrow> 'w handling" where
  "handle_kodofs cn draws c h w =
     (case with_systemd cn (FsMayRunOnSystemd c) w of
        (sysd, w1) \<Rightarrow> execCommand cn (KodoFS_ExecCommand draws (c\<lparr>FsMayRunOnSystemd := sysd\<rparr>)) h w1)"

text \<open>The outcomes of the four removals are ignored.\<close>

definition handle_umount :: "'w connector \<Rightarrow> KodoUmountCmd \<Rightarrow> 'w \<Rightarrow> 'w" where
  "handle_umount cn c w =
     (let dir = volumeCacheDir cn (UmVolumeId c) (UmMountPath c);
          log = rcloneLogFile cn (UmVolumeId c) (UmMountPath c);
          w1 = snd (os_RemoveAll (cHost cn) dir w);
          w2 = snd (os_Remove (cHost cn) log w1);
          w3 = snd (os_Remove (cHost cn) (Dir log) w2)
      in snd (os_Remove (cHost cn) (Dir dir) w3))"

definition handle_cmd ::
    "'w connector \<Rightarrow> (nat \<Rightarrow> nat) \<Rightarrow> cmd \<Rightarrow> handler_vars \<Rightarrow> 'w \<Rightarrow> 'w handling" where
  "handle_cmd cn draws c h w =
     (case c of
        CInitKodoFSMount f \<Rightarrow> handle_kodofs cn draws f h w
      | CInitKodoMount k \<Rightarrow> handle_kodo cn draws k h w
      | CKodoUmount u \<Rightarrow> (Continue, h, [], handle_umount cn u w)
      | RequestDataCmd d \<Rightarrow>
          (if \<not> hStdin h then (Return, h, [], w)
           else (case stdin_Write cn d w of
               (Inl e, w1) \<Rightarrow> (Return, h, [], w1)
             | (Inr _, w1) \<Rightarrow> (Continue, h, [], w1)))
      | _ \<Rightarrow> (Continue, h, [], w))"

section \<open>The goroutines of a connection\<close>

datatype reader_state = ScanLine | SendCmd cmd | ReaderDone
datatype handler_state = HandlerSelect | HandlerDone
datatype writer_state = WriterSelect | WriterDone
datatype out_state = OutNone | OutRead | OutSend string | OutDone
datatype runner_state = RunNone | RunWait | RunSend int | RunDone

text \<open>
  \<open>connDone\<close> is the cancellation in \<^verbatim>\<open>handleConn\<close>, \<open>ctxDone\<close> the one in \<^verbatim>\<open>handleCmd\<close>; \<open>chanClosed\<close>
  says that the channel of responses is closed.  The last four components record history: the
  commands run, the commands handed to \<^verbatim>\<open>conn.Write\<close> (the code ignores a write that fails or times
  out, so a peer may have received fewer), the chunks the process printed and its exit code.
\<close>

record 'w conn =
  world :: 'w
  lines :: "json result list"
  reader :: reader_state
  handler :: handler_state
  writer :: writer_state
  outStdout :: out_state
  outStderr :: out_state
  runner :: runner_state
  vars :: handler_vars
  afterRun :: bool
  stdoutQ :: "string list"
  isClosed :: bool
  ctxDone :: bool
  connDone :: bool
  chanClosed :: bool
  crashed :: bool
  executed :: "cmd list"
  written :: "cmd list"
  produced :: "string list"
  exitCode :: "int option"

definition zero_vars :: handler_vars where
  "zero_vars = \<lparr>hExec = None, hStdin = False, hStdout = False, hStderr = False, hConfigPath = [],
     hCtx = Map.empty\<rparr>"

definition conn_init :: "json result list \<Rightarrow> 'w \<Rightarrow> 'w conn" where
  "conn_init ls w =
     \<lparr>world = w, lines = ls, reader = ScanLine, handler = HandlerSelect, writer = WriterSelect,
      outStdout = OutNone, outStderr = OutNone, runner = RunNone, vars = zero_vars, afterRun = False,
      stdoutQ = [], isClosed = False, ctxDone = False, connDone = False, chanClosed = False,
      crashed = False, executed = [], written = [], produced = [], exitCode = None\<rparr>"

text \<open>
  \<open>EvEof\<close> is any end of scanning (the peer closed, an error, the deadline of 30 seconds);
  \<open>EvProduce\<close> and \<open>EvExit\<close> are what the process does; the flag of the output events is
  \<^verbatim>\<open>isError\<close>: false for the reader started for the standard output.
\<close>

datatype conn_event =
    EvScan | EvEof
  | EvExec "nat \<Rightarrow> nat"
  | EvCmdClosed | EvCtxDone
  | EvProduce string | EvExit int
  | EvRead bool | EvReadEnd bool | EvSendOut bool
  | EvSendExit
  | EvWriterStop | EvWriterSpin

definition reader_stop :: "'w conn \<Rightarrow> 'w conn" where
  "reader_stop st = st\<lparr>reader := ReaderDone, connDone := True\<rparr>"

definition scan_step :: "'w conn \<Rightarrow> 'w conn option" where
  "scan_step st =
     (case lines st of
        [] \<Rightarrow> None
      | l # ls \<Rightarrow>
          if reader st = ScanLine then
            (case parse_line l of
               Inl e \<Rightarrow> Some (reader_stop (st\<lparr>lines := ls\<rparr>))
             | Inr c \<Rightarrow> Some (st\<lparr>lines := ls, reader := SendCmd c\<rparr>))
          else None)"

text \<open>Returning from \<^verbatim>\<open>handleCmd\<close>: the deferred calls close the pipes, cancel and close the channel.\<close>

definition handler_return :: "'w conn \<Rightarrow> 'w conn" where
  "handler_return st =
     st\<lparr>handler := HandlerDone, isClosed := True, ctxDone := True, chanClosed := True\<rparr>"

definition start_all :: "started list \<Rightarrow> bool \<Rightarrow> 'w conn \<Rightarrow> 'w conn" where
  "start_all ss kodo st =
     st\<lparr>outStdout := (if StartStdout \<in> set ss then OutRead else outStdout st),
        outStderr := (if StartStderr \<in> set ss then OutRead else outStderr st),
        runner := (if StartRun \<in> set ss then RunWait else runner st),
        afterRun := (if StartRun \<in> set ss then kodo else afterRun st)\<rparr>"

definition is_kodo :: "cmd \<Rightarrow> bool" where
  "is_kodo c = (case c of CInitKodoMount k \<Rightarrow> True | _ \<Rightarrow> False)"

definition move_on :: "next_move \<Rightarrow> 'w conn \<Rightarrow> 'w conn" where
  "move_on mv st =
     (case mv of Continue \<Rightarrow> st | Return \<Rightarrow> handler_return st | Crash \<Rightarrow> st\<lparr>crashed := True\<rparr>)"

definition after_cmd :: "cmd \<Rightarrow> handler_vars \<Rightarrow> started list \<Rightarrow> 'w \<Rightarrow> 'w conn \<Rightarrow> 'w conn" where
  "after_cmd c h ss w st =
     start_all ss (is_kodo c)
       (st\<lparr>reader := ScanLine, world := w, vars := h, executed := executed st @ [c]\<rparr>)"

definition exec_step :: "'w connector \<Rightarrow> (nat \<Rightarrow> nat) \<Rightarrow> 'w conn \<Rightarrow> 'w conn option" where
  "exec_step cn draws st =
     (case reader st of
        SendCmd c \<Rightarrow>
          if handler st = HandlerSelect then
            (case handle_cmd cn draws c (vars st) (world st) of
               (mv, h, ss, w) \<Rightarrow> Some (move_on mv (after_cmd c h ss w st)))
          else None
      | _ \<Rightarrow> None)"

definition handler_stop_step :: "bool \<Rightarrow> 'w conn \<Rightarrow> 'w conn option" where
  "handler_stop_step enabled st =
     (if enabled \<and> handler st = HandlerSelect then Some (handler_return st) else None)"

definition get_out :: "bool \<Rightarrow> 'w conn \<Rightarrow> out_state" where
  "get_out b st = (if b then outStderr st else outStdout st)"

definition set_out :: "bool \<Rightarrow> out_state \<Rightarrow> 'w conn \<Rightarrow> 'w conn" where
  "set_out b x st = (if b then st\<lparr>outStderr := x\<rparr> else st\<lparr>outStdout := x\<rparr>)"

text \<open>One read of an output reader, from the standard output whatever its flag, and its check of \<^verbatim>\<open>isClosed\<close>.\<close>

definition read_step :: "bool \<Rightarrow> 'w conn \<Rightarrow> 'w conn option" where
  "read_step b st =
     (case stdoutQ st of
        s # q \<Rightarrow>
          if get_out b st = OutRead then
            Some (set_out b (if isClosed st then OutDone else OutSend s) (st\<lparr>stdoutQ := q\<rparr>))
          else None
      | [] \<Rightarrow> None)"

definition read_end_step :: "bool \<Rightarrow> 'w conn \<Rightarrow> 'w conn option" where
  "read_end_step b st =
     (if get_out b st = OutRead \<and> (isClosed st \<or> runner st \<noteq> RunWait)
      then Some (set_out b OutDone st) else None)"

text \<open>A send on the channel of responses: it panics when the channel is closed and waits for the writer.\<close>

definition respond :: "cmd \<Rightarrow> ('w conn \<Rightarrow> 'w conn) \<Rightarrow> 'w conn \<Rightarrow> 'w conn option" where
  "respond c after st =
     (if chanClosed st then Some (st\<lparr>crashed := True\<rparr>)
      else if writer st = WriterSelect then Some (after (st\<lparr>written := written st @ [c]\<rparr>))
      else None)"

definition send_out_step :: "bool \<Rightarrow> 'w conn \<Rightarrow> 'w conn option" where
  "send_out_step b st =
     (case get_out b st of
        OutSend s \<Rightarrow> respond (ResponseDataCmd b s) (set_out b OutRead) st
      | _ \<Rightarrow> None)"

definition exit_step :: "'w connector \<Rightarrow> int \<Rightarrow> 'w conn \<Rightarrow> 'w conn option" where
  "exit_step cn code st =
     (if runner st = RunWait then
        (let w = (if afterRun st then snd (os_Remove (cHost cn) (hConfigPath (vars st)) (world st)) else world st);
             st1 = st\<lparr>world := w, exitCode := Some code\<rparr>
         in Some (if isClosed st then st1\<lparr>runner := RunDone, ctxDone := True\<rparr>
                  else st1\<lparr>runner := RunSend code\<rparr>))
      else None)"

definition send_exit_step :: "'w conn \<Rightarrow> 'w conn option" where
  "send_exit_step st =
     (case runner st of
        RunSend code \<Rightarrow> respond (TerminateCmd code) (\<lambda>s. s\<lparr>runner := RunDone, ctxDone := True\<rparr>) st
      | _ \<Rightarrow> None)"

definition conn_step :: "'w connector \<Rightarrow> conn_event \<Rightarrow> 'w conn \<Rightarrow> 'w conn option" where
  "conn_step cn ev st =
     (if crashed st then None
      else case ev of
        EvScan \<Rightarrow> scan_step st
      | EvEof \<Rightarrow> if reader st = ScanLine then Some (reader_stop st) else None
      | EvExec draws \<Rightarrow> exec_step cn draws st
      | EvCmdClosed \<Rightarrow> handler_stop_step (reader st = ReaderDone) st
      | EvCtxDone \<Rightarrow> handler_stop_step (ctxDone st) st
      | EvProduce s \<Rightarrow>
          if runner st = RunWait
          then Some (st\<lparr>stdoutQ := stdoutQ st @ [s], produced := produced st @ [s]\<rparr>) else None
      | EvExit code \<Rightarrow> exit_step cn code st
      | EvRead b \<Rightarrow> read_step b st
      | EvReadEnd b \<Rightarrow> read_end_step b st
      | EvSendOut b \<Rightarrow> send_out_step b st
      | EvSendExit \<Rightarrow> send_exit_step st
      | EvWriterStop \<Rightarrow>
          if writer st = WriterSelect \<and> connDone st then Some (st\<lparr>writer := WriterDone\<rparr>) else None
      | EvWriterSpin \<Rightarrow> if writer st = WriterSelect \<and> chanClosed st then Some st else None)"

end
