(* ===== verification/Connector_Facts.thy ===== *)
theory Connector_Facts
  imports Connector Mount_Local
begin

text \<open>
  Invariants of a connection of the connector, for every schedule of its goroutines and every
  behaviour of the process: the commands it runs, the process it starts, what it writes back.
\<close>

section \<open>Handling a command\<close>

lemma execCommand_cases:
  "execCommand cn ec h w = (mv, h', ss, w') \<Longrightarrow>
     (hExec h \<noteq> None \<and> h' = h \<and> ss = [] \<and> mv = Return) \<or>
     (hExec h = None \<and> hExec h' = Some ec \<and> (StartRun \<in> set ss \<longleftrightarrow> mv = Continue) \<and>
        (StartStderr \<in> set ss \<longrightarrow> StartStdout \<in> set ss) \<and> mv \<noteq> Crash)"
  by (auto simp: execCommand_def Let_def split: if_splits prod.splits sum.splits)

lemma handle_cmd_exec:
  assumes "handle_cmd cn draws c h w = (mv, h', ss, w')"
  shows "(hExec h' = hExec h \<and> ss = []) \<or> (hExec h = None \<and> hExec h' \<noteq> None)"
proof (cases c)
  case (CInitKodoMount k)
  obtain sysd w1 where sysd: "with_systemd cn (MayRunOnSystemd k) w = (sysd, w1)" by fastforce
  obtain path r w2 where conf: "writeRcloneConfig cn (k\<lparr>MayRunOnSystemd := sysd\<rparr>) w1 = (path, r, w2)"
    by (metis prod_cases3)
  show ?thesis
    using assms sysd conf unfolding CInitKodoMount
    by (auto simp: handle_cmd_def handle_kodo_def Let_def dest!: execCommand_cases split: sum.splits prod.splits)
next
  case (CInitKodoFSMount f)
  with assms show ?thesis
    by (auto simp: handle_cmd_def handle_kodofs_def dest!: execCommand_cases split: prod.splits)
qed (use assms in \<open>auto simp: handle_cmd_def split: if_splits sum.splits prod.splits\<close>)

section \<open>One process, one exit code\<close>

definition terminates :: "cmd list \<Rightarrow> int list" where
  "terminates cs = concat (map (\<lambda>c. case c of TerminateCmd n \<Rightarrow> [n] | _ \<Rightarrow> []) cs)"

definition chunks :: "cmd list \<Rightarrow> string list" where
  "chunks cs = concat (map (\<lambda>c. case c of ResponseDataCmd e s \<Rightarrow> [s] | _ \<Rightarrow> []) cs)"

lemma terminates_simps [simp]:
  "terminates [] = []" "terminates (cs @ ds) = terminates cs @ terminates ds"
  "terminates [ResponseDataCmd b s] = []" "terminates [TerminateCmd n] = [n]"
  by (simp_all add: terminates_def)

lemma chunks_simps [simp]:
  "chunks [] = []" "chunks (cs @ ds) = chunks cs @ chunks ds"
  "chunks [ResponseDataCmd b s] = [s]" "chunks [TerminateCmd n] = []"
  by (simp_all add: chunks_def)

definition runner_ok :: "runner_state \<Rightarrow> int option \<Rightarrow> int list \<Rightarrow> bool" where
  "runner_ok r code terms \<longleftrightarrow>
     (case r of
        RunNone \<Rightarrow> code = None \<and> terms = []
      | RunWait \<Rightarrow> code = None \<and> terms = []
      | RunSend n \<Rightarrow> code = Some n \<and> terms = []
      | RunDone \<Rightarrow> \<exists>n. code = Some n \<and> terms \<in> {[], [n]})"

lemma runner_ok_simps [simp]:
  "runner_ok RunNone code terms \<longleftrightarrow> code = None \<and> terms = []"
  "runner_ok RunWait code terms \<longleftrightarrow> code = None \<and> terms = []"
  "runner_ok (RunSend n) code terms \<longleftrightarrow> code = Some n \<and> terms = []"
  "runner_ok RunDone code terms \<longleftrightarrow> (\<exists>n. code = Some n \<and> terms \<in> {[], [n]})"
  by (simp_all add: runner_ok_def)

definition nothing_started :: "'w conn \<Rightarrow> bool" where
  "nothing_started st \<longleftrightarrow> runner st = RunNone \<and> outStdout st = OutNone \<and> outStderr st = OutNone"

definition process_ok :: "'w conn \<Rightarrow> bool" where
  "process_ok st \<longleftrightarrow>
     (hExec (vars st) = None \<longrightarrow> nothing_started st) \<and>
     runner_ok (runner st) (exitCode st) (terminates (written st))"

text \<open>Every chunk is in one place.\<close>

definition out_chunks :: "out_state \<Rightarrow> string list" where
  "out_chunks x = (case x of OutSend s \<Rightarrow> [s] | _ \<Rightarrow> [])"

lemma out_chunks_simps [simp]:
  "out_chunks OutNone = []" "out_chunks OutRead = []" "out_chunks OutDone = []" "out_chunks (OutSend s) = [s]"
  by (simp_all add: out_chunks_def)

lemma add_mset_subset_left: "add_mset x A \<subseteq># B \<Longrightarrow> A \<subseteq># B"
  by (auto dest!: mset_subset_eq_insertD intro: subset_mset.less_imp_le)

definition output_ok :: "'w conn \<Rightarrow> bool" where
  "output_ok st \<longleftrightarrow>
     mset (chunks (written st)) + mset (out_chunks (outStdout st)) + mset (out_chunks (outStderr st)) +
       mset (stdoutQ st) \<subseteq># mset (produced st)"

definition written_ok :: "'w conn \<Rightarrow> bool" where
  "written_ok st \<longleftrightarrow> (\<forall>c \<in> set (written st). (\<exists>e s. c = ResponseDataCmd e s) \<or> (\<exists>n. c = TerminateCmd n))"

text \<open>Commands that a list of lines holds, up to the first line that is not accepted.\<close>

fun read_cmds :: "json result list \<Rightarrow> cmd list" where
  "read_cmds [] = []"
| "read_cmds (l # ls) = (case parse_line l of Inl e \<Rightarrow> [] | Inr c \<Rightarrow> c # read_cmds ls)"

definition in_hand :: "reader_state \<Rightarrow> cmd list" where
  "in_hand r = (case r of SendCmd c \<Rightarrow> [c] | _ \<Rightarrow> [])"

definition commands_ok :: "cmd list \<Rightarrow> 'w conn \<Rightarrow> bool" where
  "commands_ok all st \<longleftrightarrow>
     (if reader st = ReaderDone then \<exists>later. all = executed st @ later
      else all = executed st @ in_hand (reader st) @ read_cmds (lines st))"

definition closing_ok :: "'w conn \<Rightarrow> bool" where
  "closing_ok st \<longleftrightarrow>
     (handler st = HandlerDone \<longleftrightarrow> chanClosed st) \<and> (chanClosed st \<longrightarrow> isClosed st \<and> ctxDone st) \<and>
     (connDone st \<longleftrightarrow> reader st = ReaderDone) \<and> (writer st = WriterDone \<longrightarrow> connDone st)"

definition conn_ok :: "cmd list \<Rightarrow> 'w conn \<Rightarrow> bool" where
  "conn_ok all st \<longleftrightarrow> process_ok st \<and> output_ok st \<and> written_ok st \<and> commands_ok all st \<and> closing_ok st"

section \<open>The connection as a transition relation\<close>

text \<open>One rule per branch of the step functions, with the behaviour of the host left open.\<close>

inductive conn_trans :: "'w connector \<Rightarrow> 'w conn \<Rightarrow> 'w conn \<Rightarrow> bool" for cn where
  scan_bad: "reader st = ScanLine \<Longrightarrow> lines st = l # ls \<Longrightarrow> parse_line l = Inl e \<Longrightarrow>
    conn_trans cn st (st\<lparr>lines := ls, reader := ReaderDone, connDone := True\<rparr>)"
| scan: "reader st = ScanLine \<Longrightarrow> lines st = l # ls \<Longrightarrow> parse_line l = Inr c \<Longrightarrow>
    conn_trans cn st (st\<lparr>lines := ls, reader := SendCmd c\<rparr>)"
| eof: "reader st = ScanLine \<Longrightarrow> conn_trans cn st (st\<lparr>reader := ReaderDone, connDone := True\<rparr>)"
| exec: "reader st = SendCmd c \<Longrightarrow> handler st = HandlerSelect \<Longrightarrow>
    handle_cmd cn draws c (vars st) (world st) = (mv, h, ss, w) \<Longrightarrow>
    conn_trans cn st (move_on mv (after_cmd c h ss w st))"
| handler_stop: "handler st = HandlerSelect \<Longrightarrow> conn_trans cn st (handler_return st)"
| produce: "runner st = RunWait \<Longrightarrow>
    conn_trans cn st (st\<lparr>stdoutQ := stdoutQ st @ [s], produced := produced st @ [s]\<rparr>)"
| read_stdout: "stdoutQ st = s # q \<Longrightarrow> outStdout st = OutRead \<Longrightarrow> x \<in> {OutDone, OutSend s} \<Longrightarrow>
    conn_trans cn st (st\<lparr>stdoutQ := q, outStdout := x\<rparr>)"
| read_stderr: "stdoutQ st = s # q \<Longrightarrow> outStderr st = OutRead \<Longrightarrow> x \<in> {OutDone, OutSend s} \<Longrightarrow>
    conn_trans cn st (st\<lparr>stdoutQ := q, outStderr := x\<rparr>)"
| end_stdout: "outStdout st = OutRead \<Longrightarrow> conn_trans cn st (st\<lparr>outStdout := OutDone\<rparr>)"
| end_stderr: "outStderr st = OutRead \<Longrightarrow> conn_trans cn st (st\<lparr>outStderr := OutDone\<rparr>)"
| crash: "conn_trans cn st (st\<lparr>crashed := True\<rparr>)"
| send_stdout: "outStdout st = OutSend s \<Longrightarrow> writer st = WriterSelect \<Longrightarrow> \<not> chanClosed st \<Longrightarrow>
    conn_trans cn st (st\<lparr>written := written st @ [ResponseDataCmd False s], outStdout := OutRead\<rparr>)"
| send_stderr: "outStderr st = OutSend s \<Longrightarrow> writer st = WriterSelect \<Longrightarrow> \<not> chanClosed st \<Longrightarrow>
    conn_trans cn st (st\<lparr>written := written st @ [ResponseDataCmd True s], outStderr := OutRead\<rparr>)"
| exit_closed: "runner st = RunWait \<Longrightarrow> isClosed st \<Longrightarrow>
    conn_trans cn st (st\<lparr>world := w, exitCode := Some code, runner := RunDone, ctxDone := True\<rparr>)"
| exit: "runner st = RunWait \<Longrightarrow>
    conn_trans cn st (st\<lparr>world := w, exitCode := Some code, runner := RunSend code\<rparr>)"
| send_exit: "runner st = RunSend code \<Longrightarrow> writer st = WriterSelect \<Longrightarrow> \<not> chanClosed st \<Longrightarrow>
    conn_trans cn st (st\<lparr>written := written st @ [TerminateCmd code], runner := RunDone, ctxDone := True\<rparr>)"
| writer_stop: "writer st = WriterSelect \<Longrightarrow> connDone st \<Longrightarrow> conn_trans cn st (st\<lparr>writer := WriterDone\<rparr>)"
| spin: "conn_trans cn st st"

lemma scan_trans: "scan_step st = Some st' \<Longrightarrow> conn_trans cn st st'"
  by (auto simp: scan_step_def reader_stop_def intro: conn_trans.intros split: list.splits if_splits sum.splits)

lemma exec_trans: "exec_step cn draws st = Some st' \<Longrightarrow> conn_trans cn st st'"
  by (auto simp: exec_step_def intro: conn_trans.intros split: reader_state.splits if_splits prod.splits)

lemma stop_trans: "handler_stop_step b st = Some st' \<Longrightarrow> conn_trans cn st st'"
  by (auto simp: handler_stop_step_def intro: conn_trans.intros split: if_splits)

lemma read_trans: "read_step b st = Some st' \<Longrightarrow> conn_trans cn st st'"
  by (auto simp: read_step_def get_out_def set_out_def intro: conn_trans.intros split: list.splits if_splits)

lemma read_end_trans: "read_end_step b st = Some st' \<Longrightarrow> conn_trans cn st st'"
  by (auto simp: read_end_step_def get_out_def set_out_def intro: conn_trans.intros split: if_splits)

lemma send_out_trans: "send_out_step b st = Some st' \<Longrightarrow> conn_trans cn st st'"
  by (auto simp: send_out_step_def respond_def get_out_def set_out_def intro: conn_trans.intros
      split: out_state.splits if_splits)

lemma exit_trans: "exit_step cn code st = Some st' \<Longrightarrow> conn_trans cn st st'"
proof -
  assume step: "exit_step cn code st = Some st'"
  have same: "st\<lparr>world := world st, exitCode := e, runner := r\<rparr> = st\<lparr>exitCode := e, runner := r\<rparr>"
    "st\<lparr>world := world st, exitCode := e, runner := r, ctxDone := b\<rparr> = st\<lparr>exitCode := e, runner := r, ctxDone := b\<rparr>"
    for e r b by (cases st; simp)+
  show ?thesis
    using step conn_trans.exit [where st = st and cn = cn and w = "world st" and code = code]
      conn_trans.exit_closed [where st = st and cn = cn and w = "world st" and code = code]
    unfolding same by (auto simp: exit_step_def Let_def intro: conn_trans.intros split: if_splits)
qed

lemma send_exit_trans: "send_exit_step st = Some st' \<Longrightarrow> conn_trans cn st st'"
  by (auto simp: send_exit_step_def respond_def intro: conn_trans.intros split: runner_state.splits if_splits)

lemma conn_step_trans: "conn_step cn ev st = Some st' \<Longrightarrow> conn_trans cn st st'"
  by (cases ev)
     (auto simp: conn_step_def reader_stop_def intro: conn_trans.intros scan_trans exec_trans stop_trans
        read_trans read_end_trans send_out_trans exit_trans send_exit_trans split: if_splits)

section \<open>Every transition keeps the invariants\<close>

text \<open>A handled command starts goroutines only when none was started before.\<close>

lemma started_state:
  assumes "process_ok st" "handle_cmd cn draws c (vars st) (world st) = (mv, h, ss, w)"
  shows "(ss = [] \<and> (hExec h = None \<longleftrightarrow> hExec (vars st) = None)) \<or>
    (hExec h \<noteq> None \<and> runner st = RunNone \<and> outStdout st = OutNone \<and> outStderr st = OutNone \<and>
     exitCode st = None \<and> terminates (written st) = [])"
  using handle_cmd_exec [OF assms(2)] assms(1)
  by (auto simp: process_ok_def nothing_started_def)

lemma after_cmd_sel [simp]:
  "written (after_cmd c h ss w st) = written st" "lines (after_cmd c h ss w st) = lines st"
  "reader (after_cmd c h ss w st) = ScanLine" "executed (after_cmd c h ss w st) = executed st @ [c]"
  "handler (after_cmd c h ss w st) = handler st" "writer (after_cmd c h ss w st) = writer st"
  "chanClosed (after_cmd c h ss w st) = chanClosed st" "connDone (after_cmd c h ss w st) = connDone st"
  "isClosed (after_cmd c h ss w st) = isClosed st" "ctxDone (after_cmd c h ss w st) = ctxDone st"
  "vars (after_cmd c h ss w st) = h" "world (after_cmd c h ss w st) = w"
  "crashed (after_cmd c h ss w st) = crashed st" "stdoutQ (after_cmd c h ss w st) = stdoutQ st"
  "produced (after_cmd c h ss w st) = produced st" "exitCode (after_cmd c h ss w st) = exitCode st"
  by (simp_all add: after_cmd_def start_all_def)

lemma move_on_ok [simp]:
  "process_ok (move_on mv st) = process_ok st" "output_ok (move_on mv st) = output_ok st"
  "written_ok (move_on mv st) = written_ok st" "commands_ok all (move_on mv st) = commands_ok all st"
  by (cases mv; simp add: move_on_def handler_return_def process_ok_def nothing_started_def output_ok_def
      written_ok_def commands_ok_def)+

lemma after_cmd_process:
  assumes "process_ok st" "handle_cmd cn draws c (vars st) (world st) = (mv, h, ss, w)"
  shows "process_ok (after_cmd c h ss w st)"
  using started_state [OF assms] assms(1)
  by (elim disjE conjE) (simp_all add: process_ok_def nothing_started_def after_cmd_def start_all_def)

lemma after_cmd_output:
  assumes "process_ok st" "output_ok st" "handle_cmd cn draws c (vars st) (world st) = (mv, h, ss, w)"
  shows "output_ok (after_cmd c h ss w st)"
  using started_state [OF assms(1,3)] assms(2)
  by (elim disjE conjE) (simp_all add: output_ok_def after_cmd_def start_all_def)

lemma trans_process: "conn_trans cn st st' \<Longrightarrow> process_ok st \<Longrightarrow> process_ok st'"
proof (induction rule: conn_trans.induct)
  case (exec st c draws mv h ss w)
  then show ?case by (simp add: after_cmd_process)
qed (auto simp: process_ok_def nothing_started_def handler_return_def)

lemma trans_output: "conn_trans cn st st' \<Longrightarrow> process_ok st \<Longrightarrow> output_ok st \<Longrightarrow> output_ok st'"
proof (induction rule: conn_trans.induct)
  case (exec st c draws mv h ss w)
  then show ?case by (simp add: after_cmd_output)
qed (auto simp: output_ok_def handler_return_def add.assoc dest: add_mset_subset_left)

lemma trans_written: "conn_trans cn st st' \<Longrightarrow> written_ok st \<Longrightarrow> written_ok st'"
proof (induction rule: conn_trans.induct)
  case (exec st c draws mv h ss w)
  then show ?case by (simp, simp add: written_ok_def)
qed (auto simp: written_ok_def handler_return_def)

lemma trans_commands: "conn_trans cn st st' \<Longrightarrow> commands_ok all st \<Longrightarrow> commands_ok all st'"
proof (induction rule: conn_trans.induct)
  case (exec st c draws mv h ss w)
  then show ?case by (simp, simp add: commands_ok_def in_hand_def)
qed (auto simp: commands_ok_def handler_return_def in_hand_def)

lemma trans_closing: "conn_trans cn st st' \<Longrightarrow> closing_ok st \<Longrightarrow> closing_ok st'"
proof (induction rule: conn_trans.induct)
  case (exec st c draws mv h ss w)
  then show ?case
    by (cases mv) (auto simp: closing_ok_def move_on_def handler_return_def)
qed (auto simp: closing_ok_def handler_return_def)

lemma trans_ok: "conn_trans cn st st' \<Longrightarrow> conn_ok all st \<Longrightarrow> conn_ok all st'"
  unfolding conn_ok_def
  by (auto intro: trans_process trans_output trans_written trans_commands trans_closing)

interpretation conn_inv: invariant_system "conn_step cn" "conn_ok all" for cn all
  by unfold_locales (rule trans_ok [OF conn_step_trans])

lemma conn_init_ok: "conn_ok (read_cmds ls) (conn_init ls w)"
  by (simp add: conn_ok_def process_ok_def nothing_started_def output_ok_def written_ok_def commands_ok_def closing_ok_def
      conn_init_def zero_vars_def out_chunks_def in_hand_def)

section \<open>What holds under every schedule\<close>

abbreviation conn_run :: "'w connector \<Rightarrow> conn_event list \<Rightarrow> json result list \<Rightarrow> 'w \<Rightarrow> 'w conn" where
  "conn_run cn evs ls w \<equiv> run_events (conn_step cn) evs (conn_init ls w)"

lemma conn_run_ok: "conn_ok (read_cmds ls) (conn_run cn evs ls w)"
  by (rule conn_inv.run_inv [OF conn_init_ok])

text \<open>
  Under every schedule the commands that the connector runs are, in their order and without
  gaps, an initial part of those that the lines of the connection hold before the first line that
  is not accepted.
\<close>

theorem conn_commands_in_order:
  "\<exists>later. read_cmds ls = executed (conn_run cn evs ls w) @ later"
  using conn_run_ok [of ls cn evs w] unfolding conn_ok_def commands_ok_def by (metis append_assoc)

text \<open>
  Under every schedule a connection carries back only output chunks and at most one terminate
  message, which bears the exit code of the process; no chunk is written twice and none that the
  process did not print.
\<close>

theorem conn_responses:
  "written_ok (conn_run cn evs ls w) \<and>
   (terminates (written (conn_run cn evs ls w)) = [] \<or>
    (\<exists>code. exitCode (conn_run cn evs ls w) = Some code \<and> terminates (written (conn_run cn evs ls w)) = [code])) \<and>
   mset (chunks (written (conn_run cn evs ls w))) \<subseteq># mset (produced (conn_run cn evs ls w))"
proof -
  let ?st = "conn_run cn evs ls w"
  have ok: "process_ok ?st" "output_ok ?st" "written_ok ?st"
    using conn_run_ok [of ls cn evs w] by (auto simp: conn_ok_def)
  from ok(1) have "terminates (written ?st) = [] \<or>
      (\<exists>code. exitCode ?st = Some code \<and> terminates (written ?st) = [code])"
    by (cases "runner ?st") (auto simp: process_ok_def)
  moreover have "mset (chunks (written ?st)) \<subseteq># mset (produced ?st)"
  proof -
    have "A \<subseteq># D" if "A + B + C + E \<subseteq># D" for A B C D E :: "string multiset"
      using that by (metis add.assoc mset_subset_eq_add_left subset_mset.order_trans)
    then show ?thesis using ok(2) unfolding output_ok_def by blast
  qed
  ultimately show ?thesis using ok(3) by blast
qed

section \<open>The process of a connection\<close>

text \<open>The command a process was made from: the variant with or without systemd.\<close>

definition made_from :: "'w connector \<Rightarrow> exec_cmd \<Rightarrow> cmd \<Rightarrow> bool" where
  "made_from cn ec c \<longleftrightarrow>
     (\<exists>draws sysd.
        (case c of
           CInitKodoMount k \<Rightarrow> (sysd \<longrightarrow> MayRunOnSystemd k) \<and>
             (\<exists>ctx. Kodo_ExecCommand draws (kodo_ctx cn (rclone_config_path cn k) k ctx)
                (k\<lparr>MayRunOnSystemd := sysd\<rparr>) = Inr ec)
         | CInitKodoFSMount f \<Rightarrow> (sysd \<longrightarrow> FsMayRunOnSystemd f) \<and>
             ec = KodoFS_ExecCommand draws (f\<lparr>FsMayRunOnSystemd := sysd\<rparr>)
         | _ \<Rightarrow> False))"

definition process_made :: "'w connector \<Rightarrow> 'w conn \<Rightarrow> bool" where
  "process_made cn st \<longleftrightarrow> (\<forall>ec. hExec (vars st) = Some ec \<longrightarrow> (\<exists>c \<in> set (executed st). made_from cn ec c))"

lemma execCommand_exec: "execCommand cn ec h w = (mv, h', ss, w') \<Longrightarrow> hExec h' = hExec h \<or> hExec h' = Some ec"
  by (auto simp: execCommand_def Let_def split: if_splits prod.splits sum.splits)

lemma with_systemd_wanted: "with_systemd cn b w = (sysd, w') \<Longrightarrow> sysd \<Longrightarrow> b"
  by (auto simp: with_systemd_def split: if_splits prod.splits sum.splits)

lemma rclone_config_path_systemd [simp]:
  "rclone_config_path cn (k\<lparr>MayRunOnSystemd := b\<rparr>) = rclone_config_path cn k"
  "kodo_ctx cn path (k\<lparr>MayRunOnSystemd := b\<rparr>) ctx = kodo_ctx cn path k ctx"
  by (simp_all add: rclone_config_path_def kodo_ctx_def)

lemma handle_kodo_made:
  assumes "handle_kodo cn draws k h w = (mv, h', ss, w')"
  shows "hExec h' = hExec h \<or> (\<exists>ec. hExec h' = Some ec \<and> made_from cn ec (CInitKodoMount k))"
proof -
  obtain sysd w1 where sysd: "with_systemd cn (MayRunOnSystemd k) w = (sysd, w1)" by fastforce
  let ?k = "k\<lparr>MayRunOnSystemd := sysd\<rparr>"
  obtain path r w2 where w: "writeRcloneConfig cn ?k w1 = (path, r, w2)"
    by (metis prod_cases3)
  then have "path = rclone_config_path cn k" by (simp add: writeRcloneConfig_def)
  with w have conf: "writeRcloneConfig cn ?k w1 = (rclone_config_path cn k, r, w2)" by simp
  let ?h = "h\<lparr>hConfigPath := rclone_config_path cn k\<rparr>"
  let ?ctx = "kodo_ctx cn (rclone_config_path cn k) k (hCtx h)"
  show ?thesis
  proof (cases "hExec h' = hExec h")
    case False
    with assms sysd conf obtain ec w4 where ec: "Kodo_ExecCommand draws ?ctx ?k = Inr ec"
      and run: "execCommand cn ec (?h\<lparr>hCtx := ?ctx\<rparr>) w4 = (mv, h', ss, w')"
      by (auto simp: handle_kodo_def Let_def split: sum.splits prod.splits)
    from execCommand_exec [OF run] False have "hExec h' = Some ec" by simp
    moreover have "made_from cn ec (CInitKodoMount k)"
      unfolding made_from_def using ec with_systemd_wanted [OF sysd] by auto
    ultimately show ?thesis by blast
  qed blast
qed

lemma handle_cmd_made:
  assumes "handle_cmd cn draws c h w = (mv, h', ss, w')"
  shows "hExec h' = hExec h \<or> (\<exists>ec. hExec h' = Some ec \<and> made_from cn ec c)"
proof (cases c)
  case (CInitKodoMount k)
  with assms show ?thesis
    using handle_kodo_made [of cn draws k h w mv h' ss w'] by (simp add: handle_cmd_def)
next
  case (CInitKodoFSMount f)
  obtain sysd w1 where sysd: "with_systemd cn (FsMayRunOnSystemd f) w = (sysd, w1)" by fastforce
  with assms CInitKodoFSMount have
    "execCommand cn (KodoFS_ExecCommand draws (f\<lparr>FsMayRunOnSystemd := sysd\<rparr>)) h w1 = (mv, h', ss, w')"
    by (simp add: handle_cmd_def handle_kodofs_def)
  from execCommand_exec [OF this] with_systemd_wanted [OF sysd] CInitKodoFSMount show ?thesis
    by (auto simp: made_from_def)
qed (use assms in \<open>auto simp: handle_cmd_def split: if_splits sum.splits prod.splits\<close>)

lemma trans_made: "conn_trans cn st st' \<Longrightarrow> process_made cn st \<Longrightarrow> process_made cn st'"
proof (induction rule: conn_trans.induct)
  case (exec st c draws mv h ss w)
  then have "process_made cn (after_cmd c h ss w st)"
    using handle_cmd_made [OF exec(3)] by (auto simp: process_made_def)
  then show ?case by (cases mv) (simp_all add: move_on_def handler_return_def process_made_def)
qed (auto simp: process_made_def handler_return_def)

interpretation conn_made: invariant_system "conn_step cn" "process_made cn" for cn
  by unfold_locales (rule trans_made [OF conn_step_trans])

lemma conn_run_made:
  assumes "hExec (vars (conn_run cn evs ls w)) = Some ec"
  shows "\<exists>c \<in> set (read_cmds ls). made_from cn ec c"
proof -
  have "process_made cn (conn_init ls w)" by (simp add: process_made_def conn_init_def zero_vars_def)
  from conn_made.run_inv [OF this] assms obtain c where
    "c \<in> set (executed (conn_run cn evs ls w))" "made_from cn ec c"
    unfolding process_made_def by blast
  moreover have "set (executed (conn_run cn evs ls w)) \<subseteq> set (read_cmds ls)"
    using conn_run_ok [of ls cn evs w] unfolding conn_ok_def commands_ok_def
    by (auto split: if_splits)
  ultimately show ?thesis by blast
qed

lemma made_from_kodo:
  assumes "made_from cn ec (CInitKodoMount k)" "\<not> MayRunOnSystemd k"
  shows "ec = \<lparr>ExecName = RcloneCmd, ExecArgs = kodo_args (rclone_config_path cn k) (rcloneUserAgent cn)
    (rcloneLogFile cn (VolumeId k) (MountPath k)) (volumeCacheDir cn (VolumeId k) (MountPath k)) k\<rparr>"
proof -
  have same: "k\<lparr>MayRunOnSystemd := False\<rparr> = k" using assms(2) by (cases k) simp
  from assms obtain draws ctx where
    "Kodo_ExecCommand draws (kodo_ctx cn (rclone_config_path cn k) k ctx) (k\<lparr>MayRunOnSystemd := False\<rparr>) = Inr ec"
    by (auto simp: made_from_def)
  then have "Kodo_ExecCommand draws (kodo_ctx cn (rclone_config_path cn k) k ctx) k = Inr ec"
    unfolding same .
  then show ?thesis
    using assms(2) by (simp add: Kodo_ExecCommand_def ctxString_def kodo_ctx_def Let_def)
qed

end
