(* ===== verification/Connector_Schedules.thy ===== *)
theory Connector_Schedules
  imports Connector_Facts
begin

text \<open>
  What some schedules of a connection lead to: output labelled as an error, a panic of the whole
  connector, and a connection that is never closed.
\<close>

section \<open>A connector for the examples\<close>

definition demo_connector :: "'w connector" where
  "demo_connector =
     \<lparr>cHost = rootfs_host, goconfig_Save = \<lambda>_ _ w. (Inr (), w), stdin_Write = \<lambda>_ w. (Inr (), w),
      rcloneConfigDir = ''/conf'', rcloneCacheDir = ''/cache'', rcloneLogDir = ''/log'',
      rcloneUserAgent = ''ua''\<rparr>"

definition demo_init :: cmd where
  "demo_init = CInitKodoFSMount \<lparr>FsVolumeId = ''v'', FsGatewayID = ''g'', FsMountPath = ''/m'', FsSubDir = ''/'',
     FsMayRunOnSystemd = True\<rparr>"

definition demo_conn :: "conn_event list \<Rightarrow> cmd list \<Rightarrow> unit conn" where
  "demo_conn evs cs = conn_run demo_connector evs (map (\<lambda>c. Inr (cmd_message c)) cs) ()"

definition demo_running :: "unit conn" where
  "demo_running = demo_conn [EvScan, EvExec (\<lambda>_. 0)] [demo_init]"

definition conn_view :: "'w conn \<Rightarrow> (reader_state \<times> handler_state \<times> writer_state \<times> out_state \<times> out_state \<times>
    runner_state) \<times> (string list \<times> bool \<times> bool \<times> bool) \<times> cmd list \<times> cmd list" where
  "conn_view st = ((reader st, handler st, writer st, outStdout st, outStderr st, runner st),
     (stdoutQ st, isClosed st, chanClosed st, crashed st), written st, executed st)"

lemma demo_running_view:
  "conn_view demo_running = ((ScanLine, HandlerSelect, WriterSelect, OutRead, OutRead, RunWait),
     ([], False, False, False), [], [demo_init])"
  by code_simp

lemma demo_running_state:
  "runner demo_running = RunWait" "stdoutQ demo_running = []" "get_out b demo_running = OutRead"
  "\<not> isClosed demo_running" "\<not> chanClosed demo_running" "\<not> crashed demo_running"
  "writer demo_running = WriterSelect" "written demo_running = []"
  using demo_running_view by (simp_all add: conn_view_def get_out_def)

section \<open>Output labelled by the schedule\<close>

text \<open>
  C33: whether what the process prints on its standard output reaches the plugin as standard output
  or as standard error is decided by the schedule alone: both output readers read the standard
  output, so for either label there is a continuation that sends the chunk with it.
\<close>

theorem output_label_by_schedule:
  assumes "runner st = RunWait" "stdoutQ st = []" "\<And>b. get_out b st = OutRead"
    and "\<not> isClosed st" "\<not> chanClosed st" "\<not> crashed st" "writer st = WriterSelect"
  shows "written (run_events (conn_step cn) [EvProduce s, EvRead b, EvSendOut b] st) =
    written st @ [ResponseDataCmd b s]"
proof -
  have "outStdout st = OutRead" "outStderr st = OutRead"
    using assms(3) [of False] assms(3) [of True] by (simp_all add: get_out_def)
  with assms(1,2,4-7) show ?thesis
    by (cases b)
       (simp_all add: apply_event_def conn_step_def read_step_def send_out_step_def respond_def get_out_def set_out_def)
qed

theorem output_label_by_schedule_witness:
  "written (run_events (conn_step demo_connector) [EvProduce tokenPrompt, EvRead True, EvSendOut True] demo_running) =
     [ResponseDataCmd True tokenPrompt]"
  using output_label_by_schedule [OF demo_running_state(1-7), of demo_connector tokenPrompt True]
  by (simp add: demo_running_state)

section \<open>A panic\<close>

text \<open>
  When an output reader waits to send a chunk and the peer hangs up, the connector can panic:
  \<^verbatim>\<open>handleCmd\<close> closes the channel of responses and the waiting send then panics, which ends the
  process for all connections.
\<close>

theorem hangup_crashes_connector:
  assumes "get_out b st = OutSend s" "reader st = ScanLine" "handler st = HandlerSelect" "\<not> crashed st"
  shows "crashed (run_events (conn_step cn) [EvEof, EvCmdClosed, EvSendOut b] st)"
  using assms
  by (cases b)
     (simp_all add: apply_event_def conn_step_def reader_stop_def handler_stop_step_def handler_return_def
       send_out_step_def respond_def get_out_def)

theorem hangup_crashes_connector_witness:
  "crashed (run_events (conn_step demo_connector) [EvEof, EvCmdClosed, EvSendOut False]
     (demo_conn [EvScan, EvExec (\<lambda>_. 0), EvProduce ''x'', EvRead False] [demo_init]))"
proof (rule hangup_crashes_connector)
  let ?st = "demo_conn [EvScan, EvExec (\<lambda>_. 0), EvProduce ''x'', EvRead False] [demo_init]"
  have "conn_view ?st = ((ScanLine, HandlerSelect, WriterSelect, OutSend ''x'', OutRead, RunWait),
      ([], False, False, False), [], [demo_init])"
    by code_simp
  then show "get_out False ?st = OutSend ''x''" "reader ?st = ScanLine" "handler ?st = HandlerSelect" "\<not> crashed ?st"
    by (simp_all add: conn_view_def get_out_def)
qed

section \<open>Connections that are never closed\<close>

definition stuck :: "cmd \<Rightarrow> 'w conn \<Rightarrow> bool" where
  "stuck c st \<longleftrightarrow> handler st = HandlerDone \<and> reader st = SendCmd c \<and> chanClosed st \<and>
     \<not> connDone st \<and> writer st = WriterSelect"

lemma trans_stuck:
  "conn_trans cn st st' \<Longrightarrow> stuck c st \<and> executed st = es \<and> written st = ws \<Longrightarrow>
     stuck c st' \<and> executed st' = es \<and> written st' = ws"
  by (induction rule: conn_trans.induct) (auto simp: stuck_def)

interpretation conn_stuck: invariant_system "conn_step cn"
  "\<lambda>st. stuck c st \<and> executed st = es \<and> written st = ws" for cn c es ws
  by unfold_locales (rule trans_stuck [OF conn_step_trans])

lemma stuck_reached:
  assumes "conn_ok all st" "handler st = HandlerDone" "reader st = SendCmd c"
  shows "stuck c st"
  using assms unfolding conn_ok_def closing_ok_def stuck_def
  by (cases "writer st") auto

text \<open>
  C32: once \<^verbatim>\<open>handleCmd\<close> has returned while a further command is waiting to be delivered, the
  connection is stuck whatever happens: no command runs, nothing is written, the connection is
  not closed and, unless the connector has crashed, its writing goroutine spins on the closed
  channel.
\<close>

theorem undelivered_command_is_stuck:
  assumes "conn_ok all st" "handler st = HandlerDone" "reader st = SendCmd c"
  shows "let st' = run_events (conn_step cn) evs st
    in executed st' = executed st \<and> written st' = written st \<and> reader st' = SendCmd c \<and>
       writer st' = WriterSelect \<and> \<not> connDone st' \<and>
       (\<not> crashed st' \<longrightarrow> conn_step cn EvWriterSpin st' = Some st')"
proof -
  let ?st = "run_events (conn_step cn) evs st"
  have "stuck c ?st \<and> executed ?st = executed st \<and> written ?st = written st"
    by (rule conn_stuck.run_inv) (simp add: stuck_reached [OF assms])
  then show ?thesis by (simp add: Let_def stuck_def conn_step_def)
qed

definition demo_stuck :: "unit conn" where
  "demo_stuck = demo_conn [EvScan, EvExec (\<lambda>_. 0), EvScan, EvExec (\<lambda>_. 0), EvScan]
     [demo_init, demo_init, RequestDataCmd ''x'']"

theorem undelivered_command_is_stuck_witness:
  "executed (run_events (conn_step demo_connector) [EvEof, EvScan, EvWriterStop] demo_stuck) = [demo_init, demo_init]"
proof -
  have "conn_ok (read_cmds (map (\<lambda>c. Inr (cmd_message c)) [demo_init, demo_init, RequestDataCmd ''x''])) demo_stuck"
    unfolding demo_stuck_def demo_conn_def by (rule conn_run_ok)
  moreover have "conn_view demo_stuck = ((SendCmd (RequestDataCmd ''x''), HandlerDone, WriterSelect, OutRead, OutRead,
      RunWait), ([], True, True, False), [], [demo_init, demo_init])"
    by code_simp
  then have "handler demo_stuck = HandlerDone" "reader demo_stuck = SendCmd (RequestDataCmd ''x'')"
    "executed demo_stuck = [demo_init, demo_init]"
    by (simp_all add: conn_view_def)
  ultimately show ?thesis
    using undelivered_command_is_stuck [of _ demo_stuck "RequestDataCmd ''x''" demo_connector "[EvEof, EvScan, EvWriterStop]"]
    by (simp add: Let_def)
qed

end
