(* ===== verification/Connector_Files.thy ===== *)
theory Connector_Files
  imports Connector_Facts
begin

text \<open>
  The files of a volume on the connector's host: where its cache and its log are for every volume
  identifier a command may carry, and that unmounting removes these and nothing else.
\<close>

section \<open>Joining plain elements\<close>

definition abs_path :: "string list \<Rightarrow> string" where
  "abs_path es = CHR ''/'' # joinSlash es"

lemma plain_no_slash: "plain_elem e \<Longrightarrow> CHR ''/'' \<notin> set e"
  by (simp add: plain_elem_def)

lemma joinSlash_Cons: "es \<noteq> [] \<Longrightarrow> joinSlash (e # es) = e @ ''/'' @ joinSlash es"
  by (cases es) simp_all

lemma joinSlash_append: "es \<noteq> [] \<Longrightarrow> fs \<noteq> [] \<Longrightarrow> joinSlash (es @ fs) = joinSlash es @ ''/'' @ joinSlash fs"
proof (induction es)
  case (Cons e es)
  then show ?case by (cases es) (simp_all add: joinSlash_Cons)
qed simp

lemma Clean_abs:
  assumes "\<forall>e \<in> set es. plain_elem e" "es \<noteq> []"
  shows "Clean (abs_path es) = abs_path es"
proof -
  have "splitSlash (joinSlash es) = es" using assms plain_no_slash by (simp add: splitSlash_join)
  then have "cleanElems True [] (splitSlash (abs_path es)) = es"
    using cleanElems_plain [OF assms(1), of True "[]"] by (simp add: abs_path_def)
  then show ?thesis by (simp add: Clean_def abs_path_def Let_def)
qed

lemma Join_abs:
  assumes "\<forall>e \<in> set (es @ fs). plain_elem e" "es \<noteq> []" "fs \<noteq> []"
  shows "Join (abs_path es # fs) = abs_path (es @ fs)"
proof -
  have "joinSlash (abs_path es # fs) = abs_path (es @ fs)"
    using assms(2,3) by (simp add: abs_path_def joinSlash_Cons joinSlash_append)
  then have "Join (abs_path es # fs) = Clean (abs_path (es @ fs))"
    by (simp add: Join_def abs_path_def)
  also have "\<dots> = abs_path (es @ fs)" using assms by (intro Clean_abs) auto
  finally show ?thesis .
qed

lemma splitSlash_trailing: "es \<noteq> [] \<Longrightarrow> \<forall>e \<in> set es. plain_elem e \<Longrightarrow> splitSlash (joinSlash es @ ''/'') = es @ [[]]"
proof (induction es rule: joinSlash.induct)
  case (2 e)
  then show ?case using splitSlash_append [OF plain_no_slash, of e "[]"] by simp
next
  case (3 e e' es)
  then show ?case using splitSlash_append [OF plain_no_slash, of e "joinSlash (e' # es) @ ''/''"] by simp
qed simp

lemma dropWhile_last_slash:
  "CHR ''/'' \<notin> set e \<Longrightarrow> rev (dropWhile (\<lambda>c. c \<noteq> CHR ''/'') (rev (p @ ''/'' @ e))) = p @ ''/''"
proof -
  assume "CHR ''/'' \<notin> set e"
  then have "dropWhile (\<lambda>c. c \<noteq> CHR ''/'') (rev e @ CHR ''/'' # rev p) = CHR ''/'' # rev p"
    by (subst dropWhile_append2) auto
  then show ?thesis by simp
qed

lemma Dir_abs:
  assumes "\<forall>e \<in> set (es @ [e]). plain_elem e"
  shows "Dir (abs_path (es @ [e])) = abs_path es"
proof -
  have "\<exists>p. abs_path (es @ [e]) = p @ ''/'' @ e \<and> Clean (p @ ''/'') = abs_path es"
  proof (cases "es = []")
    case True
    then show ?thesis by (auto simp: abs_path_def Clean_def)
  next
    case False
    have "cleanElems True [] (splitSlash (abs_path es @ ''/'')) = cleanElems True [] (es @ [[]])"
      using splitSlash_trailing [OF False] assms(1) by (simp add: abs_path_def)
    moreover have "cleanElems rooted stack (es @ [[]]) = rev stack @ es" for rooted stack
      using assms(1) by (induction es arbitrary: stack) (auto simp: plain_elem_def)
    ultimately have "Clean (abs_path es @ ''/'') = abs_path es" by (simp add: Clean_def abs_path_def Let_def)
    then show ?thesis using False by (simp add: abs_path_def joinSlash_append)
  qed
  then obtain p where path: "abs_path (es @ [e]) = p @ ''/'' @ e" and clean: "Clean (p @ ''/'') = abs_path es"
    by blast
  show ?thesis unfolding Dir_def path using assms(1) plain_no_slash dropWhile_last_slash clean by simp
qed

section \<open>The files of a volume\<close>

lemma log_name_plain: "plain_elem (rcloneCacheId [m] @ ''.log'')"
proof -
  have "rcloneCacheId [m] @ ''.log'' \<noteq> x" if "length x \<noteq> 36" for x
    using that rcloneCacheId_length [of "[m]"] by auto
  then show ?thesis using rcloneCacheId_no_slash [of "[m]"] by (simp add: plain_elem_def)
qed

text \<open>
  What a volume identifier makes of a directory: its elements are followed one by one from there,
  \<open>..\<close> going up, since \<^verbatim>\<open>filepath.Join\<close> cleans the path and nothing checks the identifier.
\<close>

definition followed :: "string list \<Rightarrow> string \<Rightarrow> string list" where
  "followed dir v = cleanElems True (rev dir) (splitSlash v)"

lemma splitSlash_slash: "splitSlash (a @ ''/'' @ b) = splitSlash a @ splitSlash b"
  by (induction a) (auto split: list.splits)

lemma cleanElems_prefix:
  "\<forall>e \<in> set es. plain_elem e \<Longrightarrow> cleanElems rooted stack (es @ fs) = cleanElems rooted (rev es @ stack) fs"
  by (induction es arbitrary: stack) (auto simp: plain_elem_def)

lemma cleanElems_last: "plain_elem x \<Longrightarrow> cleanElems rooted stack (es @ [x]) = cleanElems rooted stack es @ [x]"
  by (induction es arbitrary: stack) (auto simp: plain_elem_def split: list.split)

lemma followed_plain: "\<forall>e \<in> set dir. plain_elem e \<Longrightarrow> \<forall>e \<in> set (followed dir v). plain_elem e"
  unfolding followed_def by (intro cleanElems_rooted) (auto dest: splitSlash_no_slash)

lemma followed_name: "plain_elem v \<Longrightarrow> followed dir v = dir @ [v]"
  using cleanElems_plain [of "[v]" True "rev dir"] by (simp add: followed_def splitSlash_plain plain_no_slash)

lemma followed_up:
  assumes "plain_elem x" "\<forall>e \<in> set dir. plain_elem e"
  shows "followed dir (''../'' @ x) = butlast dir @ [x]"
proof -
  have "splitSlash (''../'' @ x) = [''..'', x]"
    using splitSlash_slash [of "''..''" x] splitSlash_plain [OF plain_no_slash [OF assms(1)]] by simp
  then show ?thesis
    using assms by (cases dir rule: rev_cases) (auto simp: followed_def plain_elem_def)
qed

lemma Join_volume:
  assumes "\<forall>e \<in> set dir. plain_elem e" "dir \<noteq> []" "plain_elem x"
  shows "Join [abs_path dir, v, x] = abs_path (followed dir v @ [x])"
proof -
  let ?path = "abs_path dir @ ''/'' @ v @ ''/'' @ x"
  have dir: "splitSlash (joinSlash dir) = dir" using assms(1,2) plain_no_slash by (simp add: splitSlash_join)
  have path: "?path = CHR ''/'' # (joinSlash dir @ ''/'' @ v @ ''/'' @ x)" by (simp add: abs_path_def)
  have "splitSlash ?path = [] # dir @ splitSlash v @ [x]"
    unfolding path using assms(3)
    by (simp add: splitSlash_slash [of _ "v @ ''/'' @ x", simplified] splitSlash_slash [of v, simplified] dir
        splitSlash_plain plain_no_slash)
  moreover have "cleanElems True [] ([] # dir @ splitSlash v @ [x]) = followed dir v @ [x]"
    using assms cleanElems_prefix [OF assms(1), of True "[]"] cleanElems_last [of x True _ "_ @ splitSlash v"]
    by (simp add: followed_def cleanElems_last)
  ultimately have "Clean ?path = abs_path (followed dir v @ [x])"
    by (simp add: Clean_def Let_def path abs_path_def)
  then show ?thesis by (simp add: Join_def abs_path_def)
qed

lemma volume_paths:
  assumes "rcloneCacheDir cn = abs_path cs" "rcloneLogDir cn = abs_path ls" "cs \<noteq> []" "ls \<noteq> []"
    and "\<forall>e \<in> set (cs @ ls). plain_elem e"
  shows "volumeCacheDir cn v m = abs_path (followed cs v @ [rcloneCacheId [m]])"
    "rcloneLogFile cn v m = abs_path (followed ls v @ [rcloneCacheId [m] @ ''.log''])"
    "Dir (volumeCacheDir cn v m) = abs_path (followed cs v)"
    "Dir (rcloneLogFile cn v m) = abs_path (followed ls v)"
proof -
  have p: "plain_elem (rcloneCacheId [m])" "plain_elem (rcloneCacheId [m] @ ''.log'')"
    by (rule rcloneCacheId_plain, rule log_name_plain)
  show 1: "volumeCacheDir cn v m = abs_path (followed cs v @ [rcloneCacheId [m]])"
    unfolding volumeCacheDir_def assms(1) using assms p by (intro Join_volume) auto
  show 2: "rcloneLogFile cn v m = abs_path (followed ls v @ [rcloneCacheId [m] @ ''.log''])"
    unfolding rcloneLogFile_def assms(2) using assms p by (intro Join_volume) auto
  show "Dir (volumeCacheDir cn v m) = abs_path (followed cs v)"
    unfolding 1 using followed_plain [of cs v] assms(5) p by (intro Dir_abs) auto
  show "Dir (rcloneLogFile cn v m) = abs_path (followed ls v)"
    unfolding 2 using followed_plain [of ls v] assms(5) p by (intro Dir_abs) auto
qed

text \<open>
  C34: when the cache and log directories are clean absolute paths, the umount command of any
  volume identifier removes a cache directory and a log file named after the mount path, and then
  (if empty, being plain removals) the two directories they were in.  For a plain name these are
  the directories of the volume, below the cache and the log directory; but nothing checks the
  name, and one that goes up makes them siblings of the two.
\<close>

theorem handle_umount_removes:
  assumes "rcloneCacheDir cn = abs_path cs" "rcloneLogDir cn = abs_path ls" "cs \<noteq> []" "ls \<noteq> []"
    and "\<forall>e \<in> set (cs @ ls). plain_elem e"
  shows "let v = UmVolumeId u; i = rcloneCacheId [UmMountPath u]; c = followed cs v; l = followed ls v;
      rm = \<lambda>p w. snd (os_Remove (cHost cn) (abs_path p) w)
    in handle_umount cn u w =
        rm c (rm l (rm (l @ [i @ ''.log'']) (snd (os_RemoveAll (cHost cn) (abs_path (c @ [i])) w)))) \<and>
      (plain_elem v \<longrightarrow> c = cs @ [v] \<and> l = ls @ [v]) \<and>
      (\<forall>x. v = ''../'' @ x \<and> plain_elem x \<longrightarrow> c = butlast cs @ [x] \<and> l = butlast ls @ [x])"
  unfolding Let_def
proof (intro conjI)
  show "handle_umount cn u w = snd (os_Remove (cHost cn) (abs_path (followed cs (UmVolumeId u)))
      (snd (os_Remove (cHost cn) (abs_path (followed ls (UmVolumeId u)))
        (snd (os_Remove (cHost cn) (abs_path (followed ls (UmVolumeId u) @ [rcloneCacheId [UmMountPath u] @ ''.log'']))
          (snd (os_RemoveAll (cHost cn) (abs_path (followed cs (UmVolumeId u) @ [rcloneCacheId [UmMountPath u]])) w)))))))"
    unfolding handle_umount_def Let_def volume_paths(3,4) [OF assms]
    unfolding volume_paths(1,2) [OF assms] ..
qed (use assms(5) in \<open>auto simp: followed_name followed_up [simplified]\<close>)

definition removals_connector :: "string list connector" where
  "removals_connector =
     \<lparr>cHost = rootfs_host\<lparr>os_Remove := \<lambda>p w. (Inr (), w @ [p]), os_RemoveAll := \<lambda>p w. (Inr (), w @ [p])\<rparr>,
      goconfig_Save = \<lambda>_ _ w. (Inr (), w), stdin_Write = \<lambda>_ w. (Inr (), w),
      rcloneConfigDir = ''/conf'', rcloneCacheDir = abs_path [''root'', ''.cache''],
      rcloneLogDir = abs_path [''root'', ''log''], rcloneUserAgent = ''ua''\<rparr>"

theorem handle_umount_removes_witness:
  "handle_umount removals_connector \<lparr>UmVolumeId = ''v'', UmMountPath = ''/m''\<rparr> [] =
     [''/root/.cache/v/'' @ rcloneCacheId [''/m''], ''/root/log/v/'' @ rcloneCacheId [''/m''] @ ''.log'',
      ''/root/log/v'', ''/root/.cache/v''] \<and>
   handle_umount removals_connector \<lparr>UmVolumeId = ''../k'', UmMountPath = ''/m''\<rparr> [] =
     [''/root/k/'' @ rcloneCacheId [''/m''], ''/root/k/'' @ rcloneCacheId [''/m''] @ ''.log'',
      ''/root/k'', ''/root/k'']"
proof -
  have dirs: "rcloneCacheDir removals_connector = abs_path [''root'', ''.cache'']"
    "rcloneLogDir removals_connector = abs_path [''root'', ''log'']"
    "\<forall>e \<in> set ([''root'', ''.cache''] @ [''root'', ''log'']). plain_elem e"
    by (simp_all add: removals_connector_def plain_elem_def)
  have names: "plain_elem ''v''" "plain_elem ''k''" by (simp_all add: plain_elem_def)
  note run = handle_umount_removes [OF dirs(1,2) _ _ dirs(3), unfolded Let_def]
  show ?thesis
    using run [of "\<lparr>UmVolumeId = ''v'', UmMountPath = ''/m''\<rparr>" "[]"]
      run [of "\<lparr>UmVolumeId = ''../k'', UmMountPath = ''/m''\<rparr>" "[]"] names
    by (simp add: removals_connector_def abs_path_def)
qed

end
