(* ===== verification/Connector_Setup.thy ===== *)
theory Connector_Setup
  imports Connector_Files
begin

text \<open>
  The \<^verbatim>\<open>main\<close> of the connector (\<^verbatim>\<open>connector/main.go\<close>) up to serving connections: directories, required
  commands, the version of rclone, and becoming a daemon.  What the process is given are
  parameters: the directories the operating system names, the environment, the flags, the
  variables set by the linker, \<^verbatim>\<open>Reborn\<close> of the third-party package \<^verbatim>\<open>go-daemon\<close> (true in the
  parent, which only exits) and \<^verbatim>\<open>net.Listen\<close>.
\<close>

section \<open>Names\<close>

definition LogFilename :: string where
  "LogFilename = ''/var/log/qiniu/storage/csi-plugin/connector.log''"

definition PIDFilename :: string where
  "PIDFilename = ''/var/lib/qiniu/storage/csi-plugin/connector.pid''"

definition connector_SocketPath :: string where
  "connector_SocketPath = ''/var/lib/qiniu/storage/csi-plugin/connector.sock''"

definition FusermountCmd :: string where
  "FusermountCmd = ''fusermount3''"

record 'w connector_process =
  cpHost :: "'w host"
  cpSave :: "(string \<times> string \<times> string) list \<Rightarrow> string \<Rightarrow> ('w, unit) io"
  cpStdin :: "string \<Rightarrow> ('w, unit) io"
  cpReborn :: "('w, bool) io"
  cpListen :: "string \<Rightarrow> ('w, unit) io"
  cpUserConfigDir :: "string result"
  cpUserCacheDir :: "string result"
  cpTempDir :: string
  cpGOOS :: string
  cpGetenv :: "string \<Rightarrow> string"
  cpIsTest :: bool
  cpVersion :: string
  cpCommitId :: string

section \<open>Directories\<close>

text \<open>A directory of rclone below the user's directory, or below the temporary one when there is none.\<close>

definition rclone_dir :: "'w connector_process \<Rightarrow> string result \<Rightarrow> string \<Rightarrow> string" where
  "rclone_dir cp userDir kind =
     (case userDir of
        Inl e \<Rightarrow> Join [cpTempDir cp, ''.rclone'', kind]
      | Inr d \<Rightarrow> Join [d, ''rclone''])"

definition connector_userAgent :: "'w connector_process \<Rightarrow> string \<times> string \<times> string \<Rightarrow> string" where
  "connector_userAgent cp versions =
     (case versions of (rcloneVersion, osVersion, osKernel) \<Rightarrow>
        ''QiniuCSIDriver/'' @ cpVersion cp @ ''/'' @ cpCommitId cp @ ''/rclone/'' @ rcloneVersion @ ''/'' @
        osVersion @ ''/'' @ osKernel)"

definition configured :: "'w connector_process \<Rightarrow> string \<Rightarrow> 'w connector" where
  "configured cp userAgent =
     \<lparr>cHost = cpHost cp, goconfig_Save = cpSave cp, stdin_Write = cpStdin cp,
      rcloneConfigDir = rclone_dir cp (cpUserConfigDir cp) ''config'',
      rcloneCacheDir = rclone_dir cp (cpUserCacheDir cp) ''cache'',
      rcloneLogDir = rclone_dir cp (userLogDir (cpGOOS cp) (cpGetenv cp)) ''log'',
      rcloneUserAgent = userAgent\<rparr>"

section \<open>Starting\<close>

text \<open>Steps that each must succeed.\<close>

fun all_of :: "('w, unit) io list \<Rightarrow> ('w, unit) io" where
  "all_of [] w = (Inr (), w)"
| "all_of (a # as) w = io_then a (\<lambda>_. all_of as) w"

definition prepare_steps :: "'w connector_process \<Rightarrow> ('w, unit) io list" where
  "prepare_steps cp =
     (let host = cpHost cp; cn = configured cp [] in
      map (ensureDirectoryExists host)
        [Dir LogFilename, Dir PIDFilename, Dir connector_SocketPath,
         rcloneConfigDir cn, rcloneCacheDir cn, rcloneLogDir cn] @
      map (ensureCommandExists host) [KodoFSCmd, RcloneCmd, FusermountCmd])"

definition connector_prepare :: "'w connector_process \<Rightarrow> ('w, 'w connector) io" where
  "connector_prepare cp =
     io_then (all_of (prepare_steps cp)) (\<lambda>_.
     io_then (getRcloneVersion (cpHost cp)) (\<lambda>versions w.
       (Inr (configured cp (connector_userAgent cp versions)), w)))"

definition connector_listen :: "'w connector_process \<Rightarrow> ('w, unit) io" where
  "connector_listen cp =
     all_of [ensureDirectoryExists (cpHost cp) (Dir connector_SocketPath),
       ensureFileNotExists (cpHost cp) connector_SocketPath, cpListen cp connector_SocketPath]"

text \<open>Every error ends the process with code 1.\<close>

datatype 'w main_outcome = Exit nat | Panicked string | Serving "'w connector"

definition exit_with :: "gerror \<Rightarrow> 'w main_outcome" where
  "exit_with e = (case e of Panic m \<Rightarrow> Panicked m | _ \<Rightarrow> Exit 1)"

definition connector_main :: "'w connector_process \<Rightarrow> 'w \<Rightarrow> 'w main_outcome \<times> 'w" where
  "connector_main cp w =
     (case connector_prepare cp w of
        (Inl e, w1) \<Rightarrow> (exit_with e, w1)
      | (Inr cn, w1) \<Rightarrow>
          if cpIsTest cp then (Exit 0, w1)
          else (case cpReborn cp w1 of
              (Inl e, w2) \<Rightarrow> (exit_with e, w2)
            | (Inr parent, w2) \<Rightarrow>
                if parent then (Exit 0, w2)
                else (case connector_listen cp w2 of
                    (Inl e, w3) \<Rightarrow> (exit_with e, w3)
                  | (Inr _, w3) \<Rightarrow> (Serving cn, w3))))"

section \<open>Facts\<close>

lemma io_then_Inr: "io_then a k w = (Inr y, w') \<longleftrightarrow> (\<exists>x w1. a w = (Inr x, w1) \<and> k x w1 = (Inr y, w'))"
  by (auto simp: io_then_def split: prod.splits sum.splits)

lemma all_of_append: "all_of (as @ bs) w = io_then (all_of as) (\<lambda>_. all_of bs) w"
  by (induction as w rule: all_of.induct) (simp_all add: io_then_def split: prod.split sum.split)

lemma ensureCommandExists_found:
  "ensureCommandExists host name w = (Inr (), w') \<longleftrightarrow> exec_LookPath host name w = Inr () \<and> w' = w"
  by (auto simp: ensureCommandExists_def split: sum.splits)

lemma commands_found:
  "all_of (map (ensureCommandExists host) names) w = (Inr (), w') \<longleftrightarrow>
     w' = w \<and> (\<forall>name \<in> set names. exec_LookPath host name w = Inr ())"
  by (induction names) (auto simp: io_then_Inr ensureCommandExists_found)

lemma exit_not_serving [simp]: "exit_with e \<noteq> Serving cn"
  by (simp add: exit_with_def split: gerror.split)

text \<open>The directories that \<^verbatim>\<open>main\<close> makes sure of, in its order.\<close>

definition connector_dirs :: "'w connector_process \<Rightarrow> string list" where
  "connector_dirs cp =
     [Dir LogFilename, Dir PIDFilename, Dir connector_SocketPath, rcloneConfigDir (configured cp []),
      rcloneCacheDir (configured cp []), rcloneLogDir (configured cp [])]"

lemma connector_prepare_Inr:
  "connector_prepare cp w = (Inr cn, w2) \<longleftrightarrow>
     (\<exists>w1 output. all_of (map (ensureDirectoryExists (cpHost cp)) (connector_dirs cp)) w = (Inr (), w1) \<and>
        (\<forall>name \<in> {KodoFSCmd, RcloneCmd, FusermountCmd}. exec_LookPath (cpHost cp) name w1 = Inr ()) \<and>
        exec_Output (cpHost cp) \<lparr>ExecName = RcloneCmd, ExecArgs = [''version'']\<rparr> w1 = (Inr output, w2) \<and>
        cn = configured cp (connector_userAgent cp (submatch [''rclone''] output,
          submatch [''-'', ''os/version:''] output, submatch [''-'', ''os/kernel:''] output)))"
proof -
  have steps: "all_of (prepare_steps cp) w = (Inr (), w') \<longleftrightarrow>
      all_of (map (ensureDirectoryExists (cpHost cp)) (connector_dirs cp)) w = (Inr (), w') \<and>
      (\<forall>name \<in> {KodoFSCmd, RcloneCmd, FusermountCmd}. exec_LookPath (cpHost cp) name w' = Inr ())" for w'
  proof -
    have "prepare_steps cp = map (ensureDirectoryExists (cpHost cp)) (connector_dirs cp) @
        map (ensureCommandExists (cpHost cp)) [KodoFSCmd, RcloneCmd, FusermountCmd]"
      unfolding prepare_steps_def connector_dirs_def Let_def by (rule refl)
    then show ?thesis by (simp only: all_of_append io_then_Inr commands_found) auto
  qed
  show ?thesis
    by (auto simp: connector_prepare_def io_then_Inr steps getRcloneVersion_def)
qed

text \<open>
  C35: a connector serves connections only at the end of this run: its directories were there or
  created, kodofs, rclone and fusermount3 were then found, \<^verbatim>\<open>rclone version\<close> ran, the process is the
  child of \<^verbatim>\<open>Reborn\<close> and not a test, the directory of the socket is there, an old socket was removed
  and the new one opened.  The user agent bears what the output of \<^verbatim>\<open>rclone version\<close> says of the three
  versions, each empty when it says nothing.
\<close>

theorem connector_serving:
  assumes "connector_main cp w = (Serving cn, w')"
  shows "\<exists>w1 w2 w3 w4 w5 output.
    all_of (map (ensureDirectoryExists (cpHost cp)) (connector_dirs cp)) w = (Inr (), w1) \<and>
    (\<forall>name \<in> {KodoFSCmd, RcloneCmd, FusermountCmd}. exec_LookPath (cpHost cp) name w1 = Inr ()) \<and>
    exec_Output (cpHost cp) \<lparr>ExecName = RcloneCmd, ExecArgs = [''version'']\<rparr> w1 = (Inr output, w2) \<and>
    \<not> cpIsTest cp \<and> cpReborn cp w2 = (Inr False, w3) \<and>
    ensureDirectoryExists (cpHost cp) (Dir connector_SocketPath) w3 = (Inr (), w4) \<and>
    ensureFileNotExists (cpHost cp) connector_SocketPath w4 = (Inr (), w5) \<and>
    cpListen cp connector_SocketPath w5 = (Inr (), w') \<and>
    cn = configured cp (connector_userAgent cp (submatch [''rclone''] output,
      submatch [''-'', ''os/version:''] output, submatch [''-'', ''os/kernel:''] output))"
proof -
  from assms obtain w2 w3 where prep: "connector_prepare cp w = (Inr cn, w2)" and run: "\<not> cpIsTest cp"
    "cpReborn cp w2 = (Inr False, w3)" and listen: "connector_listen cp w3 = (Inr (), w')"
    by (auto simp: connector_main_def split: prod.splits sum.splits if_splits)
  from prep obtain w1 out where p: "all_of (map (ensureDirectoryExists (cpHost cp)) (connector_dirs cp)) w = (Inr (), w1)"
    "\<forall>name \<in> {KodoFSCmd, RcloneCmd, FusermountCmd}. exec_LookPath (cpHost cp) name w1 = Inr ()"
    "exec_Output (cpHost cp) \<lparr>ExecName = RcloneCmd, ExecArgs = [''version'']\<rparr> w1 = (Inr out, w2)"
    "cn = configured cp (connector_userAgent cp (submatch [''rclone''] out,
      submatch [''-'', ''os/version:''] out, submatch [''-'', ''os/kernel:''] out))"
    unfolding connector_prepare_Inr
    by (elim exE conjE) (rule that)
  from listen obtain w4 w5 where "ensureDirectoryExists (cpHost cp) (Dir connector_SocketPath) w3 = (Inr (), w4)"
    "ensureFileNotExists (cpHost cp) connector_SocketPath w4 = (Inr (), w5)"
    "cpListen cp connector_SocketPath w5 = (Inr (), w')"
    by (auto simp: connector_listen_def io_then_Inr)
  note all = this p run
  show ?thesis
    by (rule exI [of _ w1], rule exI [of _ w2], rule exI [of _ w3], rule exI [of _ w4],
        rule exI [of _ w5], rule exI [of _ out], intro conjI all)
qed

definition demo_process_env :: "unit connector_process" where
  "demo_process_env =
     \<lparr>cpHost = rootfs_host, cpSave = \<lambda>_ _ w. (Inr (), w), cpStdin = \<lambda>_ w. (Inr (), w),
      cpReborn = \<lambda>w. (Inr False, w), cpListen = \<lambda>_ w. (Inr (), w),
      cpUserConfigDir = Inr ''/root/.config'', cpUserCacheDir = Inl (StdErr ''$HOME is not defined''),
      cpTempDir = ''/tmp'', cpGOOS = ''linux'', cpGetenv = \<lambda>_. [], cpIsTest = False,
      cpVersion = ''v1'', cpCommitId = ''c1''\<rparr>"

definition demo_version_host :: "unit host" where
  "demo_version_host = rootfs_host\<lparr>exec_Output := \<lambda>_ w. (Inr ''rclone v1.6 - os/version: debian 12'', w)\<rparr>"

definition demo_versioned :: "unit connector_process" where
  "demo_versioned = demo_process_env\<lparr>cpHost := demo_version_host\<rparr>"

lemma demo_serving: "\<exists>cn. connector_main demo_versioned () = (Serving cn, ())"
  by (simp add: connector_main_def connector_prepare_def prepare_steps_def connector_listen_def io_then_def
      ensureDirectoryExists_def ensureCommandExists_def ensureFileNotExists_def getRcloneVersion_def
      demo_versioned_def demo_version_host_def demo_process_env_def rootfs_host_def Let_def)

theorem connector_serving_witness:
  "\<exists>cn. connector_main demo_versioned () = (Serving cn, ()) \<and>
     rcloneUserAgent cn = ''QiniuCSIDriver/v1/c1/rclone/v1.6/debian/''"
proof -
  obtain cn where run: "connector_main demo_versioned () = (Serving cn, ())" using demo_serving by blast
  from connector_serving [OF run] obtain w1 w2 out where
    "exec_Output (cpHost demo_versioned) \<lparr>ExecName = RcloneCmd, ExecArgs = [''version'']\<rparr> w1 = (Inr out, w2)"
    and cn: "cn = configured demo_versioned (connector_userAgent demo_versioned (submatch [''rclone''] out,
      submatch [''-'', ''os/version:''] out, submatch [''-'', ''os/kernel:''] out))" by blast
  then have "out = ''rclone v1.6 - os/version: debian 12''"
    by (simp add: demo_versioned_def demo_version_host_def)
  moreover have "submatch [''rclone''] ''rclone v1.6 - os/version: debian 12'' = ''v1.6''"
    "submatch [''-'', ''os/version:''] ''rclone v1.6 - os/version: debian 12'' = ''debian''"
    "submatch [''-'', ''os/kernel:''] ''rclone v1.6 - os/version: debian 12'' = []"
    by code_simp+
  ultimately have "rcloneUserAgent cn = ''QiniuCSIDriver/v1/c1/rclone/v1.6/debian/''"
    by (simp add: cn configured_def connector_userAgent_def demo_versioned_def demo_process_env_def)
  with run show ?thesis by blast
qed

end
