(* ===== verification/Controller_Calls.thy ===== *)
theory Controller_Calls
  imports Kodo_Create_Facts Kodo_Delete_Volume Kodofs_Controller_Facts
begin

text \<open>
  The life of a controller server: calls of CreateVolume and DeleteVolume in any number and order,
  which the lock of the map of volumes makes one after the other, with anything happening to the
  services, the cache and the clock in between.  What both drivers
  (\<^verbatim>\<open>plugin/kodo_controller_server.go\<close>, \<^verbatim>\<open>plugin/kodofs_controller_server.go\<close>) promise about their maps is
  the locale \<open>volume_controller\<close>.
\<close>

section \<open>Reachable states\<close>

type_synonym ('c, 's) create_op = "'c \<Rightarrow> volumes \<times> 's \<Rightarrow> csi_volume result \<times> volumes \<times> 's"
type_synonym ('d, 's) delete_op = "'d \<Rightarrow> volumes \<times> 's \<Rightarrow> (unit result \<times> volumes \<times> 's) option"

inductive calls :: "('c, 's) create_op \<Rightarrow> ('d, 's) delete_op \<Rightarrow> volumes \<Rightarrow> 's \<Rightarrow> bool"
  for create_vol delete_vol where
  start: "calls create_vol delete_vol Map.empty s"
| create: "calls create_vol delete_vol vols s \<Longrightarrow> create_vol c (vols, s) = (r, vols', s') \<Longrightarrow>
    calls create_vol delete_vol vols' s'"
| delete: "calls create_vol delete_vol vols s \<Longrightarrow> delete_vol d (vols, s) = Some (r, vols', s') \<Longrightarrow>
    calls create_vol delete_vol vols' s'"
| elsewhere: "calls create_vol delete_vol vols s \<Longrightarrow> calls create_vol delete_vol vols s'"

text \<open>
  The contract: creating adds at most the volume asked for, where there was none, and as it is made
  by the driver; deleting removes at most one volume.
\<close>

locale volume_controller =
  fixes create_vol :: "('c, 's) create_op" and delete_vol :: "('d, 's) delete_op"
    and name_of :: "'c \<Rightarrow> string" and made :: "string \<Rightarrow> csi_volume \<Rightarrow> bool"
  assumes created: "create_vol c (vols, s) = (r, vols', s') \<Longrightarrow>
      vols' = vols \<or> (\<exists>v. vols (name_of c) = None \<and> vols' = vols(name_of c \<mapsto> v) \<and> made (name_of c) v)"
    and deleted: "delete_vol d (vols, s) = Some (ru, vols', s') \<Longrightarrow> \<exists>n. vols' = vols \<or> vols' = vols(n := None)"
begin

lemma calls_made: "calls create_vol delete_vol vols s \<Longrightarrow> vols n = Some v \<Longrightarrow> made n v"
proof (induction arbitrary: n v rule: calls.induct)
  case (create vols s c r vols' s')
  with created [OF create.hyps(2)] show ?case by (auto split: if_splits)
next
  case (delete vols s d r vols' s')
  with deleted [OF delete.hyps(2)] show ?case by (auto split: if_splits)
qed auto

text \<open>A volume stays as it is until it is deleted.\<close>

lemma created_keeps: "create_vol c (vols, s) = (r, vols', s') \<Longrightarrow> vols n = Some v \<Longrightarrow> vols' n = Some v"
  by (drule created) auto

end

section \<open>The volumes\<close>

text \<open>A volume as CreateVolume makes it for a request of that name, with the name of its bucket.\<close>

definition volume_made :: "string \<Rightarrow> csi_volume \<Rightarrow> string \<Rightarrow> bool" where
  "volume_made name v bucket \<longleftrightarrow>
     (\<exists>req bd p0 q b ep rid.
        ReqName req = name \<and> bucket = create_bucketName bd req \<and> Bucket_Name b = bucket \<and>
        parseKodoStorageClassParameter ''CreateVolume'' (Parameters req) (Secrets req) = Inr p0 \<and>
        q\<lparr>accessKey := accessKey p0, secretKey := secretKey p0, region := region p0\<rparr> = p0 \<and>
        v = \<lparr>CapacityBytes = RequiredBytes req, VolumeID = name,
          VolumeContext = context_of (kodo_context q b ep rid (accessKey p0) (secretKey p0))\<rparr>)"

lemma make_volume_made:
  assumes "make_volume env bd pd req s = (Inr v, s')"
  shows "volume_made (ReqName req) v (create_bucketName bd req)"
proof -
  from make_volume_result [OF assms] obtain p0 q b ep rid ak sk where
    r: "parseKodoStorageClassParameter ''CreateVolume'' (Parameters req) (Secrets req) = Inr p0"
    "Bucket_Name b = create_bucketName bd req" "q = p0 \<or> q = p0\<lparr>region := Bucket_Region b\<rparr>"
    "v = \<lparr>CapacityBytes = RequiredBytes req, VolumeID = ReqName req,
      VolumeContext = context_of (kodo_context (q\<lparr>accessKey := ak, secretKey := sk\<rparr>) b ep rid
        (accessKey p0) (secretKey p0))\<rparr>" by blast
  have "q\<lparr>accessKey := ak, secretKey := sk\<rparr>
      \<lparr>accessKey := accessKey p0, secretKey := secretKey p0, region := region p0\<rparr> = p0"
    using r(3) by (elim disjE) simp_all
  with r show ?thesis
    unfolding volume_made_def
    by (intro exI [of _ req] exI [of _ bd] exI [of _ p0] exI [of _ "q\<lparr>accessKey := ak, secretKey := sk\<rparr>"]
        exI [of _ b] exI [of _ ep] exI [of _ rid]) simp
qed

section \<open>The two controllers\<close>

definition kodo_create :: "'w env \<Rightarrow> ((nat \<Rightarrow> nat) \<times> (nat \<Rightarrow> nat) \<times> create_request, 'w pstate) create_op" where
  "kodo_create env c = (case c of (bdraws, pdraws, req) \<Rightarrow> CreateVolume env bdraws pdraws req)"

definition kodo_delete :: "'w env \<Rightarrow> ((string \<Rightarrow> pv_info result) \<times> event list \<times> delete_request, 'w pstate) delete_op" where
  "kodo_delete env d = (case d of (getPv, evs, req) \<Rightarrow> DeleteVolume env getPv evs req)"

definition kodofs_delete_call ::
    "'w env \<Rightarrow> ('w host \<times> (string \<Rightarrow> pv_info result) \<times> (nat \<Rightarrow> nat) \<times> nat \<times> delete_request, 'w pstate) delete_op" where
  "kodofs_delete_call env d =
     (case d of (host, getPv, draws, fuel, req) \<Rightarrow> KodoFS_DeleteVolume env host getPv draws fuel req)"

interpretation kodo_calls: volume_controller "kodo_create env" "kodo_delete env" "\<lambda>(bdraws, pdraws, req). ReqName req"
    "\<lambda>n v. \<exists>bucket. volume_made n v bucket" for env
proof
  fix c vols s r vols' s'
  assume "kodo_create env c (vols, s) = (r, vols', s')"
  then show "vols' = vols \<or> (\<exists>v. vols ((\<lambda>(bdraws, pdraws, req). ReqName req) c) = None \<and>
      vols' = vols((\<lambda>(bdraws, pdraws, req). ReqName req) c \<mapsto> v) \<and>
      (\<exists>bucket. volume_made ((\<lambda>(bdraws, pdraws, req). ReqName req) c) v bucket))"
    by (auto simp: kodo_create_def CreateVolume_def split: prod.splits option.splits sum.splits
        dest: make_volume_made)
next
  fix d vols s r vols' s'
  assume "kodo_delete env d (vols, s) = Some (r, vols', s')"
  then show "\<exists>n. vols' = vols \<or> vols' = vols(n := None)"
    by (auto simp: kodo_delete_def split: prod.splits dest: DeleteVolume_volumes)
qed

lemma kodofs_volume_made:
  assumes "kodofs_make_volume env req s = (Inr v, s')"
  shows "VolumeID v = ReqName req \<and> (\<exists>p mnt mas gw ap tok. VolumeContext v = context_of (kodofs_context p mnt mas gw ap tok))"
  using assms unfolding kodofs_make_volume_Inr by (elim exE conjE, intro conjI exI) simp_all

interpretation kodofs_calls: volume_controller "KodoFS_CreateVolume env" "kodofs_delete_call env" ReqName
    "\<lambda>n v. VolumeID v = n \<and> (\<exists>p mnt mas gw ap tok. VolumeContext v = context_of (kodofs_context p mnt mas gw ap tok))" for env
proof
  fix req vols s r vols' s'
  assume "KodoFS_CreateVolume env req (vols, s) = (r, vols', s')"
  then show "vols' = vols \<or> (\<exists>v. vols (ReqName req) = None \<and> vols' = vols(ReqName req \<mapsto> v) \<and>
      VolumeID v = ReqName req \<and>
      (\<exists>p mnt mas gw ap tok. VolumeContext v = context_of (kodofs_context p mnt mas gw ap tok)))"
    by (auto simp: KodoFS_CreateVolume_def split: option.splits prod.splits sum.splits dest: kodofs_volume_made)
next
  fix d vols s r vols' s'
  assume "kodofs_delete_call env d (vols, s) = Some (r, vols', s')"
  then show "\<exists>n. vols' = vols \<or> vols' = vols(n := None)"
    by (auto simp: kodofs_delete_call_def KodoFS_DeleteVolume_def split: prod.splits sum.splits option.splits)
qed

section \<open>Volumes and buckets\<close>

text \<open>The random ending of a bucket name has a fixed length, so the name of the volume can be told.\<close>

lemma create_bucketName_inj:
  "create_bucketName bd req = create_bucketName bd' req' \<Longrightarrow> ReqName req = ReqName req'"
  by (simp add: create_bucketName_def append_eq_append_conv flip: append_Cons)

lemma volume_made_apart: "volume_made n v bucket \<Longrightarrow> volume_made n' v' bucket \<Longrightarrow> n = n'"
  unfolding volume_made_def by (auto dest: create_bucketName_inj)

lemma volume_made_id: "volume_made n v bucket \<Longrightarrow> VolumeID v = n"
  by (auto simp: volume_made_def)

lemma volume_made_bucket:
  "volume_made n v bucket \<Longrightarrow> map_of (VolumeContext v) (field_name FIELD_BUCKET_NAME) = Some bucket"
  by (auto simp: volume_made_def context_of_def entries_of_def kodo_context_def)

text \<open>
  C8: at every moment in the life of the Kodo controller each volume in its map stands under its own
  id and is what CreateVolume made for a request of that name, and no two volumes share a bucket:
  the bucket named in the context of a volume is that of no other volume.
\<close>

theorem controller_volumes_apart:
  assumes "calls (kodo_create env) (kodo_delete env) vols s" "vols name = Some v"
  shows "VolumeID v = name \<and> (\<exists>bucket. volume_made name v bucket \<and>
    map_of (VolumeContext v) (field_name FIELD_BUCKET_NAME) = Some bucket \<and>
    (\<forall>name' v'. vols name' = Some v' \<longrightarrow>
       map_of (VolumeContext v') (field_name FIELD_BUCKET_NAME) = Some bucket \<longrightarrow> name' = name))"
proof -
  from kodo_calls.calls_made [OF assms] obtain bucket where made: "volume_made name v bucket" by blast
  have "name' = name" if "vols name' = Some v'"
    "map_of (VolumeContext v') (field_name FIELD_BUCKET_NAME) = Some bucket" for name' v'
  proof -
    from kodo_calls.calls_made [OF assms(1) that(1)] obtain bucket' where made': "volume_made name' v' bucket'" by blast
    with that(2) have "bucket' = bucket" using volume_made_bucket by fastforce
    with made made' show ?thesis by (blast intro: volume_made_apart)
  qed
  with made volume_made_bucket [OF made] volume_made_id [OF made] show ?thesis by blast
qed

lemma CreateVolume_stored:
  "CreateVolume env bd pd req (vols, s) = (Inr v, vols', s') \<Longrightarrow> vols' (ReqName req) = Some v"
  by (auto simp: CreateVolume_def split: option.splits prod.splits sum.splits)

lemma demo_run_volume:
  assumes "fst demo_run = Inr v"
  shows "fst (snd demo_run) ''pv'' = Some v"
  using CreateVolume_stored [OF demo_run_eq [unfolded assms]] by (simp add: demo_request_def)

theorem controller_volumes_apart_witness:
  "\<exists>v bucket. fst (snd demo_run) ''pv'' = Some v \<and> VolumeID v = ''pv'' \<and>
     map_of (VolumeContext v) (field_name FIELD_BUCKET_NAME) = Some bucket"
proof -
  obtain v where v: "fst demo_run = Inr v" using demo_run_ok by (auto simp: is_ok_iff)
  have "kodo_create script_env (\<lambda>_. 0, \<lambda>_. 0, demo_request) (Map.empty, script_state demo_script) =
      (fst demo_run, fst (snd demo_run), snd (snd demo_run))"
    using demo_run_eq by (simp add: kodo_create_def)
  then have "calls (kodo_create script_env) (kodo_delete script_env) (fst (snd demo_run)) (snd (snd demo_run))"
    by (rule calls.create [OF calls.start])
  from controller_volumes_apart [OF this demo_run_volume [OF v]] demo_run_volume [OF v]
  show ?thesis by blast
qed

end
