(* ===== verification/Connector_Service.thy ===== *)
theory Connector_Service
  imports Connector_Facts
begin

text \<open>
  What the connector promises for one connection, as a machine of its own without goroutines,
  channels or a host, and the proof that a connection of \<^verbatim>\<open>connector/main.go\<close> behaves like it under
  every schedule: commands are run one by one in their order, at most one process is started,
  and only by a mount command, what it prints is answered or lost, and its exit code is reported
  at most once.
\<close>

section \<open>The service\<close>

datatype service_process = NotStarted | Running | Exited int | Settled

record service =
  toRun :: "cmd list"
  hasRun :: "cmd list"
  process :: service_process
  printed :: "string multiset"
  answers :: "cmd list"

definition is_mount :: "cmd \<Rightarrow> bool" where
  "is_mount c = (case c of CInitKodoMount k \<Rightarrow> True | CInitKodoFSMount f \<Rightarrow> True | _ \<Rightarrow> False)"

definition service_init :: "cmd list \<Rightarrow> service" where
  "service_init cs = \<lparr>toRun = cs, hasRun = [], process = NotStarted, printed = {#}, answers = []\<rparr>"

inductive serve :: "service \<Rightarrow> service \<Rightarrow> bool" where
  run: "toRun a = c # cs \<Longrightarrow> serve a (a\<lparr>toRun := cs, hasRun := hasRun a @ [c]\<rparr>)"
| mount: "toRun a = c # cs \<Longrightarrow> is_mount c \<Longrightarrow> process a = NotStarted \<Longrightarrow>
    serve a (a\<lparr>toRun := cs, hasRun := hasRun a @ [c], process := Running\<rparr>)"
| refuse: "serve a (a\<lparr>toRun := []\<rparr>)"
| print: "process a = Running \<Longrightarrow> serve a (a\<lparr>printed := printed a + {#s#}\<rparr>)"
| answer: "s \<in># printed a \<Longrightarrow>
    serve a (a\<lparr>printed := printed a - {#s#}, answers := answers a @ [ResponseDataCmd isErr s]\<rparr>)"
| lose: "s \<in># printed a \<Longrightarrow> serve a (a\<lparr>printed := printed a - {#s#}\<rparr>)"
| exits: "process a = Running \<Longrightarrow> serve a (a\<lparr>process := Exited code\<rparr>)"
| report: "process a = Exited code \<Longrightarrow>
    serve a (a\<lparr>process := Settled, answers := answers a @ [TerminateCmd code]\<rparr>)"
| silent: "process a = Exited code \<Longrightarrow> serve a (a\<lparr>process := Settled\<rparr>)"

abbreviation serves :: "service \<Rightarrow> service \<Rightarrow> bool" where
  "serves \<equiv> serve\<^sup>*\<^sup>*"

text \<open>What a client may rely on in every state that the service reaches.\<close>

definition service_promise :: "cmd list \<Rightarrow> service \<Rightarrow> bool" where
  "service_promise cs a \<longleftrightarrow>
     prefix (hasRun a @ toRun a) cs \<and>
     (process a = NotStarted \<or> (\<exists>c \<in> set (hasRun a). is_mount c)) \<and>
     (process a \<noteq> NotStarted \<or> answers a = [] \<and> printed a = {#}) \<and>
     (terminates (answers a) = [] \<or> process a = Settled) \<and> length (terminates (answers a)) \<le> 1"

lemma serve_keeps_promise: "serve a b \<Longrightarrow> service_promise cs a \<Longrightarrow> service_promise cs b"
  by (induction rule: serve.induct) (auto simp: service_promise_def dest: append_prefixD)

lemma serves_keep_promise: "serves (service_init cs) a \<Longrightarrow> service_promise cs a"
proof (induction rule: rtranclp_induct)
  case base
  then show ?case by (simp add: service_promise_def service_init_def)
qed (rule serve_keeps_promise)

section \<open>The service of a connection\<close>

definition process_of :: "runner_state \<Rightarrow> service_process" where
  "process_of r = (case r of RunNone \<Rightarrow> NotStarted | RunWait \<Rightarrow> Running | RunSend n \<Rightarrow> Exited n | RunDone \<Rightarrow> Settled)"

definition service_of :: "'w conn \<Rightarrow> service" where
  "service_of st =
     \<lparr>toRun = (if reader st = ReaderDone then [] else in_hand (reader st) @ read_cmds (lines st)),
      hasRun = executed st, process = process_of (runner st),
      printed = mset (out_chunks (outStdout st)) + mset (out_chunks (outStderr st)) + mset (stdoutQ st),
      answers = written st\<rparr>"

lemma process_of_simps [simp]:
  "process_of RunNone = NotStarted" "process_of RunWait = Running" "process_of (RunSend n) = Exited n"
  "process_of RunDone = Settled"
  by (simp_all add: process_of_def)

lemma service_of_sel [simp]:
  "toRun (service_of st) = (if reader st = ReaderDone then [] else in_hand (reader st) @ read_cmds (lines st))"
  "hasRun (service_of st) = executed st" "process (service_of st) = process_of (runner st)"
  "printed (service_of st) = mset (out_chunks (outStdout st)) + mset (out_chunks (outStderr st)) + mset (stdoutQ st)"
  "answers (service_of st) = written st"
  by (simp_all add: service_of_def)

lemma in_hand_simps [simp]: "in_hand (SendCmd c) = [c]" "in_hand ScanLine = []" "in_hand ReaderDone = []"
  by (simp_all add: in_hand_def)

lemma service_of_move_on [simp]: "service_of (move_on mv st) = service_of st"
  by (cases mv) (simp_all add: move_on_def handler_return_def service_of_def)

lemma service_eqI:
  "toRun a = toRun b \<Longrightarrow> hasRun a = hasRun b \<Longrightarrow> process a = process b \<Longrightarrow> printed a = printed b \<Longrightarrow>
     answers a = answers b \<Longrightarrow> (a :: service) = b"
  by simp

text \<open>A step to a state that looks like the given one.\<close>

lemma serves_step: "serve a b' \<Longrightarrow> b' = b \<Longrightarrow> serves a b"
  by blast

lemma handle_cmd_mounts:
  assumes "handle_cmd cn draws c h w = (mv, h', ss, w')" "ss \<noteq> []"
  shows "is_mount c"
  using assms by (auto simp: handle_cmd_def is_mount_def split: cmd.splits if_splits sum.splits prod.splits)

lemma exec_serves:
  assumes "reader st = SendCmd c" "handle_cmd cn draws c (vars st) (world st) = (mv, h, ss, w)" "process_ok st"
  shows "serves (service_of st) (service_of (after_cmd c h ss w st))"
proof (cases "StartRun \<in> set ss")
  case True
  then have "ss \<noteq> []" by auto
  with started_state [OF assms(3,2)] have idle: "runner st = RunNone" "outStdout st = OutNone" "outStderr st = OutNone"
    by auto
  show ?thesis
  proof (rule serves_step [OF mount [OF _ handle_cmd_mounts [OF assms(2) \<open>ss \<noteq> []\<close>]]])
    show "toRun (service_of st) = c # read_cmds (lines st)" using assms(1) by simp
  qed (use idle True in \<open>auto intro!: service_eqI simp: after_cmd_def start_all_def\<close>)
next
  case False
  have "out_chunks (outStdout (after_cmd c h ss w st)) = out_chunks (outStdout st) \<and>
      out_chunks (outStderr (after_cmd c h ss w st)) = out_chunks (outStderr st)"
    using started_state [OF assms(3,2)] by (auto simp: after_cmd_def start_all_def)
  moreover have "runner (after_cmd c h ss w st) = runner st"
    using False by (simp add: after_cmd_def start_all_def)
  ultimately show ?thesis
    by (intro serves_step [OF run [of _ c "read_cmds (lines st)"]]) (auto intro!: service_eqI simp: assms(1))
qed

lemma lost_chunk: "add_mset s A + B - {#s#} = A + (B :: string multiset)"
  by simp

lemma trans_serves: "conn_trans cn st st' \<Longrightarrow> process_ok st \<Longrightarrow> serves (service_of st) (service_of st')"
proof (induction rule: conn_trans.induct)
  case (exec st c draws mv h ss w)
  then show ?case by (simp add: exec_serves)
next
  case (produce st s)
  then show ?case by (intro serves_step [OF print [of _ s]]) (auto intro!: service_eqI)
next
  case (read_stdout st s q x)
  then show ?case
    by (cases "x = OutDone")
       (auto intro!: serves_step [OF lose [of s]] service_eqI simp: service_of_def)
next
  case (read_stderr st s q x)
  then show ?case
    by (cases "x = OutDone")
       (auto intro!: serves_step [OF lose [of s]] service_eqI simp: service_of_def)
next
  case (send_stdout st s)
  then show ?case by (intro serves_step [OF answer [of s _ False]]) (auto intro!: service_eqI)
next
  case (send_stderr st s)
  then show ?case by (intro serves_step [OF answer [of s _ True]]) (auto intro!: service_eqI)
next
  case (exit st code w)
  then show ?case by (intro serves_step [OF exits [of _ code]]) (auto intro!: service_eqI)
next
  case (exit_closed st code w)
  then have "serve (service_of st) (service_of st\<lparr>process := Exited code\<rparr>)"
    by (intro exits) simp
  moreover have "serve (service_of st\<lparr>process := Exited code\<rparr>) (service_of st\<lparr>process := Exited code, process := Settled\<rparr>)"
    by (intro silent) simp
  moreover have "service_of (st\<lparr>world := w, exitCode := Some code, runner := RunDone, ctxDone := True\<rparr>) =
      service_of st\<lparr>process := Exited code, process := Settled\<rparr>"
    by (intro service_eqI) simp_all
  ultimately show ?case by (metis converse_rtranclp_into_rtranclp rtranclp.rtrancl_refl)
next
  case (send_exit st code)
  then show ?case by (intro serves_step [OF report [of _ code]]) (auto intro!: service_eqI)
next
  case (scan_bad st l ls e)
  then show ?case by (intro serves_step [OF refuse]) (auto intro!: service_eqI)
next
  case (eof st)
  then show ?case by (intro serves_step [OF refuse]) (auto intro!: service_eqI)
qed (auto simp: service_of_def handler_return_def)

interpretation conn_serves: simulated_system "conn_step cn" "conn_ok all" service_of serve for cn all
  by unfold_locales (auto simp: conn_ok_def intro: trans_serves conn_step_trans)

text \<open>
  A connection is an implementation of the service: under every schedule of its goroutines and
  every behaviour of the process and the host, the commands of its lines that it has not run yet,
  those it ran, the state of its process, the output under way and what it wrote form a state that
  the service reaches from the commands of the connection.  So the promise of the service holds:
  commands run in their order without gaps, nothing is answered before a mount command was run,
  and at most one terminate message is written, after the process ended.
\<close>

theorem conn_refines_service:
  "serve\<^sup>*\<^sup>* (service_init (read_cmds ls)) (service_of (conn_run cn evs ls w)) \<and>
   service_promise (read_cmds ls) (service_of (conn_run cn evs ls w))"
proof -
  have "service_of (conn_init ls w) = service_init (read_cmds ls)"
    by (simp add: service_of_def service_init_def conn_init_def)
  with conn_serves.run_simulated [OF conn_init_ok, of ls w cn evs]
  have "serves (service_init (read_cmds ls)) (service_of (conn_run cn evs ls w))" by simp
  then show ?thesis using serves_keep_promise by blast
qed

end
