(* ===== verification/Mount_Outcome.thy ===== *)
theory Mount_Outcome
  imports Connector_Service Connector_Schedules Mount_Session
begin

text \<open>
  Both ends of a mount conversation: what the writing goroutine of \<^verbatim>\<open>handleConn\<close> puts on the
  connection (\<^verbatim>\<open>connector/main.go\<close>) is what the loop of the mount functions (\<^verbatim>\<open>plugin/utils.go\<close>) reads.
\<close>

section \<open>What the connector writes\<close>

text \<open>The writing goroutine marshals the two kinds of responses and drops any other command.\<close>

definition marshalToConn :: "cmd \<Rightarrow> json list" where
  "marshalToConn c =
     (case c of
        ResponseDataCmd e s \<Rightarrow> [cmd_message c]
      | TerminateCmd code \<Rightarrow> [cmd_message c]
      | _ \<Rightarrow> [])"

definition documents :: "cmd list \<Rightarrow> json list" where
  "documents cs = concat (map marshalToConn cs)"

lemma documents_simps [simp]:
  "documents [] = []"
  "documents (ResponseDataCmd e s # cs) = cmd_message (ResponseDataCmd e s) # documents cs"
  "documents (TerminateCmd code # cs) = cmd_message (TerminateCmd code) # documents cs"
  by (simp_all add: documents_def marshalToConn_def)

abbreviation received :: "json list \<Rightarrow> conn_read list" where
  "received js \<equiv> map (\<lambda>j. Item (Inr j)) js"

section \<open>What the plugin makes of it\<close>

definition responses :: "cmd list \<Rightarrow> bool" where
  "responses cs \<longleftrightarrow> (\<forall>c \<in> set cs. (\<exists>e s. c = ResponseDataCmd e s) \<or> (\<exists>n. c = TerminateCmd n))"

lemma responses_Cons:
  "responses (c # cs) \<longleftrightarrow> ((\<exists>e s. c = ResponseDataCmd e s) \<or> (\<exists>n. c = TerminateCmd n)) \<and> responses cs"
  by (auto simp: responses_def)

lemma terminates_Cons [simp]:
  "terminates (ResponseDataCmd e s # cs) = terminates cs"
  "terminates (TerminateCmd n # cs) = n # terminates cs"
  by (simp_all add: terminates_def)

text \<open>A reply that never fails and whose answers can be written.\<close>

definition always_replies :: "reply \<Rightarrow> session \<Rightarrow> bool" where
  "always_replies reply ses \<longleftrightarrow> (\<forall>d. is_ok (reply d) \<and> (reply d \<noteq> Inr None \<longrightarrow> (\<forall>k. write_error ses k = None)))"

lemma loop_outcome:
  assumes "always_replies reply ses" "responses cs" "\<forall>n \<in> set (terminates cs). int64_code n"
  shows "fst (mount_loop reply ses out (received (documents cs) @ [NoMore])) =
    Some (case terminates cs of [] \<Rightarrow> Inr () | code # _ \<Rightarrow> terminated code)"
  using assms(2,3)
proof (induction cs arbitrary: out)
  case (Cons c cs)
  from Cons.prems(1) consider (data) e s where "c = ResponseDataCmd e s" | (code) n where "c = TerminateCmd n"
    by (auto simp: responses_Cons)
  then show ?case
  proof cases
    case data
    obtain r where r: "reply \<lparr>RespIsError = e, RespData = s\<rparr> = Inr r"
      using assms(1) by (auto simp: always_replies_def is_ok_iff)
    then have "r \<noteq> None \<Longrightarrow> write_error ses k = None" for k
      using assms(1) by (auto simp: always_replies_def dest!: spec [of _ "\<lparr>RespIsError = e, RespData = s\<rparr>"])
    with Cons r data show ?thesis
      by (cases r) (auto simp: mount_message_response responses_Cons writeCmdToConn_def)
  next
    case code
    with Cons.prems(2) show ?thesis by (simp add: mount_message_terminate)
  qed
qed simp

lemma kodo_always_replies: "always_replies kodo_reply ses"
  by (simp add: always_replies_def kodo_reply_def)

lemma kodofs_always_replies:
  "(\<And>k. write_error ses k = None) \<Longrightarrow> always_replies (kodofs_reply (Some u) tok) ses"
  by (simp add: always_replies_def kodofs_reply_def)

lemma mount_over_socket_outcome:
  assumes "host_call (net_Dial host SocketPath) s = (Inr ses, s')" "write_error ses 0 = None"
    and "incoming ses = received (documents cs) @ [NoMore]"
    and "always_replies reply ses" "responses cs" "\<forall>n \<in> set (terminates cs). int64_code n"
  shows "fst (mount_over_socket host reply c s) =
    Some (case terminates cs of [] \<Rightarrow> Inr () | code # _ \<Rightarrow> terminated code)"
  using loop_outcome [OF assms(4-6), of "[cmd_message c]"] assms(1-3)
  by (auto simp: mount_over_socket_def run_session_def writeCmdToConn_def split: prod.split)

lemma terminated_ok: "terminated code = Inr () \<longleftrightarrow> code = 0"
  by (simp add: terminated_def)

text \<open>
  C7: when the plugin reads what a connection of the connector wrote, under any schedule, up to the
  end of the connection, a mount of either kind succeeds exactly if the mount process ended with
  the code 0 or its end was not reported: a connection that ends early counts as a success
  whatever became of the process.
\<close>

theorem mount_reports_exit_code:
  assumes "host_call (net_Dial host SocketPath) s = (Inr ses, s')" "\<forall>k. write_error ses k = None"
    and "incoming ses = received (documents (written (conn_run cn evs ls w))) @ [NoMore]"
    and "\<forall>code. exitCode (conn_run cn evs ls w) = Some code \<longrightarrow> int64_code code"
  shows "(fst (mountKodo host v m p ep s) = Some (Inr ()) \<longleftrightarrow>
      terminates (written (conn_run cn evs ls w)) = [] \<or> exitCode (conn_run cn evs ls w) = Some 0) \<and>
    (fst (mountKodoFS host v g m (Some u) tok dir s) = Some (Inr ()) \<longleftrightarrow>
      terminates (written (conn_run cn evs ls w)) = [] \<or> exitCode (conn_run cn evs ls w) = Some 0)"
proof -
  let ?st = "conn_run cn evs ls w"
  have ok: "process_ok ?st" "written_ok ?st" using conn_run_ok [of ls cn evs w] by (auto simp: conn_ok_def)
  then have terms: "terminates (written ?st) = [] \<or>
      (\<exists>code. exitCode ?st = Some code \<and> terminates (written ?st) = [code])"
    by (cases "runner ?st") (auto simp: process_ok_def)
  then have codes: "\<forall>n \<in> set (terminates (written ?st)). int64_code n" using assms(4) by auto
  have resp: "responses (written ?st)" using ok(2) by (simp add: responses_def written_ok_def)
  note outcome = mount_over_socket_outcome [OF assms(1) _ assms(3) _ resp codes]
  have "(Some (case terminates (written ?st) of [] \<Rightarrow> Inr () | code # _ \<Rightarrow> terminated code) = Some (Inr ())) \<longleftrightarrow>
      terminates (written ?st) = [] \<or> exitCode ?st = Some 0"
    using terms by (auto simp: terminated_ok)
  moreover have "always_replies (kodofs_reply (Some u) tok) ses"
    using assms(2) by (blast intro: kodofs_always_replies)
  ultimately show ?thesis
    using assms(2) by (simp add: mountKodo_def mountKodoFS_def outcome kodo_always_replies)
qed

text \<open>A process that prints a line and ends with the code 3.\<close>

definition failing_schedule :: "conn_event list" where
  "failing_schedule = [EvScan, EvExec (\<lambda>_. 0), EvProduce ''no such volume'', EvRead True, EvSendOut True, EvExit 3, EvSendExit]"

definition failing :: "unit conn" where
  "failing = demo_conn failing_schedule [demo_init]"

lemma failing_state:
  "written failing = [ResponseDataCmd True ''no such volume'', TerminateCmd 3]" "exitCode failing = Some 3"
  unfolding failing_def failing_schedule_def by code_simp+

theorem mount_reports_exit_code_witness:
  "fst (mountKodoFS (talking_host (received (documents (written failing)) @ [NoMore])) ''v'' ''g'' ''/m''
     (Some (endpoint_url ''http'' ''h'' [])) ''tok'' ''/'' (script_state [])) \<noteq> Some (Inr ())"
proof -
  let ?rs = "received (documents (written failing)) @ [NoMore]"
  let ?ses = "\<lparr>incoming = ?rs, write_error = \<lambda>_. None\<rparr> :: session"
  have dial: "host_call (net_Dial (talking_host ?rs) SocketPath) (script_state []) = (Inr ?ses, script_state [])"
    by (simp add: host_call_def talking_host_def)
  let ?ls = "map (\<lambda>c. Inr (cmd_message c)) [demo_init]"
  have run: "conn_run demo_connector failing_schedule ?ls () = failing"
    by (simp add: failing_def demo_conn_def)
  have read: "incoming ?ses = received (documents (written (conn_run demo_connector failing_schedule ?ls ()))) @ [NoMore]"
    unfolding run by simp
  have code: "\<forall>code. exitCode (conn_run demo_connector failing_schedule ?ls ()) = Some code \<longrightarrow> int64_code code"
    unfolding run failing_state by (simp add: int64_code_def)
  have "fst (mountKodoFS (talking_host ?rs) ''v'' ''g'' ''/m'' (Some (endpoint_url ''http'' ''h'' [])) ''tok'' ''/''
      (script_state [])) = Some (Inr ()) \<longleftrightarrow> terminates (written failing) = [] \<or> exitCode failing = Some 0"
    using mount_reports_exit_code [OF dial _ read code] unfolding run by auto
  then show ?thesis by (simp only: failing_state terminates_Cons) simp
qed

end
