(* ===== verification/Connector_Daemon.thy ===== *)
theory Connector_Daemon
  imports Connector_Service Connector_Schedules
begin

text \<open>
  The accept loop of \<^verbatim>\<open>connector/main.go\<close>: the daemon serves any number of connections at once.
  The connections share the host, on which they act in turn, and the process: a panic in one
  ends all of them.
\<close>

section \<open>The loop\<close>

text \<open>\<open>dmInputs\<close> records the lines of the connections accepted.\<close>

record 'w daemon =
  dmWorld :: 'w
  dmInputs :: "json result list list"
  dmConns :: "'w conn list"

datatype daemon_event = EvAccept "json result list result" | EvOn nat conn_event

definition daemon_init :: "'w \<Rightarrow> 'w daemon" where
  "daemon_init w = \<lparr>dmWorld = w, dmInputs = [], dmConns = []\<rparr>"

text \<open>The loop goes on when a connection cannot be accepted.\<close>

definition accept_step :: "json result list result \<Rightarrow> 'w daemon \<Rightarrow> 'w daemon" where
  "accept_step r dm =
     (case r of
        Inl e \<Rightarrow> dm
      | Inr ls \<Rightarrow> dm\<lparr>dmInputs := dmInputs dm @ [ls], dmConns := dmConns dm @ [conn_init ls (dmWorld dm)]\<rparr>)"

definition on_step :: "'w connector \<Rightarrow> nat \<Rightarrow> conn_event \<Rightarrow> 'w daemon \<Rightarrow> 'w daemon option" where
  "on_step cn i ev dm =
     (if i < length (dmConns dm)
      then (case conn_step cn ev ((dmConns dm ! i)\<lparr>world := dmWorld dm\<rparr>) of
              None \<Rightarrow> None
            | Some st \<Rightarrow> Some (dm\<lparr>dmWorld := world st, dmConns := (dmConns dm)[i := st]\<rparr>))
      else None)"

definition daemon_step :: "'w connector \<Rightarrow> daemon_event \<Rightarrow> 'w daemon \<Rightarrow> 'w daemon option" where
  "daemon_step cn ev dm =
     (if \<exists>st \<in> set (dmConns dm). crashed st then None
      else case ev of
        EvAccept r \<Rightarrow> Some (accept_step r dm)
      | EvOn i e \<Rightarrow> on_step cn i e dm)"

abbreviation daemon_run :: "'w connector \<Rightarrow> daemon_event list \<Rightarrow> 'w \<Rightarrow> 'w daemon" where
  "daemon_run cn evs w \<equiv> run_events (daemon_step cn) evs (daemon_init w)"

section \<open>What holds of each connection\<close>

text \<open>
  A property of a connection and its input that holds from the start, that its steps keep and
  that does not speak of the host holds of all connections of the daemon.
\<close>

locale each_connection =
  fixes cn :: "'w connector" and ok :: "json result list \<Rightarrow> 'w conn \<Rightarrow> bool"
  assumes ok_init: "ok ls (conn_init ls w)"
    and ok_world: "ok ls st \<Longrightarrow> ok ls (st\<lparr>world := w\<rparr>)"
    and ok_trans: "ok ls st \<Longrightarrow> conn_trans cn st st' \<Longrightarrow> ok ls st'"
begin

definition all_ok :: "'w daemon \<Rightarrow> bool" where
  "all_ok dm \<longleftrightarrow> list_all2 ok (dmInputs dm) (dmConns dm)"

lemma on_step_ok:
  assumes "all_ok dm" "on_step cn i ev dm = Some dm'"
  shows "all_ok dm'"
proof -
  obtain st where i: "i < length (dmConns dm)"
    and st: "conn_step cn ev ((dmConns dm ! i)\<lparr>world := dmWorld dm\<rparr>) = Some st"
    and dm': "dm' = dm\<lparr>dmWorld := world st, dmConns := (dmConns dm)[i := st]\<rparr>"
    using assms(2) by (auto simp: on_step_def split: if_splits option.splits)
  have "ok (dmInputs dm ! i) (dmConns dm ! i)"
    using assms(1) i by (simp add: all_ok_def list_all2_conv_all_nth)
  then have "ok (dmInputs dm ! i) st" by (rule ok_trans [OF ok_world conn_step_trans [OF st]])
  then have "list_all2 ok ((dmInputs dm)[i := dmInputs dm ! i]) ((dmConns dm)[i := st])"
    using assms(1) by (intro list_all2_update_cong) (auto simp: all_ok_def)
  then show ?thesis by (simp add: all_ok_def dm')
qed

lemma accept_step_ok: "all_ok dm \<Longrightarrow> all_ok (accept_step r dm)"
  by (auto simp: all_ok_def accept_step_def ok_init intro: list_all2_appendI split: sum.splits)

lemma daemon_step_ok: "all_ok dm \<Longrightarrow> daemon_step cn ev dm = Some dm' \<Longrightarrow> all_ok dm'"
  by (auto simp: daemon_step_def split: if_splits daemon_event.splits intro: on_step_ok accept_step_ok)

lemma run_ok: "list_all2 ok (dmInputs (daemon_run cn evs w)) (dmConns (daemon_run cn evs w))"
proof -
  have "all_ok dm \<Longrightarrow> all_ok (run_events (daemon_step cn) evs dm)" for dm
    by (induction evs arbitrary: dm)
       (auto simp: apply_event_def intro: daemon_step_ok split: option.split)
  then show ?thesis by (simp add: all_ok_def daemon_init_def)
qed

end

section \<open>Each connection is a service of its own\<close>

text \<open>Where the configuration file of a connection with a running process is.\<close>

definition config_ok :: "'w connector \<Rightarrow> 'w conn \<Rightarrow> bool" where
  "config_ok cn st \<longleftrightarrow>
     runner st = RunNone \<or>
     (if afterRun st then \<exists>k. CInitKodoMount k \<in> set (executed st) \<and> hConfigPath (vars st) = rclone_config_path cn k
      else \<exists>f. CInitKodoFSMount f \<in> set (executed st))"

lemma execCommand_config: "execCommand cn ec h w = (mv, h', ss, w') \<Longrightarrow> hConfigPath h' = hConfigPath h"
  by (auto simp: execCommand_def Let_def split: if_splits prod.splits sum.splits)

lemma handle_cmd_config:
  "handle_cmd cn draws c h w = (mv, h', ss, w') \<Longrightarrow>
     hConfigPath h' = (case c of CInitKodoMount k \<Rightarrow> rclone_config_path cn k | _ \<Rightarrow> hConfigPath h)"
  by (auto simp: handle_cmd_def handle_kodofs_def handle_kodo_def writeRcloneConfig_def Let_def
      dest!: execCommand_config split: cmd.splits if_splits sum.splits prod.splits)

lemma after_cmd_config:
  assumes "config_ok cn st" "handle_cmd cn draws c (vars st) (world st) = (mv, h, ss, w)"
  shows "config_ok cn (after_cmd c h ss w st)"
proof (cases "ss = []")
  case True
  then show ?thesis
    using assms(1) handle_cmd_config [OF assms(2)]
    by (cases c) (auto simp: config_ok_def after_cmd_def start_all_def)
next
  case False
  from handle_cmd_mounts [OF assms(2) this] show ?thesis
    using assms(1) handle_cmd_config [OF assms(2)]
    by (cases c) (auto simp: config_ok_def after_cmd_def start_all_def is_kodo_def is_mount_def)
qed

lemma move_on_config [simp]: "config_ok cn (move_on mv st) = config_ok cn st"
  by (cases mv) (simp_all add: move_on_def handler_return_def config_ok_def)

lemma trans_config: "conn_trans cn st st' \<Longrightarrow> config_ok cn st \<Longrightarrow> config_ok cn st'"
proof (induction rule: conn_trans.induct)
  case (exec st c draws mv h ss w)
  then show ?case by (simp add: after_cmd_config)
qed (auto simp: config_ok_def handler_return_def)

text \<open>A connection that behaves like the service for its own lines, with a process of its own.\<close>

definition own_service :: "'w connector \<Rightarrow> json result list \<Rightarrow> 'w conn \<Rightarrow> bool" where
  "own_service cn ls st \<longleftrightarrow>
     conn_ok (read_cmds ls) st \<and> process_made cn st \<and> config_ok cn st \<and>
     serve\<^sup>*\<^sup>* (service_init (read_cmds ls)) (service_of st)"

lemma world_irrelevant [simp]:
  "conn_ok all (st\<lparr>world := w\<rparr>) = conn_ok all st" "process_made cn (st\<lparr>world := w\<rparr>) = process_made cn st"
  "config_ok cn (st\<lparr>world := w\<rparr>) = config_ok cn st" "service_of (st\<lparr>world := w\<rparr>) = service_of st"
  by (simp_all add: conn_ok_def process_ok_def nothing_started_def output_ok_def written_ok_def commands_ok_def
      closing_ok_def process_made_def config_ok_def service_of_def)

interpretation fleet: each_connection cn "own_service cn" for cn :: "'w connector"
proof
  show "own_service cn ls (conn_init ls w)" for ls w
    using conn_init_ok [of ls w]
    by (simp add: own_service_def process_made_def config_ok_def service_of_def service_init_def conn_init_def zero_vars_def)
  show "own_service cn ls st \<Longrightarrow> own_service cn ls (st\<lparr>world := w\<rparr>)" for ls st w
    by (simp add: own_service_def)
  fix ls st st'
  assume own: "own_service cn ls st" and step: "conn_trans cn st st'"
  then have "serves (service_of st) (service_of st')" by (auto simp: own_service_def conn_ok_def intro: trans_serves)
  with own trans_ok [OF step] trans_made [OF step] trans_config [OF step]
  show "own_service cn ls st'" by (auto simp: own_service_def)
qed

lemma own_commands: "own_service cn ls st \<Longrightarrow> set (executed st) \<subseteq> set (read_cmds ls)"
  by (auto simp: own_service_def conn_ok_def commands_ok_def split: if_splits)

text \<open>
  C15: a connector that serves any number of connections, under every interleaving of what happens on
  them, keeps them apart: each is a service for the commands of its own lines, with the promise of
  the service, and its process, if it has one, was made from one of these commands.
\<close>

theorem connections_apart:
  "list_all2 (\<lambda>ls st.
       serve\<^sup>*\<^sup>* (service_init (read_cmds ls)) (service_of st) \<and> service_promise (read_cmds ls) (service_of st) \<and>
       (case hExec (vars st) of None \<Rightarrow> True | Some ec \<Rightarrow> \<exists>c \<in> set (read_cmds ls). made_from cn ec c))
     (dmInputs (daemon_run cn evs w)) (dmConns (daemon_run cn evs w))"
  using fleet.run_ok
proof (rule list_all2_mono)
  fix ls and st :: "'a conn"
  assume own: "own_service cn ls st"
  then have s: "serve\<^sup>*\<^sup>* (service_init (read_cmds ls)) (service_of st)" by (simp add: own_service_def)
  moreover have "case hExec (vars st) of None \<Rightarrow> True | Some ec \<Rightarrow> \<exists>c \<in> set (read_cmds ls). made_from cn ec c"
    using own_commands [OF own] own unfolding own_service_def process_made_def
    by (auto split: option.split) blast
  ultimately show "serve\<^sup>*\<^sup>* (service_init (read_cmds ls)) (service_of st) \<and> service_promise (read_cmds ls) (service_of st) \<and>
      (case hExec (vars st) of None \<Rightarrow> True | Some ec \<Rightarrow> \<exists>c \<in> set (read_cmds ls). made_from cn ec c)"
    using serves_keep_promise by blast
qed

end
