(* ===== verification/Connector_Daemon_Facts.thy ===== *)
theory Connector_Daemon_Facts
  imports Connector_Daemon
begin

text \<open>
  What the connections of the connector share, and what comes of it: the configuration file of a
  volume that is mounted twice, and a panic that ends all connections.
\<close>

section \<open>What connections share\<close>

lemma no_crash_step:
  "\<not> (\<exists>st \<in> set (dmConns dm). crashed st) \<Longrightarrow> daemon_step cn (EvOn i ev) dm = on_step cn i ev dm"
  by (simp add: daemon_step_def)

lemma crashed_is_final: "\<exists>st \<in> set (dmConns dm). crashed st \<Longrightarrow> run_events (daemon_step cn) evs dm = dm"
  by (induction evs) (simp_all add: daemon_step_def)

lemma same_world: "world st = w \<Longrightarrow> st\<lparr>world := w\<rparr> = st"
  by (cases st) simp

lemma on_step_updated:
  "i < length cs \<Longrightarrow> world st = dmWorld dm \<Longrightarrow> conn_step cn ev st = Some st' \<Longrightarrow> world st' = dmWorld dm \<Longrightarrow>
     on_step cn i ev (dm\<lparr>dmConns := cs[i := st]\<rparr>) = Some (dm\<lparr>dmConns := cs[i := st']\<rparr>)"
  by (cases dm) (simp add: on_step_def same_world)

text \<open>A connection of the daemon whose lines hold one Kodo mount command and whose process runs.\<close>

definition mounting :: "'w daemon \<Rightarrow> nat \<Rightarrow> InitKodoMountCmd \<Rightarrow> bool" where
  "mounting dm i k \<longleftrightarrow>
     i < length (dmConns dm) \<and> read_cmds (dmInputs dm ! i) = [CInitKodoMount k] \<and> runner (dmConns dm ! i) = RunWait"

lemma mounting_facts:
  assumes "mounting (daemon_run cn evs w) i k"
  shows "afterRun (dmConns (daemon_run cn evs w) ! i)"
    and "hConfigPath (vars (dmConns (daemon_run cn evs w) ! i)) = rclone_config_path cn k"
    and "\<exists>ec. hExec (vars (dmConns (daemon_run cn evs w) ! i)) = Some ec \<and> made_from cn ec (CInitKodoMount k)"
proof -
  let ?st = "dmConns (daemon_run cn evs w) ! i" and ?ls = "dmInputs (daemon_run cn evs w) ! i"
  from assms have own: "own_service cn ?ls ?st"
    using fleet.run_ok [of cn evs w] by (simp add: mounting_def list_all2_conv_all_nth)
  have only: "set (executed ?st) \<subseteq> {CInitKodoMount k}" using own_commands [OF own] assms by (simp add: mounting_def)
  have run: "runner ?st = RunWait" using assms by (simp add: mounting_def)
  then show "afterRun ?st" "hConfigPath (vars ?st) = rclone_config_path cn k"
    using own only by (auto simp: own_service_def config_ok_def split: if_splits)
  have "hExec (vars ?st) \<noteq> None"
    using own run by (auto simp: own_service_def conn_ok_def process_ok_def nothing_started_def)
  with own only show "\<exists>ec. hExec (vars ?st) = Some ec \<and> made_from cn ec (CInitKodoMount k)"
    by (auto simp: own_service_def process_made_def)
qed

text \<open>
  C17: the configuration file of rclone is named after the volume alone.  When a volume is mounted
  at two places at the same time, the end of one mount process removes the file that the process
  of the other, which still runs, was told to read.
\<close>

theorem same_volume_config_removed:
  assumes "mounting (daemon_run cn evs w) i k" "mounting (daemon_run cn evs w) j k'" "i \<noteq> j"
    and "VolumeId k = VolumeId k'" "\<not> MayRunOnSystemd k'"
    and "\<not> (\<exists>st \<in> set (dmConns (daemon_run cn evs w)). crashed st)"
  shows "\<exists>dm'. daemon_step cn (EvOn i (EvExit code)) (daemon_run cn evs w) = Some dm' \<and>
    dmWorld dm' = snd (os_Remove (cHost cn) (rclone_config_path cn k') (dmWorld (daemon_run cn evs w))) \<and>
    runner (dmConns dm' ! j) = RunWait \<and>
    hExec (vars (dmConns dm' ! j)) = Some \<lparr>ExecName = RcloneCmd, ExecArgs = kodo_args (rclone_config_path cn k')
      (rcloneUserAgent cn) (rcloneLogFile cn (VolumeId k') (MountPath k')) (volumeCacheDir cn (VolumeId k') (MountPath k')) k'\<rparr>"
proof -
  let ?dm = "daemon_run cn evs w"
  have i: "i < length (dmConns ?dm)" "runner (dmConns ?dm ! i) = RunWait" "\<not> crashed (dmConns ?dm ! i)"
    using assms(1,6) by (auto simp: mounting_def)
  have path: "rclone_config_path cn k = rclone_config_path cn k'" using assms(4) by (simp add: rclone_config_path_def)
  obtain st where st: "conn_step cn (EvExit code) ((dmConns ?dm ! i)\<lparr>world := dmWorld ?dm\<rparr>) = Some st"
    "world st = snd (os_Remove (cHost cn) (rclone_config_path cn k') (dmWorld ?dm))"
    using i mounting_facts(1,2) [OF assms(1)] path by (simp add: conn_step_def exit_step_def Let_def)
  have j: "runner (dmConns ?dm ! j) = RunWait" using assms(2) by (simp add: mounting_def)
  obtain ec where "hExec (vars (dmConns ?dm ! j)) = Some ec" "made_from cn ec (CInitKodoMount k')"
    using mounting_facts(3) [OF assms(2)] by blast
  with made_from_kodo [OF this(2) assms(5)] j st i(1) assms(3) show ?thesis
    by (simp add: no_crash_step [OF assms(6)] on_step_def)
qed

text \<open>
  C31: when an output reader of one connection waits to send a chunk and its peer hangs up, the
  connector can panic, and then nothing more happens on any connection: the others keep their
  state for ever and no connection is accepted.
\<close>

theorem hangup_ends_all:
  assumes "i < length (dmConns dm)" "get_out b (dmConns dm ! i) = OutSend s" "reader (dmConns dm ! i) = ScanLine"
    and "handler (dmConns dm ! i) = HandlerSelect" "\<not> (\<exists>st \<in> set (dmConns dm). crashed st)"
  shows "let dm' = run_events (daemon_step cn) [EvOn i EvEof, EvOn i EvCmdClosed, EvOn i (EvSendOut b)] dm
    in crashed (dmConns dm' ! i) \<and> length (dmConns dm') = length (dmConns dm) \<and>
       (\<forall>j. j \<noteq> i \<longrightarrow> dmConns dm' ! j = dmConns dm ! j) \<and>
       (\<forall>evs. run_events (daemon_step cn) evs dm' = dm')"
proof -
  let ?st = "dmConns dm ! i"
  let ?st1 = "reader_stop (?st\<lparr>world := dmWorld dm\<rparr>)"
  let ?st2 = "handler_return ?st1"
  let ?st3 = "?st2\<lparr>crashed := True\<rparr>"
  let ?cs = "dmConns dm"
  let ?dm1 = "dm\<lparr>dmConns := ?cs[i := ?st1]\<rparr>" and ?dm2 = "dm\<lparr>dmConns := ?cs[i := ?st2]\<rparr>"
    and ?dm3 = "dm\<lparr>dmConns := ?cs[i := ?st3]\<rparr>"
  have fresh: "\<not> (\<exists>x \<in> set (?cs[i := st]). crashed x)" if "\<not> crashed st" for st
    using assms(5) that set_update_subset_insert [of ?cs i st] by auto
  have alive: "\<not> crashed ?st" using assms(1,5) by auto
  have "on_step cn i EvEof dm = Some ?dm1"
    using assms(1,3) alive by (simp add: on_step_def conn_step_def reader_stop_def)
  then have "daemon_step cn (EvOn i EvEof) dm = Some ?dm1" by (simp only: no_crash_step [OF assms(5)])
  moreover have "on_step cn i EvCmdClosed ?dm1 = Some ?dm2"
    using assms(4) alive
    by (intro on_step_updated [OF assms(1)])
       (simp_all add: conn_step_def reader_stop_def handler_stop_step_def handler_return_def)
  then have "daemon_step cn (EvOn i EvCmdClosed) ?dm1 = Some ?dm2"
    using alive by (subst no_crash_step) (simp_all add: fresh reader_stop_def)
  moreover have "on_step cn i (EvSendOut b) ?dm2 = Some ?dm3"
    using assms(2) alive
    by (intro on_step_updated [OF assms(1)]; cases b)
       (simp_all add: conn_step_def reader_stop_def handler_return_def send_out_step_def respond_def get_out_def)
  then have "daemon_step cn (EvOn i (EvSendOut b)) ?dm2 = Some ?dm3"
    using alive by (subst no_crash_step) (simp_all add: fresh reader_stop_def handler_return_def)
  ultimately have run: "run_events (daemon_step cn) [EvOn i EvEof, EvOn i EvCmdClosed, EvOn i (EvSendOut b)] dm = ?dm3"
    by simp
  have "\<exists>st \<in> set (dmConns ?dm3). crashed st"
    using assms(1) by (intro bexI [of _ ?st3]) (auto simp: set_update_memI)
  then have "run_events (daemon_step cn) evs ?dm3 = ?dm3" for evs by (rule crashed_is_final)
  then show ?thesis unfolding run Let_def using assms(1) by simp
qed

section \<open>One connection at a time\<close>

text \<open>As long as nothing happens on the others, a connection runs as if it were alone.\<close>

lemma run_alone:
  assumes "i < length (dmConns dm)" "world (dmConns dm ! i) = dmWorld dm"
    and "\<forall>j < length (dmConns dm). \<not> crashed (dmConns dm ! j) \<or> j = i"
  shows "run_events (daemon_step cn) (map (EvOn i) evs) dm =
    (let st = run_events (conn_step cn) evs (dmConns dm ! i)
     in dm\<lparr>dmWorld := world st, dmConns := (dmConns dm)[i := st]\<rparr>)"
  using assms
proof (induction evs arbitrary: dm)
  case Nil
  then show ?case by (cases dm) simp
next
  case (Cons ev evs)
  let ?st = "dmConns dm ! i"
  have on: "daemon_step cn (EvOn i ev) dm =
      map_option (\<lambda>st. dm\<lparr>dmWorld := world st, dmConns := (dmConns dm)[i := st]\<rparr>) (conn_step cn ev ?st)"
  proof (cases "crashed ?st")
    case True
    then have "\<exists>st \<in> set (dmConns dm). crashed st" using Cons.prems(1) by (auto intro: nth_mem)
    with True show ?thesis by (simp add: daemon_step_def conn_step_def)
  next
    case False
    then have "\<not> (\<exists>st \<in> set (dmConns dm). crashed st)" using Cons.prems(3) by (auto simp: in_set_conv_nth)
    then show ?thesis
      using Cons.prems(1) by (simp add: no_crash_step on_step_def same_world [OF Cons.prems(2)] split: option.split)
  qed
  show ?case
  proof (cases "conn_step cn ev ?st")
    case None
    with on Cons.IH [OF Cons.prems] show ?thesis by simp
  next
    case (Some st)
    let ?dm = "dm\<lparr>dmWorld := world st, dmConns := (dmConns dm)[i := st]\<rparr>"
    have "run_events (daemon_step cn) (map (EvOn i) evs) ?dm =
        (let st' = run_events (conn_step cn) evs (dmConns ?dm ! i)
         in ?dm\<lparr>dmWorld := world st', dmConns := (dmConns ?dm)[i := st']\<rparr>)"
      by (rule Cons.IH) (use Cons.prems in \<open>auto simp: nth_list_update\<close>)
    with on Some Cons.prems(1) show ?thesis by (simp add: Let_def)
  qed
qed

definition accepted :: "nat \<Rightarrow> json result list \<Rightarrow> conn_event list \<Rightarrow> daemon_event list" where
  "accepted n ls evs = EvAccept (Inr ls) # map (EvOn n) evs"

lemma run_accepted:
  assumes "\<not> (\<exists>st \<in> set (dmConns dm). crashed st)" "n = length (dmConns dm)"
  shows "run_events (daemon_step cn) (accepted n ls evs) dm =
    (let st = conn_run cn evs ls (dmWorld dm)
     in dm\<lparr>dmWorld := world st, dmInputs := dmInputs dm @ [ls], dmConns := dmConns dm @ [st]\<rparr>)"
proof -
  let ?dm = "accept_step (Inr ls) dm"
  have "daemon_step cn (EvAccept (Inr ls)) dm = Some ?dm"
    using assms(1) by (simp add: daemon_step_def)
  moreover have "run_events (daemon_step cn) (map (EvOn n) evs) ?dm =
      (let st = run_events (conn_step cn) evs (dmConns ?dm ! n)
       in ?dm\<lparr>dmWorld := world st, dmConns := (dmConns ?dm)[n := st]\<rparr>)"
    using assms
    by (intro run_alone) (auto simp: accept_step_def conn_init_def nth_append dest: nth_mem)
  ultimately show ?thesis
    using assms(2) by (simp add: accepted_def accept_step_def Let_def)
qed

section \<open>Examples\<close>

text \<open>Two connections run a KodoFS process; a chunk of the second one is under way.\<close>

definition demo_lines :: "json result list" where
  "demo_lines = [Inr (cmd_message demo_init)]"

definition demo_started :: "conn_event list" where
  "demo_started = [EvScan, EvExec (\<lambda>_. 0)]"

definition two_connections :: "unit daemon" where
  "two_connections = daemon_run demo_connector
     (accepted 0 demo_lines demo_started @ [EvAccept (Inl (StdErr ''too many open files''))] @
      accepted 1 demo_lines (demo_started @ [EvProduce ''x'', EvRead False])) ()"

lemma two_connections_view:
  "\<exists>a b. dmConns two_connections = [a, b] \<and> runner a = RunWait \<and> \<not> crashed a \<and> \<not> crashed b \<and>
     outStdout b = OutSend ''x'' \<and> reader b = ScanLine \<and> handler b = HandlerSelect"
proof -
  let ?a = "demo_conn demo_started [demo_init]" and ?b = "demo_conn (demo_started @ [EvProduce ''x'', EvRead False]) [demo_init]"
  have b: "conn_view ?b = ((ScanLine, HandlerSelect, WriterSelect, OutSend ''x'', OutRead, RunWait),
      ([], False, False, False), [], [demo_init])"
    by code_simp
  have a: "runner ?a = RunWait" "\<not> crashed ?a"
    using demo_running_state(1,6) by (simp_all add: demo_running_def demo_started_def)
  have "run_events (daemon_step demo_connector) [EvAccept (Inl (StdErr ''too many open files''))] dm = dm"
    for dm :: "unit daemon"
    by (simp add: apply_event_def daemon_step_def accept_step_def)
  then have "dmConns two_connections = [?a, ?b]"
    using a unfolding two_connections_def run_events_append
    by (simp add: run_accepted daemon_init_def Let_def demo_conn_def demo_lines_def del: run_events_simps)
  with a b show ?thesis by (simp add: conn_view_def)
qed

theorem hangup_ends_all_witness:
  "runner (dmConns (run_events (daemon_step demo_connector)
     [EvOn 1 EvEof, EvOn 1 EvCmdClosed, EvOn 1 (EvSendOut False), EvOn 0 (EvExit 0)] two_connections) ! 0) = RunWait"
proof -
  obtain a b where c: "dmConns two_connections = [a, b]"
    and v: "runner a = RunWait" "\<not> crashed a" "\<not> crashed b" "outStdout b = OutSend ''x''"
    "reader b = ScanLine" "handler b = HandlerSelect"
    using two_connections_view by blast
  let ?hangup = "[EvOn 1 EvEof, EvOn 1 EvCmdClosed, EvOn 1 (EvSendOut False)]"
  let ?dm = "run_events (daemon_step demo_connector) ?hangup two_connections"
  have "dmConns ?dm ! 0 = a \<and> run_events (daemon_step demo_connector) [EvOn 0 (EvExit 0)] ?dm = ?dm"
    using hangup_ends_all [of 1 two_connections False "''x''" demo_connector] c v
    by (simp del: run_events_simps add: get_out_def Let_def)
  then have "dmConns (run_events (daemon_step demo_connector) (?hangup @ [EvOn 0 (EvExit 0)]) two_connections) ! 0 = a"
    unfolding run_events_append by metis
  with v(1) show ?thesis by simp
qed

text \<open>A host that is a list of files, on which a configuration file appears when it is saved.\<close>

definition files_connector :: "string list connector" where
  "files_connector = demo_connector\<lparr>cHost := rootfs_host\<lparr>os_Remove := \<lambda>p w. (Inr (), removeAll p w)\<rparr>,
     goconfig_Save := \<lambda>_ p w. (Inr (), p # w)\<rparr>"

definition mount_at :: "string \<Rightarrow> InitKodoMountCmd" where
  "mount_at path = zero_kodo\<lparr>VolumeId := ''v'', MountPath := path\<rparr>"

definition mount_lines :: "string \<Rightarrow> json result list" where
  "mount_lines path = [Inr (cmd_message (CInitKodoMount (mount_at path)))]"

lemma mount_handled:
  "\<exists>h. handle_cmd files_connector (\<lambda>_. 0) (CInitKodoMount (mount_at path)) zero_vars w =
     (Continue, h, [StartStdout, StartStderr, StartRun], rclone_config_path files_connector (mount_at path) # w)"
  by (simp add: handle_cmd_def handle_kodo_def with_systemd_def writeRcloneConfig_def Let_def ensureDirectoryExists_def
      Kodo_ExecCommand_def ctxString_def kodo_ctx_def execCommand_def zero_vars_def demo_connector_def rootfs_host_def
      files_connector_def mount_at_def zero_kodo_def)

lemma read_cmds_mount: "read_cmds (mount_lines path) = [CInitKodoMount (mount_at path)]"
  by (simp add: mount_lines_def parse_line_def parse_request_def cmd_name_def read_payload_message cmd_names)

lemma mount_started:
  "let st = conn_run files_connector demo_started (mount_lines path) w
   in runner st = RunWait \<and> \<not> crashed st \<and> world st = rclone_config_path files_connector (mount_at path) # w"
proof -
  obtain h where "handle_cmd files_connector (\<lambda>_. 0) (CInitKodoMount (mount_at path)) zero_vars w =
      (Continue, h, [StartStdout, StartStderr, StartRun], rclone_config_path files_connector (mount_at path) # w)"
    using mount_handled by blast
  then show ?thesis
    using read_cmds_mount [of path]
    by (simp add: Let_def demo_started_def conn_init_def conn_step_def scan_step_def apply_event_def exec_step_def
        mount_lines_def move_on_def after_cmd_def start_all_def split: sum.splits)
qed

text \<open>The same volume is mounted at two places.\<close>

definition two_mounts_run :: "daemon_event list" where
  "two_mounts_run = accepted 0 (mount_lines ''/m1'') demo_started @ accepted 1 (mount_lines ''/m2'') demo_started"

definition two_mounts :: "string list daemon" where
  "two_mounts = daemon_run files_connector two_mounts_run []"

lemma two_mounts_mounting:
  "mounting two_mounts 0 (mount_at ''/m1'')" "mounting two_mounts 1 (mount_at ''/m2'')"
  "\<not> (\<exists>st \<in> set (dmConns two_mounts). crashed st)"
  "rclone_config_path files_connector (mount_at ''/m2'') \<in> set (dmWorld two_mounts)"
proof -
  let ?a = "conn_run files_connector demo_started (mount_lines ''/m1'') []"
  let ?b = "conn_run files_connector demo_started (mount_lines ''/m2'') (world ?a)"
  have a: "runner ?a = RunWait" "\<not> crashed ?a"
    and b: "runner ?b = RunWait" "\<not> crashed ?b"
      "world ?b = rclone_config_path files_connector (mount_at ''/m2'') # world ?a"
    using mount_started [of "''/m1''" "[]"] mount_started [of "''/m2''" "world ?a"] by (simp_all add: Let_def)
  have two: "two_mounts = \<lparr>dmWorld = world ?b, dmInputs = [mount_lines ''/m1'', mount_lines ''/m2''], dmConns = [?a, ?b]\<rparr>"
    using a unfolding two_mounts_def two_mounts_run_def run_events_append
    by (simp add: run_accepted daemon_init_def Let_def del: run_events_simps)
  from a b show "mounting two_mounts 0 (mount_at ''/m1'')" "mounting two_mounts 1 (mount_at ''/m2'')"
    "\<not> (\<exists>st \<in> set (dmConns two_mounts). crashed st)"
    "rclone_config_path files_connector (mount_at ''/m2'') \<in> set (dmWorld two_mounts)"
    unfolding two by (simp_all add: mounting_def read_cmds_mount)
qed

theorem same_volume_config_removed_witness:
  "\<exists>dm'. daemon_step files_connector (EvOn 0 (EvExit 0)) two_mounts = Some dm' \<and> runner (dmConns dm' ! 1) = RunWait \<and>
     rclone_config_path files_connector (mount_at ''/m2'') \<in> set (dmWorld two_mounts) - set (dmWorld dm')"
proof -
  have "VolumeId (mount_at ''/m1'') = VolumeId (mount_at ''/m2'')" "\<not> MayRunOnSystemd (mount_at ''/m2'')"
    by (simp_all add: mount_at_def zero_kodo_def)
  from same_volume_config_removed [OF two_mounts_mounting(1,2) [unfolded two_mounts_def] _ this
      two_mounts_mounting(3) [unfolded two_mounts_def], of 0, folded two_mounts_def]
  obtain dm' where "daemon_step files_connector (EvOn 0 (EvExit 0)) two_mounts = Some dm'"
    "dmWorld dm' = snd (os_Remove (cHost files_connector) (rclone_config_path files_connector (mount_at ''/m2'')) (dmWorld two_mounts))"
    "runner (dmConns dm' ! 1) = RunWait"
    by auto
  with two_mounts_mounting(4) show ?thesis by (auto simp: files_connector_def)
qed

end
