(* ===== verification/Local_Session.thy ===== *)
theory Local_Session
  imports Mount_Local Event_System "HOL-Library.Code_Target_Numeral"
begin

text \<open>
  The goroutines behind \<^verbatim>\<open>mountKodoFSLocally\<close> (\<^verbatim>\<open>plugin/utils.go\<close>), which \<open>Mount_Local\<close> takes as one
  operation of the host: the calling goroutine, which runs the process and closes the pipes and
  the channel when it returns; \<^verbatim>\<open>redirectToChan\<close>, which reads the standard output in chunks of at
  most 4096 bytes and sends them over an unbuffered channel; the goroutine that receives
  them and answers the prompts; and \<^verbatim>\<open>redirectToLog\<close>, which logs the lines of the standard error.
  The process is the environment: it prints, closes its outputs and exits when it likes.  A send
  on the closed channel panics, but \<^verbatim>\<open>redirectToChan\<close> recovers; a panic of the answering goroutine
  ends the plugin.
\<close>

section \<open>States\<close>

datatype copier = CopyRead | CopySend string | CopyDone
datatype typist = TypistNone | TypistAwait | TypistHas string | TypistDone
datatype logger = LogNone | LogRead | LogDone
datatype lm_call =
  CallSetup | CallRun | CallWait | CallDefers "unit result" | CallReturned "unit result"

text \<open>
  The two pipes hold what was printed and not read yet, \<open>lmErrBuf\<close> what the scanner of
  \<^verbatim>\<open>redirectToLog\<close> has read and not made a line of yet.  The last four components record history:
  what the process printed on its standard output, the chunks received, the texts written to its
  standard input, and the lines logged.
\<close>

record local_mount =
  lmCall :: lm_call
  lmCopier :: copier
  lmTypist :: typist
  lmPipe :: string
  lmOutEnded :: bool
  lmPipesClosed :: bool
  lmChanClosed :: bool
  lmLogger :: logger
  lmErrPipe :: string
  lmErrEnded :: bool
  lmErrBuf :: string
  lmCrashed :: bool
  lmPrinted :: string
  lmReceived :: "string list"
  lmTyped :: "string list"
  lmLogged :: "string list"

text \<open>The state after both pipes were created and the copying goroutine was started.\<close>

definition local_init :: local_mount where
  "local_init =
     \<lparr>lmCall = CallSetup, lmCopier = CopyRead, lmTypist = TypistNone, lmPipe = [], lmOutEnded = False,
      lmPipesClosed = False, lmChanClosed = False, lmLogger = LogNone, lmErrPipe = [], lmErrEnded = False,
      lmErrBuf = [], lmCrashed = False, lmPrinted = [], lmReceived = [], lmTyped = [], lmLogged = []\<rparr>"

datatype local_event =
    EvStderrPipe "unit result" | EvStart "unit result" | EvPrint string | EvCloseOut
  | EvPrintErr string | EvCloseErr | EvExits "unit result" | EvDefers
  | EvCopyRead | EvCopyEnd | EvHand | EvSendPanic | EvType | EvTypistEnd
  | EvLogRead nat | EvLogLine | EvLogEnd | EvLogTooLong

section \<open>Steps\<close>

text \<open>
  \<open>EvStart\<close> and \<open>EvExits\<close> are the two halves of \<^verbatim>\<open>Run\<close>; either closes the pipes when the process
  is not or no longer there.  The deferred calls close the pipes once more and then the channel.
\<close>

definition call_step :: "local_event \<Rightarrow> local_mount \<Rightarrow> local_mount option" where
  "call_step ev st =
     (case (ev, lmCall st) of
        (EvStderrPipe (Inl e), CallSetup) \<Rightarrow>
          Some (st\<lparr>lmCall := CallDefers (Inl (Wrapf ''failed to create stderr pipe'' [] e))\<rparr>)
      | (EvStderrPipe (Inr _), CallSetup) \<Rightarrow> 
          Some (st\<lparr>lmCall := CallRun, lmLogger := LogRead, lmTypist := TypistAwait\<rparr>)
      | (EvStart (Inl e), CallRun) \<Rightarrow> Some (st\<lparr>lmCall := CallDefers (Inl e), lmPipesClosed := True\<rparr>)
      | (EvStart (Inr _), CallRun) \<Rightarrow> Some (st\<lparr>lmCall := CallWait\<rparr>)
      | (EvPrint s, CallWait) \<Rightarrow>
          if lmOutEnded st then None else Some (st\<lparr>lmPipe := lmPipe st @ s, lmPrinted := lmPrinted st @ s\<rparr>)
      | (EvCloseOut, CallWait) \<Rightarrow> if lmOutEnded st then None else Some (st\<lparr>lmOutEnded := True\<rparr>)
      | (EvPrintErr s, CallWait) \<Rightarrow> if lmErrEnded st then None else Some (st\<lparr>lmErrPipe := lmErrPipe st @ s\<rparr>)
      | (EvCloseErr, CallWait) \<Rightarrow> if lmErrEnded st then None else Some (st\<lparr>lmErrEnded := True\<rparr>)
      | (EvExits r, CallWait) \<Rightarrow>
          Some (st\<lparr>lmCall := CallDefers r, lmOutEnded := True, lmErrEnded := True, lmPipesClosed := True\<rparr>)
      | (EvDefers, CallDefers r) \<Rightarrow>
          Some (st\<lparr>lmCall := CallReturned r, lmPipesClosed := True, lmChanClosed := True\<rparr>)
      | _ \<Rightarrow> None)"

text \<open>\<^verbatim>\<open>redirectToChan\<close>: a read of one buffer, the end of the file or of the pipe, and the send.\<close>

definition copy_read :: "local_mount \<Rightarrow> local_mount option" where
  "copy_read st =
     (if lmCopier st = CopyRead \<and> \<not> lmPipesClosed st \<and> lmPipe st \<noteq> []
      then Some (st\<lparr>lmCopier := CopySend (take 4096 (lmPipe st)), lmPipe := drop 4096 (lmPipe st)\<rparr>)
      else None)"

definition copy_end :: "local_mount \<Rightarrow> local_mount option" where
  "copy_end st =
     (if lmCopier st = CopyRead \<and> (lmPipesClosed st \<or> lmOutEnded st \<and> lmPipe st = [])
      then Some (st\<lparr>lmCopier := CopyDone\<rparr>) else None)"

definition copy_hand :: "local_mount \<Rightarrow> local_mount option" where
  "copy_hand st =
     (case lmCopier st of
        CopySend s \<Rightarrow>
          if lmTypist st = TypistAwait \<and> \<not> lmChanClosed st
          then Some (st\<lparr>lmCopier := CopyRead, lmTypist := TypistHas s, lmReceived := lmReceived st @ [s]\<rparr>)
          else None
      | _ \<Rightarrow> None)"

definition copy_panic :: "local_mount \<Rightarrow> local_mount option" where
  "copy_panic st =
     (case lmCopier st of
        CopySend s \<Rightarrow> if lmChanClosed st then Some (st\<lparr>lmCopier := CopyDone\<rparr>) else None
      | _ \<Rightarrow> None)"

text \<open>The answering goroutine; whether a write to the standard input succeeds is ignored.\<close>

definition type_step :: "url option \<Rightarrow> string \<Rightarrow> local_mount \<Rightarrow> local_mount option" where
  "type_step u tok st =
     (case lmTypist st of
        TypistHas s \<Rightarrow>
          (case answer_prompt u tok s of
             Inl e \<Rightarrow> Some (st\<lparr>lmCrashed := True\<rparr>)
           | Inr None \<Rightarrow> Some (st\<lparr>lmTypist := TypistAwait\<rparr>)
           | Inr (Some x) \<Rightarrow> Some (st\<lparr>lmTypist := TypistAwait, lmTyped := lmTyped st @ [x]\<rparr>))
      | _ \<Rightarrow> None)"

definition typist_end :: "local_mount \<Rightarrow> local_mount option" where
  "typist_end st =
     (if lmTypist st = TypistAwait \<and> lmChanClosed st then Some (st\<lparr>lmTypist := TypistDone\<rparr>) else None)"

text \<open>
  \<^verbatim>\<open>redirectToLog\<close>: a \<^verbatim>\<open>bufio.Scanner\<close> with its largest buffer of 64 KiB.  While the buffer has a
  line, that is logged without its end; else the scanner reads as much as the pipe has and the
  buffer takes, \<open>n\<close> bytes.  The goroutine ends with the file or the pipe, logging what is left, or
  when the buffer is full and has no line.
\<close>

definition MaxScanTokenSize :: nat where "MaxScanTokenSize = 65536"

definition drop_cr :: "string \<Rightarrow> string" where
  "drop_cr s = (if s \<noteq> [] \<and> last s = CHR 0x0D then butlast s else s)"

definition buffered_line :: "local_mount \<Rightarrow> bool" where
  "buffered_line st \<longleftrightarrow> CHR 0x0A \<in> set (lmErrBuf st)"

definition log_read :: "nat \<Rightarrow> local_mount \<Rightarrow> local_mount option" where
  "log_read n st =
     (if lmLogger st = LogRead \<and> \<not> buffered_line st \<and> \<not> lmPipesClosed st \<and> 0 < n \<and> n \<le> length (lmErrPipe st) \<and>
         length (lmErrBuf st) + n \<le> MaxScanTokenSize
      then Some (st\<lparr>lmErrBuf := lmErrBuf st @ take n (lmErrPipe st), lmErrPipe := drop n (lmErrPipe st)\<rparr>)
      else None)"

definition log_line :: "local_mount \<Rightarrow> local_mount option" where
  "log_line st =
     (if lmLogger st = LogRead \<and> buffered_line st
      then Some (st\<lparr>lmLogged := lmLogged st @ [drop_cr (takeWhile (\<lambda>c. c \<noteq> CHR 0x0A) (lmErrBuf st))],
                  lmErrBuf := tl (dropWhile (\<lambda>c. c \<noteq> CHR 0x0A) (lmErrBuf st))\<rparr>)
      else None)"

definition log_end :: "local_mount \<Rightarrow> local_mount option" where
  "log_end st =
     (if lmLogger st = LogRead \<and> \<not> buffered_line st \<and> length (lmErrBuf st) < MaxScanTokenSize \<and>
         (lmPipesClosed st \<or> lmErrEnded st \<and> lmErrPipe st = [])
      then Some (st\<lparr>lmLogger := LogDone, lmErrBuf := [],
                  lmLogged := lmLogged st @ (if lmErrBuf st = [] then [] else [drop_cr (lmErrBuf st)])\<rparr>)
      else None)"

definition log_too_long :: "local_mount \<Rightarrow> local_mount option" where
  "log_too_long st =
     (if lmLogger st = LogRead \<and> \<not> buffered_line st \<and> length (lmErrBuf st) \<ge> MaxScanTokenSize
      then Some (st\<lparr>lmLogger := LogDone, lmErrBuf := []\<rparr>) else None)"

definition local_step :: "url option \<Rightarrow> string \<Rightarrow> local_event \<Rightarrow> local_mount \<Rightarrow> local_mount option" where
  "local_step u tok ev st =
     (if lmCrashed st then None
      else case ev of
        EvCopyRead \<Rightarrow> copy_read st
      | EvCopyEnd \<Rightarrow> copy_end st
      | EvHand \<Rightarrow> copy_hand st
      | EvSendPanic \<Rightarrow> copy_panic st
      | EvType \<Rightarrow> type_step u tok st
      | EvTypistEnd \<Rightarrow> typist_end st
      | EvLogRead n \<Rightarrow> log_read n st
      | EvLogLine \<Rightarrow> log_line st
      | EvLogEnd \<Rightarrow> log_end st
      | EvLogTooLong \<Rightarrow> log_too_long st
      | _ \<Rightarrow> call_step ev st)"

section \<open>The transitions\<close>

text \<open>One rule per branch.\<close>

inductive local_trans :: "url option \<Rightarrow> string \<Rightarrow> local_mount \<Rightarrow> local_mount \<Rightarrow> bool" for u tok where
  setup_fails: "lmCall st = CallSetup \<Longrightarrow> local_trans u tok st (st\<lparr>lmCall := CallDefers r\<rparr>)"
| is_set_up: "lmCall st = CallSetup \<Longrightarrow>
    local_trans u tok st (st\<lparr>lmCall := CallRun, lmLogger := LogRead, lmTypist := TypistAwait\<rparr>)"
| start_fails: "lmCall st = CallRun \<Longrightarrow>
    local_trans u tok st (st\<lparr>lmCall := CallDefers r, lmPipesClosed := True\<rparr>)"
| starts: "lmCall st = CallRun \<Longrightarrow> local_trans u tok st (st\<lparr>lmCall := CallWait\<rparr>)"
| prints: "lmCall st = CallWait \<Longrightarrow> \<not> lmOutEnded st \<Longrightarrow>
    local_trans u tok st (st\<lparr>lmPipe := lmPipe st @ s, lmPrinted := lmPrinted st @ s\<rparr>)"
| closes_out: "lmCall st = CallWait \<Longrightarrow> local_trans u tok st (st\<lparr>lmOutEnded := True\<rparr>)"
| prints_err: "lmCall st = CallWait \<Longrightarrow> local_trans u tok st (st\<lparr>lmErrPipe := lmErrPipe st @ s\<rparr>)"
| closes_err: "lmCall st = CallWait \<Longrightarrow> local_trans u tok st (st\<lparr>lmErrEnded := True\<rparr>)"
| exits: "lmCall st = CallWait \<Longrightarrow>
    local_trans u tok st (st\<lparr>lmCall := CallDefers r, lmOutEnded := True, lmErrEnded := True, lmPipesClosed := True\<rparr>)"
| defers: "lmCall st = CallDefers r \<Longrightarrow>
    local_trans u tok st (st\<lparr>lmCall := CallReturned r, lmPipesClosed := True, lmChanClosed := True\<rparr>)"
| reads: "lmCopier st = CopyRead \<Longrightarrow> \<not> lmPipesClosed st \<Longrightarrow> lmPipe st \<noteq> [] \<Longrightarrow>
    local_trans u tok st (st\<lparr>lmCopier := CopySend (take 4096 (lmPipe st)), lmPipe := drop 4096 (lmPipe st)\<rparr>)"
| read_ends: "lmCopier st = CopyRead \<Longrightarrow> local_trans u tok st (st\<lparr>lmCopier := CopyDone\<rparr>)"
| hands: "lmCopier st = CopySend s \<Longrightarrow> lmTypist st = TypistAwait \<Longrightarrow> \<not> lmChanClosed st \<Longrightarrow>
    local_trans u tok st (st\<lparr>lmCopier := CopyRead, lmTypist := TypistHas s, lmReceived := lmReceived st @ [s]\<rparr>)"
| send_panics: "lmCopier st = CopySend s \<Longrightarrow> lmChanClosed st \<Longrightarrow> local_trans u tok st (st\<lparr>lmCopier := CopyDone\<rparr>)"
| crashes: "lmTypist st = TypistHas s \<Longrightarrow> answer_prompt u tok s = Inl e \<Longrightarrow>
    local_trans u tok st (st\<lparr>lmCrashed := True\<rparr>)"
| logs: "lmTypist st = TypistHas s \<Longrightarrow> answer_prompt u tok s = Inr None \<Longrightarrow>
    local_trans u tok st (st\<lparr>lmTypist := TypistAwait\<rparr>)"
| types: "lmTypist st = TypistHas s \<Longrightarrow> answer_prompt u tok s = Inr (Some x) \<Longrightarrow>
    local_trans u tok st (st\<lparr>lmTypist := TypistAwait, lmTyped := lmTyped st @ [x]\<rparr>)"
| typist_ends: "lmTypist st = TypistAwait \<Longrightarrow> lmChanClosed st \<Longrightarrow>
    local_trans u tok st (st\<lparr>lmTypist := TypistDone\<rparr>)"
| log_reads: "lmLogger st = LogRead \<Longrightarrow> \<not> lmPipesClosed st \<Longrightarrow>
    local_trans u tok st (st\<lparr>lmErrBuf := lmErrBuf st @ take n (lmErrPipe st), lmErrPipe := drop n (lmErrPipe st)\<rparr>)"
| log_lines: "lmLogger st = LogRead \<Longrightarrow> buffered_line st \<Longrightarrow>
    local_trans u tok st (st\<lparr>lmLogged := xs, lmErrBuf := tl (dropWhile (\<lambda>c. c \<noteq> CHR 0x0A) (lmErrBuf st))\<rparr>)"
| log_stops: "lmLogger st = LogRead \<Longrightarrow>
    local_trans u tok st (st\<lparr>lmLogger := LogDone, lmErrBuf := [], lmLogged := xs\<rparr>)"

lemma call_step_trans: "call_step ev st = Some st' \<Longrightarrow> local_trans u tok st st'"
  by (cases ev; cases "lmCall st")
     (auto simp: call_step_def intro: local_trans.intros split: sum.splits if_splits)

lemma log_gives_up: "lmLogger st = LogRead \<Longrightarrow> local_trans u tok st (st\<lparr>lmLogger := LogDone, lmErrBuf := []\<rparr>)"
  using log_stops [of st u tok "lmLogged st"] by simp

lemma local_step_trans: "local_step u tok ev st = Some st' \<Longrightarrow> local_trans u tok st st'"
  by (cases ev)
     (auto simp: local_step_def copy_read_def copy_end_def copy_hand_def copy_panic_def type_step_def
       typist_end_def log_read_def log_line_def log_end_def log_too_long_def
       intro: local_trans.intros call_step_trans log_gives_up
       split: if_splits copier.splits typist.splits sum.splits option.splits)

end
