(* ===== verification/Local_Session_Facts.thy ===== *)
theory Local_Session_Facts
  imports Local_Session
begin

text \<open>
  What holds of a local mount under every schedule of its goroutines and every behaviour of the
  process: what is typed answers what was printed, in order; nothing is left running after the
  call returned; and a prompt that is read in two pieces is not answered.
\<close>

section \<open>The invariant\<close>

definition answer_of :: "url option \<Rightarrow> string \<Rightarrow> string \<Rightarrow> string list" where
  "answer_of u tok s = (case answer_prompt u tok s of Inr (Some x) \<Rightarrow> [x] | _ \<Rightarrow> [])"

definition answers_of :: "url option \<Rightarrow> string \<Rightarrow> string list \<Rightarrow> string list" where
  "answers_of u tok cs = concat (map (answer_of u tok) cs)"

lemma answers_of_simps [simp]:
  "answers_of u tok [] = []" "answers_of u tok (cs @ ds) = answers_of u tok cs @ answers_of u tok ds"
  "answers_of u tok [s] = answer_of u tok s"
  by (simp_all add: answers_of_def)

primrec copier_holds :: "copier \<Rightarrow> string list" where
  "copier_holds CopyRead = []"
| "copier_holds (CopySend s) = [s]"
| "copier_holds CopyDone = []"

primrec typist_holds :: "typist \<Rightarrow> string list" where
  "typist_holds TypistNone = []"
| "typist_holds TypistAwait = []"
| "typist_holds (TypistHas s) = [s]"
| "typist_holds TypistDone = []"

text \<open>Nothing printed is lost, doubled or reordered as long as the copying goroutine runs.\<close>

definition output_kept :: "local_mount \<Rightarrow> bool" where
  "output_kept st \<longleftrightarrow>
     (if lmCopier st = CopyDone then prefix (concat (lmReceived st)) (lmPrinted st)
      else lmPrinted st = concat (lmReceived st) @ concat (copier_holds (lmCopier st)) @ lmPipe st)"

definition chunk_ok :: "string \<Rightarrow> bool" where
  "chunk_ok c \<longleftrightarrow> c \<noteq> [] \<and> length c \<le> 4096"

definition chunks_ok :: "local_mount \<Rightarrow> bool" where
  "chunks_ok st \<longleftrightarrow> (\<forall>c \<in> set (lmReceived st) \<union> set (copier_holds (lmCopier st)). chunk_ok c)"

definition answered :: "url option \<Rightarrow> string \<Rightarrow> local_mount \<Rightarrow> bool" where
  "answered u tok st \<longleftrightarrow>
     (\<exists>handled. lmReceived st = handled @ typist_holds (lmTypist st) \<and> lmTyped st = answers_of u tok handled)"

definition crash_ok :: "url option \<Rightarrow> local_mount \<Rightarrow> bool" where
  "crash_ok u st \<longleftrightarrow>
     (lmCrashed st \<longrightarrow> u = None \<and> (\<exists>s. lmTypist st = TypistHas s \<and> Contains s masterPrompt))"

definition setup_ok :: "local_mount \<Rightarrow> bool" where
  "setup_ok st \<longleftrightarrow> (lmCall st = CallSetup \<longrightarrow> lmTypist st = TypistNone)"

definition closed_ok :: "local_mount \<Rightarrow> bool" where
  "closed_ok st \<longleftrightarrow>
     (lmChanClosed st \<longleftrightarrow> (\<exists>r. lmCall st = CallReturned r)) \<and> (lmChanClosed st \<longrightarrow> lmPipesClosed st)"

definition local_ok :: "url option \<Rightarrow> string \<Rightarrow> local_mount \<Rightarrow> bool" where
  "local_ok u tok st \<longleftrightarrow>
     output_kept st \<and> chunks_ok st \<and> answered u tok st \<and> setup_ok st \<and> crash_ok u st \<and> closed_ok st"

lemma output_trans: "local_trans u tok st st' \<Longrightarrow> output_kept st \<Longrightarrow> output_kept st'"
  by (induction rule: local_trans.induct) (auto simp: output_kept_def prefix_def split: if_splits)

lemma chunks_trans: "local_trans u tok st st' \<Longrightarrow> chunks_ok st \<Longrightarrow> chunks_ok st'"
  by (induction rule: local_trans.induct) (auto simp: chunks_ok_def chunk_ok_def)

lemma answered_trans: "local_trans u tok st st' \<Longrightarrow> setup_ok st \<Longrightarrow> answered u tok st \<Longrightarrow> answered u tok st'"
  by (induction rule: local_trans.induct) (auto simp: answered_def answer_of_def setup_ok_def)

lemma setup_trans: "local_trans u tok st st' \<Longrightarrow> setup_ok st \<Longrightarrow> setup_ok st'"
  by (induction rule: local_trans.induct) (auto simp: setup_ok_def)

lemma closed_trans: "local_trans u tok st st' \<Longrightarrow> closed_ok st \<Longrightarrow> closed_ok st'"
  by (induction rule: local_trans.induct) (auto simp: closed_ok_def)

lemma answer_prompt_panics: "answer_prompt u tok s = Inl e \<Longrightarrow> u = None \<and> Contains s masterPrompt"
  by (auto simp: answer_prompt_def split: if_splits option.splits)

lemma crash_trans: "local_trans u tok st st' \<Longrightarrow> \<not> lmCrashed st \<Longrightarrow> crash_ok u st'"
  by (induction rule: local_trans.induct) (auto simp: crash_ok_def dest: answer_prompt_panics)

lemma local_step_running: "local_step u tok ev st = Some st' \<Longrightarrow> \<not> lmCrashed st"
  by (simp add: local_step_def split: if_splits)

lemma local_ok_step: "local_ok u tok st \<Longrightarrow> local_step u tok ev st = Some st' \<Longrightarrow> local_ok u tok st'"
  unfolding local_ok_def
  by (blast dest: local_step_trans local_step_running intro: output_trans chunks_trans answered_trans
      setup_trans closed_trans crash_trans)

interpretation local_inv: invariant_system "local_step u tok" "local_ok u tok" for u tok
  by unfold_locales (rule local_ok_step)

lemma local_init_ok: "local_ok u tok local_init"
  by (simp add: local_ok_def local_init_def output_kept_def chunks_ok_def answered_def setup_ok_def
      crash_ok_def closed_ok_def)

abbreviation local_run :: "url option \<Rightarrow> string \<Rightarrow> local_event list \<Rightarrow> local_mount" where
  "local_run u tok evs \<equiv> run_events (local_step u tok) evs local_init"

lemma local_run_ok: "local_ok u tok (local_run u tok evs)"
  by (rule local_inv.run_inv [OF local_init_ok])

text \<open>
  C16: under every schedule of the goroutines of a local mount, the chunks received are non-empty
  pieces of at most 4096 bytes of what the process printed, from its start and in its order; what is
  written to the process are the answers to an initial part of these chunks, in their order; and the
  plugin only crashes when there is no mount server address and the process asks for it.
\<close>

theorem local_mount_answers:
  "let st = local_run u tok evs in
     prefix (concat (lmReceived st)) (lmPrinted st) \<and> (\<forall>c \<in> set (lmReceived st). c \<noteq> [] \<and> length c \<le> 4096) \<and>
     (\<exists>handled. prefix handled (lmReceived st) \<and> length (lmReceived st) \<le> Suc (length handled) \<and>
        lmTyped st = answers_of u tok handled) \<and>
     (lmCrashed st \<longrightarrow> u = None \<and> Contains (last (lmReceived st)) masterPrompt)"
proof -
  let ?st = "local_run u tok evs"
  have ok: "output_kept ?st" "chunks_ok ?st" "answered u tok ?st" "crash_ok u ?st"
    using local_run_ok [of u tok evs] by (auto simp: local_ok_def)
  from ok(1) have "prefix (concat (lmReceived ?st)) (lmPrinted ?st)"
    by (auto simp: output_kept_def split: if_splits)
  moreover from ok(2) have "\<forall>c \<in> set (lmReceived ?st). c \<noteq> [] \<and> length c \<le> 4096"
    by (auto simp: chunks_ok_def chunk_ok_def)
  moreover from ok(3) obtain handled where h: "lmReceived ?st = handled @ typist_holds (lmTypist ?st)"
    "lmTyped ?st = answers_of u tok handled" by (auto simp: answered_def)
  moreover have "prefix handled (lmReceived ?st) \<and> length (lmReceived ?st) \<le> Suc (length handled)"
    using h(1) by (cases "lmTypist ?st") simp_all
  moreover from ok(4) h(1) have "lmCrashed ?st \<longrightarrow> u = None \<and> Contains (last (lmReceived ?st)) masterPrompt"
    by (auto simp: crash_ok_def)
  ultimately show ?thesis unfolding Let_def by blast
qed

definition crash_schedule :: "local_event list" where
  "crash_schedule = [EvStderrPipe (Inr ()), EvStart (Inr ()), EvPrint masterPrompt, EvCopyRead, EvHand, EvType]"

lemma crash_schedule_crashes: "lmCrashed (local_run None ''tok'' crash_schedule)"
  by code_simp

theorem local_mount_answers_witness:
  "Contains (last (lmReceived (local_run None ''tok'' crash_schedule))) masterPrompt \<and>
   prefix (concat (lmReceived (local_run None ''tok'' crash_schedule))) (lmPrinted (local_run None ''tok'' crash_schedule))"
  using local_mount_answers [of None "''tok''" crash_schedule] crash_schedule_crashes unfolding Let_def by blast

section \<open>Nothing is left running\<close>

definition copier_rank :: "copier \<Rightarrow> nat" where
  "copier_rank c = (if c = CopyDone then 0 else 1)"

primrec typist_rank :: "typist \<Rightarrow> nat" where
  "typist_rank TypistNone = 0"
| "typist_rank TypistAwait = 1"
| "typist_rank (TypistHas s) = 2"
| "typist_rank TypistDone = 0"

text \<open>The complete lines that the scanner of the standard error has read and not logged yet.\<close>

definition buffered_lines :: "local_mount \<Rightarrow> nat" where
  "buffered_lines st = length (filter (\<lambda>c. c = CHR 0x0A) (lmErrBuf st))"

definition logger_rank :: "local_mount \<Rightarrow> nat" where
  "logger_rank st = (if lmLogger st = LogRead then Suc (buffered_lines st) else 0)"

definition local_rank :: "local_mount \<Rightarrow> nat" where
  "local_rank st =
     (if lmCrashed st then 0 else Suc (copier_rank (lmCopier st) + typist_rank (lmTypist st) + logger_rank st))"

lemma line_logged: "c \<in> set s \<Longrightarrow> Suc (length (filter (\<lambda>x. x = c) (tl (dropWhile (\<lambda>x. x \<noteq> c) s)))) =
    length (filter (\<lambda>x. x = c) s)"
  by (induction s) auto

definition returned :: "local_mount \<Rightarrow> bool" where
  "returned st \<longleftrightarrow> (\<exists>r. lmCall st = CallReturned r)"

lemma returned_trans:
  "local_trans u tok st st' \<Longrightarrow> returned st \<Longrightarrow> lmChanClosed st \<Longrightarrow> lmPipesClosed st \<Longrightarrow> \<not> lmCrashed st \<Longrightarrow>
     returned st' \<and> local_rank st' < local_rank st"
  by (induction rule: local_trans.induct) (auto simp: returned_def local_rank_def copier_rank_def logger_rank_def buffered_lines_def
      buffered_line_def dest: line_logged)

interpretation local_bounded: bounded_system "local_step u tok" "\<lambda>st. local_ok u tok st \<and> returned st" local_rank for u tok
proof
  fix st ev st'
  assume st: "local_ok u tok st \<and> returned st" and step: "local_step u tok ev st = Some st'"
  then have "lmChanClosed st" "lmPipesClosed st" by (auto simp: local_ok_def closed_ok_def returned_def)
  with returned_trans [OF local_step_trans [OF step]] local_step_running [OF step] st local_ok_step [of u tok st, OF _ step]
  show "local_ok u tok st' \<and> returned st'" "local_rank st' < local_rank st" by auto
qed

lemma call_kept: "local_trans u tok st st' \<Longrightarrow> lmCall st = CallReturned r \<Longrightarrow> lmCall st' = CallReturned r"
  by (induction rule: local_trans.induct) auto

lemma kept_call: "local_step u tok ev st = Some st' \<Longrightarrow> lmCall st = CallReturned r \<Longrightarrow> lmCall st' = CallReturned r"
  by (rule call_kept [OF local_step_trans])

lemma quiet_local:
  assumes "local_ok u tok st" "returned st" "\<forall>ev. local_step u tok ev st = None" "\<not> lmCrashed st"
  shows "lmCopier st = CopyDone \<and> lmTypist st \<in> {TypistNone, TypistDone} \<and> lmLogger st \<in> {LogNone, LogDone}"
proof -
  have c: "lmChanClosed st" "lmPipesClosed st" using assms(1,2) by (auto simp: local_ok_def closed_ok_def returned_def)
  have "copy_end st = None" "copy_panic st = None" "type_step u tok st = None" "typist_end st = None"
    using assms(3) [THEN spec, of EvCopyEnd] assms(3) [THEN spec, of EvSendPanic]
      assms(3) [THEN spec, of EvType] assms(3) [THEN spec, of EvTypistEnd] assms(4)
    by (simp_all add: local_step_def)
  moreover have "log_line st = None" "log_end st = None" "log_too_long st = None"
    using assms(3) [THEN spec, of EvLogLine] assms(3) [THEN spec, of EvLogEnd] assms(3) [THEN spec, of EvLogTooLong]
      assms(4) by (simp_all add: local_step_def)
  with c have "lmLogger st \<in> {LogNone, LogDone}"
    by (cases "lmLogger st") (auto simp: log_line_def log_end_def log_too_long_def split: if_splits)
  ultimately show ?thesis using c
    by (cases "lmCopier st"; cases "lmTypist st")
       (auto simp: copy_end_def copy_panic_def type_step_def typist_end_def split: sum.splits option.splits)
qed

text \<open>
  C18: given the address of a mount server, once a local mount has returned, its three goroutines
  take at most five more steps and one for each complete line of the standard error that was read
  and not logged, and every schedule can be continued to one in which all three have ended: no
  goroutine is left behind, whatever the process did.
\<close>

theorem local_mount_goroutines_end:
  assumes "lmCall (local_run (Some v) tok evs) = CallReturned r"
  shows "effective (local_step (Some v) tok) later (local_run (Some v) tok evs) \<le>
      5 + buffered_lines (local_run (Some v) tok evs) \<and>
    (\<exists>rest. let st = local_run (Some v) tok (evs @ later @ rest)
       in lmCall st = CallReturned r \<and> lmCopier st = CopyDone \<and> lmTypist st \<in> {TypistNone, TypistDone} \<and>
          lmLogger st \<in> {LogNone, LogDone})"
proof -
  let ?u = "Some v" and ?st = "local_run (Some v) tok evs"
  have inv: "local_ok ?u tok ?st \<and> returned ?st"
    using local_run_ok assms by (auto simp: returned_def)
  have rank: "local_rank st \<le> 5 + buffered_lines st" for st
    by (cases "lmTypist st") (auto simp: local_rank_def copier_rank_def logger_rank_def)
  have keep: "lmCall (run_events (local_step ?u tok) xs s) = CallReturned r"
    if "lmCall s = CallReturned r" for xs s
    using that by (induction xs arbitrary: s) (auto simp: apply_event_def split: option.split dest: kept_call)
  let ?st' = "run_events (local_step ?u tok) later ?st"
  have inv': "local_ok ?u tok ?st' \<and> returned ?st'" by (rule local_bounded.run_inv [OF inv])
  from local_bounded.run_completes [OF this] obtain rest where
    quiet: "\<forall>ev. local_step ?u tok ev (run_events (local_step ?u tok) rest ?st') = None" by blast
  let ?fin = "local_run ?u tok (evs @ later @ rest)"
  have e: "?fin = run_events (local_step ?u tok) rest ?st'" by (simp add: run_events_append)
  have "local_ok ?u tok ?fin" "returned ?fin" using local_bounded.run_inv [OF inv', of rest] e by auto
  moreover from this have "\<not> lmCrashed ?fin" by (auto simp: local_ok_def crash_ok_def)
  ultimately have "lmCopier ?fin = CopyDone \<and> lmTypist ?fin \<in> {TypistNone, TypistDone} \<and> lmLogger ?fin \<in> {LogNone, LogDone}"
    using quiet_local [of ?u tok ?fin] quiet e by simp
  moreover have "lmCall ?fin = CallReturned r" using keep assms e by simp
  moreover have "effective (local_step ?u tok) later ?st \<le> 5 + buffered_lines ?st"
    using local_bounded.effective_bound [OF inv, of later] rank [of ?st] by linarith
  ultimately show ?thesis by (metis (no_types, lifting))
qed

definition demo_local_schedule :: "local_event list" where
  "demo_local_schedule =
     [EvStderrPipe (Inr ()), EvStart (Inr ()), EvPrint tokenPrompt, EvPrintErr (''a'' @ newline @ ''b'' @ newline),
      EvCopyRead, EvHand, EvLogRead 4, EvExits (Inr ()), EvDefers]"

lemma demo_local_returned: "lmCall (local_run (Some empty_url) ''tok'' demo_local_schedule) = CallReturned (Inr ())"
  by code_simp

theorem local_mount_goroutines_end_witness:
  "effective (local_step (Some empty_url) ''tok'') [EvType, EvDefers, EvCopyEnd, EvLogLine, EvTypistEnd]
     (local_run (Some empty_url) ''tok'' demo_local_schedule) \<le> 7"
proof -
  have "buffered_lines (local_run (Some empty_url) ''tok'' demo_local_schedule) = 2" by code_simp
  with local_mount_goroutines_end [OF demo_local_returned, of "[EvType, EvDefers, EvCopyEnd, EvLogLine, EvTypistEnd]"]
  show ?thesis by simp
qed

section \<open>Prompts in two pieces\<close>

lemma Contains_length: "Contains s p \<Longrightarrow> length p \<le> length s"
  by (simp add: Contains_iff_sublist sublist_length_le)

lemma prompt_lengths: "length tokenPrompt = 29" "length masterPrompt = 73"
  by (simp_all add: tokenPrompt_def masterPrompt_def)

lemma answer_token_prompt: "answer_prompt u tok tokenPrompt = Inr (Some (tok @ newline))"
proof -
  have "\<not> Contains tokenPrompt masterPrompt"
    using Contains_length [of tokenPrompt masterPrompt] by (auto simp: prompt_lengths)
  moreover have "Contains tokenPrompt tokenPrompt" by (simp add: Contains_iff_sublist)
  ultimately show ?thesis by (simp add: answer_prompt_def)
qed

lemma answer_short:
  assumes "length s < length tokenPrompt"
  shows "answer_prompt u tok s = Inr None"
proof -
  from assms have "\<not> Contains s masterPrompt" "\<not> Contains s tokenPrompt"
    using Contains_length [of s] by (force simp: prompt_lengths)+
  then show ?thesis by (simp add: answer_prompt_def)
qed

text \<open>One piece of output is printed, read, handed over and looked at.\<close>

definition log_waiting :: "local_mount \<Rightarrow> bool" where
  "log_waiting st \<longleftrightarrow> lmLogger st = LogDone \<or> \<not> buffered_line st \<and> lmErrPipe st = [] \<and> \<not> lmErrEnded st \<and>
     length (lmErrBuf st) < MaxScanTokenSize"

definition waiting :: "local_mount \<Rightarrow> bool" where
  "waiting st \<longleftrightarrow>
     lmCall st = CallWait \<and> lmCopier st = CopyRead \<and> lmTypist st = TypistAwait \<and> lmPipe st = [] \<and>
     \<not> lmOutEnded st \<and> \<not> lmPipesClosed st \<and> \<not> lmChanClosed st \<and> \<not> lmCrashed st \<and> log_waiting st"

definition one_piece :: "string \<Rightarrow> local_event list" where
  "one_piece s = [EvPrint s, EvCopyRead, EvHand, EvType]"

lemma one_piece_run:
  assumes "waiting st" "s \<noteq> []" "length s \<le> 4096" "answer_prompt u tok s = Inr a"
  shows "let st' = run_events (local_step u tok) (one_piece s) st
    in waiting st' \<and> lmPrinted st' = lmPrinted st @ s \<and>
       lmTyped st' = lmTyped st @ (case a of None \<Rightarrow> [] | Some x \<Rightarrow> [x])"
  using assms
  by (cases a)
     (simp_all add: one_piece_def waiting_def log_waiting_def buffered_line_def apply_event_def local_step_def call_step_def copy_read_def
       copy_hand_def type_step_def Let_def)

text \<open>What the three goroutines of the plugin do, apart from the call.\<close>

definition goroutine_events :: "local_event set" where
  "goroutine_events =
     {EvCopyRead, EvCopyEnd, EvHand, EvSendPanic, EvType, EvTypistEnd, EvLogLine, EvLogEnd, EvLogTooLong} \<union>
     range EvLogRead"

lemma waiting_quiet:
  "waiting st \<Longrightarrow> ev \<in> goroutine_events \<Longrightarrow>
     local_step u tok ev st = None"
  by (auto simp: waiting_def log_waiting_def goroutine_events_def local_step_def copy_read_def copy_end_def
      copy_hand_def copy_panic_def type_step_def typist_end_def log_read_def log_line_def log_end_def log_too_long_def)

text \<open>
  C28: the request for the access token is answered when it is read in one piece, but not when it is
  read in two, wherever it is cut: then nothing is typed, and none of the three goroutines can take
  a step until the process does, which waits for the token.
\<close>

theorem local_mount_split_prompt:
  assumes "waiting st" "0 < k" "k < length tokenPrompt"
  shows "lmTyped (run_events (local_step u tok) (one_piece tokenPrompt) st) = lmTyped st @ [tok @ newline] \<and>
    (let st' = run_events (local_step u tok) (one_piece (take k tokenPrompt) @ one_piece (drop k tokenPrompt)) st
     in lmPrinted st' = lmPrinted st @ tokenPrompt \<and> lmTyped st' = lmTyped st \<and>
        (\<forall>ev \<in> goroutine_events. local_step u tok ev st' = None))"
proof
  have "tokenPrompt \<noteq> []" "length tokenPrompt \<le> 4096" by (simp_all add: tokenPrompt_def)
  from one_piece_run [OF assms(1) this answer_token_prompt]
  show "lmTyped (run_events (local_step u tok) (one_piece tokenPrompt) st) = lmTyped st @ [tok @ newline]"
    by (simp add: Let_def)
  let ?p = "take k tokenPrompt" and ?q = "drop k tokenPrompt"
  have p: "?p \<noteq> []" "length ?p \<le> 4096" "?q \<noteq> []" "length ?q \<le> 4096"
    using assms(2,3) prompt_lengths by auto
  have "answer_prompt u tok ?p = Inr None" "answer_prompt u tok ?q = Inr None"
    using assms(2,3) by (auto intro!: answer_short)
  note pieces = one_piece_run [OF assms(1) p(1,2) this(1)] one_piece_run [OF _ p(3,4) this(2)]
  show "let st' = run_events (local_step u tok) (one_piece ?p @ one_piece ?q) st
     in lmPrinted st' = lmPrinted st @ tokenPrompt \<and> lmTyped st' = lmTyped st \<and>
        (\<forall>ev \<in> goroutine_events. local_step u tok ev st' = None)"
    using pieces(1) pieces(2) [where st = "run_events (local_step u tok) (one_piece ?p) st"] waiting_quiet
    unfolding run_events_append Let_def by (metis append.assoc append_Nil2 append_take_drop_id option.case(1))
qed

definition demo_waiting :: local_mount where
  "demo_waiting = local_run None ''tok'' [EvStderrPipe (Inr ()), EvStart (Inr ())]"

lemma demo_waiting_ok: "waiting demo_waiting"
  by code_simp

theorem local_mount_split_prompt_witness:
  "lmTyped (run_events (local_step None ''tok'') (one_piece (take 7 tokenPrompt) @ one_piece (drop 7 tokenPrompt))
     demo_waiting) = lmTyped demo_waiting"
  using local_mount_split_prompt [OF demo_waiting_ok, of 7 None "''tok''"] by (simp add: Let_def prompt_lengths)

end
