(* ===== verification/Plugin_Serve.thy ===== *)
theory Plugin_Serve
  imports Plugin_Main Controller_Calls
begin

text \<open>
  From the checks of \<^verbatim>\<open>plugin/main.go\<close> to serving: the controller servers' constructors, \<^verbatim>\<open>Run\<close> of the
  drivers (\<^verbatim>\<open>plugin/driver.go\<close>), the health page and the flags.  The Kubernetes client library is a
  parameter (\<open>InClusterConfig\<close>, \<open>NewForConfig\<close>), and so is listening on the health port; what the
  gRPC server is given is the outcome.
\<close>

section \<open>Flags\<close>

record plugin_flags =
  flEndpoint :: string
  flNodeID :: string
  flDriver :: string
  flHealthPort :: int

definition default_flags :: plugin_flags where
  "default_flags = \<lparr>flEndpoint = ''unix://tmp/csi.sock'', flNodeID = [], flDriver = [], flHealthPort = 11260\<rparr>"

section \<open>Servers\<close>

record 'k controller_server =
  csVolumes :: volumes
  csClient :: 'k
  csDriver :: driver

record ('cfg, 'k) kubernetes =
  InClusterConfig :: "'cfg result"
  NewForConfig :: "'cfg \<Rightarrow> 'k result"

text \<open>An error of a constructor is fatal.  Both start with an empty map of volumes.\<close>

definition new_controller_server :: "string \<Rightarrow> ('cfg, 'k) kubernetes \<Rightarrow> driver \<Rightarrow> 'k controller_server result" where
  "new_controller_server fn k d =
     (case InClusterConfig k of
        Inl e \<Rightarrow> Inl (Wrapf ''failed to create config'' [fn] e)
      | Inr config \<Rightarrow>
          (case NewForConfig k config of
             Inl e \<Rightarrow> Inl (Wrapf ''failed to create client'' [fn] e)
           | Inr clientset \<Rightarrow> Inr \<lparr>csVolumes = Map.empty, csClient = clientset, csDriver = d\<rparr>))"

definition newKodoControllerServer :: "('cfg, 'k) kubernetes \<Rightarrow> driver \<Rightarrow> 'k controller_server result" where
  "newKodoControllerServer = new_controller_server ''newKodoControllerServer''"

definition newKodoFSControllerServer :: "('cfg, 'k) kubernetes \<Rightarrow> driver \<Rightarrow> 'k controller_server result" where
  "newKodoFSControllerServer = new_controller_server ''newKodoFSControllerServer''"

record node_server =
  nsDriver :: driver

definition newKodoNodeServer :: "driver \<Rightarrow> node_server" where
  "newKodoNodeServer d = \<lparr>nsDriver = d\<rparr>"

definition newKodoFSNodeServer :: "driver \<Rightarrow> node_server" where
  "newKodoFSNodeServer d = \<lparr>nsDriver = d\<rparr>"

text \<open>What \<^verbatim>\<open>Run\<close> starts the gRPC server with: the endpoint and the servers.\<close>

definition KodoDriver_Run ::
    "('cfg, 'k) kubernetes \<Rightarrow> driver \<Rightarrow> (string \<times> 'k controller_server \<times> node_server) result" where
  "KodoDriver_Run k d =
     (case newKodoControllerServer k d of
        Inl e \<Rightarrow> Inl e
      | Inr cs \<Rightarrow> Inr (drvEndpoint d, cs, newKodoNodeServer d))"

definition KodoFSDriver_Run ::
    "('cfg, 'k) kubernetes \<Rightarrow> driver \<Rightarrow> (string \<times> 'k controller_server \<times> node_server) result" where
  "KodoFSDriver_Run k d =
     (case newKodoFSControllerServer k d of
        Inl e \<Rightarrow> Inl e
      | Inr cs \<Rightarrow> Inr (drvEndpoint d, cs, newKodoFSNodeServer d))"

section \<open>The health page\<close>

definition healthHandler :: "string \<Rightarrow> nat \<times> string" where
  "healthHandler timeString = (200, ''Liveness probe is OK, time:'' @ timeString)"

section \<open>The whole process\<close>

text \<open>
  The process ends with code 1 when a check, a constructor or listening on the health port fails;
  otherwise the gRPC server runs.
\<close>

datatype 'k serving = ServeExit nat | Serves string "'k controller_server" node_server

definition plugin_serve ::
    "('cfg, 'k) kubernetes \<Rightarrow> (int \<Rightarrow> unit result) \<Rightarrow> 'w plugin_process \<Rightarrow> plugin_flags \<Rightarrow> 'w pstate \<Rightarrow>
       'k serving \<times> 'w pstate" where
  "plugin_serve k listenHealth pp fl s =
     (case plugin_main pp (flDriver fl) (flNodeID fl) (flEndpoint fl) (flHealthPort fl) s of
        (PluginExit n, s1) \<Rightarrow> (ServeExit n, s1)
      | (PluginRuns d output port, s1) \<Rightarrow>
          (case (if flDriver fl = KodoDriverName then KodoDriver_Run k d else KodoFSDriver_Run k d) of
             Inl e \<Rightarrow> (ServeExit 1, s1)
           | Inr (endpoint, cs, ns) \<Rightarrow>
               (case listenHealth port of
                  Inl e \<Rightarrow> (ServeExit 1, s1)
                | Inr _ \<Rightarrow> (Serves endpoint cs ns, s1))))"

section \<open>Facts\<close>

lemma new_controller_server_empty: "new_controller_server fn k d = Inr cs \<Longrightarrow> csVolumes cs = Map.empty"
  by (auto simp: new_controller_server_def split: sum.splits)

lemma plugin_serve_fresh:
  "plugin_serve k listenHealth pp fl s = (Serves endpoint cs ns, s') \<Longrightarrow> csVolumes cs = Map.empty"
  by (auto simp: plugin_serve_def KodoDriver_Run_def KodoFSDriver_Run_def newKodoControllerServer_def
      newKodoFSControllerServer_def dest: new_controller_server_empty split: prod.splits plugin_outcome.splits
      sum.splits if_splits)

lemma create_new_bucket:
  assumes "CreateVolume env bd pd req (vols, s) = (Inr v, vols', s')" "vols (ReqName req) = None"
  shows "map_of (VolumeContext v) (field_name FIELD_BUCKET_NAME) = Some (create_bucketName bd req)"
proof -
  from assms have "make_volume env bd pd req s = (Inr v, s')"
    by (auto simp: CreateVolume_new split: prod.splits sum.splits)
  from volume_made_bucket [OF make_volume_made [OF this]] show ?thesis .
qed

text \<open>
  C29: a plugin process starts without volumes, so the same CreateVolume request made again after a
  restart is not answered with the volume of the first call: it makes a volume on another bucket,
  unless the sixteen random letters happen to be the same.
\<close>

theorem restart_forgets_volumes:
  assumes "CreateVolume env bd pd req (vols, s) = (Inr v, vols1, s1)" "vols (ReqName req) = None"
    and "plugin_serve k listenHealth pp fl s2 = (Serves endpoint cs ns, s3)"
    and "CreateVolume env' bd' pd' req (csVolumes cs, s4) = (Inr v', vols2, s5)"
    and "randomBucketName bd 16 \<noteq> randomBucketName bd' 16"
  shows "\<exists>bucket bucket'. map_of (VolumeContext v) (field_name FIELD_BUCKET_NAME) = Some bucket \<and>
    map_of (VolumeContext v') (field_name FIELD_BUCKET_NAME) = Some bucket' \<and> bucket \<noteq> bucket'"
proof -
  have "csVolumes cs (ReqName req) = None" using plugin_serve_fresh [OF assms(3)] by simp
  from create_new_bucket [OF assms(4) this] create_new_bucket [OF assms(1,2)] assms(5)
  show ?thesis by (auto simp: create_bucketName_def)
qed

text \<open>The volume of the examples again, after a restart, when the bucket is found at once.\<close>

definition demo_script2 :: "http_response list" where
  "demo_script2 =
     [answer 200 [JArr [JObj [(''id'', JStr ''b2''), (''tbl'', JStr ''pv-bbbbbbbbbbbbbbbb''), (''region'', JStr ''z0'')]]],
      answer 200 [demo_regions], answer 200 [], answer 200 [demo_keypairs], answer 200 [], answer 200 []]"

definition demo_run2 :: "csi_volume result \<times> volumes \<times> http_response list pstate" where
  "demo_run2 = CreateVolume script_env (\<lambda>_. 1) (\<lambda>_. 0) demo_request (Map.empty, script_state demo_script2)"

lemma demo_run2_ok: "is_ok (fst demo_run2)"
  by code_simp

lemma demo_run2_eq:
  "CreateVolume script_env (\<lambda>_. 1) (\<lambda>_. 0) demo_request (Map.empty, script_state demo_script2) =
     (fst demo_run2, fst (snd demo_run2), snd (snd demo_run2))"
  by (simp only: demo_run2_def prod.collapse)

definition demo_flags :: plugin_flags where
  "demo_flags = default_flags\<lparr>flDriver := ''kodo'', flNodeID := ''n1''\<rparr>"

definition demo_kubernetes :: "(unit, unit) kubernetes" where
  "demo_kubernetes = \<lparr>InClusterConfig = Inr (), NewForConfig = \<lambda>_. Inr ()\<rparr>"

lemma demo_serves: "\<exists>e cs ns s'. plugin_serve demo_kubernetes (\<lambda>_. Inr ()) demo_plugin demo_flags demo_plugin_state = (Serves e cs ns, s')"
  by (simp add: plugin_serve_def demo_flags_def default_flags_def demo_kubernetes_def KodoDriver_Run_def
      newKodoControllerServer_def new_controller_server_def plugin_main_def demo_plugin_def demo_plugin_state_def
      KodoDriverName_def setLogAttribute_def log_type_def too_large_def host_call_def rootfs_host_def and_then_def
      plugin_ensureCommandExists_def wrap_error_def host_read_def prepare_endpoint_def lift_result_def
      ensureDirectoryCreated_def succeed_def Let_def)

theorem restart_forgets_volumes_witness:
  "\<exists>v v'. fst demo_run = Inr v \<and> fst demo_run2 = Inr v' \<and>
     map_of (VolumeContext v) (field_name FIELD_BUCKET_NAME) \<noteq> map_of (VolumeContext v') (field_name FIELD_BUCKET_NAME)"
proof -
  obtain v v' where v: "fst demo_run = Inr v" "fst demo_run2 = Inr v'"
    using demo_run_ok demo_run2_ok by (auto simp: is_ok_iff)
  obtain e cs ns s' where serves: "plugin_serve demo_kubernetes (\<lambda>_. Inr ()) demo_plugin demo_flags demo_plugin_state = (Serves e cs ns, s')"
    using demo_serves by blast
  have again: "CreateVolume script_env (\<lambda>_. 1) (\<lambda>_. 0) demo_request (csVolumes cs, script_state demo_script2) =
      (Inr v', fst (snd demo_run2), snd (snd demo_run2))"
    unfolding plugin_serve_fresh [OF serves] demo_run2_eq v(2) by (rule refl)
  have "randomBucketName (\<lambda>_. 0) 16 \<noteq> randomBucketName (\<lambda>_. 1) 16" by code_simp
  from restart_forgets_volumes [OF demo_run_eq [unfolded v(1)] _ serves again this] v show ?thesis by auto
qed

end
