(* ===== verification/Spec2Isabelle.thy ===== *)
theory Spec2Isabelle
  imports
    Protocol_Facts
    Kodo_Parameter_Facts
    Kodo_Clean_Service
    Request_Signing_Facts
    Plugin_Main
    Kodo_Create_Facts
    Kodo_Delete_Volume
    Kodofs_Controller_Facts
    Node_Servers
    Connector_Schedules
    Connector_Setup
    Controller_Calls
    Mount_Outcome
    Connector_Daemon_Facts
    Local_Session_Facts
    Plugin_Serve
begin

text \<open>
  Verification of the Qiniu CSI driver for Kubernetes (\<^verbatim>\<open>src/\<close>, Go).

  The driver has two processes.  The plugin (\<^verbatim>\<open>plugin/\<close>) serves the CSI calls of Kubernetes for two
  kinds of volumes: Kodo (a bucket of the object store, mounted with rclone) and KodoFS (a file
  system service).  Its controller servers create and delete volumes through the service clients
  of \<^verbatim>\<open>qiniu/\<close>; its node servers mount them by sending commands of the package \<^verbatim>\<open>protocol/\<close> over a
  Unix socket to the connector (\<^verbatim>\<open>connector/\<close>), which runs the mount processes on the host.

  \<^bold>\<open>Language layer.\<close>  \<open>Csi_Prelude\<close> has Go errors as values of a datatype, results as sums and
  \<^verbatim>\<open>map[string]string\<close> as entries in iteration order.  \<open>Go_Strings\<close>, \<open>Go_Strconv\<close>, \<open>Go_Time\<close>,
  \<open>Go_Url\<close> and \<open>Go_Path\<close> model what the source uses of the standard library, byte for byte;
  \<open>Go_Time_Roundtrip\<close> proves that printing and parsing a 64-bit duration is the identity.

  \<^bold>\<open>Protocol.\<close>  \<open>Protocol\<close>: the commands and \<^verbatim>\<open>ExecCommand\<close>.  \<open>Protocol_Facts\<close>: which process a
  command becomes, and what \<^verbatim>\<open>normalizeDirKey\<close> guarantees.

  \<^bold>\<open>Kodo parameters.\<close>  \<open>Kodo_Parameters\<close>: keys and values of \<^verbatim>\<open>plugin/kodo_parameters.go\<close>.
  \<open>Param_Loop\<close>: the \<^verbatim>\<open>range\<close> loop with a \<^verbatim>\<open>switch\<close> that all parsers share, and the locale
  \<open>param_switch\<close> in which the loop is shown to compute a declarative reading of the entries in any
  order.  \<open>Kodo_Storage_Class\<close> and \<open>Kodo_Pv_Parameters\<close>: the two parsers, each an interpretation of
  the locale.  \<open>Kodo_Parameter_Facts\<close>: accepted inputs, precedence, independence of the order.

  \<^bold>\<open>Services.\<close>  \<open>Http_World\<close>: JSON documents, HTTP, the process-wide cache and the environment
  record that stands for the services, the clock and \<^verbatim>\<open>singleflight\<close>.  \<open>Kodo_Client\<close>: the methods
  of \<^verbatim>\<open>qiniu/kodo.go\<close>; \<open>Kodo_Client_Facts\<close>: what they send and what the cache remembers.
  \<open>Kodo_Clean_Objects\<close>: the goroutine pipeline that empties a bucket, as a state machine driven by a
  schedule; \<open>Kodo_Clean_Facts\<close>: its invariants, completeness on success, bounds and deadlocks;
  \<open>Kodo_Clean_Termination\<close>: it takes finitely many steps when the markers of the listing lead to its
  end;
  \<open>Kodo_Clean_Service\<close>: it implements, step by step, a service without goroutines, failures included.
  \<open>Scripted_World\<close> and \<open>Kodo_Demo\<close> hold concrete runs for the examples.

  \<^bold>\<open>Kodo controller.\<close>  \<open>Plugin_Utils\<close>, \<open>Kodo_Create_Volume\<close>, \<open>Kodo_Volume_Context\<close>,
  \<open>Kodo_Create_Facts\<close> and \<open>Kodo_Delete_Volume\<close>: \<^verbatim>\<open>CreateVolume\<close> and \<^verbatim>\<open>DeleteVolume\<close> of
  \<^verbatim>\<open>plugin/kodo_controller_server.go\<close>; the volume context is read back to the parameters it was
  printed from.  \<open>Controller_Calls\<close>: the controller over any sequence of calls.

  \<^bold>\<open>KodoFS controller.\<close>  \<open>Kodofs_Parameters\<close>, \<open>Kodofs_Parameter_Facts\<close>: both parsers of
  \<^verbatim>\<open>plugin/kodofs_parameters.go\<close>, with the truncations of the file system type and block size.
  \<open>Kodofs_Client\<close>: \<^verbatim>\<open>qiniu/kodofs.go\<close>.  \<open>Kodofs_Controller\<close>, \<open>Kodofs_Controller_Facts\<close>: creating and
  deleting KodoFS volumes; deletion with a reclaim policy other than Delete never succeeds.

  \<^bold>\<open>Mounting.\<close>  \<open>Host_World\<close>: files, processes, mounts and sockets of the host as a record of
  operations.  \<open>Mount_Local\<close>: the parts of \<^verbatim>\<open>plugin/utils.go\<close> that act on the host.
  \<open>Local_Session\<close>: the three goroutines behind \<^verbatim>\<open>mountKodoFSLocally\<close>, which \<open>Mount_Local\<close> takes as one
  operation of the host, as an event system; \<open>Local_Session_Facts\<close>: what they type answers what the
  process printed, none is left behind, and a prompt read in two pieces is not answered.
  \<open>Protocol_Json\<close>: the JSON form of the commands; the locale \<open>struct_codec\<close> has the round trip of a
  table of fields and is interpreted for every command.  \<open>Mount_Session\<close>: the conversations of
  \<^verbatim>\<open>mountKodoFS\<close> and \<^verbatim>\<open>mountKodo\<close> over the messages the connector sends.  \<open>Node_Servers\<close>: publishing
  and unpublishing.

  \<^bold>\<open>Request signing.\<close>  \<open>Request_Signing\<close>: the transports of \<^verbatim>\<open>qiniu/auth.go\<close> and
  \<^verbatim>\<open>qiniu/user_agent.go\<close>, with header maps in iteration order.  \<open>Request_Signing_Facts\<close>: the signed text
  is canonical and determines the request; what is sent is what was signed.

  \<^bold>\<open>Connector.\<close>  \<open>Go_Hash\<close>: the hashes and encodings of the standard library.  \<open>Connector_Utils\<close>:
  \<^verbatim>\<open>connector/utils.go\<close>.  \<open>Event_System\<close>: systems of processes under a schedule, with locales for
  invariants, for measures and for simulations.  \<open>Connector\<close>: the goroutines of one connection
  (\<^verbatim>\<open>handleConn\<close>, \<^verbatim>\<open>handleCmd\<close>) as such a system.  \<open>Connector_Facts\<close>: its invariants;
  \<open>Connector_Service\<close>: the service it implements, as a simulation; \<open>Connector_Schedules\<close>: where schedules go wrong;
  \<open>Connector_Files\<close>: which files belong to a volume, whatever its identifier is;
  \<open>Connector_Setup\<close>: the \<^verbatim>\<open>main\<close> of the connector up to serving connections; \<open>Connector_Daemon\<close>: the
  accept loop, with any number of connections at once, which the locale \<open>each_connection\<close> shows to
  be a service each; \<open>Connector_Daemon_Facts\<close>: what they share, and what goes wrong through it.

  \<^bold>\<open>Plugin process.\<close>  \<open>Plugin_Main\<close>: the checks of \<^verbatim>\<open>plugin/main.go\<close>, the drivers of
  \<^verbatim>\<open>plugin/driver.go\<close> and the log output.  \<open>Plugin_Serve\<close>: from there to the servers, which start
  without volumes.

  \<^bold>\<open>Composition.\<close>  This theory follows a volume through the components: what \<^verbatim>\<open>CreateVolume\<close> stored is
  what the connector runs rclone with, and what \<^verbatim>\<open>DeleteVolume\<close> deletes.  \<open>Mount_Outcome\<close> puts the
  two ends of a mount conversation together.

  \<^bold>\<open>Fuel.\<close>  The pipeline and the connection take their schedules as lists of events; statements
  quantify over all schedules, and a call that has not returned at the end of a schedule has the
  result \<open>None\<close>.  For a bucket of \<open>n\<close> objects \<open>13 * n + 41\<close> events that take effect are enough for the
  pipeline (\<open>clean_terminates\<close>), unless its channel of batches clogs.  The archive loop of a KodoFS deletion takes fuel; the statement about it holds for
  every fuel.  A mount conversation is a function of the messages received, \<open>None\<close> while it waits.

  \<^bold>\<open>Not modelled.\<close>  Log messages, the byte syntax of JSON (and with it the replacement of invalid
  UTF-8 by \<^verbatim>\<open>encoding/json\<close>), and the gRPC and identity servers of the third-party package
  \<^verbatim>\<open>csi-common\<close>.  The mount processes are the environment: an event of \<open>Local_Session\<close> or of
  \<open>Connector\<close>, and for the controller, which only waits for them, \<open>exec_Interactive\<close> of the host.
\<close>

section \<open>From the volume to the process\<close>

lemma mountKodo_message:
  assumes "mountKodo host v m p ep s = (Some (Inr u), out, s')"
  shows "out = [cmd_message (CInitKodoMount (kodo_mount_cmd v m p ep))]"
proof -
  obtain d s1 where dial: "host_call (net_Dial host SocketPath) s = (d, s1)" by fastforce
  with assms show ?thesis
    by (auto simp: mountKodo_def mount_over_socket_def run_session_def writeCmdToConn_def
        split: sum.splits option.splits prod.splits
        dest: arg_cong [where f = snd] simp: kodo_loop_silent)
qed

lemma parse_line_kodo [simp]: "parse_line (Inr (cmd_message (CInitKodoMount k))) = Inr (CInitKodoMount k)"
  by (simp add: parse_line_def parse_request_def cmd_name_def read_payload_message cmd_names)

lemma published_message:
  assumes "storable (PubSecrets req) p b ep rid oak osk"
    and "same_gomap (context_of (kodo_context p b ep rid oak osk)) (fst (PubContext req))"
    and "same_gomap (context_of (kodo_context p b ep rid oak osk)) (snd (PubContext req))"
    and "Kodo_NodePublishVolume env host req s = (Some (Inr u), out, s')"
  shows "out = [cmd_message (CInitKodoMount (kodo_mount_cmd (PubVolumeId req) (PubTargetPath req)
    (read_back p b ep rid oak osk) (url_String ep)))]"
proof -
  note parse = kodo_context_parse_all [OF assms(1-3), of env "''NodePublishVolume''" s]
  from assms(4) parse obtain s2 where
    "mountKodo host (PubVolumeId req) (PubTargetPath req) (read_back p b ep rid oak osk) (url_String ep) s2 =
      (Some (Inr u), out, s')"
    by (auto simp: Kodo_NodePublishVolume_def read_back_def mounted_at_Inr split: if_splits prod.splits sum.splits)
  then show ?thesis by (rule mountKodo_message)
qed

text \<open>
  C5: a volume context that CreateVolume stored, published at a path by the node server, makes the
  connector run (under any schedule, if it runs a process at all) exactly one process: rclone, with
  the configuration file of the volume and the arguments of the parameters the volume was created
  with.
\<close>

theorem created_volume_is_mounted:
  assumes "storable (PubSecrets req) p b ep rid oak osk"
    and "same_gomap (context_of (kodo_context p b ep rid oak osk)) (fst (PubContext req))"
    and "same_gomap (context_of (kodo_context p b ep rid oak osk)) (snd (PubContext req))"
    and "Kodo_NodePublishVolume env host req s = (Some (Inr u), out, s')"
    and "hExec (vars (conn_run cn evs (map Inr out) w)) = Some ec"
  shows "let c = kodo_mount_cmd (PubVolumeId req) (PubTargetPath req) (read_back p b ep rid oak osk) (url_String ep)
    in ec = \<lparr>ExecName = RcloneCmd, ExecArgs = kodo_args (rclone_config_path cn c) (rcloneUserAgent cn)
         (rcloneLogFile cn (VolumeId c) (MountPath c)) (volumeCacheDir cn (VolumeId c) (MountPath c)) c\<rparr>"
proof -
  let ?c = "kodo_mount_cmd (PubVolumeId req) (PubTargetPath req) (read_back p b ep rid oak osk) (url_String ep)"
  have "out = [cmd_message (CInitKodoMount ?c)]" by (rule published_message [OF assms(1-4)])
  with conn_run_made [OF assms(5)] have "made_from cn ec (CInitKodoMount ?c)" by simp
  moreover have "\<not> MayRunOnSystemd ?c" by (simp add: kodo_mount_cmd_def Let_def)
  ultimately show ?thesis unfolding Let_def by (rule made_from_kodo)
qed

text \<open>
  C6: a volume that carries the context CreateVolume stored, in any iteration order, is deleted
  with the key pair of the creation, not with that of its IAM user: the user and the policy named
  after the volume go first and, under the reclaim policy Delete, the objects and the bucket of
  the creation; the volume is forgotten whatever the outcome.
\<close>

theorem created_volume_is_deleted:
  assumes "storable (DelSecrets req) p b ep rid oak osk"
    and "getPv (DelVolumeId req) = Inr \<lparr>VolumeAttributes = Some (ctx1, ctx2), ReclaimPolicy = policy\<rparr>"
    and "same_gomap (context_of (kodo_context p b ep rid oak osk)) ctx1"
    and "same_gomap (context_of (kodo_context p b ep rid oak osk)) ctx2"
  shows "\<exists>u. ucEndpoint p = Some u \<and>
    (let c = NewKodoClient oak osk u (VERSION env) (COMMITID env);
         vols' = vols(DelVolumeId req := None)
     in DeleteVolume env getPv evs req (vols, s) =
       (case revoke_bucket env c (DelVolumeId req) s of
          (Inl e, s1) \<Rightarrow> Some (Inl e, vols', s1)
        | (Inr _, s1) \<Rightarrow>
            if policy = PersistentVolumeReclaimDelete
            then map_option (\<lambda>(r, s2). (r, vols', s2)) (delete_bucket env c (Bucket_Name b) evs s1)
            else Some (Inr (), vols', s1)))"
proof -
  obtain u where u: "ucEndpoint p = Some u"
    using assms(1) by (auto simp: storable_def split: option.splits)
  note parse = kodo_context_parse_all [OF assms(1,3,4), of env "''DeleteVolume''" s]
  show ?thesis
    using u parse assms(2)
    by (intro exI [of _ u])
       (auto simp: DeleteVolume_def delete_parsed_def pv_client_def read_back_def Let_def
         split: prod.split sum.split)
qed

text \<open>The volume of the examples, published and deleted.\<close>

definition demo_mount_cmd :: InitKodoMountCmd where
  "demo_mount_cmd = kodo_mount_cmd ''pv'' ''/m''
     (read_back demo_parameter demo_bucket demo_s3 ''cn-east-1'' ''ak'' ''sk'') (url_String demo_s3)"

definition demo_process :: "exec_cmd option" where
  "demo_process = hExec (vars (conn_run demo_connector [EvScan, EvExec (\<lambda>_. 0)]
     [Inr (cmd_message (CInitKodoMount demo_mount_cmd))] ()))"

lemma demo_process_runs: "\<exists>ec. demo_process = Some ec"
proof -
  have "\<not> MayRunOnSystemd demo_mount_cmd" by (simp add: demo_mount_cmd_def kodo_mount_cmd_def Let_def)
  then have "handle_kodo demo_connector (\<lambda>_. 0) demo_mount_cmd zero_vars () = (mv, h, ss, w) \<Longrightarrow> hExec h \<noteq> None" for mv h ss w
    by (auto simp: handle_kodo_def with_systemd_def writeRcloneConfig_def Let_def ensureDirectoryExists_def
        Kodo_ExecCommand_def ctxString_def kodo_ctx_def execCommand_def zero_vars_def demo_connector_def rootfs_host_def)
  moreover have "vars (move_on mv st) = vars st" for mv and st :: "unit conn"
    by (cases mv) (simp_all add: move_on_def handler_return_def)
  ultimately show ?thesis
    by (auto simp: demo_process_def conn_init_def conn_step_def scan_step_def apply_event_def exec_step_def
        handle_cmd_def split: prod.split)
qed

theorem created_volume_is_mounted_witness:
  "\<exists>ec. demo_process = Some ec \<and> ExecName ec = RcloneCmd"
proof -
  let ?p = "Kodo_NodePublishVolume script_env (talking_host [Item (Inr (cmd_message (TerminateCmd 0)))])
    demo_publish (script_state [])"
  obtain out s' where p: "?p = (Some (Inr ()), out, s')"
    using demo_publish_ok by (metis prod.exhaust_sel fst_conv)
  have st: "storable (PubSecrets demo_publish) demo_parameter demo_bucket demo_s3 ''cn-east-1'' ''ak'' ''sk''"
    using demo_storable by (simp add: demo_publish_def Let_def)
  have ctx: "same_gomap (context_of (kodo_context demo_parameter demo_bucket demo_s3 ''cn-east-1'' ''ak'' ''sk''))
      (fst (PubContext demo_publish))"
    "same_gomap (context_of (kodo_context demo_parameter demo_bucket demo_s3 ''cn-east-1'' ''ak'' ''sk''))
      (snd (PubContext demo_publish))"
    by (simp_all add: demo_publish_def Let_def same_gomap_def)
  have out: "out = [cmd_message (CInitKodoMount demo_mount_cmd)]"
    using published_message [OF st ctx p] by (simp add: demo_mount_cmd_def demo_publish_def Let_def)
  obtain ec where ec: "demo_process = Some ec" using demo_process_runs by blast
  then have "hExec (vars (conn_run demo_connector [EvScan, EvExec (\<lambda>_. 0)] (map Inr out) ())) = Some ec"
    by (simp only: out demo_process_def list.map)
  from created_volume_is_mounted [OF st ctx p this] have "ExecName ec = RcloneCmd"
    by (metis exec_cmd.select_convs(1))
  with ec show ?thesis by blast
qed

theorem created_volume_is_deleted_witness:
  "\<exists>r vols' s'. DeleteVolume script_env demo_pv [] demo_delete
      (Map.empty, script_state demo_delete_script) = Some (r, vols', s') \<and> vols' ''pv'' = None"
proof -
  have "\<exists>u. ucEndpoint demo_parameter = Some u \<and>
    (let c = NewKodoClient ''ak'' ''sk'' u (VERSION script_env) (COMMITID script_env);
         vols' = Map.empty(DelVolumeId demo_delete := None)
     in DeleteVolume script_env demo_pv [] demo_delete (Map.empty, script_state demo_delete_script) =
       (case revoke_bucket script_env c (DelVolumeId demo_delete) (script_state demo_delete_script) of
          (Inl e, s1) \<Rightarrow> Some (Inl e, vols', s1)
        | (Inr _, s1) \<Rightarrow>
            if ''Retain'' = PersistentVolumeReclaimDelete
            then map_option (\<lambda>(r, s2). (r, vols', s2)) (delete_bucket script_env c (Bucket_Name demo_bucket) [] s1)
            else Some (Inr (), vols', s1)))"
    by (rule created_volume_is_deleted [where ?ctx1.0 = demo_context and ?ctx2.0 = "rev demo_context" and ep = demo_s3
          and rid = "''cn-east-1''"])
       (simp_all add: demo_delete_def demo_pv_def demo_storable demo_context_def same_gomap_def kodo_context_distinct)
  moreover have "''Retain'' \<noteq> PersistentVolumeReclaimDelete" by (simp add: PersistentVolumeReclaimDelete_def)
  ultimately show ?thesis
    by (auto simp: Let_def demo_delete_def split: prod.split sum.split)
qed

end
